(* ===== verification/Prelude.thy ===== *)
theory Prelude
  imports Complex_Main "HOL-Library.Sublist"
begin

text \<open>
  Shared vocabulary of the dbkb development: the types that name Python values
  (scores are Python floats read as rationals, clock readings of \<open>time.time()\<close>
  are integers), the insertion-ordered Python \<open>dict\<close> as an association list,
  and the Python string primitives the retrieval core uses (\<open>str.lower\<close>,
  \<open>str.strip\<close>, \<open>str.split\<close>, \<open>str.replace\<close>, \<open>str.join\<close>, \<open>str.title\<close>,
  \<open>str(n)\<close>, the substring test \<open>p in s\<close>). Characters are bytes: the model
  covers ASCII text.
\<close>

named_theorems py_simps "evaluation equations of the Python primitives"
named_theorems dict_simps "lookup and key-order equations of the ordered dict"

type_synonym score = rat
type_synonym time = int

subsection \<open>Insertion-ordered dictionaries\<close>

text \<open>
  A Python \<open>dict\<close> keeps keys in first-insertion order; assigning to a present
  key replaces its value in place.
\<close>

definition dict_get :: "('k \<times> 'v) list \<Rightarrow> 'k \<Rightarrow> 'v option" where
  "dict_get d = map_of d"

fun dict_set :: "('k \<times> 'v) list \<Rightarrow> 'k \<Rightarrow> 'v \<Rightarrow> ('k \<times> 'v) list" where
  "dict_set [] k v = [(k, v)]"
| "dict_set ((k', v') # d) k v =
     (if k' = k then (k, v) # d else (k', v') # dict_set d k v)"

text \<open>The keys of a dict filled from a list, in first-insertion order.\<close>

definition first_occ :: "'a list \<Rightarrow> 'a list" where
  "first_occ xs = rev (remdups (rev xs))"

subsection \<open>Python strings\<close>

definition nl :: string where
  "nl = [CHR 0x0A]"

text \<open>\<open>str.isspace\<close> on ASCII: tab to carriage return, the separators 0x1C--0x1F, space.\<close>

definition py_isspace :: "char \<Rightarrow> bool" where
  "py_isspace c \<longleftrightarrow> (let n = of_char c :: nat in (9 \<le> n \<and> n \<le> 13) \<or> (28 \<le> n \<and> n \<le> 32))"

definition py_isalpha :: "char \<Rightarrow> bool" where
  "py_isalpha c \<longleftrightarrow> (let n = of_char c :: nat in (65 \<le> n \<and> n \<le> 90) \<or> (97 \<le> n \<and> n \<le> 122))"

text \<open>The regular-expression class \<open>\w\<close> on ASCII: letters, digits, underscore.\<close>

definition py_isword :: "char \<Rightarrow> bool" where
  "py_isword c \<longleftrightarrow> py_isalpha c \<or> (let n = of_char c :: nat in (48 \<le> n \<and> n \<le> 57) \<or> n = 95)"

definition lower_char :: "char \<Rightarrow> char" where
  "lower_char c = (let n = of_char c :: nat in if 65 \<le> n \<and> n \<le> 90 then char_of (n + 32) else c)"

definition upper_char :: "char \<Rightarrow> char" where
  "upper_char c = (let n = of_char c :: nat in if 97 \<le> n \<and> n \<le> 122 then char_of (n - 32) else c)"

definition py_lower :: "string \<Rightarrow> string" where
  "py_lower s = map lower_char s"

definition py_strip :: "string \<Rightarrow> string" where
  "py_strip s = rev (dropWhile py_isspace (rev (dropWhile py_isspace s)))"

text \<open>\<open>p in s\<close> for strings is the contiguous-substring test.\<close>

abbreviation py_in :: "string \<Rightarrow> string \<Rightarrow> bool" where
  "py_in p s \<equiv> sublist p s"

text \<open>\<open>s.split(d)\<close> for a one-character separator: never empty, empty fields kept.\<close>

fun split_on :: "char \<Rightarrow> string \<Rightarrow> string list" where
  "split_on d [] = [[]]"
| "split_on d (c # s) =
     (if c = d then [] # split_on d s
      else (let r = split_on d s in (c # hd r) # tl r))"

fun py_join :: "string \<Rightarrow> string list \<Rightarrow> string" where
  "py_join sep [] = []"
| "py_join sep [x] = x"
| "py_join sep (x # y # ys) = x @ sep @ py_join sep (y # ys)"

text \<open>
  \<open>s.replace(old, new)\<close>: non-overlapping occurrences, left to right. With an
  empty \<open>old\<close>, Python inserts \<open>new\<close> before every character and at the end.
\<close>

function replace_ne :: "string \<Rightarrow> string \<Rightarrow> string \<Rightarrow> string" where
  "replace_ne old new [] = []"
| "replace_ne old new (c # s) =
     (if old \<noteq> [] \<and> prefix old (c # s)
      then new @ replace_ne old new (drop (length old) (c # s))
      else c # replace_ne old new s)"
  by pat_completeness auto
termination
  by (relation "measure (\<lambda>(old, new, s). length s)") auto

definition py_replace :: "string \<Rightarrow> string \<Rightarrow> string \<Rightarrow> string" where
  "py_replace old new s =
     (if old = [] then new @ concat (map (\<lambda>c. c # new) s) else replace_ne old new s)"

text \<open>\<open>s.title()\<close>: a cased character after a cased one is lowered, otherwise raised.\<close>

fun title_from :: "bool \<Rightarrow> string \<Rightarrow> string" where
  "title_from p [] = []"
| "title_from p (c # s) =
     (if py_isalpha c then (if p then lower_char c else upper_char c) # title_from True s
      else c # title_from False s)"

definition py_title :: "string \<Rightarrow> string" where
  "py_title s = title_from False s"

text \<open>\<open>str(n)\<close> for a natural number: its decimal digits.\<close>

definition digit_char :: "nat \<Rightarrow> char" where
  "digit_char d = char_of (48 + d)"

fun string_of_nat :: "nat \<Rightarrow> string" where
  "string_of_nat n =
     (if n < 10 then [digit_char n] else string_of_nat (n div 10) @ [digit_char (n mod 10)])"

declare string_of_nat.simps [simp del]

text \<open>\<open>int(s)\<close> for a string: surrounding whitespace stripped, an optional sign, ASCII
  digits with single underscores between them; anything else raises \<open>ValueError\<close>
  (\<open>None\<close>).\<close>

definition py_isdigit :: "char \<Rightarrow> bool" where
  "py_isdigit c \<longleftrightarrow> (let n = of_char c :: nat in 48 \<le> n \<and> n \<le> 57)"

fun digits_ok :: "string \<Rightarrow> bool" where
  "digits_ok [] = False"
| "digits_ok [c] = py_isdigit c"
| "digits_ok (c # d # s) = (py_isdigit c \<and> (if d = CHR ''_'' then digits_ok s else digits_ok (d # s)))"

definition digits_value :: "string \<Rightarrow> int" where
  "digits_value s = foldl (\<lambda>v c. 10 * v + (of_char c - 48)) 0 (filter py_isdigit s)"

definition py_int :: "string \<Rightarrow> int option" where
  "py_int s =
     (let t = py_strip s in
      case t of
        c # r \<Rightarrow>
          if c = CHR ''-'' then (if digits_ok r then Some (- digits_value r) else None)
          else if c = CHR ''+'' then (if digits_ok r then Some (digits_value r) else None)
          else if digits_ok t then Some (digits_value t) else None
      | [] \<Rightarrow> None)"

subsection \<open>Calls to AWS\<close>

text \<open>The outcome of a boto3 call: its response, a \<open>botocore.exceptions.ClientError\<close>
  with its error code, or any other exception (missing credentials, a failed transfer,
  a malformed parameter), which none of the program's helpers catches.\<close>

datatype 'a aws_result = AwsOk 'a | ClientError string | AwsRaise string

subsection \<open>Lemmas on dictionaries\<close>

lemma map_of_dict_set [dict_simps]: "map_of (dict_set d k v) = (map_of d)(k \<mapsto> v)"
  by (induction d) (auto simp: fun_eq_iff)

lemma dict_get_set [dict_simps]: "dict_get (dict_set d k v) = (dict_get d)(k \<mapsto> v)"
  by (simp add: dict_get_def map_of_dict_set)

lemma keys_dict_set [dict_simps]:
  "map fst (dict_set d k v) = (if k \<in> set (map fst d) then map fst d else map fst d @ [k])"
  by (induction d) force+

lemma dict_get_None_iff [dict_simps]: "dict_get d k = None \<longleftrightarrow> k \<notin> set (map fst d)"
  by (simp add: dict_get_def map_of_eq_None_iff)

lemma dict_set_distinct [intro]: "distinct (map fst d) \<Longrightarrow> distinct (map fst (dict_set d k v))"
  by (simp add: keys_dict_set)

lemma dict_set_absent:
  "k \<notin> set (map fst d) \<Longrightarrow> dict_set d k v = d @ [(k, v)]"
  by (induction d) auto

lemma dict_set_graph_present:
  "k \<in> set ks \<Longrightarrow> distinct ks \<Longrightarrow>
   dict_set (map (\<lambda>h. (h, f h)) ks) k v = map (\<lambda>h. (h, (f(k := v)) h)) ks"
proof (induction ks)
  case Nil
  then show ?case by simp
next
  case (Cons h ks)
  show ?case
  proof (cases "h = k")
    case True
    with Cons.prems have "k \<notin> set ks" by simp
    then have "map (\<lambda>h. (h, (f(k := v)) h)) ks = map (\<lambda>h. (h, f h)) ks"
      by (auto intro: map_cong)
    with True show ?thesis by simp
  next
    case False
    with Cons show ?thesis by simp
  qed
qed

lemma dict_set_graph_absent:
  "k \<notin> set ks \<Longrightarrow>
   dict_set (map (\<lambda>h. (h, f h)) ks) k v = map (\<lambda>h. (h, (f(k := v)) h)) (ks @ [k])"
proof -
  assume k: "k \<notin> set ks"
  then have "map (\<lambda>h. (h, (f(k := v)) h)) ks = map (\<lambda>h. (h, f h)) ks"
    by (auto intro: map_cong)
  with k show ?thesis by (simp add: dict_set_absent comp_def)
qed

lemma map_of_graph [dict_simps]:
  "map_of (map (\<lambda>h. (h, f h)) ks) k = (if k \<in> set ks then Some (f k) else None)"
  by (induction ks) auto

lemma first_occ_Nil [simp]: "first_occ [] = []"
  by (simp add: first_occ_def)

lemma first_occ_snoc:
  "first_occ (xs @ [x]) = (if x \<in> set xs then first_occ xs else first_occ xs @ [x])"
  by (simp add: first_occ_def)

lemma set_first_occ [simp]: "set (first_occ xs) = set xs"
  by (simp add: first_occ_def)

lemma distinct_first_occ [simp]: "distinct (first_occ xs)"
  by (simp add: first_occ_def)

subsection \<open>Lemmas on strings\<close>

lemma py_lower_idem [simp]: "py_lower (py_lower s) = py_lower s"
  by (simp add: py_lower_def lower_char_def Let_def comp_def)

lemma length_py_lower [simp]: "length (py_lower s) = length s"
  by (simp add: py_lower_def)

lemma split_on_nonempty [simp]: "split_on d s \<noteq> []"
  by (cases s) (auto simp: Let_def)

lemma of_char_digit_char: "d < 10 \<Longrightarrow> (of_char (digit_char d) :: nat) = 48 + d"
  by (simp add: digit_char_def)

lemma digit_char_not_colon:
  assumes "d < 10"
  shows "digit_char d \<noteq> CHR '':''"
proof
  assume "digit_char d = CHR '':''"
  with of_char_digit_char [OF assms] have "48 + d = (58::nat)" by simp
  with assms show False by simp
qed

lemma string_of_nat_no_colon: "CHR '':'' \<notin> set (string_of_nat n)"
proof (induction n rule: string_of_nat.induct)
  case (1 n)
  have "digit_char (n mod 10) \<noteq> CHR '':''" by (simp add: digit_char_not_colon)
  moreover have "n < 10 \<Longrightarrow> digit_char n \<noteq> CHR '':''" by (simp add: digit_char_not_colon)
  ultimately show ?case
    using "1.IH" by (subst string_of_nat.simps) auto
qed

lemma string_of_nat_nonempty [simp]: "string_of_nat n \<noteq> []"
  by (subst string_of_nat.simps) simp

subsection \<open>Replacement\<close>

text \<open>\<open>s.replace(old, new)\<close> with a non-empty \<open>new\<close> whose characters are disjoint from
  a term leaves no occurrence of \<open>old\<close> and creates no occurrence of an absent term.\<close>

lemma sublist_append_disjoint:
  assumes "sublist u (a @ b)" and "u \<noteq> []" and "set u \<inter> set a = {}"
  shows "sublist u b"
proof -
  from assms(1) obtain p q where pq: "a @ b = p @ u @ q" by (auto simp: sublist_def)
  show ?thesis
  proof (cases "length p < length a")
    case True
    have "(a @ b) ! length p = hd u" using pq assms(2) by (cases u) (auto simp: nth_append)
    moreover have "(a @ b) ! length p \<in> set a" using True by (simp add: nth_append)
    ultimately show ?thesis using assms(2,3) by (cases u) auto
  next
    case False
    then have "b = drop (length a) p @ u @ q"
      using pq by (metis append_eq_append_conv_if append_eq_conv_conj drop_append not_less)
    then show ?thesis by (auto simp: sublist_def)
  qed
qed

lemma replace_ne_prefix:
  "new \<noteq> [] \<Longrightarrow> set v \<inter> set new = {} \<Longrightarrow> prefix v (replace_ne old new s) \<Longrightarrow> prefix v s"
proof (induction old new s arbitrary: v rule: replace_ne.induct)
  case (1 old new)
  then show ?case by simp
next
  case (2 old new c s)
  show ?case
  proof (cases "old \<noteq> [] \<and> prefix old (c # s)")
    case True
    with "2.prems" have "prefix v (new @ replace_ne old new (drop (length old) (c # s)))" by simp
    with "2.prems"(1,2) have "v = []"
      by (cases v; cases new) (auto simp: prefix_def)
    then show ?thesis by simp
  next
    case False
    with "2.prems" have p: "prefix v (c # replace_ne old new s)" by simp
    show ?thesis
    proof (cases v)
      case Nil
      then show ?thesis by simp
    next
      case (Cons x v')
      with p have "x = c" and "prefix v' (replace_ne old new s)" by auto
      with "2.IH"(2) [OF False "2.prems"(1)] "2.prems"(2) Cons show ?thesis by auto
    qed
  qed
qed

lemma replace_ne_removes:
  "old \<noteq> [] \<Longrightarrow> new \<noteq> [] \<Longrightarrow> set old \<inter> set new = {} \<Longrightarrow> \<not> sublist old (replace_ne old new s)"
proof (induction old new s rule: replace_ne.induct)
  case (1 old new)
  then show ?case by simp
next
  case (2 old new c s)
  show ?case
  proof (cases "old \<noteq> [] \<and> prefix old (c # s)")
    case True
    have ih: "\<not> sublist old (replace_ne old new (drop (length old) (c # s)))"
      using "2.IH"(1) [OF True] "2.prems" by blast
    show ?thesis
    proof
      assume "sublist old (replace_ne old new (c # s))"
      with True have "sublist old (new @ replace_ne old new (drop (length old) (c # s)))" by simp
      then have "sublist old (replace_ne old new (drop (length old) (c # s)))"
        using "2.prems" by (blast intro: sublist_append_disjoint)
      with ih show False by blast
    qed
  next
    case False
    have ih: "\<not> sublist old (replace_ne old new s)" using "2.IH"(2) [OF False] "2.prems" by blast
    show ?thesis
    proof
      assume a: "sublist old (replace_ne old new (c # s))"
      have "replace_ne old new (c # s) = c # replace_ne old new s"
        by (simp only: replace_ne.simps(2) if_not_P [OF False])
      with a have "prefix old (c # replace_ne old new s) \<or> sublist old (replace_ne old new s)"
        by (simp add: sublist_Cons_right)
      with ih have "prefix old (c # replace_ne old new s)" by blast
      then obtain o' where o: "old = c # o'" and "prefix o' (replace_ne old new s)"
        using "2.prems"(1) by (cases old) auto
      then have "prefix o' s" using replace_ne_prefix "2.prems" by (metis Int_insert_left_if0 list.set(2) o inf_bot_right insert_disjoint(1))
      with o False "2.prems"(1) show False by simp
    qed
  qed
qed


lemma replace_ne_keeps_absent:
  "u \<noteq> [] \<Longrightarrow> new \<noteq> [] \<Longrightarrow> set u \<inter> set new = {} \<Longrightarrow> \<not> sublist u s \<Longrightarrow>
   \<not> sublist u (replace_ne old new s)"
proof (induction old new s rule: replace_ne.induct)
  case (1 old new)
  then show ?case by simp
next
  case (2 old new c s)
  show ?case
  proof (cases "old \<noteq> [] \<and> prefix old (c # s)")
    case True
    have "\<not> sublist u (drop (length old) (c # s))"
      using "2.prems"(4) by (meson sublist_order.order_trans suffix_drop suffix_imp_sublist)
    then have ih: "\<not> sublist u (replace_ne old new (drop (length old) (c # s)))"
      using "2.IH"(1) [OF True] "2.prems"(1-3) by blast
    show ?thesis
    proof
      assume "sublist u (replace_ne old new (c # s))"
      with True have "sublist u (new @ replace_ne old new (drop (length old) (c # s)))" by simp
      then have "sublist u (replace_ne old new (drop (length old) (c # s)))"
        using "2.prems"(1,3) by (blast intro: sublist_append_disjoint)
      with ih show False by blast
    qed
  next
    case False
    have "\<not> sublist u s" using "2.prems"(4) by (auto simp: sublist_Cons_right)
    then have ih: "\<not> sublist u (replace_ne old new s)" using "2.IH"(2) [OF False] "2.prems"(1-3) by blast
    show ?thesis
    proof
      assume a: "sublist u (replace_ne old new (c # s))"
      have "replace_ne old new (c # s) = c # replace_ne old new s"
        by (simp only: replace_ne.simps(2) if_not_P [OF False])
      with a ih have "prefix u (c # replace_ne old new s)"
        by (simp add: sublist_Cons_right)
      then obtain u' where u: "u = c # u'" and "prefix u' (replace_ne old new s)"
        using "2.prems"(1) by (cases u) auto
      then have "prefix u' s" using replace_ne_prefix "2.prems"(2,3) by auto
      with u have "prefix u (c # s)" by simp
      with "2.prems"(4) show False by (auto simp: sublist_Cons_right)
    qed
  qed
qed

lemma py_replace_removes:
  "old \<noteq> [] \<Longrightarrow> new \<noteq> [] \<Longrightarrow> set old \<inter> set new = {} \<Longrightarrow> \<not> py_in old (py_replace old new s)"
  by (simp add: py_replace_def replace_ne_removes)

lemma py_replace_keeps_absent:
  "old \<noteq> [] \<Longrightarrow> u \<noteq> [] \<Longrightarrow> new \<noteq> [] \<Longrightarrow> set u \<inter> set new = {} \<Longrightarrow> \<not> py_in u s \<Longrightarrow>
   \<not> py_in u (py_replace old new s)"
  by (simp add: py_replace_def replace_ne_keeps_absent)

end
