(* ===== verification/Aggregator.thy ===== *)
theory Aggregator
  imports Prelude
begin

text \<open>
  The aggregation step of \<open>AdvancedRetrieval\<close>
  (src/src/advanced_retrieval/retrieval_techniques.py): retrieved items become
  context dicts; contexts are deduplicated by the MD5 digest of their content,
  keeping the higher score per digest (dict \<open>unique_contexts\<close>); the survivors are
  sorted by score, descending and stably, and cut to the requested count. The same
  loop appears in \<open>query_expansion\<close>, \<open>multi_strategy_retrieval\<close>,
  \<open>relationship_retrieval\<close> and \<open>optimize_sql_query\<close>.

  The digest function is a parameter \<open>fp\<close>: MD5 itself is not modelled. Lemmas that
  need distinct contents to have distinct digests assume \<open>inj fp\<close>.
\<close>

subsection \<open>Data\<close>

text \<open>An entry of the provider's \<open>retrievalResults\<close>; absent keys are \<open>None\<close>.\<close>

record item =
  item_text :: "string option"
  item_uri :: "string option"
  item_score :: "score option"

text \<open>A context dict: \<open>content\<close>, \<open>source\<close>, \<open>content_sample\<close>, \<open>score\<close>, and
  \<open>from_query\<close>, present only for the strategies that issue several queries.\<close>

record retrieved_context =
  content :: string
  source :: string
  content_sample :: string
  score :: score
  from_query :: "string option"

definition to_context :: "string option \<Rightarrow> item \<Rightarrow> retrieved_context" where
  "to_context fq it =
     (let t = (case item_text it of None \<Rightarrow> [] | Some t \<Rightarrow> t) in
      \<lparr>content = t,
       source = (case item_uri it of None \<Rightarrow> [] | Some u \<Rightarrow> u),
       content_sample = (if t \<noteq> [] then take 500 t @ ''...'' else []),
       score = (case item_score it of None \<Rightarrow> 0 | Some s \<Rightarrow> s),
       from_query = fq\<rparr>)"

subsection \<open>Deduplication and ranking\<close>

text \<open>One turn of the loop over \<open>all_contexts\<close>.\<close>

definition dedup_step ::
  "(string \<Rightarrow> 'h) \<Rightarrow> ('h \<times> retrieved_context) list \<Rightarrow> retrieved_context \<Rightarrow> ('h \<times> retrieved_context) list" where
  "dedup_step fp d c =
     (let h = fp (content c) in
      case dict_get d h of
        None \<Rightarrow> dict_set d h c
      | Some c' \<Rightarrow> if score c' < score c then dict_set d h c else d)"

definition dedup :: "(string \<Rightarrow> 'h) \<Rightarrow> retrieved_context list \<Rightarrow> retrieved_context list" where
  "dedup fp cs = map snd (foldl (dedup_step fp) [] cs)"

text \<open>\<open>sorted(..., key=lambda x: x['score'], reverse=True)[:n]\<close>: Python's sort is
  stable also when reversed, which is the stable ascending sort on the negated score.\<close>

definition top_by_score :: "nat \<Rightarrow> retrieved_context list \<Rightarrow> retrieved_context list" where
  "top_by_score n cs = take n (sort_key (\<lambda>c. - score c) cs)"

definition aggregate :: "(string \<Rightarrow> 'h) \<Rightarrow> nat \<Rightarrow> retrieved_context list \<Rightarrow> retrieved_context list" where
  "aggregate fp n cs = top_by_score n (dedup fp cs)"

text \<open>A context as the provider returns it, used by the example theorems.\<close>

definition ctx_ex :: "string \<Rightarrow> score \<Rightarrow> retrieved_context" where
  "ctx_ex t s = \<lparr>content = t, source = ''s3://kb/doc'', content_sample = take 500 t @ ''...'',
                 score = s, from_query = None\<rparr>"

subsection \<open>Reference specification of deduplication\<close>

text \<open>
  Declaratively: one survivor per digest, in order of the digest's first occurrence;
  the survivor is the first context of its group whose score is the group's maximum.
\<close>

abbreviation key_of :: "(string \<Rightarrow> 'h) \<Rightarrow> retrieved_context \<Rightarrow> 'h" where
  "key_of fp c \<equiv> fp (content c)"

definition group_of :: "(string \<Rightarrow> 'h) \<Rightarrow> retrieved_context list \<Rightarrow> 'h \<Rightarrow> retrieved_context list" where
  "group_of fp cs h = filter (\<lambda>c. key_of fp c = h) cs"

definition best_of :: "retrieved_context list \<Rightarrow> retrieved_context" where
  "best_of g = hd (filter (\<lambda>c. score c = Max (score ` set g)) g)"

definition dedup_spec :: "(string \<Rightarrow> 'h) \<Rightarrow> retrieved_context list \<Rightarrow> retrieved_context list" where
  "dedup_spec fp cs = map (\<lambda>h. best_of (group_of fp cs h)) (first_occ (map (key_of fp) cs))"

definition desc_by_score :: "retrieved_context list \<Rightarrow> bool" where
  "desc_by_score cs \<longleftrightarrow> sorted_wrt (\<lambda>a b. score b \<le> score a) cs"


subsection \<open>The group maximum\<close>

lemma Max_score_in:
  "g \<noteq> [] \<Longrightarrow> Max (score ` set g) \<in> score ` set g"
  by (simp add: Max_in)

lemma best_filter_nonempty:
  "g \<noteq> [] \<Longrightarrow> filter (\<lambda>c. score c = Max (score ` set g)) g \<noteq> []"
proof -
  assume "g \<noteq> []"
  then obtain c where "c \<in> set g" "score c = Max (score ` set g)"
    using Max_score_in by (metis imageE)
  then show ?thesis by (auto simp: filter_empty_conv)
qed

lemma best_of_in_filter:
  "g \<noteq> [] \<Longrightarrow> best_of g \<in> set (filter (\<lambda>c. score c = Max (score ` set g)) g)"
  unfolding best_of_def by (rule hd_in_set) (rule best_filter_nonempty)

lemma best_of_mem: "g \<noteq> [] \<Longrightarrow> best_of g \<in> set g"
  using best_of_in_filter by simp

lemma score_best_of: "g \<noteq> [] \<Longrightarrow> score (best_of g) = Max (score ` set g)"
  using best_of_in_filter by simp

lemma score_le_best_of: "c \<in> set g \<Longrightarrow> score c \<le> score (best_of g)"
proof -
  assume c: "c \<in> set g"
  then have "g \<noteq> []" by auto
  with c show ?thesis by (simp add: score_best_of)
qed

lemma best_of_single [simp]: "best_of [c] = c"
  by (simp add: best_of_def)


lemma best_of_snoc:
  assumes g: "g \<noteq> []"
  shows "best_of (g @ [c]) = (if score (best_of g) < score c then c else best_of g)"
proof -
  let ?M = "Max (score ` set g)"
  let ?P = "\<lambda>M d. score d = M"
  have M: "score (best_of g) = ?M" using g by (rule score_best_of)
  have fin: "finite (score ` set g)" and ne: "score ` set g \<noteq> {}" using g by auto
  have max_snoc: "Max (score ` set (g @ [c])) = max (score c) ?M"
    using fin ne by simp
  show ?thesis
  proof (cases "?M < score c")
    case True
    have "filter (?P (score c)) g = []"
      unfolding filter_empty_conv
    proof
      fix d
      assume "d \<in> set g"
      then have "score d \<le> ?M" by (rule Max_ge [OF fin imageI])
      with True show "\<not> score d = score c" by simp
    qed
    with True max_snoc M show ?thesis
      by (simp add: best_of_def)
  next
    case False
    have ne': "filter (?P ?M) g \<noteq> []"
      using best_filter_nonempty [OF g] .
    from False max_snoc have "Max (score ` set (g @ [c])) = ?M"
      by simp
    with ne' False M show ?thesis
      by (simp add: best_of_def)
  qed
qed

subsection \<open>The single pass computes the reference\<close>

lemma group_of_snoc:
  "group_of fp (xs @ [c]) h = group_of fp xs h @ (if key_of fp c = h then [c] else [])"
  by (simp add: group_of_def)

lemma group_of_empty: "h \<notin> key_of fp ` set xs \<Longrightarrow> group_of fp xs h = []"
  by (auto simp: group_of_def filter_empty_conv)

lemma group_of_nonempty: "h \<in> key_of fp ` set xs \<Longrightarrow> group_of fp xs h \<noteq> []"
  by (auto simp: group_of_def filter_empty_conv)

lemma dedup_step_graph:
  assumes "distinct ks"
  shows "dedup_step fp (map (\<lambda>h. (h, f h)) ks) c =
    (if key_of fp c \<in> set ks then
       (if score (f (key_of fp c)) < score c then map (\<lambda>h. (h, (f(key_of fp c := c)) h)) ks
        else map (\<lambda>h. (h, f h)) ks)
     else map (\<lambda>h. (h, (f(key_of fp c := c)) h)) (ks @ [key_of fp c]))"
  using assms
  by (simp add: dedup_step_def dict_get_def map_of_graph dict_set_graph_present
      dict_set_graph_absent Let_def)

lemma foldl_dedup_step:
  "foldl (dedup_step fp) [] cs =
   map (\<lambda>h. (h, best_of (group_of fp cs h))) (first_occ (map (key_of fp) cs))"
proof (induction cs rule: rev_induct)
  case Nil
  then show ?case by simp
next
  case (snoc c xs)
  let ?K = "first_occ (map (key_of fp) xs)"
  let ?F = "\<lambda>h. best_of (group_of fp xs h)"
  let ?F' = "\<lambda>h. best_of (group_of fp (xs @ [c]) h)"
  let ?h = "key_of fp c"
  have step: "foldl (dedup_step fp) [] (xs @ [c]) = dedup_step fp (map (\<lambda>h. (h, ?F h)) ?K) c"
    using snoc.IH by simp
  have others: "h \<noteq> ?h \<Longrightarrow> ?F' h = ?F h" for h
    by (simp add: group_of_snoc)
  show ?case
  proof (cases "?h \<in> set ?K")
    case False
    then have new: "?F' ?h = c"
      by (simp add: group_of_snoc group_of_empty)
    have "foldl (dedup_step fp) [] (xs @ [c]) = map (\<lambda>h. (h, (?F(?h := c)) h)) (?K @ [?h])"
      using step False by (simp add: dedup_step_graph)
    also have "\<dots> = map (\<lambda>h. (h, ?F' h)) (?K @ [?h])"
      using others new by (auto intro: map_cong)
    also have "?K @ [?h] = first_occ (map (key_of fp) (xs @ [c]))"
      using False by (simp add: first_occ_snoc)
    finally show ?thesis .
  next
    case True
    then have ne: "group_of fp xs ?h \<noteq> []"
      by (intro group_of_nonempty) simp
    have upd: "?F' ?h = (if score (?F ?h) < score c then c else ?F ?h)"
      using ne by (simp add: group_of_snoc best_of_snoc)
    have keys: "?K = first_occ (map (key_of fp) (xs @ [c]))"
      using True by (simp add: first_occ_snoc)
    show ?thesis
    proof (cases "score (?F ?h) < score c")
      case less: True
      have "foldl (dedup_step fp) [] (xs @ [c]) = map (\<lambda>h. (h, (?F(?h := c)) h)) ?K"
        using step True less by (simp add: dedup_step_graph)
      also have "\<dots> = map (\<lambda>h. (h, ?F' h)) ?K"
        using others upd less by (auto intro: map_cong)
      finally show ?thesis using keys by simp
    next
      case notless: False
      have "foldl (dedup_step fp) [] (xs @ [c]) = map (\<lambda>h. (h, ?F h)) ?K"
        using step True notless by (simp add: dedup_step_graph)
      also have "\<dots> = map (\<lambda>h. (h, ?F' h)) ?K"
      proof -
        have "?F' h = ?F h" for h
          using others upd notless by (cases "h = ?h") auto
        then show ?thesis by simp
      qed
      finally show ?thesis using keys by simp
    qed
  qed
qed


subsection \<open>Consequences for the survivors\<close>

lemma dedup_graph_form:
  "dedup fp cs = map (\<lambda>h. best_of (group_of fp cs h)) (first_occ (map (key_of fp) cs))"
  by (simp add: dedup_def foldl_dedup_step comp_def)

lemma key_best_of_group:
  "h \<in> key_of fp ` set cs \<Longrightarrow> key_of fp (best_of (group_of fp cs h)) = h"
proof -
  assume "h \<in> key_of fp ` set cs"
  then have "best_of (group_of fp cs h) \<in> set (group_of fp cs h)"
    by (intro best_of_mem group_of_nonempty)
  then show ?thesis by (simp add: group_of_def)
qed

lemma keys_dedup: "map (key_of fp) (dedup fp cs) = first_occ (map (key_of fp) cs)"
proof -
  have "map (\<lambda>h. key_of fp (best_of (group_of fp cs h))) (first_occ (map (key_of fp) cs)) =
        first_occ (map (key_of fp) cs)"
    by (rule map_idI) (auto intro: key_best_of_group)
  then show ?thesis
    by (simp add: dedup_graph_form comp_def)
qed

lemma set_dedup_subset: "set (dedup fp cs) \<subseteq> set cs"
proof
  fix d
  assume "d \<in> set (dedup fp cs)"
  then obtain h where h: "h \<in> key_of fp ` set cs" and d: "d = best_of (group_of fp cs h)"
    by (auto simp: dedup_graph_form)
  from h have "group_of fp cs h \<noteq> []" by (rule group_of_nonempty)
  with d have "d \<in> set (group_of fp cs h)" by (simp add: best_of_mem)
  then show "d \<in> set cs" by (simp add: group_of_def)
qed

lemma dedup_survivor_of:
  "c \<in> set cs \<Longrightarrow> best_of (group_of fp cs (key_of fp c)) \<in> set (dedup fp cs)"
  by (auto simp: dedup_graph_form)

lemma score_le_survivor:
  "c \<in> set cs \<Longrightarrow> score c \<le> score (best_of (group_of fp cs (key_of fp c)))"
  by (rule score_le_best_of) (simp add: group_of_def)

lemma desc_by_score_take_sort: "desc_by_score (take n (sort_key (\<lambda>c. - score c) cs))"
proof -
  have "sorted (map (\<lambda>c. - score c) (sort_key (\<lambda>c. - score c) cs))"
    by (rule sorted_sort_key)
  then have "sorted_wrt (\<lambda>a b. score b \<le> score a) (sort_key (\<lambda>c. - score c) cs)"
    by (simp add: sorted_map)
  then show ?thesis
    by (simp add: desc_by_score_def)
qed

subsection \<open>The head of the ranking\<close>

lemma last_remdups_snoc: "last (remdups (ys @ [x])) = x"
  by (induction ys) auto

lemma hd_first_occ_Cons [simp]: "hd (first_occ (x # xs)) = x"
proof -
  have "remdups (rev xs @ [x]) \<noteq> []" by simp
  then show ?thesis
    by (simp add: first_occ_def hd_rev last_remdups_snoc)
qed

lemma best_of_Cons_max:
  assumes "\<forall>c \<in> set g. score c \<le> score x"
  shows "best_of (x # g) = x"
proof -
  have "Max (score ` set (x # g)) = score x"
    using assms by (intro Max_eqI) auto
  then show ?thesis by (simp add: best_of_def)
qed

lemma hd_dedup_max:
  assumes "\<forall>c \<in> set cs. score c \<le> score x"
  shows "dedup fp (x # cs) \<noteq> [] \<and> hd (dedup fp (x # cs)) = x"
proof -
  have g: "group_of fp (x # cs) (key_of fp x) = x # filter (\<lambda>c. key_of fp c = key_of fp x) cs"
    by (simp add: group_of_def)
  have "best_of (group_of fp (x # cs) (key_of fp x)) = x"
    unfolding g using assms by (intro best_of_Cons_max) auto
  moreover have "first_occ (map (key_of fp) (x # cs)) \<noteq> []"
    by (simp add: first_occ_def)
  ultimately show ?thesis
    by (simp add: dedup_graph_form hd_map)
qed

lemma hd_insort_key_min:
  "\<forall>y \<in> set ys. f x \<le> f y \<Longrightarrow> hd (insort_key f x ys) = x"
  by (cases ys) auto

lemma hd_top_by_score_max:
  assumes "0 < n" and "\<forall>c \<in> set cs. score c \<le> score x"
  shows "hd (top_by_score n (x # cs)) = x"
proof -
  have "\<forall>y \<in> set (sort_key (\<lambda>c. - score c) cs). - score x \<le> - score y"
    using assms(2) by simp
  then have "hd (sort_key (\<lambda>c. - score c) (x # cs)) = x"
    by (simp add: hd_insort_key_min)
  with assms(1) show ?thesis
    by (simp add: top_by_score_def hd_take)
qed

subsection \<open>Properties of the aggregation\<close>

text \<open>C1: the single pass over \<open>all_contexts\<close> with the dict \<open>unique_contexts\<close>
  computes the reference deduplication: one survivor per digest, in order of the digest's
  first occurrence, the survivor being the first context of maximal score in its group.\<close>
theorem dedup_eq_spec: "dedup fp cs = dedup_spec fp cs"
  by (simp add: dedup_def dedup_spec_def foldl_dedup_step comp_def)

text \<open>C3: no two survivors of the deduplication share a content digest.\<close>
theorem dedup_distinct_fingerprints: "distinct (map (\<lambda>c. fp (content c)) (dedup fp cs))"
  using keys_dedup [of fp cs] by simp

text \<open>C2: every input context is represented among the survivors by a context with the
  same digest and at least its score.\<close>
theorem dedup_keeps_best:
  assumes "c \<in> set cs"
  shows "\<exists>d \<in> set (dedup fp cs). fp (content d) = fp (content c) \<and> score c \<le> score d"
proof -
  let ?d = "best_of (group_of fp cs (key_of fp c))"
  have "?d \<in> set (dedup fp cs)" using assms by (rule dedup_survivor_of)
  moreover have "key_of fp ?d = key_of fp c"
    using assms by (intro key_best_of_group) simp
  moreover have "score c \<le> score ?d" using assms by (rule score_le_survivor)
  ultimately show ?thesis by blast
qed

theorem dedup_keeps_best_witness:
  "ctx_ex ''orders'' 1 \<in> set [ctx_ex ''orders'' 1, ctx_ex ''orders'' 2] \<and>
   (\<exists>d \<in> set (dedup (\<lambda>s. s) [ctx_ex ''orders'' 1, ctx_ex ''orders'' 2]).
      content d = content (ctx_ex ''orders'' 1) \<and> score (ctx_ex ''orders'' 1) \<le> score d)"
  using dedup_keeps_best [of "ctx_ex ''orders'' 1" "[ctx_ex ''orders'' 1, ctx_ex ''orders'' 2]" "\<lambda>s. s"]
  by simp

text \<open>C4: the aggregated list is ordered by descending score, holds at most the requested
  number of contexts, and only contexts that were retrieved.\<close>
theorem aggregate_ranked:
  "desc_by_score (aggregate fp n cs) \<and> length (aggregate fp n cs) \<le> n \<and>
   set (aggregate fp n cs) \<subseteq> set cs"
proof -
  have "set (aggregate fp n cs) \<subseteq> set (dedup fp cs)"
    by (auto simp: aggregate_def top_by_score_def dest: in_set_takeD)
  with set_dedup_subset show ?thesis
    by (auto simp: aggregate_def top_by_score_def desc_by_score_take_sort)
qed

text \<open>Two contexts with the same digest and different scores merge into exactly one
  survivor, the higher-scored one.\<close>
theorem dedup_pair_keeps_higher:
  assumes "fp (content c1) = fp (content c2)" and "score c1 \<noteq> score c2"
  shows "dedup fp [c1, c2] = [if score c1 < score c2 then c2 else c1]"
  using assms
  by (auto simp: dedup_def dedup_step_def dict_get_def Let_def)

theorem dedup_pair_keeps_higher_witness:
  "content (ctx_ex ''orders'' 1) = content (ctx_ex ''orders'' 2) \<and>
   score (ctx_ex ''orders'' 1) \<noteq> score (ctx_ex ''orders'' 2) \<and>
   dedup (\<lambda>s. s) [ctx_ex ''orders'' 1, ctx_ex ''orders'' 2] = [ctx_ex ''orders'' 2]"
  using dedup_pair_keeps_higher [of "\<lambda>s. s" "ctx_ex ''orders'' 1" "ctx_ex ''orders'' 2"]
  by (simp add: ctx_ex_def)

end
