(* ===== verification/Router.thy ===== *)
theory Router
  imports Prelude
begin

text \<open>
  The router \<open>classify_query_and_get_targets\<close> of src/app.py: from the application's
  knowledge-base ids and the query mode it builds the list of \<open>QueryTarget\<close>s the
  merger will query. A forced mode names one type; any other mode is the smart mode,
  which counts keyword hits (the substring test \<open>keyword in query_lower\<close>) per type.
\<close>

subsection \<open>Data\<close>

text \<open>The pydantic models \<open>ApplicationKBs\<close> and \<open>QueryTarget\<close>; \<open>secondary\<close>
  is \<open>Optional[bool]\<close> with default \<open>False\<close>.\<close>

record app_kbs =
  databaseKnowledgeBaseId :: string
  supportKnowledgeBaseId :: "string option"
  documentationKnowledgeBaseId :: "string option"

record query_target =
  target_type :: string
  kbId :: string
  secondary :: "bool option"

text \<open>Python truthiness of an \<open>Optional[str]\<close>: \<open>None\<close> and \<open>''\<close> are false.\<close>

definition truthy_opt :: "string option \<Rightarrow> bool" where
  "truthy_opt s \<longleftrightarrow> (case s of None \<Rightarrow> False | Some x \<Rightarrow> x \<noteq> [])"

definition mk_target :: "string \<Rightarrow> string \<Rightarrow> query_target" where
  "mk_target t k = \<lparr>target_type = t, kbId = k, secondary = Some False\<rparr>"

subsection \<open>Keyword classification\<close>

definition db_keywords :: "string list" where
  "db_keywords = [''table'', ''column'', ''database'', ''sql'', ''query'', ''schema'', ''index'',
                  ''foreign key'', ''primary key'', ''relationship'', ''join'']"

definition support_keywords :: "string list" where
  "support_keywords = [''error'', ''issue'', ''problem'', ''troubleshoot'', ''fix'', ''bug'', ''help'',
                       ''support'', ''ticket'', ''resolve'']"

definition doc_keywords :: "string list" where
  "doc_keywords = [''how to'', ''guide'', ''tutorial'', ''documentation'', ''manual'', ''instruction'',
                   ''feature'', ''functionality'']"

text \<open>\<open>sum(1 for keyword in keywords if keyword in query_lower)\<close>.\<close>

definition keyword_score :: "string list \<Rightarrow> string \<Rightarrow> nat" where
  "keyword_score kws q = length (filter (\<lambda>k. py_in k q) kws)"

definition smart_targets :: "string \<Rightarrow> app_kbs \<Rightarrow> query_target list" where
  "smart_targets query_text kbs =
     (let q = py_lower query_text;
          db = keyword_score db_keywords q;
          sup = keyword_score support_keywords q;
          doc = keyword_score doc_keywords q
      in if sup \<le> db \<and> doc \<le> db then [mk_target ''database'' (databaseKnowledgeBaseId kbs)]
         else if doc < sup \<and> truthy_opt (supportKnowledgeBaseId kbs)
           then [mk_target ''support'' (the (supportKnowledgeBaseId kbs))]
         else if truthy_opt (documentationKnowledgeBaseId kbs)
           then [mk_target ''documentation'' (the (documentationKnowledgeBaseId kbs))]
         else [mk_target ''database'' (databaseKnowledgeBaseId kbs)])"

definition classify_query_and_get_targets :: "string \<Rightarrow> app_kbs \<Rightarrow> string \<Rightarrow> query_target list" where
  "classify_query_and_get_targets query_text kbs query_mode =
     (if query_mode = ''database'' then [mk_target ''database'' (databaseKnowledgeBaseId kbs)]
      else if query_mode = ''support'' then
        (if truthy_opt (supportKnowledgeBaseId kbs)
         then [mk_target ''support'' (the (supportKnowledgeBaseId kbs))] else [])
      else if query_mode = ''documentation'' then
        (if truthy_opt (documentationKnowledgeBaseId kbs)
         then [mk_target ''documentation'' (the (documentationKnowledgeBaseId kbs))] else [])
      else smart_targets query_text kbs)"

definition forced_modes :: "string list" where
  "forced_modes = [''database'', ''support'', ''documentation'']"

text \<open>A target is configured when its id is the application's id for its type.\<close>

definition configured :: "app_kbs \<Rightarrow> query_target \<Rightarrow> bool" where
  "configured kbs t \<longleftrightarrow>
     (target_type t = ''database'' \<and> kbId t = databaseKnowledgeBaseId kbs) \<or>
     (target_type t = ''support'' \<and> supportKnowledgeBaseId kbs = Some (kbId t)) \<or>
     (target_type t = ''documentation'' \<and> documentationKnowledgeBaseId kbs = Some (kbId t))"

text \<open>An application as the examples use it.\<close>

definition kbs_ex :: "string option \<Rightarrow> string option \<Rightarrow> app_kbs" where
  "kbs_ex s d = \<lparr>databaseKnowledgeBaseId = ''KBDB'', supportKnowledgeBaseId = s,
                 documentationKnowledgeBaseId = d\<rparr>"

subsection \<open>Properties of the router\<close>

lemma mk_target_fields [simp]:
  "target_type (mk_target t k) = t" "kbId (mk_target t k) = k" "secondary (mk_target t k) = Some False"
  by (simp_all add: mk_target_def)

lemma configured_mk_target_database [simp]:
  "configured kbs (mk_target ''database'' (databaseKnowledgeBaseId kbs))"
  by (simp add: configured_def)

lemma configured_mk_target_support:
  "truthy_opt (supportKnowledgeBaseId kbs) \<Longrightarrow>
   configured kbs (mk_target ''support'' (the (supportKnowledgeBaseId kbs)))"
  by (auto simp: configured_def truthy_opt_def split: option.splits)

lemma configured_mk_target_documentation:
  "truthy_opt (documentationKnowledgeBaseId kbs) \<Longrightarrow>
   configured kbs (mk_target ''documentation'' (the (documentationKnowledgeBaseId kbs)))"
  by (auto simp: configured_def truthy_opt_def split: option.splits)

lemmas configured_targets =
  configured_mk_target_database configured_mk_target_support configured_mk_target_documentation

lemma smart_targets_single:
  "\<exists>t. smart_targets q kbs = [t] \<and> secondary t = Some False \<and> configured kbs t"
  unfolding smart_targets_def Let_def by (auto simp: configured_targets)

text \<open>A forced mode yields at most one target, of the forced type, primary, with the
  application's id for that type.\<close>
theorem forced_mode_single_target:
  assumes "m \<in> set forced_modes"
  shows "length (classify_query_and_get_targets q kbs m) \<le> 1 \<and>
    (\<forall>t \<in> set (classify_query_and_get_targets q kbs m).
       target_type t = m \<and> configured kbs t \<and> secondary t = Some False)"
  using assms
  by (auto simp: forced_modes_def classify_query_and_get_targets_def configured_targets)

theorem forced_mode_single_target_witness:
  "''database'' \<in> set forced_modes \<and>
   length (classify_query_and_get_targets ''why did my ticket fail'' (kbs_ex None None) ''database'') \<le> 1 \<and>
   target_type (hd (classify_query_and_get_targets ''why did my ticket fail'' (kbs_ex None None) ''database'')) = ''database'' \<and>
   configured (kbs_ex None None) (hd (classify_query_and_get_targets ''why did my ticket fail'' (kbs_ex None None) ''database'')) \<and>
   secondary (hd (classify_query_and_get_targets ''why did my ticket fail'' (kbs_ex None None) ''database'')) = Some False"
proof -
  let ?ts = "classify_query_and_get_targets ''why did my ticket fail'' (kbs_ex None None) ''database''"
  have m: "''database'' \<in> set forced_modes" by (simp add: forced_modes_def)
  have "?ts \<noteq> []" by (simp add: classify_query_and_get_targets_def)
  then have h: "hd ?ts \<in> set ?ts" by (rule hd_in_set)
  show ?thesis using m h forced_mode_single_target [OF m] by blast
qed

text \<open>C6: in smart mode (any mode other than the three forced ones) the router returns
  exactly one target; it is primary and its id is the application's id for its type.\<close>
theorem smart_mode_single_target:
  assumes "m \<notin> set forced_modes"
  shows "\<exists>t. classify_query_and_get_targets q kbs m = [t] \<and> secondary t = Some False \<and>
    configured kbs t"
  using assms smart_targets_single [of q kbs]
  by (simp add: forced_modes_def classify_query_and_get_targets_def)

theorem smart_mode_single_target_witness:
  "''smart'' \<notin> set forced_modes \<and>
   (\<exists>t. classify_query_and_get_targets ''how to fix a bug'' (kbs_ex (Some ''KBS'') None) ''smart'' = [t] \<and>
     secondary t = Some False \<and> configured (kbs_ex (Some ''KBS'') None) t)"
proof -
  have m: "''smart'' \<notin> set forced_modes" by (simp add: forced_modes_def)
  show ?thesis using m smart_mode_single_target [OF m] by blast
qed

text \<open>C7: in smart mode, a query with at least as many database keyword hits as support
  hits and as documentation hits is routed to the database knowledge base alone.\<close>
theorem smart_database_keywords_route_database:
  assumes "m \<notin> set forced_modes"
    and "keyword_score support_keywords (py_lower q) \<le> keyword_score db_keywords (py_lower q)"
    and "keyword_score doc_keywords (py_lower q) \<le> keyword_score db_keywords (py_lower q)"
  shows "classify_query_and_get_targets q kbs m = [mk_target ''database'' (databaseKnowledgeBaseId kbs)]"
  using assms
  by (simp add: forced_modes_def classify_query_and_get_targets_def smart_targets_def Let_def)

theorem smart_database_keywords_route_database_witness:
  "''smart'' \<notin> set forced_modes \<and>
   keyword_score support_keywords (py_lower ''Show me all tables in the database'') \<le>
     keyword_score db_keywords (py_lower ''Show me all tables in the database'') \<and>
   keyword_score doc_keywords (py_lower ''Show me all tables in the database'') \<le>
     keyword_score db_keywords (py_lower ''Show me all tables in the database'') \<and>
   classify_query_and_get_targets ''Show me all tables in the database'' (kbs_ex None None) ''smart'' =
     [mk_target ''database'' ''KBDB'']"
proof -
  have m: "''smart'' \<notin> set forced_modes" by (simp add: forced_modes_def)
  have s: "keyword_score support_keywords (py_lower ''Show me all tables in the database'') \<le>
     keyword_score db_keywords (py_lower ''Show me all tables in the database'')" by code_simp
  have d: "keyword_score doc_keywords (py_lower ''Show me all tables in the database'') \<le>
     keyword_score db_keywords (py_lower ''Show me all tables in the database'')" by code_simp
  show ?thesis
    using m s d smart_database_keywords_route_database [OF m s d, of "kbs_ex None None"]
    by (simp add: kbs_ex_def)
qed

text \<open>C9: in smart mode, when support and documentation keywords tie above the database
  count, the query goes to documentation (when configured), not to support.\<close>
theorem smart_support_documentation_tie:
  assumes "m \<notin> set forced_modes"
    and "keyword_score db_keywords (py_lower q) < keyword_score support_keywords (py_lower q)"
    and "keyword_score support_keywords (py_lower q) = keyword_score doc_keywords (py_lower q)"
    and "documentationKnowledgeBaseId kbs = Some d" and "d \<noteq> []"
  shows "classify_query_and_get_targets q kbs m = [mk_target ''documentation'' d]"
  using assms
  by (simp add: forced_modes_def classify_query_and_get_targets_def smart_targets_def Let_def
      truthy_opt_def)

theorem smart_support_documentation_tie_witness:
  "''smart'' \<notin> set forced_modes \<and>
   keyword_score db_keywords (py_lower ''how to fix this'') < keyword_score support_keywords (py_lower ''how to fix this'') \<and>
   keyword_score support_keywords (py_lower ''how to fix this'') = keyword_score doc_keywords (py_lower ''how to fix this'') \<and>
   documentationKnowledgeBaseId (kbs_ex (Some ''KBS'') (Some ''KBD'')) = Some ''KBD'' \<and> ''KBD'' \<noteq> [] \<and>
   classify_query_and_get_targets ''how to fix this'' (kbs_ex (Some ''KBS'') (Some ''KBD'')) ''smart'' =
     [mk_target ''documentation'' ''KBD'']"
proof -
  have m: "''smart'' \<notin> set forced_modes" by (simp add: forced_modes_def)
  have a: "keyword_score db_keywords (py_lower ''how to fix this'') < keyword_score support_keywords (py_lower ''how to fix this'')"
    by code_simp
  have b: "keyword_score support_keywords (py_lower ''how to fix this'') = keyword_score doc_keywords (py_lower ''how to fix this'')"
    by code_simp
  have c: "documentationKnowledgeBaseId (kbs_ex (Some ''KBS'') (Some ''KBD'')) = Some ''KBD''"
    by (simp add: kbs_ex_def)
  have e: "''KBD'' \<noteq> []" by simp
  show ?thesis using m a b c e smart_support_documentation_tie [OF m a b c e] by blast
qed

text \<open>Forcing the support or documentation mode for an application without that
  knowledge base yields no target at all; there is no fallback to the database source.\<close>
theorem forced_mode_without_source_no_target:
  assumes "m \<in> {''support'', ''documentation''}"
    and "\<not> truthy_opt (if m = ''support'' then supportKnowledgeBaseId kbs else documentationKnowledgeBaseId kbs)"
  shows "classify_query_and_get_targets q kbs m = []"
  using assms by (auto simp: classify_query_and_get_targets_def)

theorem forced_mode_without_source_no_target_witness:
  "''support'' \<in> {''support'', ''documentation''} \<and>
   \<not> truthy_opt (if ''support'' = ''support'' then supportKnowledgeBaseId (kbs_ex None None)
                 else documentationKnowledgeBaseId (kbs_ex None None)) \<and>
   classify_query_and_get_targets ''error 500 on login'' (kbs_ex None None) ''support'' = []"
proof -
  have m: "''support'' \<in> {''support'', ''documentation''}" by simp
  have t: "\<not> truthy_opt (if ''support'' = ''support'' then supportKnowledgeBaseId (kbs_ex None None)
                 else documentationKnowledgeBaseId (kbs_ex None None))"
    by (simp add: kbs_ex_def truthy_opt_def)
  show ?thesis using m t forced_mode_without_source_no_target [OF m t] by blast
qed
end
