(* ===== verification/Cache.thy ===== *)
theory Cache
  imports Prelude "HOL-Library.Char_ord" "HOL-Library.List_Lexorder"
begin

text \<open>
  The result cache of \<open>AdvancedRetrieval\<close>
  (src/src/advanced_retrieval/retrieval_techniques.py): \<open>self.cache\<close> maps an MD5
  key to \<open>{'result', 'timestamp'}\<close>; \<open>generate_cache_key\<close> joins the query text,
  the result count and the sorted keyword arguments with \<open>::\<close>; every strategy
  returns a stored result while \<open>time.time() - timestamp < self.cache_ttl\<close> and
  otherwise computes, storing only the results of its success paths.

  The cache is generic in the result type \<open>'r\<close> and the retriever state \<open>'s\<close>;
  the strategies instantiate both (theory \<open>Strategies\<close>).
\<close>

subsection \<open>Data and operations\<close>

record 'r cache_entry =
  cached_result :: 'r
  timestamp :: time

type_synonym 'r cache = "string \<rightharpoonup> 'r cache_entry"

text \<open>The key string: \<open>"::".join([query_text, str(num_results)] + [k:v for k, v in
  sorted(kwargs.items())])\<close>. Every call site passes one keyword, \<open>method\<close>, whose value
  is a string, so the \<open>json.dumps\<close> branch for dict and list values does not arise.\<close>

definition cache_key_string :: "string \<Rightarrow> nat \<Rightarrow> (string \<times> string) list \<Rightarrow> string" where
  "cache_key_string query_text num_results kwargs =
     py_join ''::'' ([query_text, string_of_nat num_results] @
                     map (\<lambda>(k, v). k @ '':'' @ v) (sort_key fst kwargs))"

definition generate_cache_key ::
  "(string \<Rightarrow> string) \<Rightarrow> string \<Rightarrow> nat \<Rightarrow> (string \<times> string) list \<Rightarrow> string" where
  "generate_cache_key md5 query_text num_results kwargs =
     md5 (cache_key_string query_text num_results kwargs)"

text \<open>\<open>cache_key in self.cache and time.time() - self.cache[cache_key]['timestamp'] <
  self.cache_ttl\<close>.\<close>

definition cache_lookup :: "'r cache \<Rightarrow> int \<Rightarrow> time \<Rightarrow> string \<Rightarrow> 'r option" where
  "cache_lookup c ttl now k =
     (case c k of
        None \<Rightarrow> None
      | Some e \<Rightarrow> if now - timestamp e < ttl then Some (cached_result e) else None)"

definition cache_store :: "'r cache \<Rightarrow> string \<Rightarrow> 'r \<Rightarrow> time \<Rightarrow> 'r cache" where
  "cache_store c k r now = c(k \<mapsto> \<lparr>cached_result = r, timestamp = now\<rparr>)"

text \<open>
  The shape every strategy shares: look up, or compute from the state, which returns
  the result, whether the success path reached its \<open>self.cache[cache_key] = ...\<close>, and
  the state after the computation (sub-strategies may have stored their own entries).
  The clock reading \<open>now\<close> stands for both \<open>time.time()\<close> calls of one invocation.
\<close>

definition with_cache ::
  "('s \<Rightarrow> 'r cache) \<Rightarrow> ('r cache \<Rightarrow> 's \<Rightarrow> 's) \<Rightarrow> int \<Rightarrow> time \<Rightarrow> string \<Rightarrow>
   ('s \<Rightarrow> 'r \<times> bool \<times> 's) \<Rightarrow> 's \<Rightarrow> 'r \<times> 's" where
  "with_cache get put ttl now k compute st =
     (case cache_lookup (get st) ttl now k of
        Some r \<Rightarrow> (r, st)
      | None \<Rightarrow>
          (let (r, keep, st') = compute st
           in (r, if keep then put (cache_store (get st') k r now) st' else st')))"

text \<open>The method names of the call sites.\<close>

definition strategy_methods :: "string list" where
  "strategy_methods = [''standard'', ''expansion'', ''hyde'', ''multi'', ''relationship'', ''optimize'']"

text \<open>Reading a decimal numeral back, for the round trip of \<open>str(n)\<close>.\<close>

definition nat_of_digits :: "string \<Rightarrow> nat" where
  "nat_of_digits s = foldl (\<lambda>acc c. 10 * acc + (of_char c - 48)) 0 s"

subsection \<open>Lookup, store and the strategy wrapper\<close>

lemma cache_lookup_store_same [simp]:
  "cache_lookup (cache_store c k r t) ttl now k = (if now - t < ttl then Some r else None)"
  by (simp add: cache_lookup_def cache_store_def)

lemma cache_lookup_store_other:
  "k' \<noteq> k \<Longrightarrow> cache_lookup (cache_store c k r t) ttl now k' = cache_lookup c ttl now k'"
  by (simp add: cache_lookup_def cache_store_def)

lemma cache_lookup_expired:
  "c k = Some e \<Longrightarrow> ttl \<le> now - timestamp e \<Longrightarrow> cache_lookup c ttl now k = None"
  by (simp add: cache_lookup_def)

lemma cache_lookup_drop: "cache_lookup (c(k := None)) ttl now k = None"
  by (simp add: cache_lookup_def)

lemma with_cache_hit:
  "cache_lookup (get st) ttl now k = Some r \<Longrightarrow> with_cache get put ttl now k f st = (r, st)"
  by (simp add: with_cache_def)

lemma with_cache_miss:
  "cache_lookup (get st) ttl now k = None \<Longrightarrow>
   with_cache get put ttl now k f st =
     (let (r, keep, st') = f st in (r, if keep then put (cache_store (get st') k r now) st' else st'))"
  by (simp add: with_cache_def)

subsection \<open>The key string\<close>

lemma nat_of_digits_snoc:
  "nat_of_digits (xs @ [c]) = 10 * nat_of_digits xs + (of_char c - 48)"
  by (simp add: nat_of_digits_def)

lemma nat_of_digits_string_of_nat: "nat_of_digits (string_of_nat n) = n"
proof (induction n rule: string_of_nat.induct)
  case (1 n)
  show ?case
  proof (cases "n < 10")
    case True
    then show ?thesis
      by (subst string_of_nat.simps) (simp add: nat_of_digits_def of_char_digit_char)
  next
    case False
    have "n mod 10 < 10" by simp
    with False "1.IH" show ?thesis
      by (subst string_of_nat.simps) (simp add: nat_of_digits_snoc of_char_digit_char)
  qed
qed

lemma string_of_nat_inj: "string_of_nat a = string_of_nat b \<Longrightarrow> a = b"
  by (metis nat_of_digits_string_of_nat)

lemma cache_key_string_single:
  "cache_key_string q n [(k, v)] = q @ ''::'' @ string_of_nat n @ ''::'' @ k @ '':'' @ v"
  by (simp add: cache_key_string_def)

lemma strategy_methods_suffix_free:
  "a \<in> set strategy_methods \<Longrightarrow> b \<in> set strategy_methods \<Longrightarrow> suffix a b \<Longrightarrow> a = b"
  by (auto simp: strategy_methods_def suffix_def)

lemma rev_takeWhile_colon:
  "CHR '':'' \<notin> set d \<Longrightarrow>
   takeWhile (\<lambda>c. c \<noteq> CHR '':'') (rev (q @ ''::'' @ d)) = rev d"
proof -
  assume d: "CHR '':'' \<notin> set d"
  have "takeWhile (\<lambda>c. c \<noteq> CHR '':'') (rev d @ ys) = rev d @ takeWhile (\<lambda>c. c \<noteq> CHR '':'') ys" for ys
    using d by (intro takeWhile_append2) auto
  then show ?thesis by simp
qed

text \<open>C11: the key strings of two calls coincide only when the query text, the result
  count and the strategy coincide: \<open>generate_cache_key\<close> hashes an injective encoding of
  its arguments for every method name the code uses, so strategies never share an entry
  unless MD5 collides.\<close>
theorem cache_key_string_injective:
  assumes eq: "cache_key_string q1 n1 [(''method'', m1)] = cache_key_string q2 n2 [(''method'', m2)]"
    and m1: "m1 \<in> set strategy_methods" and m2: "m2 \<in> set strategy_methods"
  shows "q1 = q2 \<and> n1 = n2 \<and> m1 = m2"
proof -
  let ?d1 = "string_of_nat n1" and ?d2 = "string_of_nat n2"
  let ?x1 = "q1 @ ''::'' @ ?d1 @ ''::method:''" and ?x2 = "q2 @ ''::'' @ ?d2 @ ''::method:''"
  from eq have s: "?x1 @ m1 = ?x2 @ m2" by (simp add: cache_key_string_single)
  have "suffix m1 (?x1 @ m1)" unfolding suffix_def by (rule exI [where x = ?x1]) simp
  then have "suffix m1 (?x2 @ m2)" by (simp only: s)
  moreover have "suffix m2 (?x2 @ m2)" unfolding suffix_def by (rule exI [where x = ?x2]) simp
  ultimately have "suffix m1 m2 \<or> suffix m2 m1" by (rule suffix_same_cases)
  then have mm: "m1 = m2" using m1 m2 strategy_methods_suffix_free by metis
  with s have "?x1 = ?x2" by simp
  then have qd: "q1 @ ''::'' @ ?d1 = q2 @ ''::'' @ ?d2" by simp
  have "takeWhile (\<lambda>c. c \<noteq> CHR '':'') (rev (q1 @ ''::'' @ ?d1)) =
        takeWhile (\<lambda>c. c \<noteq> CHR '':'') (rev (q2 @ ''::'' @ ?d2))"
    by (simp only: qd)
  then have "rev ?d1 = rev ?d2"
    by (simp only: rev_takeWhile_colon [OF string_of_nat_no_colon])
  then have dd: "?d1 = ?d2" by simp
  with qd have "q1 = q2" by simp
  with dd mm show ?thesis by (simp add: string_of_nat_inj)
qed

theorem cache_key_string_injective_witness:
  "cache_key_string ''orders::5'' 5 [(''method'', ''multi'')] = cache_key_string ''orders::5'' 5 [(''method'', ''multi'')] \<and>
   ''multi'' \<in> set strategy_methods \<and> ''orders::5'' = ''orders::5'' \<and> (5::nat) = 5 \<and> ''multi'' = ''multi''"
proof -
  have m: "''multi'' \<in> set strategy_methods" by (simp add: strategy_methods_def)
  show ?thesis using cache_key_string_injective [OF refl m m] m by blast
qed

end
