(* ===== verification/Strategies.thy ===== *)
theory Strategies
  imports Aggregator Cache
begin

text \<open>
  The retrieval strategies of \<open>AdvancedRetrieval\<close>
  (src/src/advanced_retrieval/retrieval_techniques.py) over the two external
  capabilities: the provider's \<open>kb_client.retrieve\<close> and the generator's
  \<open>bedrock_client.invoke_model\<close>. They are the fields of the environment record
  \<open>env\<close>, with a raised exception as \<open>Inl\<close> of its message. The prompts are
  represented by the constructors of \<open>prompt\<close>, which carry exactly the values the
  source interpolates into its fixed templates; \<open>md5\<close> is the hex digest.

  Each strategy is a state-passing function over the retriever state (the instance's
  \<open>kb_id\<close>, \<open>cache\<close> and \<open>cache_ttl\<close>) built with \<open>with_cache\<close>; a strategy's
  \<open>except\<close> branch is the \<open>Inl\<close> branch of the retrieval and is never cached.
\<close>

subsection \<open>Interfaces and state\<close>

datatype prompt =
    AnswerPrompt string string
  | ExpansionPrompt string
  | HydePrompt string
  | RelationshipPrompt string string
  | SqlOptimizationPrompt string string

record env =
  md5 :: "string \<Rightarrow> string"
  retrieve :: "string \<Rightarrow> string \<Rightarrow> nat \<Rightarrow> string + item list"
  invoke :: "prompt \<Rightarrow> nat \<Rightarrow> rat \<Rightarrow> string + string"

text \<open>A strategy's result dict: its subject (\<open>query_text\<close>, \<open>table_name\<close> or
  \<open>sql_query\<close>), \<open>retrieval_method\<close>, \<open>contexts\<close>, \<open>thinking_process\<close>, \<open>error\<close>,
  and the strategy's extra text (\<open>hypothetical_document\<close>, \<open>relationship_analysis\<close>
  or \<open>optimization_analysis\<close>); absent keys are \<open>None\<close>.\<close>

record retrieval_result =
  rr_subject :: string
  rr_method :: string
  rr_contexts :: "retrieved_context list"
  rr_thinking :: "string option"
  rr_error :: "string option"
  rr_extra :: "string option"

record retriever =
  kb_id :: string
  cache :: "retrieval_result cache"
  cache_ttl :: int

definition new_retriever :: "string \<Rightarrow> retriever" where
  "new_retriever k = \<lparr>kb_id = k, cache = Map.empty, cache_ttl = 3600\<rparr>"

definition cached ::
  "time \<Rightarrow> string \<Rightarrow> (retriever \<Rightarrow> retrieval_result \<times> bool \<times> retriever) \<Rightarrow> retriever \<Rightarrow>
   retrieval_result \<times> retriever" where
  "cached now k f st = with_cache cache (\<lambda>c s. s\<lparr>cache := c\<rparr>) (cache_ttl st) now k f st"

definition method_key :: "env \<Rightarrow> string \<Rightarrow> nat \<Rightarrow> string \<Rightarrow> string" where
  "method_key E q n m = generate_cache_key (md5 E) q n [(''method'', m)]"

definition error_result :: "string \<Rightarrow> string \<Rightarrow> string \<Rightarrow> retrieval_result" where
  "error_result subject m e =
     \<lparr>rr_subject = subject, rr_method = m, rr_contexts = [], rr_thinking = None,
      rr_error = Some e, rr_extra = None\<rparr>"

definition sq :: string where
  "sq = [CHR 0x27]"

subsection \<open>Fan-out over several queries\<close>

text \<open>The \<open>for\<close> loops that call \<open>retrieve\<close> once per query and extend
  \<open>all_contexts\<close>; the first exception leaves the loop. \<open>tag\<close> says whether the
  contexts record \<open>from_query\<close>.\<close>

fun fetch_all :: "env \<Rightarrow> string \<Rightarrow> nat \<Rightarrow> bool \<Rightarrow> string list \<Rightarrow> string + retrieved_context list" where
  "fetch_all E kb k tag [] = Inr []"
| "fetch_all E kb k tag (q # qs) =
     (case retrieve E kb q k of
        Inl e \<Rightarrow> Inl e
      | Inr items \<Rightarrow>
          (case fetch_all E kb k tag qs of
             Inl e \<Rightarrow> Inl e
           | Inr cs \<Rightarrow> Inr (map (to_context (if tag then Some q else None)) items @ cs)))"

definition numbered_lines :: "string list \<Rightarrow> string" where
  "numbered_lines qs = concat (map (\<lambda>(i, q). string_of_nat (Suc i) @ ''. '' @ q @ nl) (enumerate 0 qs))"

subsection \<open>Standard retrieval\<close>

definition mock_context :: "string \<Rightarrow> string \<Rightarrow> retrieved_context" where
  "mock_context q e =
     \<lparr>content = ''This is a mock response. The query was: '' @ q @
                ''. There was an error connecting to the knowledge base: '' @ e,
      source = ''mock-source'',
      content_sample = ''This is a mock response. The query was: '' @ q @ ''...'',
      score = 1, from_query = None\<rparr>"

definition standard_query :: "env \<Rightarrow> time \<Rightarrow> string \<Rightarrow> nat \<Rightarrow> retriever \<Rightarrow> retrieval_result \<times> retriever" where
  "standard_query E now q n st =
     cached now (method_key E q n ''standard'')
       (\<lambda>st. case retrieve E (kb_id st) q n of
          Inl e \<Rightarrow>
            (\<lparr>rr_subject = q, rr_method = ''standard (mock fallback)'', rr_contexts = [mock_context q e],
              rr_thinking = None, rr_error = Some e, rr_extra = None\<rparr>, False, st)
        | Inr items \<Rightarrow>
            (\<lparr>rr_subject = q, rr_method = ''standard'', rr_contexts = map (to_context None) items,
              rr_thinking = None, rr_error = None, rr_extra = None\<rparr>, True, st)) st"

subsection \<open>Query expansion\<close>

definition generate_expanded_queries :: "env \<Rightarrow> string \<Rightarrow> string list" where
  "generate_expanded_queries E q =
     (case invoke E (ExpansionPrompt q) 1500 (7 / 10) of
        Inl e \<Rightarrow> [q]
      | Inr text \<Rightarrow>
          (let qs = filter (\<lambda>s. s \<noteq> []) (map py_strip (split_on (CHR 0x0A) text))
           in if q \<in> set qs then qs else qs @ [q]))"

definition query_expansion :: "env \<Rightarrow> time \<Rightarrow> string \<Rightarrow> nat \<Rightarrow> retriever \<Rightarrow> retrieval_result \<times> retriever" where
  "query_expansion E now q n st =
     cached now (method_key E q n ''expansion'')
       (\<lambda>st. let qs = generate_expanded_queries E q in
          case fetch_all E (kb_id st) n True qs of
            Inl e \<Rightarrow> (error_result q ''query_expansion'' e, False, st)
          | Inr all \<Rightarrow>
              (let uniq = dedup (md5 E) all; top = top_by_score n uniq in
               (\<lparr>rr_subject = q, rr_method = ''query_expansion'', rr_contexts = top,
                 rr_thinking = Some (''Original query: '' @ q @ nl @ nl @ ''Expanded queries:'' @ nl @
                   numbered_lines qs @
                   nl @ ''Retrieved '' @ string_of_nat (length all) @ '' total contexts, deduplicated to '' @
                   string_of_nat (length uniq) @ '' unique contexts.'' @
                   nl @ ''Selected top '' @ string_of_nat (length top) @ '' contexts based on relevance score.''),
                 rr_error = None, rr_extra = None\<rparr>, True, st))) st"

subsection \<open>Hypothetical document embedding\<close>

definition generate_hypothetical_document :: "env \<Rightarrow> string \<Rightarrow> string" where
  "generate_hypothetical_document E q =
     (case invoke E (HydePrompt q) 4000 (1 / 5) of Inl e \<Rightarrow> q | Inr text \<Rightarrow> py_strip text)"

definition hyde_retrieval :: "env \<Rightarrow> time \<Rightarrow> string \<Rightarrow> nat \<Rightarrow> retriever \<Rightarrow> retrieval_result \<times> retriever" where
  "hyde_retrieval E now q n st =
     cached now (method_key E q n ''hyde'')
       (\<lambda>st. let doc = generate_hypothetical_document E q;
                 th = ''Original query: '' @ q @ nl @ nl @
                      ''Generated hypothetical document to use for retrieval:'' @ nl @ doc @ nl in
          case retrieve E (kb_id st) doc n of
            Inl e \<Rightarrow> (error_result q ''hyde'' e, False, st)
          | Inr items \<Rightarrow>
              (let cs = map (to_context None) items in
               (\<lparr>rr_subject = q, rr_method = ''hyde'', rr_contexts = cs,
                 rr_thinking = Some (th @ nl @ ''Retrieved '' @ string_of_nat (length cs) @
                                     '' contexts using the hypothetical document.''),
                 rr_error = None, rr_extra = Some doc\<rparr>, True, st))) st"

subsection \<open>Multi-strategy retrieval\<close>

definition strategy_section :: "retrieval_result \<Rightarrow> string" where
  "strategy_section r =
     (case rr_thinking r of
        Some t \<Rightarrow> t @ nl @ nl
      | None \<Rightarrow> ''Retrieved '' @ string_of_nat (length (rr_contexts r)) @ '' results'' @ nl @ nl)"

definition multi_strategy_retrieval ::
  "env \<Rightarrow> time \<Rightarrow> string \<Rightarrow> nat \<Rightarrow> retriever \<Rightarrow> retrieval_result \<times> retriever" where
  "multi_strategy_retrieval E now q n st =
     cached now (method_key E q n ''multi'')
       (\<lambda>st0. let k = max 2 (n div 3);
                  (r1, st1) = standard_query E now q k st0;
                  (r2, st2) = query_expansion E now q k st1;
                  (r3, st3) = hyde_retrieval E now q k st2;
                  all = rr_contexts r1 @ rr_contexts r2 @ rr_contexts r3;
                  uniq = dedup (md5 E) all;
                  top = top_by_score n uniq
              in (\<lparr>rr_subject = q, rr_method = ''multi_strategy'', rr_contexts = top,
                   rr_thinking = Some (''# Multi-Strategy Retrieval Process'' @ nl @ nl @
                     ''Query: '' @ q @ nl @ nl @
                     ''## Standard Retrieval'' @ nl @
                     ''Retrieved '' @ string_of_nat (length (rr_contexts r1)) @ '' results'' @ nl @ nl @
                     ''## Query Expansion'' @ nl @ strategy_section r2 @
                     ''## Hypothetical Document Embedding (HyDE)'' @ nl @ strategy_section r3 @
                     ''## Aggregation Results'' @ nl @
                     ''Combined '' @ string_of_nat (length all) @ '' total contexts from all methods'' @ nl @
                     ''After deduplication: '' @ string_of_nat (length uniq) @ '' unique contexts'' @ nl @
                     ''Final selection: '' @ string_of_nat (length top) @ '' top contexts by relevance score'' @ nl),
                   rr_error = None, rr_extra = None\<rparr>, True, st3)) st"

subsection \<open>Relationship retrieval\<close>

definition relationship_queries :: "string \<Rightarrow> string list" where
  "relationship_queries t =
     [''relationships of '' @ t @ '' table'', t @ '' foreign keys'', ''tables that reference '' @ t,
      t @ '' primary key'', t @ '' table schema relationships'']"

definition context_texts_of :: "retrieved_context list \<Rightarrow> string list" where
  "context_texts_of cs = map content (filter (\<lambda>c. content c \<noteq> []) cs)"

definition ctx_sep :: string where
  "ctx_sep = nl @ nl @ ''---'' @ nl @ nl"

definition generate_relationship_analysis :: "env \<Rightarrow> string \<Rightarrow> retrieved_context list \<Rightarrow> string" where
  "generate_relationship_analysis E t cs =
     (case invoke E (RelationshipPrompt t (py_join ctx_sep (context_texts_of cs))) 4000 (1 / 5) of
        Inl e \<Rightarrow> ''Error generating relationship analysis: '' @ e
      | Inr r \<Rightarrow> py_strip r)"

definition relationship_retrieval ::
  "env \<Rightarrow> time \<Rightarrow> string \<Rightarrow> nat \<Rightarrow> retriever \<Rightarrow> retrieval_result \<times> retriever" where
  "relationship_retrieval E now t n st =
     cached now (method_key E t n ''relationship'')
       (\<lambda>st. let qs = relationship_queries t in
          case fetch_all E (kb_id st) (n div length qs + 1) True qs of
            Inl e \<Rightarrow> (error_result t ''relationship'' e, False, st)
          | Inr all \<Rightarrow>
              (let uniq = dedup (md5 E) all; top = top_by_score n uniq in
               (\<lparr>rr_subject = t, rr_method = ''relationship'', rr_contexts = top,
                 rr_thinking = Some (''Retrieving relationship information for table: '' @ t @ nl @ nl @
                   ''Generated specialized queries:'' @ nl @ numbered_lines qs @
                   nl @ ''Retrieved '' @ string_of_nat (length all) @ '' total contexts, deduplicated to '' @
                   string_of_nat (length uniq) @ '' unique contexts.'' @
                   nl @ ''Selected top '' @ string_of_nat (length top) @ '' contexts based on relevance score.''),
                 rr_error = None, rr_extra = Some (generate_relationship_analysis E t top)\<rparr>, True, st))) st"

subsection \<open>SQL optimisation\<close>

text \<open>\<open>re.findall(r'(?:FROM|JOIN)\s+(\w+)', sql_query, re.IGNORECASE)\<close>: at each
  position, a keyword (any case), at least one white-space character and at least one
  word character; a match resumes the scan after the word, a failure one character on.
  \<open>table_match\<close> returns the word and the length of the match.\<close>

definition table_match :: "string \<Rightarrow> (string \<times> nat) option" where
  "table_match s =
     (if py_lower (take 4 s) \<in> {''from'', ''join''} then
        (let r = drop 4 s; ws = takeWhile py_isspace r; r' = dropWhile py_isspace r;
             w = takeWhile py_isword r'
         in if ws = [] \<or> w = [] then None else Some (w, 4 + length ws + length w))
      else None)"

function find_tables :: "string \<Rightarrow> string list" where
  "find_tables s =
     (if s = [] then []
      else case table_match s of
             Some (w, k) \<Rightarrow> w # find_tables (drop k s)
           | None \<Rightarrow> find_tables (tl s))"
  by pat_completeness auto
termination
proof (relation "measure length")
  show "wf (measure length)" by simp
next
  fix s p w k
  assume "s \<noteq> []" "table_match s = Some p" "(w, k) = p"
  then have "0 < k" by (auto simp: table_match_def Let_def split: if_splits)
  with \<open>s \<noteq> []\<close> show "(drop k s, s) \<in> measure length" by simp
next
  fix s
  assume "s \<noteq> []" "table_match s = None"
  then show "(tl s, s) \<in> measure length" by simp
qed

declare find_tables.simps [simp del]

definition table_queries :: "string \<Rightarrow> string list" where
  "table_queries t = [t @ '' schema columns indexes'', t @ '' table structure'', t @ '' primary key and indexes'']"

definition generate_sql_optimization :: "env \<Rightarrow> string \<Rightarrow> retrieved_context list \<Rightarrow> string" where
  "generate_sql_optimization E sql cs =
     (case invoke E (SqlOptimizationPrompt sql (py_join ctx_sep (context_texts_of cs))) 3000 (1 / 5) of
        Inl e \<Rightarrow> ''Error generating SQL optimization recommendations: '' @ e
      | Inr r \<Rightarrow> py_strip r)"

definition optimize_sql_query :: "env \<Rightarrow> time \<Rightarrow> string \<Rightarrow> retriever \<Rightarrow> retrieval_result \<times> retriever" where
  "optimize_sql_query E now sql st =
     cached now (method_key E sql 5 ''optimize'')
       (\<lambda>st. let tables = find_tables sql;
                 th0 = ''Extracting tables from SQL query:'' @ nl @ sql @ nl @ nl @
                       ''Identified tables: '' @ py_join '', '' tables @ nl @ nl @
                       concat (map (\<lambda>t. ''Retrieving schema information for table: '' @ t @ nl) tables) @
                       ''Retrieving relevant query patterns and optimization information'' @ nl
          in case fetch_all E (kb_id st) 3 False (concat (map table_queries tables)) of
               Inl e \<Rightarrow> (error_result sql ''sql_optimization'' e, False, st)
             | Inr tcs \<Rightarrow>
                 (case fetch_all E (kb_id st) 5 False [''SQL query optimization for: '' @ take 100 sql @ ''...''] of
                    Inl e \<Rightarrow> (error_result sql ''sql_optimization'' e, False, st)
                  | Inr ocs \<Rightarrow>
                      (let all = tcs @ ocs; top = top_by_score 10 (dedup (md5 E) all) in
                       (\<lparr>rr_subject = sql, rr_method = ''sql_optimization'', rr_contexts = top,
                         rr_thinking = Some (th0 @ ''Retrieved '' @ string_of_nat (length all) @
                           '' total contexts, deduplicated to '' @ string_of_nat (length top) @
                           '' contexts for analysis.'' @ nl),
                         rr_error = None, rr_extra = Some (generate_sql_optimization E sql top)\<rparr>, True, st))))
       st"

subsection \<open>Answer generation\<close>

definition get_relevant_corrections :: "string \<Rightarrow> string" where
  "get_relevant_corrections q = []"

definition generate_answer_from_contexts :: "env \<Rightarrow> string \<Rightarrow> string list \<Rightarrow> string" where
  "generate_answer_from_contexts E q texts =
     (if texts = [] then
        ''I couldn'' @ sq @ ''t find relevant information in the database knowledge base for your query: '' @
        sq @ q @ sq @ ''. Please try rephrasing your question or check if the topic is covered in the documentation.''
      else
        (let corr = get_relevant_corrections q;
             combined0 = py_join ctx_sep (take 10 texts);
             combined = (if corr \<noteq> [] then combined0 @ nl @ nl @ ''--- USER CORRECTIONS ---'' @ nl @ nl @ corr
                         else combined0)
         in case invoke E (AnswerPrompt q combined) 4000 (1 / 5) of
              Inr r \<Rightarrow>
                (if py_strip r \<noteq> [] then py_strip r
                 else ''I found relevant documentation but couldn'' @ sq @
                      ''t generate a proper response. The retrieved information contains: '' @
                      take 1000 combined @ ''...'')
            | Inl e \<Rightarrow>
                ''Based on the database documentation, here'' @ sq @ ''s what I found for your query '' @
                sq @ q @ sq @ '':'' @ nl @ nl @ take 2000 (hd texts) @ ''...''))"

text \<open>The dict \<open>advanced_rag_query\<close> returns: answer, thinking, retrieved contexts.\<close>

record rag_answer =
  answer :: string
  thinking :: string
  retrieved_contexts :: "string list"

definition advanced_rag_query :: "env \<Rightarrow> time \<Rightarrow> string \<Rightarrow> bool \<Rightarrow> retriever \<Rightarrow> rag_answer \<times> retriever" where
  "advanced_rag_query E now q ext st =
     (let (r, st') = multi_strategy_retrieval E now q 8 st;
          texts = map (\<lambda>c. py_strip (content c)) (filter (\<lambda>c. content c \<noteq> []) (rr_contexts r));
          th = (case rr_thinking r of None \<Rightarrow> [] | Some t \<Rightarrow> t)
      in (\<lparr>answer = generate_answer_from_contexts E q texts, thinking = (if ext then th else []),
            retrieved_contexts = texts\<rparr>, st'))"

subsection \<open>Example environments\<close>

definition env_ex :: "string \<Rightarrow> env" where
  "env_ex bad = \<lparr>md5 = (\<lambda>s. s),
     retrieve = (\<lambda>kb q k. if q = bad then Inl ''ReadTimeoutError'' else Inr []),
     invoke = (\<lambda>p t temp. Inl ''ThrottlingException'')\<rparr>"

definition retriever_ex :: retriever where
  "retriever_ex = \<lparr>kb_id = ''KB1'',
     cache = [method_key (env_ex ''x'') ''orders'' 5 ''standard'' \<mapsto>
               \<lparr>cached_result = error_result ''orders'' ''standard'' ''stale'', timestamp = 0\<rparr>],
     cache_ttl = 3600\<rparr>"

definition env_para :: env where
  "env_para = \<lparr>md5 = (\<lambda>s. s),
     retrieve = (\<lambda>kb q k. if q = ''orders'' then Inl ''ReadTimeoutError''
                          else Inr [\<lparr>item_text = Some ''orders table'', item_uri = None, item_score = Some (9/10)\<rparr>]),
     invoke = (\<lambda>p t temp. Inr ''list all orders'')\<rparr>"

subsection \<open>Properties of the strategies\<close>

lemma cached_hit:
  "cache_lookup (cache st) (cache_ttl st) now k = Some r \<Longrightarrow> cached now k f st = (r, st)"
  by (simp add: cached_def with_cache_hit)

lemma cached_miss:
  "cache_lookup (cache st) (cache_ttl st) now k = None \<Longrightarrow>
   cached now k f st =
     (let (r, keep, st') = f st in (r, if keep then st'\<lparr>cache := cache_store (cache st') k r now\<rparr> else st'))"
  by (simp add: cached_def with_cache_miss)

lemma new_retriever_lookup [simp]: "cache_lookup (cache (new_retriever kb)) ttl now k = None"
  by (simp add: new_retriever_def cache_lookup_def)

lemma expanded_queries_mem: "q \<in> set (generate_expanded_queries E q)"
  by (auto simp: generate_expanded_queries_def Let_def split: sum.splits)

lemma fetch_all_fails:
  "q \<in> set qs \<Longrightarrow> retrieve E kb q k = Inl e \<Longrightarrow> \<exists>e'. fetch_all E kb k tag qs = Inl e'"
proof (induction qs)
  case Nil
  then show ?case by simp
next
  case (Cons a qs)
  show ?case
  proof (cases "a = q")
    case True
    with Cons.prems show ?thesis by simp
  next
    case False
    with Cons.prems obtain e' where "fetch_all E kb k tag qs = Inl e'" using Cons.IH by auto
    then show ?thesis by (cases "retrieve E kb a k") auto
  qed
qed

text \<open>Every table name the optimizer's FROM/JOIN scanner extracts is a non-empty run of word characters.\<close>
lemma find_tables_words:
  "list_all (\<lambda>t. t \<noteq> [] \<and> list_all py_isword t) (find_tables s)"
proof (induction s rule: find_tables.induct)
  case (1 s)
  show ?case
  proof (cases "s = []")
    case True
    then show ?thesis by (simp add: find_tables.simps)
  next
    case False
    show ?thesis
    proof (cases "table_match s")
      case None
      from "1.IH" False None have "list_all (\<lambda>t. t \<noteq> [] \<and> list_all py_isword t) (find_tables (tl s))"
        by blast
      with False None show ?thesis by (simp add: find_tables.simps [of s])
    next
      case (Some p)
      obtain w k where p: "p = (w, k)" by (cases p)
      with Some have "w \<noteq> [] \<and> list_all py_isword w"
        by (auto simp: table_match_def Let_def list_all_iff split: if_splits dest: set_takeWhileD)
      moreover from "1.IH" False Some p have "list_all (\<lambda>t. t \<noteq> [] \<and> list_all py_isword t) (find_tables (drop k s))"
        by blast
      ultimately show ?thesis using False Some p by (simp add: find_tables.simps [of s])
    qed
  qed
qed

lemma find_tables_example:
  "find_tables ''SELECT o.id FROM orders o JOIN customers c ON o.cid = c.id'' = [''orders'', ''customers'']"
  by code_simp

text \<open>The FROM/JOIN scanner has no word boundary before the keyword: in ''SELECT valid_from d FROM orders'' it reads the column suffix ''from'' as a keyword and reports the alias d as a table.\<close>
lemma find_tables_from_inside_word:
  "find_tables ''SELECT valid_from d FROM orders'' = [''d'', ''orders'']"
  by code_simp

lemma answer_nonempty: "generate_answer_from_contexts E q texts \<noteq> []"
  by (auto simp: generate_answer_from_contexts_def Let_def split: sum.splits)

text \<open>advanced_rag_query always returns a non-empty answer, whatever the provider and the generator do: every failure of the generator falls back to a text.\<close>
theorem rag_answer_nonempty: "answer (fst (advanced_rag_query E now q ext st)) \<noteq> []"
  by (auto simp: advanced_rag_query_def answer_nonempty Let_def split: prod.splits)

lemma standard_miss_fail:
  "cache_lookup (cache st) (cache_ttl st) now (method_key E q n ''standard'') = None \<Longrightarrow>
   retrieve E (kb_id st) q n = Inl e \<Longrightarrow>
   standard_query E now q n st =
     (\<lparr>rr_subject = q, rr_method = ''standard (mock fallback)'', rr_contexts = [mock_context q e],
       rr_thinking = None, rr_error = Some e, rr_extra = None\<rparr>, st)"
  by (simp add: standard_query_def cached_miss)

lemma expansion_miss_fail:
  assumes "cache_lookup (cache st) (cache_ttl st) now (method_key E q n ''expansion'') = None"
    and "retrieve E (kb_id st) q n = Inl e"
  shows "\<exists>e'. query_expansion E now q n st = (error_result q ''query_expansion'' e', st)"
proof -
  obtain e' where "fetch_all E (kb_id st) n True (generate_expanded_queries E q) = Inl e'"
    using fetch_all_fails [OF expanded_queries_mem assms(2)] by blast
  then show ?thesis
    using assms(1) by (simp add: query_expansion_def cached_miss) blast
qed

lemma hyde_frame:
  "kb_id (snd (hyde_retrieval E now q n st)) = kb_id st \<and>
   cache_ttl (snd (hyde_retrieval E now q n st)) = cache_ttl st"
  by (auto simp: hyde_retrieval_def cached_def with_cache_def Let_def split: option.splits sum.splits)

lemma standard_frame:
  "kb_id (snd (standard_query E now q n st)) = kb_id st \<and>
   cache_ttl (snd (standard_query E now q n st)) = cache_ttl st"
  by (auto simp: standard_query_def cached_def with_cache_def Let_def split: option.splits sum.splits)

lemma expansion_frame:
  "kb_id (snd (query_expansion E now q n st)) = kb_id st \<and>
   cache_ttl (snd (query_expansion E now q n st)) = cache_ttl st"
  by (auto simp: query_expansion_def cached_def with_cache_def Let_def split: option.splits sum.splits)

lemma multi_miss_stores:
  assumes miss: "cache_lookup (cache st) (cache_ttl st) t (method_key E q n ''multi'') = None"
    and run: "multi_strategy_retrieval E t q n st = (r, st')"
  shows "cache st' (method_key E q n ''multi'') = Some \<lparr>cached_result = r, timestamp = t\<rparr> \<and>
    cache_ttl st' = cache_ttl st"
proof -
  let ?k = "max 2 (n div 3)"
  obtain r1 st1 where 1: "standard_query E t q ?k st = (r1, st1)" by fastforce
  obtain r2 st2 where 2: "query_expansion E t q ?k st1 = (r2, st2)" by fastforce
  obtain r3 st3 where 3: "hyde_retrieval E t q ?k st2 = (r3, st3)" by fastforce
  have ttl: "cache_ttl st3 = cache_ttl st"
    using standard_frame [of E t q ?k st] expansion_frame [of E t q ?k st1]
      hyde_frame [of E t q ?k st2] 1 2 3 by simp
  from run miss 1 2 3 have "st' = st3\<lparr>cache := cache_store (cache st3) (method_key E q n ''multi'') r t\<rparr>"
    by (auto simp: multi_strategy_retrieval_def cached_miss Let_def)
  with ttl show ?thesis by (simp add: cache_store_def)
qed

lemma cached_fresh_hit:
  "cache st k = Some \<lparr>cached_result = r, timestamp = t1\<rparr> \<Longrightarrow> t2 - t1 < cache_ttl st \<Longrightarrow>
   cached t2 k f st = (r, st)"
  by (simp add: cached_hit cache_lookup_def)

lemma multi_rerun_hits:
  assumes "cache_lookup (cache st) (cache_ttl st) t1 (method_key E q n ''multi'') = None"
    and "multi_strategy_retrieval E t1 q n st = (r, st')"
    and "md5 E' = md5 E" and "t2 - t1 < cache_ttl st"
  shows "multi_strategy_retrieval E' t2 q n st' = (r, st')"
proof -
  have k: "method_key E' q n ''multi'' = method_key E q n ''multi''"
    using assms(3) by (simp add: method_key_def)
  from multi_miss_stores [OF assms(1,2)] assms(4) show ?thesis
    unfolding multi_strategy_retrieval_def k by (intro cached_fresh_hit) auto
qed

lemma advanced_rag_query_parts:
  "snd (advanced_rag_query E now q ext st) = snd (multi_strategy_retrieval E now q 8 st)"
  "retrieved_contexts (fst (advanced_rag_query E now q ext st)) =
     map (\<lambda>c. py_strip (content c)) (filter (\<lambda>c. content c \<noteq> []) (rr_contexts (fst (multi_strategy_retrieval E now q 8 st))))"
  by (simp_all add: advanced_rag_query_def Let_def split: prod.splits)

text \<open>C13: a multi-strategy retrieval that missed the cache stores its result, so a second call with the same query and count within the TTL returns exactly that result and leaves the retriever unchanged, whatever the provider does in between.\<close>
theorem multi_second_call_hits:
  assumes "cache_lookup (cache st) (cache_ttl st) t1 (method_key E q n ''multi'') = None"
    and "multi_strategy_retrieval E t1 q n st = (r, st')"
    and "md5 E' = md5 E" and "t2 - t1 < cache_ttl st"
  shows "multi_strategy_retrieval E' t2 q n st' = (r, st')"
  by (rule multi_rerun_hits [OF assms])

theorem multi_second_call_hits_witness:
  "cache_lookup (cache (new_retriever ''KB1'')) (cache_ttl (new_retriever ''KB1'')) 0
      (method_key (env_ex ''x'') ''orders'' 8 ''multi'') = None \<and>
   multi_strategy_retrieval (env_ex ''x'') 0 ''orders'' 8 (new_retriever ''KB1'') =
     (fst (multi_strategy_retrieval (env_ex ''x'') 0 ''orders'' 8 (new_retriever ''KB1'')),
      snd (multi_strategy_retrieval (env_ex ''x'') 0 ''orders'' 8 (new_retriever ''KB1''))) \<and>
   md5 (env_ex ''orders'') = md5 (env_ex ''x'') \<and> 10 - 0 < cache_ttl (new_retriever ''KB1'') \<and>
   multi_strategy_retrieval (env_ex ''orders'') 10 ''orders'' 8
       (snd (multi_strategy_retrieval (env_ex ''x'') 0 ''orders'' 8 (new_retriever ''KB1''))) =
     (fst (multi_strategy_retrieval (env_ex ''x'') 0 ''orders'' 8 (new_retriever ''KB1'')),
      snd (multi_strategy_retrieval (env_ex ''x'') 0 ''orders'' 8 (new_retriever ''KB1'')))"
proof -
  let ?run = "multi_strategy_retrieval (env_ex ''x'') 0 ''orders'' 8 (new_retriever ''KB1'')"
  have h1: "cache_lookup (cache (new_retriever ''KB1'')) (cache_ttl (new_retriever ''KB1'')) 0
      (method_key (env_ex ''x'') ''orders'' 8 ''multi'') = None" by simp
  have h2: "?run = (fst ?run, snd ?run)" by simp
  have h3: "md5 (env_ex ''orders'') = md5 (env_ex ''x'')" by (simp add: env_ex_def)
  have h4: "(10::int) - 0 < cache_ttl (new_retriever ''KB1'')" by (simp add: new_retriever_def)
  show ?thesis using h1 h2 h3 h4 multi_second_call_hits [OF h1 h2 h3 h4] by blast
qed

lemma hyde_scores_le:
  assumes "cache_lookup (cache st) (cache_ttl st) now (method_key E q n ''hyde'') = None"
    and "\<forall>q' k' items. retrieve E (kb_id st) q' k' = Inr items \<longrightarrow>
           list_all (\<lambda>it. score (to_context None it) \<le> 1) items"
  shows "\<forall>c \<in> set (rr_contexts (fst (hyde_retrieval E now q n st))). score c \<le> 1"
  using assms
  by (auto simp: hyde_retrieval_def cached_miss Let_def error_result_def list_all_iff
      split: sum.splits)

text \<open>C12: when the provider fails the standard sub-query of a fresh multi-strategy retrieval and its own scores are at most 1, the mock fallback context of standard_query (score 1.0) ranks first among the merged contexts, and this degraded result is cached under the multi key at the current time, so it is served for the whole TTL.\<close>
theorem multi_ranks_failed_standard_first:
  assumes fail: "retrieve E kb q (max 2 (n div 3)) = Inl e"
    and scores: "\<forall>q' k' items. retrieve E kb q' k' = Inr items \<longrightarrow>
                   list_all (\<lambda>it. score (to_context None it) \<le> 1) items"
    and n: "0 < n"
  shows "hd (rr_contexts (fst (multi_strategy_retrieval E now q n (new_retriever kb)))) = mock_context q e \<and>
    cache (snd (multi_strategy_retrieval E now q n (new_retriever kb))) (method_key E q n ''multi'') =
      Some \<lparr>cached_result = fst (multi_strategy_retrieval E now q n (new_retriever kb)), timestamp = now\<rparr>"
proof -
  let ?k = "max 2 (n div 3)" and ?st0 = "new_retriever kb"
  have kb: "kb_id ?st0 = kb" by (simp add: new_retriever_def)
  have 1: "standard_query E now q ?k ?st0 =
     (\<lparr>rr_subject = q, rr_method = ''standard (mock fallback)'', rr_contexts = [mock_context q e],
       rr_thinking = None, rr_error = Some e, rr_extra = None\<rparr>, ?st0)"
    using fail kb by (intro standard_miss_fail) simp_all
  obtain e' where 2: "query_expansion E now q ?k ?st0 = (error_result q ''query_expansion'' e', ?st0)"
    using expansion_miss_fail [of ?st0 now E q ?k e] fail kb by auto
  obtain r3 st3 where 3: "hyde_retrieval E now q ?k ?st0 = (r3, st3)" by fastforce
  have s3: "\<forall>c \<in> set (rr_contexts r3). score c \<le> 1"
    using hyde_scores_le [of ?st0 now E q ?k] scores kb 3 by simp
  let ?all = "mock_context q e # rr_contexts r3"
  have ctxs: "rr_contexts (fst (multi_strategy_retrieval E now q n ?st0)) =
              top_by_score n (dedup (md5 E) ?all)"
    by (simp add: multi_strategy_retrieval_def cached_miss Let_def 1 2 3 error_result_def)
  have mock_max: "\<forall>c \<in> set (rr_contexts r3). score c \<le> score (mock_context q e)"
    using s3 by (simp add: mock_context_def)
  then have d: "dedup (md5 E) ?all \<noteq> [] \<and> hd (dedup (md5 E) ?all) = mock_context q e"
    by (rule hd_dedup_max)
  then have split: "dedup (md5 E) ?all = mock_context q e # tl (dedup (md5 E) ?all)"
    by (metis list.collapse)
  have "set (tl (dedup (md5 E) ?all)) \<subseteq> set ?all"
  proof -
    have "set (tl (dedup (md5 E) ?all)) \<subseteq> set (dedup (md5 E) ?all)"
      by (cases "dedup (md5 E) ?all") auto
    with set_dedup_subset [of "md5 E" ?all] show ?thesis by blast
  qed
  then have "\<forall>c \<in> set (tl (dedup (md5 E) ?all)). score c \<le> score (mock_context q e)"
    using mock_max by auto
  then have "hd (top_by_score n (dedup (md5 E) ?all)) = mock_context q e"
    using n by (subst split) (rule hd_top_by_score_max)
  moreover have "cache (snd (multi_strategy_retrieval E now q n ?st0)) (method_key E q n ''multi'') =
      Some \<lparr>cached_result = fst (multi_strategy_retrieval E now q n ?st0), timestamp = now\<rparr>"
    using multi_miss_stores [of ?st0 now E q n] by simp
  ultimately show ?thesis using ctxs by simp
qed

theorem multi_ranks_failed_standard_first_witness:
  "retrieve (env_ex ''orders'') ''KB1'' ''orders'' (max 2 (8 div 3)) = Inl ''ReadTimeoutError'' \<and>
   (\<forall>q' k'. case retrieve (env_ex ''orders'') ''KB1'' q' k' of Inl e \<Rightarrow> True
      | Inr items \<Rightarrow> list_all (\<lambda>it. score (to_context None it) \<le> 1) items) \<and> (0::nat) < 8 \<and>
   hd (rr_contexts (fst (multi_strategy_retrieval (env_ex ''orders'') 0 ''orders'' 8 (new_retriever ''KB1'')))) =
     mock_context ''orders'' ''ReadTimeoutError'' \<and>
   cache (snd (multi_strategy_retrieval (env_ex ''orders'') 0 ''orders'' 8 (new_retriever ''KB1'')))
       (method_key (env_ex ''orders'') ''orders'' 8 ''multi'') =
     Some \<lparr>cached_result = fst (multi_strategy_retrieval (env_ex ''orders'') 0 ''orders'' 8 (new_retriever ''KB1'')),
           timestamp = 0\<rparr>"
proof -
  have f: "retrieve (env_ex ''orders'') ''KB1'' ''orders'' (max 2 (8 div 3)) = Inl ''ReadTimeoutError''"
    by (simp add: env_ex_def)
  have s: "\<forall>q' k' items. retrieve (env_ex ''orders'') ''KB1'' q' k' = Inr items \<longrightarrow>
      list_all (\<lambda>it. score (to_context None it) \<le> 1) items"
    by (simp add: env_ex_def)
  have n: "(0::nat) < 8" by simp
  have s': "\<forall>q' k'. case retrieve (env_ex ''orders'') ''KB1'' q' k' of Inl e \<Rightarrow> True
      | Inr items \<Rightarrow> list_all (\<lambda>it. score (to_context None it) \<le> 1) items"
    by (simp add: env_ex_def)
  show ?thesis using f s' n multi_ranks_failed_standard_first [OF f s n] by blast
qed

text \<open>A standard query whose cached entry is at least cache_ttl seconds old asks the provider again, returns its items as contexts, and refreshes the entry with the current time.\<close>
theorem standard_query_refetches_after_ttl:
  assumes "cache st (method_key E q n ''standard'') = Some e"
    and "cache_ttl st \<le> now - timestamp e"
    and "retrieve E (kb_id st) q n = Inr items"
  shows "rr_contexts (fst (standard_query E now q n st)) = map (to_context None) items \<and>
    cache (snd (standard_query E now q n st)) (method_key E q n ''standard'') =
      Some \<lparr>cached_result = fst (standard_query E now q n st), timestamp = now\<rparr>"
proof -
  have "cache_lookup (cache st) (cache_ttl st) now (method_key E q n ''standard'') = None"
    using assms(1,2) by (rule cache_lookup_expired)
  with assms(3) show ?thesis
    by (simp add: standard_query_def cached_miss cache_store_def)
qed

theorem standard_query_refetches_after_ttl_witness:
  "cache retriever_ex (method_key (env_ex ''x'') ''orders'' 5 ''standard'') =
     Some \<lparr>cached_result = error_result ''orders'' ''standard'' ''stale'', timestamp = 0\<rparr> \<and>
   cache_ttl retriever_ex \<le> 4000 - timestamp \<lparr>cached_result = error_result ''orders'' ''standard'' ''stale'', timestamp = 0\<rparr> \<and>
   retrieve (env_ex ''x'') (kb_id retriever_ex) ''orders'' 5 = Inr [] \<and>
   rr_contexts (fst (standard_query (env_ex ''x'') 4000 ''orders'' 5 retriever_ex)) = map (to_context None) [] \<and>
   cache (snd (standard_query (env_ex ''x'') 4000 ''orders'' 5 retriever_ex)) (method_key (env_ex ''x'') ''orders'' 5 ''standard'') =
     Some \<lparr>cached_result = fst (standard_query (env_ex ''x'') 4000 ''orders'' 5 retriever_ex), timestamp = 4000\<rparr>"
proof -
  have a: "cache retriever_ex (method_key (env_ex ''x'') ''orders'' 5 ''standard'') =
     Some \<lparr>cached_result = error_result ''orders'' ''standard'' ''stale'', timestamp = 0\<rparr>"
    by (simp add: retriever_ex_def)
  have b: "cache_ttl retriever_ex \<le> 4000 - timestamp \<lparr>cached_result = error_result ''orders'' ''standard'' ''stale'', timestamp = 0\<rparr>"
    by (simp add: retriever_ex_def)
  have c: "retrieve (env_ex ''x'') (kb_id retriever_ex) ''orders'' 5 = Inr []"
    by (simp add: env_ex_def retriever_ex_def)
  show ?thesis using a b c standard_query_refetches_after_ttl [OF a b c] by blast
qed

text \<open>C14: when query expansion misses its cache and the retrieval of the original query
  fails, it returns an error result with no contexts and stores nothing, discarding the
  results of every paraphrase that succeeded.\<close>
theorem expansion_failure_discards_paraphrases:
  assumes "cache_lookup (cache st) (cache_ttl st) now (method_key E q n ''expansion'') = None"
    and "retrieve E (kb_id st) q n = Inl e"
  shows "rr_contexts (fst (query_expansion E now q n st)) = [] \<and>
    rr_error (fst (query_expansion E now q n st)) \<noteq> None \<and> snd (query_expansion E now q n st) = st"
  using expansion_miss_fail [OF assms] by (auto simp: error_result_def)

theorem expansion_failure_discards_paraphrases_witness:
  "cache_lookup (cache (new_retriever ''KB1'')) (cache_ttl (new_retriever ''KB1'')) 0
      (method_key env_para ''orders'' 5 ''expansion'') = None \<and>
   retrieve env_para (kb_id (new_retriever ''KB1'')) ''orders'' 5 = Inl ''ReadTimeoutError'' \<and>
   rr_contexts (fst (query_expansion env_para 0 ''orders'' 5 (new_retriever ''KB1''))) = [] \<and>
   rr_error (fst (query_expansion env_para 0 ''orders'' 5 (new_retriever ''KB1''))) \<noteq> None \<and>
   snd (query_expansion env_para 0 ''orders'' 5 (new_retriever ''KB1'')) = new_retriever ''KB1''"
proof -
  have a: "cache_lookup (cache (new_retriever ''KB1'')) (cache_ttl (new_retriever ''KB1'')) 0
      (method_key env_para ''orders'' 5 ''expansion'') = None"
    by simp
  have b: "retrieve env_para (kb_id (new_retriever ''KB1'')) ''orders'' 5 = Inl ''ReadTimeoutError''"
    by (simp add: env_para_def new_retriever_def)
  show ?thesis using a b expansion_failure_discards_paraphrases [OF a b] by blast
qed

text \<open>A multi-strategy retrieval computed on a cache miss returns its contexts in descending score order and at most num_results of them.\<close>
theorem multi_miss_ranked:
  assumes "cache_lookup (cache st) (cache_ttl st) now (method_key E q n ''multi'') = None"
  shows "desc_by_score (rr_contexts (fst (multi_strategy_retrieval E now q n st))) \<and>
    length (rr_contexts (fst (multi_strategy_retrieval E now q n st))) \<le> n"
  using assms
  by (auto simp: multi_strategy_retrieval_def cached_miss Let_def top_by_score_def
      desc_by_score_take_sort split: prod.splits)

theorem multi_miss_ranked_witness:
  "cache_lookup (cache (new_retriever ''KB1'')) (cache_ttl (new_retriever ''KB1'')) 0
      (method_key env_para ''orders'' 8 ''multi'') = None \<and>
   desc_by_score (rr_contexts (fst (multi_strategy_retrieval env_para 0 ''orders'' 8 (new_retriever ''KB1'')))) \<and>
   length (rr_contexts (fst (multi_strategy_retrieval env_para 0 ''orders'' 8 (new_retriever ''KB1'')))) \<le> 8"
proof -
  have a: "cache_lookup (cache (new_retriever ''KB1'')) (cache_ttl (new_retriever ''KB1'')) 0
      (method_key env_para ''orders'' 8 ''multi'') = None" by simp
  show ?thesis using a multi_miss_ranked [OF a] by blast
qed

end
