(* ===== verification/Merger.thy ===== *)
theory Merger
  imports Router Strategies
begin

text \<open>
  The query endpoints of src/app.py and the client factory of src/utils/retrieval.py.
  \<open>multi_kb_query\<close> resolves its targets (explicit \<open>queryTargets\<close>, or the router over
  the application's knowledge bases), builds a fresh retrieval client per target with
  \<open>create_retrieval_client\<close>, runs \<open>advanced_rag_query\<close> on each, and merges the
  results: the first primary result is the base answer and every secondary one appends a
  200-character excerpt. The legacy path \<open>query_knowledge_base\<close> and the
  \<open>/relationship\<close> and \<open>/optimize\<close> endpoints use the module-global
  \<open>retrieval_client\<close>, created on first use; it is the one piece of state kept
  between requests (\<open>app_state\<close>).

  The process environment (the \<open>application\<close> table read by
  \<open>get_application_kbs\<close>, the variable \<open>KNOWLEDGE_BASE_ID\<close>, the clock and the
  Bedrock capabilities) is the record \<open>menv\<close>. A raised \<open>HTTPException\<close> is \<open>Inl\<close>.
\<close>

subsection \<open>Environment, requests and responses\<close>

record menv =
  renv :: env
  clock :: time
  apps :: "string \<rightharpoonup> app_kbs"
  kb_env :: "string option"

text \<open>\<open>QueryRequest\<close>; of the optional \<open>userContext\<close> only its \<open>application\<close> is read
  (\<open>None\<close> when the request has no user context).\<close>

record query_request =
  query_text :: string
  extended_thinking :: bool
  include_contexts :: bool
  include_thinking :: bool
  user_app :: "string option"
  queryTargets :: "query_target list option"
  queryMode :: "string option"

record api_response =
  resp_answer :: string
  resp_thinking :: "string option"
  resp_contexts :: "string list option"

datatype http_exception = HTTPException nat string

text \<open>\<open>str(e)\<close> of Starlette's \<open>HTTPException\<close> is \<open>"{status_code}: {detail}"\<close>; the
  endpoints' \<open>except Exception as e: raise HTTPException(status_code=500, detail=str(e))\<close>
  re-raises every exception, an \<open>HTTPException\<close> included, as a 500.\<close>

fun str_exc :: "http_exception \<Rightarrow> string" where
  "str_exc (HTTPException c d) = string_of_nat c @ '': '' @ d"

definition wrap_500 :: "http_exception \<Rightarrow> http_exception" where
  "wrap_500 e = HTTPException 500 (str_exc e)"

subsection \<open>Retrieval clients\<close>

datatype client = Advanced retriever | Mock string

text \<open>\<open>AdvancedRetrieval.__init__\<close>: \<open>self.kb_id = kb_id or
  os.environ.get('KNOWLEDGE_BASE_ID')\<close>, a \<open>ValueError\<close> when that is falsy; the
  Bedrock clients are created lazily by boto3 and do not fail here.\<close>

definition advanced_retrieval_init :: "menv \<Rightarrow> string \<Rightarrow> string + retriever" where
  "advanced_retrieval_init M kb =
     (let k = (if kb \<noteq> [] then Some kb else kb_env M) in
      if truthy_opt k then Inr (new_retriever (the k))
      else Inl ''Knowledge Base ID must be provided or set in KNOWLEDGE_BASE_ID environment variable'')"

definition mock_kb :: "string \<Rightarrow> string" where
  "mock_kb kb = (if kb = [] then ''mock-kb-id'' else kb)"

text \<open>\<open>create_retrieval_client(kb_id)\<close>: any exception yields a
  \<open>MockRetrievalClient(kb_id)\<close>.\<close>

definition create_retrieval_client :: "menv \<Rightarrow> string \<Rightarrow> client" where
  "create_retrieval_client M kb =
     (case advanced_retrieval_init M kb of Inl e \<Rightarrow> Mock (mock_kb kb) | Inr st \<Rightarrow> Advanced st)"

text \<open>\<open>get_retrieval_client()\<close> with no argument: the id is
  \<open>os.getenv('KNOWLEDGE_BASE_ID', 'KRD3MW7QFS')\<close>, and the mock is built from the
  argument, \<open>None\<close>.\<close>

definition get_retrieval_client :: "menv \<Rightarrow> client" where
  "get_retrieval_client M =
     (let k = (case kb_env M of None \<Rightarrow> ''KRD3MW7QFS'' | Some v \<Rightarrow> v) in
      case advanced_retrieval_init M k of Inl e \<Rightarrow> Mock ''mock-kb-id'' | Inr st \<Rightarrow> Advanced st)"

definition mock_rag_answer :: "string \<Rightarrow> string \<Rightarrow> rag_answer" where
  "mock_rag_answer k q =
     \<lparr>answer = ''Mock response from KB '' @ k @ '' for query: '' @ sq @ q @ sq @
        ''. This is a test response because the Knowledge Base connection is not available. '' @
        ''Please check your AWS credentials and Knowledge Base configuration.'',
      thinking = ''This is a mock thinking process for KB '' @ k @
        '' because the real Bedrock Knowledge Base is not accessible.'',
      retrieved_contexts =
        [''Mock context 1 from KB '' @ k @ '': Database schema information would appear here'',
         ''Mock context 2 from KB '' @ k @ '': Query examples would appear here'',
         ''Mock context 3 from KB '' @ k @ '': Relationship information would appear here'']\<rparr>"

definition client_rag_query :: "menv \<Rightarrow> client \<Rightarrow> string \<Rightarrow> bool \<Rightarrow> rag_answer \<times> client" where
  "client_rag_query M cl q ext =
     (case cl of
        Advanced st \<Rightarrow> (let (r, st') = advanced_rag_query (renv M) (clock M) q ext st in (r, Advanced st'))
      | Mock k \<Rightarrow> (mock_rag_answer k q, Mock k))"

subsection \<open>Target resolution and fan-out\<close>

text \<open>The targets of \<open>multi_kb_query\<close>: \<open>None\<close> when neither targets nor an
  application are given (the request falls through to \<open>query_knowledge_base\<close>).\<close>

definition has_targets :: "query_request \<Rightarrow> bool" where
  "has_targets req = (case queryTargets req of None \<Rightarrow> False | Some ts \<Rightarrow> ts \<noteq> [])"

definition resolve_targets :: "menv \<Rightarrow> query_request \<Rightarrow> (http_exception + query_target list) option" where
  "resolve_targets M req =
     (if has_targets req then Some (Inr (the (queryTargets req)))
      else if truthy_opt (user_app req) then
        (case apps M (the (user_app req)) of
           None \<Rightarrow> Some (Inl (HTTPException 400 (''Application '' @ sq @ the (user_app req) @ sq @
                               '' not found or has no knowledge bases configured'')))
         | Some kbs \<Rightarrow>
             Some (Inr (classify_query_and_get_targets (query_text req) kbs
               (if truthy_opt (queryMode req) then the (queryMode req) else ''smart''))))
      else None)"

record target_result =
  tr_result :: rag_answer
  source_type :: string
  tr_kb_id :: string
  is_secondary :: bool

text \<open>One iteration of the \<open>for target in targets\<close> loop: a new client per target,
  whose state (its cache) is dropped after the call.\<close>

definition query_target_kb :: "menv \<Rightarrow> string \<Rightarrow> bool \<Rightarrow> query_target \<Rightarrow> target_result" where
  "query_target_kb M q ext t =
     \<lparr>tr_result = fst (client_rag_query M (create_retrieval_client M (kbId t)) q ext),
      source_type = target_type t, tr_kb_id = kbId t, is_secondary = (secondary t = Some True)\<rparr>"

definition secondary_info :: "target_result list \<Rightarrow> string" where
  "secondary_info secs =
     nl @ nl @ ''**Related Information:**'' @ nl @
     concat (map (\<lambda>s. nl @ ''*From '' @ py_title (source_type s) @ '':* '' @
                       take 200 (answer (tr_result s)) @ ''...'') secs)"

definition merge_results :: "target_result list \<Rightarrow> rag_answer" where
  "merge_results rs =
     (if length rs = 1 then tr_result (hd rs)
      else
        (let prims = filter (\<lambda>r. \<not> is_secondary r) rs;
             secs = filter is_secondary rs
         in if prims \<noteq> [] then
              (let p = tr_result (hd prims) in
               if secs \<noteq> [] then p\<lparr>answer := answer p @ secondary_info secs\<rparr> else p)
            else tr_result (hd rs)))"

definition format_response :: "query_request \<Rightarrow> rag_answer \<Rightarrow> api_response" where
  "format_response req r =
     \<lparr>resp_answer = answer r,
      resp_thinking = (if include_thinking req \<and> thinking r \<noteq> [] then Some (thinking r) else None),
      resp_contexts = (if include_contexts req \<and> retrieved_contexts r \<noteq> [] then Some (retrieved_contexts r) else None)\<rparr>"

subsection \<open>Endpoints\<close>

record app_state =
  global_client :: "client option"

definition the_global_client :: "menv \<Rightarrow> app_state \<Rightarrow> client" where
  "the_global_client M s = (case global_client s of None \<Rightarrow> get_retrieval_client M | Some c \<Rightarrow> c)"

text \<open>The legacy single-knowledge-base part of \<open>query_knowledge_base\<close>.\<close>

definition single_kb_query ::
  "menv \<Rightarrow> query_request \<Rightarrow> app_state \<Rightarrow> (http_exception + api_response) \<times> app_state" where
  "single_kb_query M req s =
     (let (r, cl') = client_rag_query M (the_global_client M s) (query_text req) (extended_thinking req)
      in (Inr (format_response req r), s\<lparr>global_client := Some cl'\<rparr>))"

definition multi_kb_query ::
  "menv \<Rightarrow> query_request \<Rightarrow> app_state \<Rightarrow> (http_exception + api_response) \<times> app_state" where
  "multi_kb_query M req s =
     (case resolve_targets M req of
        None \<Rightarrow>
          (let (res, s') = single_kb_query M req s in
           (case res of Inl e \<Rightarrow> Inl (wrap_500 e) | Inr a \<Rightarrow> Inr a, s'))
      | Some (Inl e) \<Rightarrow> (Inl (wrap_500 e), s)
      | Some (Inr ts) \<Rightarrow>
          (if ts = [] then
             (Inl (wrap_500 (HTTPException 400 ''No knowledge base targets available for this query'')), s)
           else
             (let rs = map (query_target_kb M (query_text req) (extended_thinking req)) ts in
              if rs = [] then (Inl (wrap_500 (HTTPException 500 ''No knowledge bases could be queried'')), s)
              else (Inr (format_response req (merge_results rs)), s))))"

definition query_knowledge_base ::
  "menv \<Rightarrow> query_request \<Rightarrow> app_state \<Rightarrow> (http_exception + api_response) \<times> app_state" where
  "query_knowledge_base M req s =
     (if has_targets req then multi_kb_query M req s else single_kb_query M req s)"

text \<open>\<open>/relationship\<close>: \<open>query_database_relationships\<close> is
  \<open>relationship_retrieval(table_name)\<close> with its default of 10 results; the answer is
  the result's \<open>relationship_analysis\<close> (or empty) and the contexts its
  \<open>retrieved_contexts\<close> (or empty), a key the real result does not have.\<close>

definition relationship_endpoint ::
  "menv \<Rightarrow> string \<Rightarrow> bool \<Rightarrow> bool \<Rightarrow> app_state \<Rightarrow> (http_exception + api_response) \<times> app_state" where
  "relationship_endpoint M t incl_ctx incl_th s =
     (case the_global_client M s of
        Advanced st \<Rightarrow>
          (let (r, st') = relationship_retrieval (renv M) (clock M) t 10 st in
           (Inr \<lparr>resp_answer = (case rr_extra r of None \<Rightarrow> [] | Some a \<Rightarrow> a),
                 resp_thinking = (if incl_th \<and> truthy_opt (rr_thinking r) then rr_thinking r else None),
                 resp_contexts = (if incl_ctx then Some [] else None)\<rparr>,
            s\<lparr>global_client := Some (Advanced st')\<rparr>))
      | Mock k \<Rightarrow>
          (Inr \<lparr>resp_answer = ''Mock relationship analysis for table '' @ sq @ t @ sq @
                   ''. This table would have foreign key relationships, indexes, and constraints that would be described here if the Knowledge Base was connected.'',
                resp_thinking = (if incl_th then Some ''Mock thinking process for relationship analysis.'' else None),
                resp_contexts = (if incl_ctx then Some [''Mock context about '' @ t @ '' relationships'',
                                                        ''Mock context about '' @ t @ '' constraints''] else None)\<rparr>,
           s\<lparr>global_client := Some (Mock k)\<rparr>))"

text \<open>\<open>/optimize\<close>: an \<open>advanced_rag_query\<close> on a fixed question around the SQL text,
  with extended thinking; it does not call \<open>AdvancedRetrieval.optimize_sql_query\<close>.\<close>

definition optimize_endpoint ::
  "menv \<Rightarrow> string \<Rightarrow> bool \<Rightarrow> bool \<Rightarrow> app_state \<Rightarrow> (http_exception + api_response) \<times> app_state" where
  "optimize_endpoint M sql incl_ctx incl_th s =
     (let (r, cl') = client_rag_query M (the_global_client M s) (''How can I optimize this SQL query? '' @ sql) True
      in (Inr \<lparr>resp_answer = answer r,
               resp_thinking = (if incl_th \<and> thinking r \<noteq> [] then Some (thinking r) else None),
               resp_contexts = (if incl_ctx \<and> retrieved_contexts r \<noteq> [] then Some (retrieved_contexts r) else None)\<rparr>,
          s\<lparr>global_client := Some cl'\<rparr>))"

subsection \<open>Examples\<close>

definition target_ex :: "string \<Rightarrow> string \<Rightarrow> bool option \<Rightarrow> query_target" where
  "target_ex t k sec = \<lparr>target_type = t, kbId = k, secondary = sec\<rparr>"

definition request_ex :: "string \<Rightarrow> query_target list option \<Rightarrow> string option \<Rightarrow> query_request" where
  "request_ex q ts app =
     \<lparr>query_text = q, extended_thinking = True, include_contexts = True, include_thinking = False,
      user_app = app, queryTargets = ts, queryMode = Some ''smart''\<rparr>"

definition menv_ex :: "time \<Rightarrow> menv" where
  "menv_ex t = \<lparr>renv = env_ex ''x'', clock = t, apps = [''epic'' \<mapsto> kbs_ex None None],
                kb_env = Some ''KRD3MW7QFS''\<rparr>"

definition state_ex :: app_state where
  "state_ex = \<lparr>global_client = Some (Advanced (new_retriever ''KB1''))\<rparr>"

subsection \<open>Properties of the endpoints\<close>

lemma string_of_nat_400: "string_of_nat 400 = ''400''"
  by code_simp

lemma py_title_database: "py_title ''database'' = ''Database''"
  by code_simp

lemma multi_explicit:
  "has_targets req \<Longrightarrow>
   multi_kb_query M req s =
     (Inr (format_response req (merge_results (map (query_target_kb M (query_text req) (extended_thinking req))
        (the (queryTargets req))))), s)"
  by (auto simp: multi_kb_query_def resolve_targets_def has_targets_def split: option.splits)

lemma merge_results_primary:
  "length rs \<noteq> 1 \<Longrightarrow> filter (\<lambda>r. \<not> is_secondary r) rs = p # ps \<Longrightarrow> filter is_secondary rs \<noteq> [] \<Longrightarrow>
   merge_results rs = (tr_result p)\<lparr>answer := answer (tr_result p) @ secondary_info (filter is_secondary rs)\<rparr>"
  by (simp add: merge_results_def Let_def)

lemma merge_results_no_primary:
  "length rs \<noteq> 1 \<Longrightarrow> list_all is_secondary rs \<Longrightarrow> merge_results rs = tr_result (hd rs)"
  by (simp add: merge_results_def Let_def list_all_iff filter_empty_conv)

lemma query_target_kb_secondary [simp]:
  "is_secondary (query_target_kb M q ext t) = (secondary t = Some True)"
  "source_type (query_target_kb M q ext t) = target_type t"
  by (simp_all add: query_target_kb_def)

lemma client_rag_query_advanced:
  "client_rag_query M (Advanced st) q ext =
     (fst (advanced_rag_query (renv M) (clock M) q ext st), Advanced (snd (advanced_rag_query (renv M) (clock M) q ext st)))"
  by (simp add: client_rag_query_def split: prod.splits)

lemmas merger_unfold = multi_kb_query_def resolve_targets_def truthy_opt_def

text \<open>C21: a multi-knowledge-base query with explicit targets, a primary support target followed by a secondary database target, answers with the support target's answer followed by a Related Information section holding the first 200 characters of the database target's answer.\<close>
theorem multi_support_primary_database_secondary:
  assumes "queryTargets req = Some [ts, td]"
    and "target_type ts = ''support''" and "secondary ts \<noteq> Some True"
    and "target_type td = ''database''" and "secondary td = Some True"
  shows "\<exists>a. fst (multi_kb_query M req s) = Inr a \<and>
    resp_answer a = answer (tr_result (query_target_kb M (query_text req) (extended_thinking req) ts)) @
      nl @ nl @ ''**Related Information:**'' @ nl @ nl @ ''*From Database:* '' @
      take 200 (answer (tr_result (query_target_kb M (query_text req) (extended_thinking req) td))) @ ''...''"
proof -
  let ?f = "query_target_kb M (query_text req) (extended_thinking req)"
  have h: "has_targets req" using assms(1) by (simp add: has_targets_def)
  have "merge_results [?f ts, ?f td] =
      (tr_result (?f ts))\<lparr>answer := answer (tr_result (?f ts)) @ secondary_info [?f td]\<rparr>"
    using assms(3,5) merge_results_primary [of "[?f ts, ?f td]" "?f ts" "[]"] by simp
  then show ?thesis
    using assms multi_explicit [OF h, of M s]
    by (simp add: format_response_def secondary_info_def py_title_database)
qed

text \<open>A multi-knowledge-base query with a non-empty list of explicit targets always returns an answer and leaves the application state unchanged: the error 'No knowledge bases could be queried' is unreachable, and the per-target clients and their caches do not outlive the request.\<close>
theorem multi_explicit_targets_always_answer:
  "has_targets req \<Longrightarrow> \<exists>a. multi_kb_query M req s = (Inr a, s)"
  by (simp add: multi_explicit)

text \<open>C23: a multi-knowledge-base query naming an application with no configured knowledge bases fails with status 500, whose detail carries the intended 400 error, because the endpoint's blanket except re-raises the HTTPException as a 500.\<close>
theorem multi_unknown_application_500:
  assumes "\<not> has_targets req" and "user_app req = Some a" and "a \<noteq> []" and "apps M a = None"
  shows "multi_kb_query M req s =
    (Inl (HTTPException 500 (''400: Application '' @ sq @ a @ sq @ '' not found or has no knowledge bases configured'')), s)"
  using assms
  by (simp add: merger_unfold wrap_500_def string_of_nat_400)

text \<open>When every one of two or more explicit targets is secondary, the response is the first target's answer alone: no excerpt of the other secondary answers is appended.\<close>
theorem multi_all_secondary_no_excerpts:
  assumes "queryTargets req = Some ts" and "2 \<le> length ts" and "list_all (\<lambda>t. secondary t = Some True) ts"
  shows "multi_kb_query M req s =
    (Inr (format_response req (tr_result (query_target_kb M (query_text req) (extended_thinking req) (hd ts)))), s)"
proof -
  let ?rs = "map (query_target_kb M (query_text req) (extended_thinking req)) ts"
  have h: "has_targets req" using assms(1,2) by (auto simp: has_targets_def)
  have "merge_results ?rs = tr_result (hd ?rs)"
    using assms(2,3) by (intro merge_results_no_primary) (auto simp: list_all_iff)
  moreover have "hd ?rs = query_target_kb M (query_text req) (extended_thinking req) (hd ts)"
    using assms(2) by (cases ts) auto
  ultimately show ?thesis using multi_explicit [OF h] assms(1) by simp
qed

text \<open>For a configured application in smart mode, the multi-knowledge-base query routes to exactly one configured target and answers with that target's result unchanged.\<close>
theorem multi_smart_routes_single_target:
  assumes "\<not> has_targets req" and "user_app req = Some a" and "a \<noteq> []" and "apps M a = Some kbs"
    and "queryMode req = Some ''smart''"
  shows "\<exists>t. classify_query_and_get_targets (query_text req) kbs ''smart'' = [t] \<and> configured kbs t \<and>
    multi_kb_query M req s =
      (Inr (format_response req (tr_result (query_target_kb M (query_text req) (extended_thinking req) t))), s)"
proof -
  obtain t where t: "smart_targets (query_text req) kbs = [t]" "configured kbs t"
    using smart_targets_single [of "query_text req" kbs] by blast
  have c: "classify_query_and_get_targets (query_text req) kbs ''smart'' = [t]"
    using t(1) by (simp add: classify_query_and_get_targets_def)
  have "multi_kb_query M req s =
      (Inr (format_response req (tr_result (query_target_kb M (query_text req) (extended_thinking req) t))), s)"
    using assms c by (simp add: merger_unfold merge_results_def)
  with c t(2) show ?thesis by blast
qed

text \<open>The legacy single-knowledge-base path keeps its module-global client between requests, so a repeated query within the cache TTL returns the contexts retrieved by the first request, whatever the provider returns meanwhile.\<close>
theorem legacy_query_reuses_cached_contexts:
  assumes "global_client s = Some (Advanced st)"
    and "cache_lookup (cache st) (cache_ttl st) (clock M) (method_key (renv M) (query_text req) 8 ''multi'') = None"
    and "md5 (renv M') = md5 (renv M)" and "clock M' - clock M < cache_ttl st"
  shows "retrieved_contexts (fst (client_rag_query M' (the_global_client M' (snd (single_kb_query M req s)))
      (query_text req) (extended_thinking req))) =
    retrieved_contexts (fst (client_rag_query M (Advanced st) (query_text req) (extended_thinking req)))"
proof -
  obtain r st' where run: "multi_strategy_retrieval (renv M) (clock M) (query_text req) 8 st = (r, st')"
    by fastforce
  have hit: "multi_strategy_retrieval (renv M') (clock M') (query_text req) 8 st' = (r, st')"
    using multi_rerun_hits [OF assms(2) run assms(3,4)] .
  have "the_global_client M' (snd (single_kb_query M req s)) = Advanced st'"
    using assms(1) run
    by (simp add: single_kb_query_def the_global_client_def client_rag_query_advanced advanced_rag_query_parts
        split: prod.splits)
  then show ?thesis
    using run hit by (simp add: client_rag_query_advanced advanced_rag_query_parts)
qed

text \<open>A target whose kbId is empty is queried against the knowledge base named by KNOWLEDGE_BASE_ID, while the result is still labelled with the empty id.\<close>
theorem empty_kb_id_queries_env_kb:
  assumes "kbId t = []" and "kb_env M = Some k" and "k \<noteq> []"
  shows "tr_result (query_target_kb M q ext t) = fst (advanced_rag_query (renv M) (clock M) q ext (new_retriever k)) \<and>
    tr_kb_id (query_target_kb M q ext t) = []"
  using assms
  by (simp add: query_target_kb_def create_retrieval_client_def advanced_retrieval_init_def truthy_opt_def
      client_rag_query_def split: prod.splits)

text \<open>With a real retrieval client the /relationship endpoint returns an empty context list whenever contexts are requested, because it reads the key retrieved_contexts, which relationship_retrieval does not produce.\<close>
theorem relationship_endpoint_contexts_empty:
  assumes "global_client s = Some (Advanced st)"
  shows "\<exists>a s'. relationship_endpoint M t True th s = (Inr a, s') \<and> resp_contexts a = Some []"
  using assms
  by (simp add: relationship_endpoint_def the_global_client_def split: prod.splits)


theorem multi_support_primary_database_secondary_witness:
  "queryTargets (request_ex ''why is login slow'' (Some [target_ex ''support'' ''KBS'' (Some False), target_ex ''database'' ''KBDB'' (Some True)]) None) =
     Some [target_ex ''support'' ''KBS'' (Some False), target_ex ''database'' ''KBDB'' (Some True)] \<and>
   target_type (target_ex ''support'' ''KBS'' (Some False)) = ''support'' \<and>
   secondary (target_ex ''support'' ''KBS'' (Some False)) \<noteq> Some True \<and>
   target_type (target_ex ''database'' ''KBDB'' (Some True)) = ''database'' \<and>
   secondary (target_ex ''database'' ''KBDB'' (Some True)) = Some True \<and>
   (\<exists>a. fst (multi_kb_query (menv_ex 0) (request_ex ''why is login slow'' (Some [target_ex ''support'' ''KBS'' (Some False), target_ex ''database'' ''KBDB'' (Some True)]) None) state_ex) = Inr a \<and>
     resp_answer a = answer (tr_result (query_target_kb (menv_ex 0) ''why is login slow'' True (target_ex ''support'' ''KBS'' (Some False)))) @
       nl @ nl @ ''**Related Information:**'' @ nl @ nl @ ''*From Database:* '' @
       take 200 (answer (tr_result (query_target_kb (menv_ex 0) ''why is login slow'' True (target_ex ''database'' ''KBDB'' (Some True))))) @ ''...'')"
proof -
  let ?ts = "[target_ex ''support'' ''KBS'' (Some False), target_ex ''database'' ''KBDB'' (Some True)]"
  let ?r = "request_ex ''why is login slow'' (Some ?ts) None"
  have h1: "queryTargets ?r = Some ?ts" by (simp add: request_ex_def)
  have h2: "target_type (target_ex ''support'' ''KBS'' (Some False)) = ''support''" by (simp add: target_ex_def)
  have h3: "secondary (target_ex ''support'' ''KBS'' (Some False)) \<noteq> Some True" by (simp add: target_ex_def)
  have h4: "target_type (target_ex ''database'' ''KBDB'' (Some True)) = ''database''" by (simp add: target_ex_def)
  have h5: "secondary (target_ex ''database'' ''KBDB'' (Some True)) = Some True" by (simp add: target_ex_def)
  have q: "query_text ?r = ''why is login slow''" "extended_thinking ?r = True" by (simp_all add: request_ex_def)
  show ?thesis
    using h1 h2 h3 h4 h5 multi_support_primary_database_secondary [OF h1 h2 h3 h4 h5, of "menv_ex 0" state_ex]
    unfolding q by blast
qed

theorem multi_explicit_targets_always_answer_witness:
  "has_targets (request_ex ''orders'' (Some [target_ex ''database'' ''KBDB'' None]) None) \<and>
   (\<exists>a. multi_kb_query (menv_ex 0) (request_ex ''orders'' (Some [target_ex ''database'' ''KBDB'' None]) None) state_ex =
      (Inr a, state_ex))"
proof -
  have h: "has_targets (request_ex ''orders'' (Some [target_ex ''database'' ''KBDB'' None]) None)"
    by (simp add: has_targets_def request_ex_def)
  show ?thesis using h multi_explicit_targets_always_answer [OF h] by blast
qed

theorem multi_unknown_application_500_witness:
  "\<not> has_targets (request_ex ''orders'' None (Some ''acme'')) \<and>
   user_app (request_ex ''orders'' None (Some ''acme'')) = Some ''acme'' \<and> ''acme'' \<noteq> [] \<and>
   apps (menv_ex 0) ''acme'' = None \<and>
   multi_kb_query (menv_ex 0) (request_ex ''orders'' None (Some ''acme'')) state_ex =
    (Inl (HTTPException 500 (''400: Application '' @ sq @ ''acme'' @ sq @ '' not found or has no knowledge bases configured'')), state_ex)"
proof -
  have h1: "\<not> has_targets (request_ex ''orders'' None (Some ''acme''))" by (simp add: has_targets_def request_ex_def)
  have h2: "user_app (request_ex ''orders'' None (Some ''acme'')) = Some ''acme''" by (simp add: request_ex_def)
  have h3: "''acme'' \<noteq> []" by simp
  have h4: "apps (menv_ex 0) ''acme'' = None" by (simp add: menv_ex_def)
  show ?thesis using h1 h2 h3 h4 multi_unknown_application_500 [OF h1 h2 h3 h4] by blast
qed

theorem multi_all_secondary_no_excerpts_witness:
  "queryTargets (request_ex ''orders'' (Some [target_ex ''support'' ''KBS'' (Some True), target_ex ''database'' ''KBDB'' (Some True)]) None) =
     Some [target_ex ''support'' ''KBS'' (Some True), target_ex ''database'' ''KBDB'' (Some True)] \<and>
   2 \<le> length [target_ex ''support'' ''KBS'' (Some True), target_ex ''database'' ''KBDB'' (Some True)] \<and>
   list_all (\<lambda>t. secondary t = Some True) [target_ex ''support'' ''KBS'' (Some True), target_ex ''database'' ''KBDB'' (Some True)] \<and>
   multi_kb_query (menv_ex 0) (request_ex ''orders'' (Some [target_ex ''support'' ''KBS'' (Some True), target_ex ''database'' ''KBDB'' (Some True)]) None) state_ex =
    (Inr (format_response (request_ex ''orders'' (Some [target_ex ''support'' ''KBS'' (Some True), target_ex ''database'' ''KBDB'' (Some True)]) None)
       (tr_result (query_target_kb (menv_ex 0) ''orders'' True (target_ex ''support'' ''KBS'' (Some True))))), state_ex)"
proof -
  let ?ts = "[target_ex ''support'' ''KBS'' (Some True), target_ex ''database'' ''KBDB'' (Some True)]"
  let ?r = "request_ex ''orders'' (Some ?ts) None"
  have h1: "queryTargets ?r = Some ?ts" by (simp add: request_ex_def)
  have h2: "2 \<le> length ?ts" by simp
  have h3: "list_all (\<lambda>t. secondary t = Some True) ?ts" by (simp add: target_ex_def)
  have q: "query_text ?r = ''orders''" "extended_thinking ?r = True" by (simp_all add: request_ex_def)
  show ?thesis using h1 h2 h3 multi_all_secondary_no_excerpts [OF h1 h2 h3, of "menv_ex 0" state_ex]
    unfolding q by simp
qed

theorem multi_smart_routes_single_target_witness:
  "\<not> has_targets (request_ex ''Show me all tables in the database'' None (Some ''epic'')) \<and>
   user_app (request_ex ''Show me all tables in the database'' None (Some ''epic'')) = Some ''epic'' \<and> ''epic'' \<noteq> [] \<and>
   apps (menv_ex 0) ''epic'' = Some (kbs_ex None None) \<and>
   queryMode (request_ex ''Show me all tables in the database'' None (Some ''epic'')) = Some ''smart'' \<and>
   (\<exists>t. classify_query_and_get_targets ''Show me all tables in the database'' (kbs_ex None None) ''smart'' = [t] \<and>
     configured (kbs_ex None None) t \<and>
     multi_kb_query (menv_ex 0) (request_ex ''Show me all tables in the database'' None (Some ''epic'')) state_ex =
       (Inr (format_response (request_ex ''Show me all tables in the database'' None (Some ''epic''))
          (tr_result (query_target_kb (menv_ex 0) ''Show me all tables in the database'' True t))), state_ex))"
proof -
  let ?r = "request_ex ''Show me all tables in the database'' None (Some ''epic'')"
  have h1: "\<not> has_targets ?r" by (simp add: has_targets_def request_ex_def)
  have h2: "user_app ?r = Some ''epic''" by (simp add: request_ex_def)
  have h3: "''epic'' \<noteq> []" by simp
  have h4: "apps (menv_ex 0) ''epic'' = Some (kbs_ex None None)" by (simp add: menv_ex_def)
  have h5: "queryMode ?r = Some ''smart''" by (simp add: request_ex_def)
  have q: "query_text ?r = ''Show me all tables in the database''" "extended_thinking ?r = True"
    by (simp_all add: request_ex_def)
  show ?thesis using h1 h2 h3 h4 h5 multi_smart_routes_single_target [OF h1 h2 h3 h4 h5, of state_ex]
    unfolding q by blast
qed

theorem legacy_query_reuses_cached_contexts_witness:
  "global_client state_ex = Some (Advanced (new_retriever ''KB1'')) \<and>
   cache_lookup (cache (new_retriever ''KB1'')) (cache_ttl (new_retriever ''KB1'')) (clock (menv_ex 0))
     (method_key (renv (menv_ex 0)) (query_text (request_ex ''orders'' None None)) 8 ''multi'') = None \<and>
   md5 (renv (menv_ex 10)) = md5 (renv (menv_ex 0)) \<and>
   clock (menv_ex 10) - clock (menv_ex 0) < cache_ttl (new_retriever ''KB1'') \<and>
   retrieved_contexts (fst (client_rag_query (menv_ex 10)
       (the_global_client (menv_ex 10) (snd (single_kb_query (menv_ex 0) (request_ex ''orders'' None None) state_ex)))
       (query_text (request_ex ''orders'' None None)) (extended_thinking (request_ex ''orders'' None None)))) =
   retrieved_contexts (fst (client_rag_query (menv_ex 0) (Advanced (new_retriever ''KB1''))
       (query_text (request_ex ''orders'' None None)) (extended_thinking (request_ex ''orders'' None None))))"
proof -
  have h1: "global_client state_ex = Some (Advanced (new_retriever ''KB1''))" by (simp add: state_ex_def)
  have h2: "cache_lookup (cache (new_retriever ''KB1'')) (cache_ttl (new_retriever ''KB1'')) (clock (menv_ex 0))
     (method_key (renv (menv_ex 0)) (query_text (request_ex ''orders'' None None)) 8 ''multi'') = None" by simp
  have h3: "md5 (renv (menv_ex 10)) = md5 (renv (menv_ex 0))" by (simp add: menv_ex_def)
  have h4: "clock (menv_ex 10) - clock (menv_ex 0) < cache_ttl (new_retriever ''KB1'')"
    by (simp add: menv_ex_def new_retriever_def)
  show ?thesis using h1 h2 h3 h4 legacy_query_reuses_cached_contexts [OF h1 h2 h3 h4] by blast
qed

theorem empty_kb_id_queries_env_kb_witness:
  "kbId (target_ex ''database'' [] None) = [] \<and> kb_env (menv_ex 0) = Some ''KRD3MW7QFS'' \<and> ''KRD3MW7QFS'' \<noteq> [] \<and>
   tr_result (query_target_kb (menv_ex 0) ''orders'' True (target_ex ''database'' [] None)) =
     fst (advanced_rag_query (renv (menv_ex 0)) (clock (menv_ex 0)) ''orders'' True (new_retriever ''KRD3MW7QFS'')) \<and>
   tr_kb_id (query_target_kb (menv_ex 0) ''orders'' True (target_ex ''database'' [] None)) = []"
proof -
  have h1: "kbId (target_ex ''database'' [] None) = []" by (simp add: target_ex_def)
  have h2: "kb_env (menv_ex 0) = Some ''KRD3MW7QFS''" by (simp add: menv_ex_def)
  have h3: "''KRD3MW7QFS'' \<noteq> []" by simp
  show ?thesis using h1 h2 h3 empty_kb_id_queries_env_kb [OF h1 h2 h3, of "''orders''" True] by blast
qed

theorem relationship_endpoint_contexts_empty_witness:
  "global_client state_ex = Some (Advanced (new_retriever ''KB1'')) \<and>
   (\<exists>a s'. relationship_endpoint (menv_ex 0) ''orders'' True False state_ex = (Inr a, s') \<and> resp_contexts a = Some [])"
proof -
  have h: "global_client state_ex = Some (Advanced (new_retriever ''KB1''))" by (simp add: state_ex_def)
  show ?thesis using h relationship_endpoint_contexts_empty [OF h, of "menv_ex 0" "''orders''" False] by blast
qed

end
