(* ===== verification/Feedback.thy ===== *)
theory Feedback
  imports Prelude
begin

text \<open>
  The correction loop \<open>FeedbackProcessor\<close> (src/src/training/feedback_processor.py).
  The relational store is a record of its three tables (\<open>query_feedback\<close>,
  \<open>training_data\<close>, \<open>kb_improvement_log\<close>) with their auto-increment counters;
  a table is the list of its rows in storage order. One run of
  \<open>process_pending_feedback\<close> is its \<open>SELECT\<close> of the pending corrections
  (\<open>select_pending\<close>) followed by the work on the selected rows
  (\<open>process_selected\<close>); the split lets two runs interleave (\<open>run_step\<close>), since
  the code takes no lock or lease between the two. The database's failures of the
  training-data \<open>INSERT\<close> are a predicate of the environment; the \<open>except\<close> branch
  skips the row.
\<close>

subsection \<open>Tables and environment\<close>

record feedback_row =
  fb_id :: nat
  fb_kb :: string
  fb_company :: int
  processing_status :: string
  feedback_type :: string
  created_at :: int
  original_query :: string
  original_response :: string
  corrected_response :: string
  feedback_notes :: "string option"
  processed_at :: "int option"
  processed_by :: "string option"

record training_row =
  td_id :: nat
  td_feedback :: nat
  td_company :: int
  td_kb :: string
  query_pattern :: string
  correct_response :: string
  incorrect_response :: string
  improvement_notes :: "string option"

record log_row =
  log_id :: nat
  log_kb :: string
  log_company :: int
  improvement_type :: string
  description :: string
  training_ids :: "nat list"
  impl_method :: string
  log_status :: string
  ingestion_job :: "string option"

record store =
  query_feedback :: "feedback_row list"
  training_data :: "training_row list"
  improvement_log :: "log_row list"
  next_training_id :: nat
  next_log_id :: nat

text \<open>\<open>NOW()\<close> and \<open>datetime.now()\<close> (as a timestamp and as its ISO text), and the
  rows whose training-data insert raises.\<close>

record fenv =
  now :: int
  now_iso :: string
  insert_fails :: "feedback_row \<Rightarrow> bool"

datatype feedback_result =
    NoPendingFeedback
  | Success nat "nat list"

record corrected_doc =
  doc_pattern :: string
  correct_sql :: string
  explanation :: string
  category :: string
  doc_created_at :: string

subsection \<open>Query generalisation\<close>

definition common_replacements :: "(string \<times> string) list" where
  "common_replacements =
     [(''sales orders'', ''[SALES_ENTITY]''), (''customers'', ''[CUSTOMER_ENTITY]''),
      (''products'', ''[PRODUCT_ENTITY]''), (''orders'', ''[ORDER_ENTITY]''),
      (''payments'', ''[PAYMENT_ENTITY]'')]"

definition replace_all :: "(string \<times> string) list \<Rightarrow> string \<Rightarrow> string" where
  "replace_all rs s = foldl (\<lambda>p (t, ph). py_replace t ph p) s rs"

definition generalize_query_pattern :: "string \<Rightarrow> string" where
  "generalize_query_pattern q = replace_all common_replacements (py_lower q)"

subsection \<open>One run\<close>

text \<open>\<open>SELECT * FROM query_feedback WHERE KnowledgeBaseId = %s AND CompanyId = %s AND
  ProcessingStatus = 'pending' AND FeedbackType = 'correction' ORDER BY CreatedAt ASC\<close>;
  rows with equal \<open>CreatedAt\<close> keep their storage order.\<close>

definition is_pending :: "string \<Rightarrow> int \<Rightarrow> feedback_row \<Rightarrow> bool" where
  "is_pending kb c f \<longleftrightarrow>
     fb_kb f = kb \<and> fb_company f = c \<and> processing_status f = ''pending'' \<and> feedback_type f = ''correction''"

definition select_pending :: "string \<Rightarrow> int \<Rightarrow> store \<Rightarrow> feedback_row list" where
  "select_pending kb c db = sort_key created_at (filter (is_pending kb c) (query_feedback db))"

text \<open>\<open>create_training_data\<close>: the \<open>INSERT\<close> and its \<open>lastrowid\<close>; \<open>None\<close> when the
  insert raises.\<close>

definition create_training_data :: "fenv \<Rightarrow> feedback_row \<Rightarrow> store \<Rightarrow> nat option \<times> store" where
  "create_training_data E f db =
     (if insert_fails E f then (None, db)
      else
        (let tid = next_training_id db;
             row = \<lparr>td_id = tid, td_feedback = fb_id f, td_company = fb_company f, td_kb = fb_kb f,
                    query_pattern = generalize_query_pattern (original_query f),
                    correct_response = corrected_response f, incorrect_response = original_response f,
                    improvement_notes = feedback_notes f\<rparr>
         in (Some tid, db\<lparr>training_data := training_data db @ [row], next_training_id := Suc tid\<rparr>)))"

definition mark_reviewed :: "fenv \<Rightarrow> nat \<Rightarrow> store \<Rightarrow> store" where
  "mark_reviewed E i db =
     db\<lparr>query_feedback :=
          map (\<lambda>f. if fb_id f = i
                    then f\<lparr>processing_status := ''reviewed'', processed_at := Some (now E),
                           processed_by := Some ''system''\<rparr>
                    else f) (query_feedback db)\<rparr>"

text \<open>One iteration of \<open>for feedback in pending_feedback\<close>: the id list and the store.\<close>

definition process_one :: "fenv \<Rightarrow> nat list \<times> store \<Rightarrow> feedback_row \<Rightarrow> nat list \<times> store" where
  "process_one E acc f =
     (let (ids, db) = acc in
      case create_training_data E f db of
        (None, db') \<Rightarrow> (ids, db')
      | (Some tid, db') \<Rightarrow> if tid \<noteq> 0 then (ids @ [tid], mark_reviewed E (fb_id f) db') else (ids, db'))"

definition generate_corrected_documentation :: "fenv \<Rightarrow> nat list \<Rightarrow> store \<Rightarrow> corrected_doc list" where
  "generate_corrected_documentation E ids db =
     map (\<lambda>d. \<lparr>doc_pattern = query_pattern d, correct_sql = correct_response d,
               explanation = ''Corrected based on user feedback: '' @
                 (case improvement_notes d of None \<Rightarrow> ''None'' | Some n \<Rightarrow> n),
               category = ''user_corrections'', doc_created_at = now_iso E\<rparr>)
       (filter (\<lambda>d. td_id d \<in> set ids) (training_data db))"

text \<open>\<open>update_knowledge_base_with_corrections\<close> only logs and returns a job id; it starts
  no ingestion.\<close>

definition update_knowledge_base_with_corrections ::
  "fenv \<Rightarrow> string \<Rightarrow> corrected_doc list \<Rightarrow> nat \<Rightarrow> string option" where
  "update_knowledge_base_with_corrections E kb docs lid =
     Some (''job-'' @ string_of_nat lid @ ''-'' @ string_of_nat (nat (now E)))"

definition set_log_in_progress :: "nat \<Rightarrow> string \<Rightarrow> store \<Rightarrow> store" where
  "set_log_in_progress lid job db =
     db\<lparr>improvement_log :=
          map (\<lambda>l. if log_id l = lid then l\<lparr>ingestion_job := Some job, log_status := ''in_progress''\<rparr> else l)
            (improvement_log db)\<rparr>"

text \<open>Everything after the \<open>SELECT\<close>, on the selected rows.\<close>

definition process_selected ::
  "fenv \<Rightarrow> string \<Rightarrow> int \<Rightarrow> feedback_row list \<Rightarrow> store \<Rightarrow> feedback_result \<times> store" where
  "process_selected E kb c pending db =
     (if pending = [] then (NoPendingFeedback, db)
      else
        (let (ids, db1) = foldl (process_one E) ([], db) pending in
         if ids = [] then (Success 0 [], db1)
         else
           (let lid = next_log_id db1;
                row = \<lparr>log_id = lid, log_kb = kb, log_company = c, improvement_type = ''content_update'',
                       description = ''Processed '' @ string_of_nat (length ids) @ '' user corrections'',
                       training_ids = ids, impl_method = ''ingestion_job'', log_status = ''planned'',
                       ingestion_job = None\<rparr>;
                db2 = db1\<lparr>improvement_log := improvement_log db1 @ [row], next_log_id := Suc lid\<rparr>;
                docs = generate_corrected_documentation E ids db2
            in if docs = [] then (Success (length ids) ids, db2)
               else (case update_knowledge_base_with_corrections E kb docs lid of
                       None \<Rightarrow> (Success (length ids) ids, db2)
                     | Some job \<Rightarrow> (Success (length ids) ids, set_log_in_progress lid job db2)))))"

definition process_pending_feedback ::
  "fenv \<Rightarrow> string \<Rightarrow> int \<Rightarrow> store \<Rightarrow> feedback_result \<times> store" where
  "process_pending_feedback E kb c db = process_selected E kb c (select_pending kb c db) db"

subsection \<open>Concurrent runs\<close>

text \<open>A run is idle, has read its pending rows, or is done; a step of the system takes
  one run one phase further against the shared store.\<close>

datatype run_phase = Idle | Selected "feedback_row list" | Done

inductive run_step ::
  "fenv \<Rightarrow> string \<Rightarrow> int \<Rightarrow> store \<times> run_phase list \<Rightarrow> store \<times> run_phase list \<Rightarrow> bool" where
  select: "i < length rs \<Longrightarrow> rs ! i = Idle \<Longrightarrow>
     run_step E kb c (db, rs) (db, rs[i := Selected (select_pending kb c db)])"
| work: "i < length rs \<Longrightarrow> rs ! i = Selected p \<Longrightarrow>
     run_step E kb c (db, rs) (snd (process_selected E kb c p db), rs[i := Done])"

subsection \<open>Proof vocabulary\<close>

text \<open>The effect of marking rows reviewed by id, the ids a run marks, and the
  relation between two versions of the feedback table in which every status change is
  to reviewed.\<close>

definition review :: "fenv \<Rightarrow> nat set \<Rightarrow> feedback_row \<Rightarrow> feedback_row" where
  "review E S f =
     (if fb_id f \<in> S then f\<lparr>processing_status := ''reviewed'', processed_at := Some (now E),
                              processed_by := Some ''system''\<rparr> else f)"

definition succeeded_ids :: "fenv \<Rightarrow> feedback_row list \<Rightarrow> nat set" where
  "succeeded_ids E p = fb_id ` {f \<in> set p. \<not> insert_fails E f}"

definition status_advanced :: "feedback_row list \<Rightarrow> feedback_row list \<Rightarrow> bool" where
  "status_advanced xs ys \<longleftrightarrow>
     list_all2 (\<lambda>f g. fb_id g = fb_id f \<and>
                     (processing_status g = processing_status f \<or> processing_status g = ''reviewed'')) xs ys"

subsection \<open>Examples\<close>

definition fb_ex :: "nat \<Rightarrow> string \<Rightarrow> feedback_row" where
  "fb_ex i q = \<lparr>fb_id = i, fb_kb = ''KB1'', fb_company = 1, processing_status = ''pending'',
     feedback_type = ''correction'', created_at = int i, original_query = q,
     original_response = ''SELECT * FROM orders'', corrected_response = ''SELECT id FROM orders'',
     feedback_notes = None, processed_at = None, processed_by = None\<rparr>"

definition store_ex :: "feedback_row list \<Rightarrow> store" where
  "store_ex fs = \<lparr>query_feedback = fs, training_data = [], improvement_log = [],
     next_training_id = 1, next_log_id = 1\<rparr>"

definition fenv_ex :: fenv where
  "fenv_ex = \<lparr>now = 1700000000, now_iso = ''2023-11-14T22:13:20'', insert_fails = (\<lambda>f. False)\<rparr>"

subsection \<open>Properties of the correction loop\<close>

lemma review_review: "review E A (review E B f) = review E (A \<union> B) f"
  by (simp add: review_def)

lemma mark_reviewed_review: "query_feedback (mark_reviewed E i db) = map (review E {i}) (query_feedback db)"
  by (simp add: mark_reviewed_def review_def)

lemma review_empty [simp]: "review E {} = (\<lambda>f. f)"
  by (simp add: review_def fun_eq_iff)

lemma create_training_data_fail:
  "insert_fails E f \<Longrightarrow> create_training_data E f db = (None, db)"
  by (simp add: create_training_data_def Let_def)

lemma create_training_data_ok:
  "\<not> insert_fails E f \<Longrightarrow>
   create_training_data E f db =
     (Some (next_training_id db),
      db\<lparr>training_data := training_data db @
           [\<lparr>td_id = next_training_id db, td_feedback = fb_id f, td_company = fb_company f, td_kb = fb_kb f,
             query_pattern = generalize_query_pattern (original_query f),
             correct_response = corrected_response f, incorrect_response = original_response f,
             improvement_notes = feedback_notes f\<rparr>],
         next_training_id := Suc (next_training_id db)\<rparr>)"
  by (simp add: create_training_data_def Let_def)

lemma process_one_fail: "insert_fails E f \<Longrightarrow> process_one E (ids, db) f = (ids, db)"
  by (simp add: process_one_def create_training_data_fail)

lemma process_one_ok:
  "\<not> insert_fails E f \<Longrightarrow> 0 < next_training_id db \<Longrightarrow>
   process_one E (ids, db) f =
     (ids @ [next_training_id db], mark_reviewed E (fb_id f) (snd (create_training_data E f db)))"
  by (simp add: process_one_def create_training_data_ok)

lemma foldl_process_one_feedback:
  "0 < next_training_id db \<Longrightarrow>
   query_feedback (snd (foldl (process_one E) (ids, db) p)) = map (review E (succeeded_ids E p)) (query_feedback db) \<and>
   next_training_id db \<le> next_training_id (snd (foldl (process_one E) (ids, db) p))"
proof (induction p arbitrary: ids db)
  case Nil
  then show ?case by (simp add: succeeded_ids_def)
next
  case (Cons f p)
  show ?case
  proof (cases "insert_fails E f")
    case True
    have "succeeded_ids E (f # p) = succeeded_ids E p" using True by (auto simp: succeeded_ids_def)
    with True Cons show ?thesis by (simp add: process_one_fail)
  next
    case False
    let ?db' = "mark_reviewed E (fb_id f) (snd (create_training_data E f db))"
    have pos: "0 < next_training_id ?db'"
      using False by (simp add: create_training_data_ok mark_reviewed_def)
    have qf: "query_feedback ?db' = map (review E {fb_id f}) (query_feedback db)"
      using False by (simp add: mark_reviewed_review create_training_data_ok)
    have s: "succeeded_ids E (f # p) = succeeded_ids E p \<union> {fb_id f}"
      using False by (auto simp: succeeded_ids_def)
    have nx: "next_training_id db \<le> next_training_id ?db'"
      using False by (simp add: create_training_data_ok mark_reviewed_def)
    from Cons.IH [OF pos, of "ids @ [next_training_id db]"] False Cons.prems qf s nx
    show ?thesis by (simp add: process_one_ok review_review comp_def)
  qed
qed

lemma set_log_in_progress_frame [simp]:
  "query_feedback (set_log_in_progress lid job db) = query_feedback db"
  "training_data (set_log_in_progress lid job db) = training_data db"
  "next_training_id (set_log_in_progress lid job db) = next_training_id db"
  "next_log_id (set_log_in_progress lid job db) = next_log_id db"
  by (simp_all add: set_log_in_progress_def)

lemma process_selected_feedback:
  assumes "0 < next_training_id db"
  shows "query_feedback (snd (process_selected E kb c p db)) = map (review E (succeeded_ids E p)) (query_feedback db) \<and>
    next_training_id db \<le> next_training_id (snd (process_selected E kb c p db))"
proof (cases "p = []")
  case True
  then show ?thesis by (simp add: process_selected_def succeeded_ids_def)
next
  case False
  obtain ids db1 where f: "foldl (process_one E) ([], db) p = (ids, db1)" by fastforce
  from foldl_process_one_feedback [OF assms, of E "[]" p] f
  have "query_feedback db1 = map (review E (succeeded_ids E p)) (query_feedback db) \<and>
    next_training_id db \<le> next_training_id db1" by simp
  with False f show ?thesis
    by (simp add: process_selected_def Let_def split: option.splits)
qed

lemma succeeded_ids_select:
  "succeeded_ids E (select_pending kb c db) =
     fb_id ` {f \<in> set (query_feedback db). is_pending kb c f \<and> \<not> insert_fails E f}"
  by (auto simp: succeeded_ids_def select_pending_def)

lemma review_not_pending:
  "fb_id f \<in> S \<Longrightarrow> \<not> is_pending kb c (review E S f)"
  by (simp add: review_def is_pending_def)

lemma map_review_disjoint:
  "fb_id ` set T \<inter> X = {} \<Longrightarrow> map (review E (S \<union> X)) T = map (review E S) T"
  by (auto simp: review_def)

lemma pending_after_review:
  "distinct (map fb_id T) \<Longrightarrow>
   filter (is_pending kb c) (map (review E (fb_id ` {f \<in> set T. is_pending kb c f \<and> \<not> insert_fails E f})) T) =
   filter (\<lambda>f. is_pending kb c f \<and> insert_fails E f) T"
proof (induction T)
  case Nil
  then show ?case by simp
next
  case (Cons g T)
  let ?S = "\<lambda>T. fb_id ` {f \<in> set T. is_pending kb c f \<and> \<not> insert_fails E f}"
  let ?X = "if is_pending kb c g \<and> \<not> insert_fails E g then {fb_id g} else {}"
  have g: "fb_id g \<notin> fb_id ` set T" using Cons.prems by simp
  have S: "?S (g # T) = ?S T \<union> ?X" by auto
  have tail: "map (review E (?S (g # T))) T = map (review E (?S T)) T"
    unfolding S using g by (intro map_review_disjoint) auto
  show ?case
  proof (cases "is_pending kb c g \<and> \<not> insert_fails E g")
    case True
    then have "fb_id g \<in> ?S (g # T)" by auto
    then have np: "\<not> is_pending kb c (review E (?S (g # T)) g)" by (rule review_not_pending)
    have "filter (is_pending kb c) (map (review E (?S (g # T))) (g # T)) =
        filter (is_pending kb c) (map (review E (?S T)) T)"
      by (simp only: list.map filter.simps tail if_not_P [OF np])
    with True Cons.IH Cons.prems show ?thesis by simp
  next
    case False
    then have "fb_id g \<notin> ?S (g # T)" using g by auto
    then have rg: "review E (?S (g # T)) g = g" by (simp add: review_def)
    have "filter (is_pending kb c) (map (review E (?S (g # T))) (g # T)) =
        filter (is_pending kb c) (g # map (review E (?S T)) T)"
      by (simp only: list.map rg tail)
    with False Cons.IH Cons.prems show ?thesis by auto
  qed
qed

lemma pending_after_run:
  assumes "distinct (map fb_id (query_feedback db))" and "0 < next_training_id db"
  shows "filter (is_pending kb c) (query_feedback (snd (process_pending_feedback E kb c db))) =
    filter (\<lambda>f. is_pending kb c f \<and> insert_fails E f) (query_feedback db)"
  using process_selected_feedback [OF assms(2), of E kb c "select_pending kb c db"]
    pending_after_review [OF assms(1), of kb c E]
  by (simp add: process_pending_feedback_def succeeded_ids_select)

lemma foldl_process_one_training:
  "map td_feedback (training_data (snd (foldl (process_one E) (ids, db) p))) =
   map td_feedback (training_data db) @ map fb_id (filter (\<lambda>f. \<not> insert_fails E f) p)"
proof (induction p arbitrary: ids db)
  case Nil
  then show ?case by simp
next
  case (Cons f p)
  show ?case
  proof (cases "insert_fails E f")
    case True
    with Cons show ?thesis by (simp add: process_one_fail)
  next
    case False
    obtain ids' db' where st: "process_one E (ids, db) f = (ids', db')" by fastforce
    have "map td_feedback (training_data db') = map td_feedback (training_data db) @ [fb_id f]"
      using st False
      by (auto simp: process_one_def create_training_data_ok mark_reviewed_def split: if_splits)
    with Cons.IH [of ids' db'] st False show ?thesis by simp
  qed
qed

lemma process_selected_training:
  "map td_feedback (training_data (snd (process_selected E kb c p db))) =
   map td_feedback (training_data db) @ map fb_id (filter (\<lambda>f. \<not> insert_fails E f) p)"
proof (cases "p = []")
  case True
  then show ?thesis by (simp add: process_selected_def)
next
  case False
  obtain ids db1 where f: "foldl (process_one E) ([], db) p = (ids, db1)" by fastforce
  from foldl_process_one_training [of E "[]" db p] f False show ?thesis
    by (simp add: process_selected_def Let_def split: option.splits)
qed

lemma count_feedback_rows:
  assumes "map td_feedback xs = map td_feedback ys @ zs"
  shows "length (filter (\<lambda>d. td_feedback d = i) xs) =
    length (filter (\<lambda>d. td_feedback d = i) ys) + length (filter (\<lambda>x. x = i) zs)"
proof -
  have l: "length (filter (\<lambda>d. td_feedback d = i) ws) = length (filter (\<lambda>x. x = i) (map td_feedback ws))" for ws
    by (simp add: filter_map comp_def)
  show ?thesis unfolding l assms by simp
qed

lemma status_advanced_review:
  "status_advanced xs ys \<Longrightarrow> status_advanced xs (map (review E S) ys)"
  unfolding status_advanced_def list_all2_map2
  by (erule list_all2_mono) (auto simp: review_def)

lemma run_steps_review:
  assumes "(run_step E kb c)\<^sup>*\<^sup>* x y" and "0 < next_training_id (fst x)"
  shows "status_advanced (query_feedback (fst x)) (query_feedback (fst y)) \<and> 0 < next_training_id (fst y)"
  using assms(1)
proof (induction rule: rtranclp_induct)
  case base
  then show ?case using assms(2) by (simp add: status_advanced_def list_all2_refl)
next
  case (step y z)
  from step(2) show ?case
  proof (cases rule: run_step.cases)
    case (select db i rs)
    with step(3) show ?thesis by simp
  next
    case (work i rs p db)
    with step(3) process_selected_feedback [of db E kb c p] show ?thesis
      by (auto intro: status_advanced_review)
  qed
qed

lemma foldl_process_one_ids:
  "0 < next_training_id db \<Longrightarrow>
   length (fst (foldl (process_one E) (ids, db) p)) = length ids + length (filter (\<lambda>f. \<not> insert_fails E f) p) \<and>
   set (fst (foldl (process_one E) (ids, db) p)) \<subseteq> set ids \<union> td_id ` set (training_data (snd (foldl (process_one E) (ids, db) p))) \<and>
   set (training_data db) \<subseteq> set (training_data (snd (foldl (process_one E) (ids, db) p))) \<and>
   improvement_log (snd (foldl (process_one E) (ids, db) p)) = improvement_log db \<and>
   next_log_id (snd (foldl (process_one E) (ids, db) p)) = next_log_id db"
proof (induction p arbitrary: ids db)
  case Nil
  then show ?case by simp
next
  case (Cons f p)
  show ?case
  proof (cases "insert_fails E f")
    case True
    with Cons show ?thesis by (simp add: process_one_fail)
  next
    case False
    let ?db' = "mark_reviewed E (fb_id f) (snd (create_training_data E f db))"
    have pos: "0 < next_training_id ?db'"
      using False by (simp add: create_training_data_ok mark_reviewed_def)
    have new: "next_training_id db \<in> td_id ` set (training_data ?db')"
      and grow: "set (training_data db) \<subseteq> set (training_data ?db')"
      and lg: "improvement_log ?db' = improvement_log db" "next_log_id ?db' = next_log_id db"
      using False by (auto simp: create_training_data_ok mark_reviewed_def)
    from Cons.IH [OF pos, of "ids @ [next_training_id db]"] new grow lg False Cons.prems
    show ?thesis by (auto simp: process_one_ok)
  qed
qed

lemma replace_all_absent:
  "list_all (\<lambda>(t, ph). t \<noteq> [] \<and> ph \<noteq> [] \<and> set u \<inter> set ph = {}) rs \<Longrightarrow> u \<noteq> [] \<Longrightarrow> \<not> py_in u s \<Longrightarrow>
   \<not> py_in u (replace_all rs s)"
proof (induction rs arbitrary: s)
  case Nil
  then show ?case by (simp add: replace_all_def)
next
  case (Cons r rs)
  obtain t ph where r: "r = (t, ph)" by fastforce
  with Cons.prems have "\<not> py_in u (py_replace t ph s)" by (simp add: py_replace_keeps_absent)
  with Cons r show ?case by (simp add: replace_all_def)
qed

lemma replace_all_removes:
  "(t, ph) \<in> set rs \<Longrightarrow> list_all (\<lambda>(t', ph'). t' \<noteq> [] \<and> ph' \<noteq> [] \<and> set t \<inter> set ph' = {}) rs \<Longrightarrow>
   \<not> py_in t (replace_all rs s)"
proof (induction rs arbitrary: s)
  case Nil
  then show ?case by simp
next
  case (Cons r rs)
  obtain t1 ph1 where r: "r = (t1, ph1)" by fastforce
  show ?case
  proof (cases "(t, ph) \<in> set rs")
    case True
    with Cons r show ?thesis by (simp add: replace_all_def)
  next
    case False
    with Cons.prems r have "r = (t, ph)" by auto
    with Cons.prems r have ne: "t \<noteq> []" "ph \<noteq> []" "set t \<inter> set ph = {}" by auto
    then have "\<not> py_in t (py_replace t ph s)" by (rule py_replace_removes)
    with ne Cons.prems r \<open>r = (t, ph)\<close> replace_all_absent [of t rs "py_replace t ph s"] show ?thesis
      by (simp add: replace_all_def)
  qed
qed

lemma common_replacements_disjoint:
  "list_all (\<lambda>(t, ph). list_all (\<lambda>(t', ph'). t' \<noteq> [] \<and> ph' \<noteq> [] \<and> set t \<inter> set ph' = {}) common_replacements)
     common_replacements"
  by code_simp

lemma review_select_row:
  assumes "distinct (map fb_id T)" and "f \<in> set T"
  shows "review E (fb_id ` {g \<in> set T. P g}) f =
    (if P f then f\<lparr>processing_status := ''reviewed'', processed_at := Some (now E), processed_by := Some ''system''\<rparr> else f)"
proof -
  have "inj_on fb_id (set T)" using assms(1) by (simp add: distinct_map)
  then have "fb_id f \<in> fb_id ` {g \<in> set T. P g} \<longleftrightarrow> P f"
    using assms(2) by (auto dest: inj_onD)
  then show ?thesis by (simp add: review_def)
qed

text \<open>A correction run for a knowledge base and company with no pending correction returns no_pending_feedback and leaves the store unchanged.\<close>
theorem no_pending_is_noop:
  "select_pending kb c db = [] \<Longrightarrow> process_pending_feedback E kb c db = (NoPendingFeedback, db)"
  by (simp add: process_pending_feedback_def process_selected_def)

text \<open>C30: a correction run marks exactly the selected pending corrections whose training-data insert succeeds as reviewed, processed by system at the current time, and changes no other feedback row.\<close>
theorem run_reviews_pending:
  assumes "distinct (map fb_id (query_feedback db))" and "0 < next_training_id db"
  shows "query_feedback (snd (process_pending_feedback E kb c db)) =
    map (\<lambda>f. if is_pending kb c f \<and> \<not> insert_fails E f
              then f\<lparr>processing_status := ''reviewed'', processed_at := Some (now E), processed_by := Some ''system''\<rparr>
              else f) (query_feedback db)"
  using process_selected_feedback [OF assms(2), of E kb c "select_pending kb c db"]
    review_select_row [OF assms(1)]
  by (simp add: process_pending_feedback_def succeeded_ids_select)

text \<open>When no insert fails, a second correction run right after a first one finds nothing pending and changes nothing.\<close>
theorem second_run_is_noop:
  assumes "distinct (map fb_id (query_feedback db))" and "0 < next_training_id db"
    and "\<forall>f. \<not> insert_fails E f"
  shows "process_pending_feedback E kb c (snd (process_pending_feedback E kb c db)) =
    (NoPendingFeedback, snd (process_pending_feedback E kb c db))"
proof -
  have "filter (is_pending kb c) (query_feedback (snd (process_pending_feedback E kb c db))) = []"
    using pending_after_run [OF assms(1,2), of kb c E] assms(3) by simp
  then have "select_pending kb c (snd (process_pending_feedback E kb c db)) = []"
    by (simp add: select_pending_def)
  then show ?thesis by (simp add: process_pending_feedback_def process_selected_def)
qed

text \<open>C32: in any interleaving of correction runs, feedback rows are neither added nor removed and every status change is to reviewed: no status ever goes back to pending.\<close>
theorem runs_only_review:
  "(run_step E kb c)\<^sup>*\<^sup>* (db0, rs0) (db, rs) \<Longrightarrow> 0 < next_training_id db0 \<Longrightarrow>
   status_advanced (query_feedback db0) (query_feedback db)"
  using run_steps_review [of E kb c "(db0, rs0)" "(db, rs)"] by simp

text \<open>C33: because a run takes no lease, two runs over the same single pending correction can interleave (both select before either works) so that the correction yields two training-data rows.\<close>
theorem concurrent_runs_process_twice:
  assumes "select_pending kb c db = [f]" and "\<not> insert_fails E f"
  shows "\<exists>db'. (run_step E kb c)\<^sup>*\<^sup>* (db, [Idle, Idle]) (db', [Done, Done]) \<and>
    length (filter (\<lambda>d. td_feedback d = fb_id f) (training_data db')) =
    length (filter (\<lambda>d. td_feedback d = fb_id f) (training_data db)) + 2"
proof -
  let ?db1 = "snd (process_selected E kb c [f] db)"
  let ?db2 = "snd (process_selected E kb c [f] ?db1)"
  have s1: "run_step E kb c (db, [Idle, Idle]) (db, [Selected [f], Idle])"
    using run_step.select [of 0 "[Idle, Idle]" E kb c db] assms(1) by simp
  have s2: "run_step E kb c (db, [Selected [f], Idle]) (db, [Selected [f], Selected [f]])"
    using run_step.select [of 1 "[Selected [f], Idle]" E kb c db] assms(1) by simp
  have s3: "run_step E kb c (db, [Selected [f], Selected [f]]) (?db1, [Done, Selected [f]])"
    using run_step.work [of 0 "[Selected [f], Selected [f]]" "[f]" E kb c db] by simp
  have s4: "run_step E kb c (?db1, [Done, Selected [f]]) (?db2, [Done, Done])"
    using run_step.work [of 1 "[Done, Selected [f]]" "[f]" E kb c ?db1] by simp
  have steps: "(run_step E kb c)\<^sup>*\<^sup>* (db, [Idle, Idle]) (?db2, [Done, Done])"
    using s1 s2 s3 s4 by (meson rtranclp.rtrancl_into_rtrancl rtranclp.rtrancl_refl)
  have "map td_feedback (training_data ?db2) = map td_feedback (training_data db) @ [fb_id f, fb_id f]"
    using process_selected_training [of E kb c "[f]" db] process_selected_training [of E kb c "[f]" ?db1] assms(2)
    by simp
  then have "length (filter (\<lambda>d. td_feedback d = fb_id f) (training_data ?db2)) =
      length (filter (\<lambda>d. td_feedback d = fb_id f) (training_data db)) + 2"
    by (simp add: count_feedback_rows)
  with steps show ?thesis by blast
qed

text \<open>A generalized query pattern contains none of the domain terms the generalization replaces.\<close>
theorem generalized_pattern_has_no_domain_term:
  "list_all (\<lambda>(t, ph). \<not> py_in t (generalize_query_pattern q)) common_replacements"
proof -
  have "\<not> py_in t (replace_all common_replacements (py_lower q))" if m: "(t, ph) \<in> set common_replacements" for t ph
  proof -
    have "list_all (\<lambda>(t', ph'). t' \<noteq> [] \<and> ph' \<noteq> [] \<and> set t \<inter> set ph' = {}) common_replacements"
      using common_replacements_disjoint m unfolding list_all_iff by fastforce
    with m show ?thesis by (rule replace_all_removes)
  qed
  then show ?thesis by (auto simp: list_all_iff generalize_query_pattern_def)
qed

text \<open>Generalization lower-cases the query and replaces the domain terms also inside longer words: ''preorders'' becomes ''pre[ORDER_ENTITY]''.\<close>
theorem generalize_inside_words:
  "generalize_query_pattern ''Show preorders and Sales Orders'' = ''show pre[ORDER_ENTITY] and [SALES_ENTITY]''"
  by code_simp

lemma set_log_in_progress_snoc:
  "list_all (\<lambda>l. log_id l \<noteq> lid) ls \<Longrightarrow> log_id r = lid \<Longrightarrow>
   improvement_log (set_log_in_progress lid job (db\<lparr>improvement_log := ls @ [r], next_log_id := k\<rparr>)) =
   ls @ [r\<lparr>ingestion_job := Some job, log_status := ''in_progress''\<rparr>]"
  by (simp add: set_log_in_progress_def list_all_iff map_idI)

lemma run_success_parts:
  assumes "process_pending_feedback E kb c db = (Success n ids, db')" and "ids \<noteq> []"
  obtains db1 where "foldl (process_one E) ([], db) (select_pending kb c db) = (ids, db1)"
    and "select_pending kb c db \<noteq> []" and "n = length ids"
    and "db' = (let lid = next_log_id db1;
                row = \<lparr>log_id = lid, log_kb = kb, log_company = c, improvement_type = ''content_update'',
                       description = ''Processed '' @ string_of_nat (length ids) @ '' user corrections'',
                       training_ids = ids, impl_method = ''ingestion_job'', log_status = ''planned'',
                       ingestion_job = None\<rparr>;
                db2 = db1\<lparr>improvement_log := improvement_log db1 @ [row], next_log_id := Suc lid\<rparr>;
                docs = generate_corrected_documentation E ids db2
            in if docs = [] then db2
               else set_log_in_progress lid (''job-'' @ string_of_nat lid @ ''-'' @ string_of_nat (nat (now E))) db2)"
proof -
  let ?p = "select_pending kb c db"
  obtain ids0 db1 where f: "foldl (process_one E) ([], db) ?p = (ids0, db1)" by fastforce
  have p: "?p \<noteq> []" using assms by (auto simp: process_pending_feedback_def process_selected_def)
  have "ids0 = ids \<and> n = length ids \<and> db' = (let lid = next_log_id db1;
                row = \<lparr>log_id = lid, log_kb = kb, log_company = c, improvement_type = ''content_update'',
                       description = ''Processed '' @ string_of_nat (length ids) @ '' user corrections'',
                       training_ids = ids, impl_method = ''ingestion_job'', log_status = ''planned'',
                       ingestion_job = None\<rparr>;
                db2 = db1\<lparr>improvement_log := improvement_log db1 @ [row], next_log_id := Suc lid\<rparr>;
                docs = generate_corrected_documentation E ids db2
            in if docs = [] then db2
               else set_log_in_progress lid (''job-'' @ string_of_nat lid @ ''-'' @ string_of_nat (nat (now E))) db2)"
    using assms p f
    by (auto simp: process_pending_feedback_def process_selected_def Let_def
        update_knowledge_base_with_corrections_def split: if_splits)
  with f p that show ?thesis by blast
qed

text \<open>C35: a run that processed corrections appends exactly one improvement-log row, listing the training-data ids, and marks it in_progress with a job id, although update_knowledge_base_with_corrections starts no ingestion.\<close>
theorem run_logs_in_progress:
  assumes run: "process_pending_feedback E kb c db = (Success n ids, db')" and ne: "ids \<noteq> []"
    and pos: "0 < next_training_id db"
    and fresh: "list_all (\<lambda>l. log_id l \<noteq> next_log_id db) (improvement_log db)"
  shows "n = length ids \<and>
    improvement_log db' = improvement_log db @
      [\<lparr>log_id = next_log_id db, log_kb = kb, log_company = c, improvement_type = ''content_update'',
        description = ''Processed '' @ string_of_nat n @ '' user corrections'', training_ids = ids,
        impl_method = ''ingestion_job'', log_status = ''in_progress'',
        ingestion_job = Some (''job-'' @ string_of_nat (next_log_id db) @ ''-'' @ string_of_nat (nat (now E)))\<rparr>]"
proof -
  obtain db1 where f: "foldl (process_one E) ([], db) (select_pending kb c db) = (ids, db1)"
    and n: "n = length ids"
    and d: "db' = (let lid = next_log_id db1;
                row = \<lparr>log_id = lid, log_kb = kb, log_company = c, improvement_type = ''content_update'',
                       description = ''Processed '' @ string_of_nat (length ids) @ '' user corrections'',
                       training_ids = ids, impl_method = ''ingestion_job'', log_status = ''planned'',
                       ingestion_job = None\<rparr>;
                db2 = db1\<lparr>improvement_log := improvement_log db1 @ [row], next_log_id := Suc lid\<rparr>;
                docs = generate_corrected_documentation E ids db2
            in if docs = [] then db2
               else set_log_in_progress lid (''job-'' @ string_of_nat lid @ ''-'' @ string_of_nat (nat (now E))) db2)"
    using run_success_parts [OF run ne] by blast
  from foldl_process_one_ids [OF pos, of E "[]" "select_pending kb c db"] f
  have ids: "set ids \<subseteq> td_id ` set (training_data db1)"
    and lg: "improvement_log db1 = improvement_log db" "next_log_id db1 = next_log_id db" by auto
  obtain i where "i \<in> set ids" using ne by (cases ids) auto
  with ids obtain d where "d \<in> set (training_data db1)" "td_id d \<in> set ids" by blast
  then have "generate_corrected_documentation E ids (db1\<lparr>improvement_log := xs, next_log_id := k\<rparr>) \<noteq> []" for xs k
    by (auto simp: generate_corrected_documentation_def filter_empty_conv)
  with d lg fresh n show ?thesis
    by (simp add: Let_def set_log_in_progress_snoc)
qed

text \<open>A successful run reports as processed the number of selected corrections whose insert succeeded, and appends one training-data row for each of them, in the selection order.\<close>
theorem run_counts_successful_inserts:
  assumes "process_pending_feedback E kb c db = (Success n ids, db')" and "0 < next_training_id db"
  shows "n = length (filter (\<lambda>f. \<not> insert_fails E f) (select_pending kb c db)) \<and>
    map td_feedback (training_data db') =
      map td_feedback (training_data db) @ map fb_id (filter (\<lambda>f. \<not> insert_fails E f) (select_pending kb c db))"
proof -
  let ?p = "select_pending kb c db"
  obtain ids0 db1 where f: "foldl (process_one E) ([], db) ?p = (ids0, db1)" by fastforce
  from foldl_process_one_ids [OF assms(2), of E "[]" ?p] f
  have "length ids0 = length (filter (\<lambda>f. \<not> insert_fails E f) ?p)" by simp
  moreover have "?p \<noteq> []" using assms(1) by (auto simp: process_pending_feedback_def process_selected_def)
  ultimately have "n = length (filter (\<lambda>f. \<not> insert_fails E f) ?p)"
    using assms(1) f by (auto simp: process_pending_feedback_def process_selected_def Let_def split: if_splits option.splits)
  moreover have "db' = snd (process_selected E kb c ?p db)"
    using assms(1) by (simp add: process_pending_feedback_def)
  ultimately show ?thesis using process_selected_training [of E kb c ?p db] by simp
qed


theorem no_pending_is_noop_witness:
  "select_pending ''KB1'' 1 (store_ex []) = [] \<and>
   process_pending_feedback fenv_ex ''KB1'' 1 (store_ex []) = (NoPendingFeedback, store_ex [])"
proof -
  have h: "select_pending ''KB1'' 1 (store_ex []) = []" by (simp add: select_pending_def store_ex_def)
  show ?thesis using h no_pending_is_noop [OF h] by blast
qed

theorem run_reviews_pending_witness:
  "distinct (map fb_id (query_feedback (store_ex [fb_ex 1 ''list orders'', fb_ex 2 ''list payments'']))) \<and>
   0 < next_training_id (store_ex [fb_ex 1 ''list orders'', fb_ex 2 ''list payments'']) \<and>
   query_feedback (snd (process_pending_feedback fenv_ex ''KB1'' 1 (store_ex [fb_ex 1 ''list orders'', fb_ex 2 ''list payments'']))) =
    map (\<lambda>f. if is_pending ''KB1'' 1 f \<and> \<not> insert_fails fenv_ex f
              then f\<lparr>processing_status := ''reviewed'', processed_at := Some (now fenv_ex), processed_by := Some ''system''\<rparr>
              else f) (query_feedback (store_ex [fb_ex 1 ''list orders'', fb_ex 2 ''list payments'']))"
proof -
  let ?db = "store_ex [fb_ex 1 ''list orders'', fb_ex 2 ''list payments'']"
  have h1: "distinct (map fb_id (query_feedback ?db))" by (simp add: store_ex_def fb_ex_def)
  have h2: "0 < next_training_id ?db" by (simp add: store_ex_def)
  show ?thesis using h1 h2 run_reviews_pending [OF h1 h2, of fenv_ex "''KB1''" 1] by blast
qed

theorem second_run_is_noop_witness:
  "distinct (map fb_id (query_feedback (store_ex [fb_ex 1 ''list orders'']))) \<and>
   0 < next_training_id (store_ex [fb_ex 1 ''list orders'']) \<and> (\<forall>f. \<not> insert_fails fenv_ex f) \<and>
   process_pending_feedback fenv_ex ''KB1'' 1 (snd (process_pending_feedback fenv_ex ''KB1'' 1 (store_ex [fb_ex 1 ''list orders'']))) =
    (NoPendingFeedback, snd (process_pending_feedback fenv_ex ''KB1'' 1 (store_ex [fb_ex 1 ''list orders''])))"
proof -
  let ?db = "store_ex [fb_ex 1 ''list orders'']"
  have h1: "distinct (map fb_id (query_feedback ?db))" by (simp add: store_ex_def)
  have h2: "0 < next_training_id ?db" by (simp add: store_ex_def)
  have h3: "\<forall>f. \<not> insert_fails fenv_ex f" by (simp add: fenv_ex_def)
  show ?thesis using h1 h2 h3 second_run_is_noop [OF h1 h2 h3, of "''KB1''" 1] by blast
qed

theorem runs_only_review_witness:
  "(run_step fenv_ex ''KB1'' 1)\<^sup>*\<^sup>* (store_ex [fb_ex 1 ''list orders''], [Idle])
     (store_ex [fb_ex 1 ''list orders''], [Selected (select_pending ''KB1'' 1 (store_ex [fb_ex 1 ''list orders'']))]) \<and>
   0 < next_training_id (store_ex [fb_ex 1 ''list orders'']) \<and>
   status_advanced (query_feedback (store_ex [fb_ex 1 ''list orders''])) (query_feedback (store_ex [fb_ex 1 ''list orders'']))"
proof -
  let ?db = "store_ex [fb_ex 1 ''list orders'']"
  have "run_step fenv_ex ''KB1'' 1 (?db, [Idle]) (?db, [Selected (select_pending ''KB1'' 1 ?db)])"
    using run_step.select [of 0 "[Idle]" fenv_ex "''KB1''" 1 ?db] by simp
  then have h1: "(run_step fenv_ex ''KB1'' 1)\<^sup>*\<^sup>* (?db, [Idle]) (?db, [Selected (select_pending ''KB1'' 1 ?db)])"
    by (rule r_into_rtranclp)
  have h2: "0 < next_training_id ?db" by (simp add: store_ex_def)
  show ?thesis using h1 h2 runs_only_review [OF h1 h2] by blast
qed

theorem concurrent_runs_process_twice_witness:
  "select_pending ''KB1'' 1 (store_ex [fb_ex 1 ''list orders'']) = [fb_ex 1 ''list orders''] \<and>
   \<not> insert_fails fenv_ex (fb_ex 1 ''list orders'') \<and>
   (\<exists>db'. (run_step fenv_ex ''KB1'' 1)\<^sup>*\<^sup>* (store_ex [fb_ex 1 ''list orders''], [Idle, Idle]) (db', [Done, Done]) \<and>
     length (filter (\<lambda>d. td_feedback d = fb_id (fb_ex 1 ''list orders'')) (training_data db')) =
     length (filter (\<lambda>d. td_feedback d = fb_id (fb_ex 1 ''list orders'')) (training_data (store_ex [fb_ex 1 ''list orders'']))) + 2)"
proof -
  have h1: "select_pending ''KB1'' 1 (store_ex [fb_ex 1 ''list orders'']) = [fb_ex 1 ''list orders'']"
    by (simp add: select_pending_def store_ex_def is_pending_def fb_ex_def)
  have h2: "\<not> insert_fails fenv_ex (fb_ex 1 ''list orders'')" by (simp add: fenv_ex_def)
  show ?thesis using h1 h2 concurrent_runs_process_twice [OF h1 h2] by blast
qed

lemma process_selected_fst:
  "foldl (process_one E) ([], db) p = (ids, db1) \<Longrightarrow> p \<noteq> [] \<Longrightarrow> ids \<noteq> [] \<Longrightarrow>
   fst (process_selected E kb c p db) = Success (length ids) ids"
  by (simp add: process_selected_def Let_def split: option.splits)

lemma select_pending_ex:
  "select_pending ''KB1'' 1 (store_ex [fb_ex 1 ''list orders'']) = [fb_ex 1 ''list orders'']"
  by (simp add: select_pending_def store_ex_def is_pending_def fb_ex_def)

lemma run_ex_result:
  "fst (process_pending_feedback fenv_ex ''KB1'' 1 (store_ex [fb_ex 1 ''list orders''])) = Success 1 [1]"
proof -
  let ?db = "store_ex [fb_ex 1 ''list orders'']"
  have ok: "\<not> insert_fails fenv_ex (fb_ex 1 ''list orders'')" by (simp add: fenv_ex_def)
  have pos: "0 < next_training_id ?db" and nx: "next_training_id ?db = 1" by (simp_all add: store_ex_def)
  obtain db1 where "foldl (process_one fenv_ex) ([], ?db) [fb_ex 1 ''list orders''] = ([1], db1)"
    using process_one_ok [OF ok pos, of "[]"] nx by simp
  then show ?thesis
    unfolding process_pending_feedback_def select_pending_ex
    using process_selected_fst [of fenv_ex ?db "[fb_ex 1 ''list orders'']" "[1]" db1 "''KB1''" 1]
    by simp
qed

theorem run_counts_successful_inserts_witness:
  "process_pending_feedback fenv_ex ''KB1'' 1 (store_ex [fb_ex 1 ''list orders'']) =
     (Success 1 [1], snd (process_pending_feedback fenv_ex ''KB1'' 1 (store_ex [fb_ex 1 ''list orders'']))) \<and>
   0 < next_training_id (store_ex [fb_ex 1 ''list orders'']) \<and>
   1 = length (filter (\<lambda>f. \<not> insert_fails fenv_ex f) (select_pending ''KB1'' 1 (store_ex [fb_ex 1 ''list orders'']))) \<and>
   map td_feedback (training_data (snd (process_pending_feedback fenv_ex ''KB1'' 1 (store_ex [fb_ex 1 ''list orders''])))) =
     map td_feedback (training_data (store_ex [fb_ex 1 ''list orders''])) @
     map fb_id (filter (\<lambda>f. \<not> insert_fails fenv_ex f) (select_pending ''KB1'' 1 (store_ex [fb_ex 1 ''list orders''])))"
proof -
  let ?db = "store_ex [fb_ex 1 ''list orders'']"
  have h1: "process_pending_feedback fenv_ex ''KB1'' 1 ?db = (Success 1 [1], snd (process_pending_feedback fenv_ex ''KB1'' 1 ?db))"
    using run_ex_result by (metis prod.collapse)
  have h2: "0 < next_training_id ?db" by (simp add: store_ex_def)
  show ?thesis using h1 h2 run_counts_successful_inserts [OF h1 h2] by blast
qed

theorem run_logs_in_progress_witness:
  "process_pending_feedback fenv_ex ''KB1'' 1 (store_ex [fb_ex 1 ''list orders'']) =
     (Success 1 [1], snd (process_pending_feedback fenv_ex ''KB1'' 1 (store_ex [fb_ex 1 ''list orders'']))) \<and>
   [1::nat] \<noteq> [] \<and> 0 < next_training_id (store_ex [fb_ex 1 ''list orders'']) \<and>
   list_all (\<lambda>l. log_id l \<noteq> next_log_id (store_ex [fb_ex 1 ''list orders''])) (improvement_log (store_ex [fb_ex 1 ''list orders''])) \<and>
   (1::nat) = length [1::nat] \<and>
   improvement_log (snd (process_pending_feedback fenv_ex ''KB1'' 1 (store_ex [fb_ex 1 ''list orders'']))) =
     improvement_log (store_ex [fb_ex 1 ''list orders'']) @
      [\<lparr>log_id = next_log_id (store_ex [fb_ex 1 ''list orders'']), log_kb = ''KB1'', log_company = 1,
        improvement_type = ''content_update'', description = ''Processed '' @ string_of_nat 1 @ '' user corrections'',
        training_ids = [1], impl_method = ''ingestion_job'', log_status = ''in_progress'',
        ingestion_job = Some (''job-'' @ string_of_nat (next_log_id (store_ex [fb_ex 1 ''list orders''])) @ ''-'' @
                              string_of_nat (nat (now fenv_ex)))\<rparr>]"
proof -
  let ?db = "store_ex [fb_ex 1 ''list orders'']"
  have h1: "process_pending_feedback fenv_ex ''KB1'' 1 ?db = (Success 1 [1], snd (process_pending_feedback fenv_ex ''KB1'' 1 ?db))"
    using run_ex_result by (metis prod.collapse)
  have h2: "[1::nat] \<noteq> []" by simp
  have h3: "0 < next_training_id ?db" by (simp add: store_ex_def)
  have h4: "list_all (\<lambda>l. log_id l \<noteq> next_log_id ?db) (improvement_log ?db)" by (simp add: store_ex_def)
  show ?thesis using h1 h2 h3 h4 run_logs_in_progress [OF h1 h2 h3 h4] by blast
qed

subsection \<open>Termination and completion of interleaved runs\<close>

lemma length_filter_eq_distinct:
  "distinct xs \<Longrightarrow> length (filter (\<lambda>y. y = a) xs) = (if a \<in> set xs then 1 else 0)"
  by (induction xs) auto

lemma select_pending_distinct_ids:
  "distinct (map fb_id (query_feedback db)) \<Longrightarrow> distinct (map fb_id (select_pending kb c db))"
  by (auto simp: select_pending_def distinct_map intro: inj_on_subset)

text \<open>C39: runs that do not overlap process each correction once: when the second run
  starts after the first has finished and no insert fails, the two runs form an
  interleaving that ends with both done, the second run finding nothing pending, and
  every correction that was pending has exactly one new training-data row.\<close>

theorem serial_runs_process_once:
  assumes "distinct (map fb_id (query_feedback db))" and "0 < next_training_id db"
    and "\<forall>g. \<not> insert_fails E g" and "f \<in> set (select_pending kb c db)"
  shows "(run_step E kb c)\<^sup>*\<^sup>* (db, [Idle, Idle])
           (snd (process_pending_feedback E kb c (snd (process_pending_feedback E kb c db))), [Done, Done]) \<and>
         length (filter (\<lambda>d. td_feedback d = fb_id f)
           (training_data (snd (process_pending_feedback E kb c (snd (process_pending_feedback E kb c db)))))) =
         length (filter (\<lambda>d. td_feedback d = fb_id f) (training_data db)) + 1"
proof -
  let ?p0 = "select_pending kb c db"
  let ?db1 = "snd (process_pending_feedback E kb c db)"
  let ?p1 = "select_pending kb c ?db1"
  let ?db2 = "snd (process_pending_feedback E kb c ?db1)"
  have s1: "run_step E kb c (db, [Idle, Idle]) (db, [Selected ?p0, Idle])"
    using run_step.select [of 0 "[Idle, Idle]" E kb c db] by simp
  have s2: "run_step E kb c (db, [Selected ?p0, Idle]) (?db1, [Done, Idle])"
    using run_step.work [of 0 "[Selected ?p0, Idle]" ?p0 E kb c db] by (simp add: process_pending_feedback_def)
  have s3: "run_step E kb c (?db1, [Done, Idle]) (?db1, [Done, Selected ?p1])"
    using run_step.select [of 1 "[Done, Idle]" E kb c ?db1] by simp
  have s4: "run_step E kb c (?db1, [Done, Selected ?p1]) (?db2, [Done, Done])"
    using run_step.work [of 1 "[Done, Selected ?p1]" ?p1 E kb c ?db1] by (simp add: process_pending_feedback_def)
  have steps: "(run_step E kb c)\<^sup>*\<^sup>* (db, [Idle, Idle]) (?db2, [Done, Done])"
    using s1 s2 s3 s4 by (meson rtranclp.rtrancl_into_rtrancl rtranclp.rtrancl_refl)
  have "filter (is_pending kb c) (query_feedback ?db1) = []"
    using pending_after_run [OF assms(1,2), of kb c E] assms(3) by simp
  then have "?p1 = []" by (simp add: select_pending_def)
  then have db2: "?db2 = ?db1" by (simp add: process_pending_feedback_def process_selected_def)
  have tr: "map td_feedback (training_data ?db1) = map td_feedback (training_data db) @ map fb_id ?p0"
    using process_selected_training [of E kb c ?p0 db] assms(3) by (simp add: process_pending_feedback_def)
  have "fb_id f \<in> set (map fb_id ?p0)" using assms(4) by simp
  then have one: "length (filter (\<lambda>x. x = fb_id f) (map fb_id ?p0)) = 1"
    using length_filter_eq_distinct [OF select_pending_distinct_ids [OF assms(1), of kb c], where a = "fb_id f"]
    by simp
  have "length (filter (\<lambda>d. td_feedback d = fb_id f) (training_data ?db1)) =
      length (filter (\<lambda>d. td_feedback d = fb_id f) (training_data db)) + 1"
    using count_feedback_rows [OF tr, of "fb_id f"] one by simp
  with steps db2 show ?thesis by simp
qed

theorem serial_runs_process_once_witness:
  "distinct (map fb_id (query_feedback (store_ex [fb_ex 1 ''list orders'']))) \<and>
   0 < next_training_id (store_ex [fb_ex 1 ''list orders'']) \<and> (\<forall>g. \<not> insert_fails fenv_ex g) \<and>
   fb_ex 1 ''list orders'' \<in> set (select_pending ''KB1'' 1 (store_ex [fb_ex 1 ''list orders''])) \<and>
   (run_step fenv_ex ''KB1'' 1)\<^sup>*\<^sup>* (store_ex [fb_ex 1 ''list orders''], [Idle, Idle])
     (snd (process_pending_feedback fenv_ex ''KB1'' 1
        (snd (process_pending_feedback fenv_ex ''KB1'' 1 (store_ex [fb_ex 1 ''list orders''])))), [Done, Done]) \<and>
   length (filter (\<lambda>d. td_feedback d = fb_id (fb_ex 1 ''list orders''))
     (training_data (snd (process_pending_feedback fenv_ex ''KB1'' 1
        (snd (process_pending_feedback fenv_ex ''KB1'' 1 (store_ex [fb_ex 1 ''list orders'']))))))) =
   length (filter (\<lambda>d. td_feedback d = fb_id (fb_ex 1 ''list orders'')) (training_data (store_ex [fb_ex 1 ''list orders'']))) + 1"
proof -
  let ?db = "store_ex [fb_ex 1 ''list orders'']"
  have h1: "distinct (map fb_id (query_feedback ?db))" by (simp add: store_ex_def)
  have h2: "0 < next_training_id ?db" by (simp add: store_ex_def)
  have h3: "\<forall>g. \<not> insert_fails fenv_ex g" by (simp add: fenv_ex_def)
  have h4: "fb_ex 1 ''list orders'' \<in> set (select_pending ''KB1'' 1 ?db)"
    by (simp add: select_pending_def store_ex_def is_pending_def fb_ex_def)
  show ?thesis using h1 h2 h3 h4 serial_runs_process_once [OF h1 h2 h3 h4] by blast
qed

end
