(* ===== verification/Catalog.thy ===== *)
theory Catalog
  imports Prelude "HOL-Library.Char_ord" "HOL-Library.List_Lexorder"
begin

text \<open>
  The query-catalog extractor src/extract_deduplicated.py: it reads the query
  documents, takes the SQL of each \<open>## Embedding-Ready Query\<close> section, deduplicates
  the queries by the MD5 digest of a normalised text (stripped, lower-cased, white-space
  runs collapsed), and writes a catalog with per-table and per-database counts. The
  regular expressions are executable matchers; the directory listing is the list of
  files, each with its content or \<open>None\<close> when reading it raises; MD5 is a parameter.
\<close>

subsection \<open>Matchers\<close>

text \<open>\<open>re.sub(r'\s+', ' ', s)\<close>.\<close>

function collapse_ws :: "string \<Rightarrow> string" where
  "collapse_ws s =
     (case s of
        [] \<Rightarrow> []
      | c # r \<Rightarrow> if py_isspace c then CHR '' '' # collapse_ws (dropWhile py_isspace r)
                else c # collapse_ws r)"
  by pat_completeness auto
termination
  by (relation "measure length") (auto simp: le_imp_less_Suc length_dropWhile_le)

declare collapse_ws.simps [simp del]

definition normalize_query :: "string \<Rightarrow> string" where
  "normalize_query q = collapse_ws (py_lower (py_strip q))"

definition hash_query :: "(string \<Rightarrow> string) \<Rightarrow> string \<Rightarrow> string option" where
  "hash_query md5 q = (if q = [] then None else Some (md5 (normalize_query q)))"

text \<open>A keyword (any case), at least one white-space character and a word:
  \<open>KW\s+(\w+)\<close> at the start of \<open>s\<close>, with the word and the length of the match.\<close>

definition word_after :: "string \<Rightarrow> string \<Rightarrow> (string \<times> nat) option" where
  "word_after kw s =
     (if py_lower (take (length kw) s) = kw then
        (let r = drop (length kw) s; ws = takeWhile py_isspace r; r' = dropWhile py_isspace r;
             w = takeWhile py_isword r'
         in if ws = [] \<or> w = [] then None else Some (w, length kw + length ws + length w))
      else None)"

text \<open>\<open>re.search\<close>: the first match.\<close>

fun search_word :: "string \<Rightarrow> string \<Rightarrow> string option" where
  "search_word kw [] = None"
| "search_word kw (c # s) =
     (case word_after kw (c # s) of Some (w, k) \<Rightarrow> Some w | None \<Rightarrow> search_word kw s)"

text \<open>\<open>re.findall\<close>: every match, the scan resuming after each.\<close>

function findall_words :: "string \<Rightarrow> string \<Rightarrow> string list" where
  "findall_words kw s =
     (if s = [] then []
      else case word_after kw s of
             Some (w, k) \<Rightarrow> w # findall_words kw (drop k s)
           | None \<Rightarrow> findall_words kw (tl s))"
  by pat_completeness auto
termination
proof (relation "measure (\<lambda>(kw, s). length s)")
  show "wf (measure (\<lambda>(kw, s). length s))" by simp
next
  fix kw s p w k
  assume "s \<noteq> []" "word_after kw s = Some p" "(w, k) = p"
  then have "0 < k" by (auto simp: word_after_def Let_def split: if_splits)
  with \<open>s \<noteq> []\<close> show "((kw, drop k s), kw, s) \<in> measure (\<lambda>(kw, s). length s)" by simp
next
  fix kw s
  assume "s \<noteq> []" "word_after kw s = None"
  then show "((kw, tl s), kw, s) \<in> measure (\<lambda>(kw, s). length s)" by simp
qed

declare findall_words.simps [simp del]

definition identify_main_table :: "string \<Rightarrow> string option" where
  "identify_main_table q = (if q = [] then None else search_word ''from'' q)"

definition extract_all_tables :: "string \<Rightarrow> string list" where
  "extract_all_tables q =
     (if q = [] then []
      else first_occ ((case search_word ''from'' q of None \<Rightarrow> [] | Some t \<Rightarrow> [t]) @ findall_words ''join'' q))"

text \<open>\<open>re.match(r'epic(\w+)_query_', filename)\<close>: anchored at the start; the greedy
  group backtracks to the longest word run that is followed by \<open>_query_\<close>.\<close>

definition extract_database_from_filename :: "string \<Rightarrow> string" where
  "extract_database_from_filename fn =
     (let r = drop 4 fn;
          ks = filter (\<lambda>k. 0 < k \<and> list_all py_isword (take k r) \<and> prefix ''_query_'' (drop k r))
                 [0..<Suc (length r)]
      in if take 4 fn = ''epic'' \<and> ks \<noteq> [] then ''epic'' @ take (last ks) r else ''unknown'')"

text \<open>\<open>re.search(r'## Embedding-Ready Query\s*```sql\s*(.*?)```', content, re.DOTALL)\<close>
  followed by \<open>.strip()\<close>.\<close>

fun before_marker :: "string \<Rightarrow> string \<Rightarrow> string option" where
  "before_marker m [] = (if m = [] then Some [] else None)"
| "before_marker m (c # s) = (if prefix m (c # s) then Some [] else map_option (Cons c) (before_marker m s))"

definition fence :: string where
  "fence = [CHR 0x60, CHR 0x60, CHR 0x60]"

definition embedding_header :: string where
  "embedding_header = ''## Embedding-Ready Query''"

definition embedding_match :: "string \<Rightarrow> string option" where
  "embedding_match s =
     (if prefix embedding_header s then
        (let r = dropWhile py_isspace (drop (length embedding_header) s) in
         if prefix (fence @ ''sql'') r then before_marker fence (dropWhile py_isspace (drop 6 r)) else None)
      else None)"

fun search_embedding :: "string \<Rightarrow> string option" where
  "search_embedding [] = None"
| "search_embedding (c # s) =
     (case embedding_match (c # s) of Some x \<Rightarrow> Some x | None \<Rightarrow> search_embedding s)"

definition extract_embedding_query :: "string \<Rightarrow> string option" where
  "extract_embedding_query content = map_option py_strip (search_embedding content)"

subsection \<open>The scan\<close>

record query_info =
  qi_hash :: string
  main_table :: "string option"
  all_tables :: "string list"
  embedding_ready_query :: string
  databases :: "string list"

text \<open>The loop's state: \<open>unique_queries\<close> (a dict by digest), \<open>database_tracking\<close>
  (a defaultdict of sets, each set a list without repetitions) and the counters.\<close>

record scan_state =
  unique_queries :: "(string \<times> query_info) list"
  database_tracking :: "(string \<times> string list) list"
  processed_files :: nat
  files_with_queries :: nat
  duplicate_count :: nat

definition scan_init :: scan_state where
  "scan_init = \<lparr>unique_queries = [], database_tracking = [], processed_files = 0,
                files_with_queries = 0, duplicate_count = 0\<rparr>"

definition track :: "string \<Rightarrow> string \<Rightarrow> (string \<times> string list) list \<Rightarrow> (string \<times> string list) list" where
  "track h db t =
     (let dbs = (case dict_get t h of None \<Rightarrow> [] | Some ds \<Rightarrow> ds) in
      dict_set t h (if db \<in> set dbs then dbs else dbs @ [db]))"

text \<open>One iteration of \<open>for i, file_path in enumerate(md_files)\<close>; \<open>None\<close> is a file
  whose \<open>open\<close> or \<open>read\<close> raises, which the \<open>except\<close> reports and skips.\<close>

definition scan_file :: "(string \<Rightarrow> string) \<Rightarrow> scan_state \<Rightarrow> string \<times> string option \<Rightarrow> scan_state" where
  "scan_file md5 st file =
     (case file of
        (name, None) \<Rightarrow> st
      | (name, Some content) \<Rightarrow>
          (let st1 = st\<lparr>processed_files := Suc (processed_files st)\<rparr>;
               db = extract_database_from_filename name
           in case extract_embedding_query content of
                None \<Rightarrow> st1
              | Some q \<Rightarrow>
                  if q = [] then st1
                  else
                    (let st2 = st1\<lparr>files_with_queries := Suc (files_with_queries st1)\<rparr> in
                     case hash_query md5 q of
                       None \<Rightarrow> st2
                     | Some h \<Rightarrow>
                         (let st3 = st2\<lparr>database_tracking := track h db (database_tracking st2)\<rparr> in
                          if dict_get (unique_queries st3) h = None then
                            st3\<lparr>unique_queries := dict_set (unique_queries st3) h
                                  \<lparr>qi_hash = h, main_table = identify_main_table q,
                                   all_tables = extract_all_tables q, embedding_ready_query = q,
                                   databases = []\<rparr>\<rparr>
                          else st3\<lparr>duplicate_count := Suc (duplicate_count st3)\<rparr>))))"

definition scan_files :: "(string \<Rightarrow> string) \<Rightarrow> (string \<times> string option) list \<Rightarrow> scan_state" where
  "scan_files md5 files = foldl (scan_file md5) scan_init files"

subsection \<open>The catalog\<close>

record catalog_metadata =
  total_files :: nat
  cm_processed_files :: nat
  cm_files_with_queries :: nat
  cm_unique_queries :: nat
  duplicate_queries_removed :: nat

record catalog =
  metadata :: catalog_metadata
  queries :: "query_info list"
  table_summary :: "(string \<times> nat) list"
  database_summary :: "(string \<times> nat) list"

text \<open>\<open>counts[k] = counts.get(k, 0) + 1\<close> over a sequence of keys, in first-occurrence
  order.\<close>

definition count_keys :: "string list \<Rightarrow> (string \<times> nat) list" where
  "count_keys ks =
     foldl (\<lambda>d k. dict_set d k (case dict_get d k of None \<Rightarrow> 1 | Some n \<Rightarrow> Suc n)) [] ks"

text \<open>\<open>sorted(d.items(), key=lambda x: x[1], reverse=True)\<close>: stable, ties in
  insertion order.\<close>

definition by_count_desc :: "(string \<times> nat) list \<Rightarrow> (string \<times> nat) list" where
  "by_count_desc xs = rev (sort_key snd (rev xs))"

definition build_catalog :: "nat \<Rightarrow> scan_state \<Rightarrow> catalog" where
  "build_catalog n st =
     (let qs = map (\<lambda>(h, qi). qi\<lparr>databases := sort (case dict_get (database_tracking st) h of
                                                     None \<Rightarrow> [] | Some ds \<Rightarrow> ds)\<rparr>)
                 (unique_queries st)
      in \<lparr>metadata = \<lparr>total_files = n, cm_processed_files = processed_files st,
                      cm_files_with_queries = files_with_queries st,
                      cm_unique_queries = length (unique_queries st),
                      duplicate_queries_removed = duplicate_count st\<rparr>,
          queries = qs,
          table_summary = by_count_desc (count_keys (List.map_filter main_table qs)),
          database_summary = by_count_desc (count_keys (concat (map snd (database_tracking st))))\<rparr>)"

definition extract_catalog :: "(string \<Rightarrow> string) \<Rightarrow> (string \<times> string option) list \<Rightarrow> catalog" where
  "extract_catalog md5 files = build_catalog (length files) (scan_files md5 files)"

subsection \<open>The reference catalog\<close>

text \<open>What the scan computes, stated without the loop: the embedded queries of the
  readable files in order, and for each digest, in first-occurrence order, the first query
  with that digest. \<open>abs_unique\<close> forgets the parts of an entry the reference does not
  describe.\<close>

definition embedded_queries :: "(string \<times> string option) list \<Rightarrow> (string \<times> string) list" where
  "embedded_queries files =
     List.map_filter (\<lambda>(n, c). case c of None \<Rightarrow> None
        | Some x \<Rightarrow> (case extract_embedding_query x of None \<Rightarrow> None
                    | Some q \<Rightarrow> if q = [] then None else Some (n, q))) files"

definition first_query_with :: "(string \<Rightarrow> string) \<Rightarrow> (string \<times> string) list \<Rightarrow> string \<Rightarrow> string" where
  "first_query_with md5 qs h = snd (hd (filter (\<lambda>(n, q). md5 (normalize_query q) = h) qs))"

definition catalog_spec :: "(string \<Rightarrow> string) \<Rightarrow> (string \<times> string option) list \<Rightarrow> (string \<times> string) list" where
  "catalog_spec md5 files =
     (let qs = embedded_queries files
      in map (\<lambda>h. (h, first_query_with md5 qs h)) (first_occ (map (\<lambda>(n, q). md5 (normalize_query q)) qs)))"

definition abs_unique :: "scan_state \<Rightarrow> (string \<times> string) list" where
  "abs_unique st = map (\<lambda>(h, qi). (h, embedding_ready_query qi)) (unique_queries st)"

subsection \<open>Normalisation\<close>

lemma isspace_lower_char [simp]: "py_isspace (lower_char c) = py_isspace c"
  by (auto simp: lower_char_def Let_def py_isspace_def)

lemma collapse_ws_Cons:
  "collapse_ws (c # r) = (if py_isspace c then CHR '' '' # collapse_ws (dropWhile py_isspace r) else c # collapse_ws r)"
  by (simp add: collapse_ws.simps [of "c # r"])

lemma collapse_ws_Nil [simp]: "collapse_ws [] = []"
  by (simp add: collapse_ws.simps [of "[]"])

lemma space_isspace [simp]: "py_isspace (CHR '' '')"
  by (simp add: py_isspace_def)

lemma dropWhile_collapse_ws:
  assumes "dropWhile py_isspace s = s"
  shows "dropWhile py_isspace (collapse_ws s) = collapse_ws s"
proof (cases s)
  case Nil
  then show ?thesis by simp
next
  case (Cons c r)
  have "\<not> py_isspace c"
  proof
    assume "py_isspace c"
    then have "dropWhile py_isspace s = dropWhile py_isspace r" using Cons by simp
    then have "length s \<le> length r" using assms by (metis length_dropWhile_le)
    with Cons show False by simp
  qed
  with Cons show ?thesis by (simp add: collapse_ws_Cons)
qed

lemma collapse_ws_idem: "collapse_ws (collapse_ws s) = collapse_ws s"
proof (induction s rule: collapse_ws.induct)
  case (1 s)
  show ?case
  proof (cases s)
    case Nil
    then show ?thesis by simp
  next
    case (Cons c r)
    show ?thesis
    proof (cases "py_isspace c")
      case True
      have d: "dropWhile py_isspace (collapse_ws (dropWhile py_isspace r)) = collapse_ws (dropWhile py_isspace r)"
        by (rule dropWhile_collapse_ws) (simp add: dropWhile_idem)
      from "1.IH"(1) [OF Cons True] have "collapse_ws (collapse_ws (dropWhile py_isspace r)) = collapse_ws (dropWhile py_isspace r)" .
      with Cons True d show ?thesis by (simp add: collapse_ws_Cons)
    next
      case False
      from "1.IH"(2) [OF Cons False] Cons False show ?thesis by (simp add: collapse_ws_Cons)
    qed
  qed
qed

lemma set_collapse_ws: "set (collapse_ws s) \<subseteq> set s \<union> {CHR '' ''}"
proof (induction s rule: collapse_ws.induct)
  case (1 s)
  then show ?case
    by (cases s) (auto simp: collapse_ws_Cons dest: set_dropWhileD split: if_splits)
qed

lemma collapse_ws_last:
  "s \<noteq> [] \<Longrightarrow> \<not> py_isspace (last s) \<Longrightarrow> collapse_ws s \<noteq> [] \<and> \<not> py_isspace (last (collapse_ws s))"
proof (induction s rule: collapse_ws.induct)
  case (1 s)
  then obtain c r where s: "s = c # r" by (cases s) auto
  show ?case
  proof (cases "py_isspace c")
    case True
    then have r: "r \<noteq> []" "\<not> py_isspace (last r)" using "1.prems" s by (auto split: if_splits)
    then have "dropWhile py_isspace r \<noteq> [] \<and> last (dropWhile py_isspace r) = last r"
    proof (induction r)
      case Nil
      then show ?case by simp
    next
      case (Cons x xs)
      then show ?case by (cases "xs = []") auto
    qed
    with "1.IH"(1) [OF s True] r s True show ?thesis by (simp add: collapse_ws_Cons)
  next
    case False
    show ?thesis
    proof (cases "r = []")
      case True
      with False s show ?thesis by (simp add: collapse_ws_Cons)
    next
      case r: False
      with "1.prems" s have "\<not> py_isspace (last r)" by simp
      with "1.IH"(2) [OF s False] r s False show ?thesis by (simp add: collapse_ws_Cons)
    qed
  qed
qed

lemma last_dropWhile: "dropWhile P xs \<noteq> [] \<Longrightarrow> last (dropWhile P xs) = last xs"
  by (induction xs) auto

lemma hd_dropWhile_not: "dropWhile P xs \<noteq> [] \<Longrightarrow> \<not> P (hd (dropWhile P xs))"
  by (induction xs) auto

lemma py_strip_ends:
  "py_strip s = [] \<or> (\<not> py_isspace (hd (py_strip s)) \<and> \<not> py_isspace (last (py_strip s)))"
proof (cases "py_strip s = []")
  case True
  then show ?thesis by simp
next
  case False
  let ?a = "dropWhile py_isspace s"
  let ?b = "dropWhile py_isspace (rev ?a)"
  have b: "?b \<noteq> []" using False by (simp add: py_strip_def)
  have a: "?a \<noteq> []" using b by (metis dropWhile.simps(1) rev.simps(1))
  have "hd (py_strip s) = last ?b" using b by (simp add: py_strip_def hd_rev)
  also have "\<dots> = last (rev ?a)" using b by (rule last_dropWhile)
  also have "\<dots> = hd ?a" using a by (simp add: last_rev)
  finally have h: "\<not> py_isspace (hd (py_strip s))" using a hd_dropWhile_not by metis
  have "last (py_strip s) = hd ?b" using b by (simp add: py_strip_def last_rev)
  then have "\<not> py_isspace (last (py_strip s))" using b hd_dropWhile_not by metis
  with h show ?thesis by simp
qed

lemma lower_char_idem [simp]: "lower_char (lower_char c) = lower_char c"
  using py_lower_idem [of "[c]"] by (simp add: py_lower_def)

lemma lower_char_space [simp]: "lower_char (CHR '' '') = CHR '' ''"
  by (simp add: lower_char_def)

lemma py_lower_collapse_ws:
  assumes "py_lower s = s"
  shows "py_lower (collapse_ws s) = collapse_ws s"
proof -
  have "\<forall>c \<in> set s. lower_char c = id c"
    unfolding map_eq_conv [symmetric] using assms by (simp add: py_lower_def)
  then have low: "\<forall>c \<in> set s. lower_char c = c" by simp
  have "lower_char c = c" if c: "c \<in> set (collapse_ws s)" for c
  proof -
    from c set_collapse_ws [of s] have "c \<in> set s \<or> c = CHR '' ''" by blast
    with low show ?thesis by (elim disjE) simp_all
  qed
  then show ?thesis by (simp add: py_lower_def map_idI)
qed

lemma dropWhile_hd_not: "s \<noteq> [] \<Longrightarrow> \<not> P (hd s) \<Longrightarrow> dropWhile P s = s"
  by (cases s) simp_all

lemma py_strip_id:
  "s = [] \<or> (\<not> py_isspace (hd s) \<and> \<not> py_isspace (last s)) \<Longrightarrow> py_strip s = s"
proof (cases s rule: rev_cases)
  case Nil
  then show ?thesis by (simp add: py_strip_def)
next
  case (snoc ys y)
  assume e: "s = [] \<or> (\<not> py_isspace (hd s) \<and> \<not> py_isspace (last s))"
  with snoc have h: "\<not> py_isspace (hd s)" and l: "\<not> py_isspace y" by auto
  have "dropWhile py_isspace s = s" using h snoc by (intro dropWhile_hd_not) simp_all
  moreover have "dropWhile py_isspace (rev s) = rev s" using l snoc by simp
  ultimately show ?thesis by (simp add: py_strip_def)
qed

lemma py_lower_ends:
  "s = [] \<or> (\<not> py_isspace (hd s) \<and> \<not> py_isspace (last s)) \<Longrightarrow>
   py_lower s = [] \<or> (\<not> py_isspace (hd (py_lower s)) \<and> \<not> py_isspace (last (py_lower s)))"
  by (cases "s = []") (auto simp: py_lower_def hd_map last_map)

lemma collapse_ws_ends:
  assumes "s = [] \<or> (\<not> py_isspace (hd s) \<and> \<not> py_isspace (last s))"
  shows "collapse_ws s = [] \<or> (\<not> py_isspace (hd (collapse_ws s)) \<and> \<not> py_isspace (last (collapse_ws s)))"
proof (cases "s = []")
  case True
  then show ?thesis by simp
next
  case False
  with assms have h: "\<not> py_isspace (hd s)" and l: "\<not> py_isspace (last s)" by auto
  have "dropWhile py_isspace s = s" using h False by (rule dropWhile_hd_not [rotated])
  then have "dropWhile py_isspace (collapse_ws s) = collapse_ws s" by (rule dropWhile_collapse_ws)
  then have "collapse_ws s = [] \<or> \<not> py_isspace (hd (collapse_ws s))"
    by (metis hd_dropWhile_not)
  with collapse_ws_last [OF False l] show ?thesis by blast
qed

lemma normalize_query_idem: "normalize_query (normalize_query q) = normalize_query q"
proof -
  let ?t = "py_lower (py_strip q)"
  let ?n = "collapse_ws ?t"
  have t: "?t = [] \<or> (\<not> py_isspace (hd ?t) \<and> \<not> py_isspace (last ?t))"
    using py_lower_ends [OF py_strip_ends] .
  have "py_strip ?n = ?n" using collapse_ws_ends [OF t] by (rule py_strip_id)
  moreover have "py_lower ?n = ?n" by (rule py_lower_collapse_ws) simp
  ultimately show ?thesis by (simp add: normalize_query_def collapse_ws_idem)
qed

subsection \<open>Refinement of the scan\<close>

lemma embedded_queries_snoc:
  "embedded_queries (xs @ [x]) = embedded_queries xs @ embedded_queries [x]"
  by (simp add: embedded_queries_def map_filter_def)

lemma first_query_with_snoc:
  assumes "h \<in> set (map (\<lambda>(n, q). md5 (normalize_query q)) qs)"
  shows "first_query_with md5 (qs @ ys) h = first_query_with md5 qs h"
proof -
  have "filter (\<lambda>(n, q). md5 (normalize_query q) = h) qs \<noteq> []"
    using assms by (auto simp: filter_empty_conv)
  then show ?thesis by (simp add: first_query_with_def)
qed

lemma first_query_with_new:
  "h \<notin> set (map (\<lambda>(n, q). md5 (normalize_query q)) qs) \<Longrightarrow> md5 (normalize_query q) = h \<Longrightarrow>
   first_query_with md5 (qs @ [(n, q)]) h = q"
proof -
  assume "h \<notin> set (map (\<lambda>(n, q). md5 (normalize_query q)) qs)" "md5 (normalize_query q) = h"
  then have "filter (\<lambda>(n, q). md5 (normalize_query q) = h) qs = []"
    by (auto simp: filter_empty_conv) (metis (mono_tags, lifting) case_prod_conv image_eqI set_map)
  with \<open>md5 (normalize_query q) = h\<close> show ?thesis by (simp add: first_query_with_def)
qed

lemma scan_file_cases:
  "scan_file md5 st (n, c) =
     (case c of None \<Rightarrow> st
      | Some x \<Rightarrow> (case extract_embedding_query x of
          None \<Rightarrow> st\<lparr>processed_files := Suc (processed_files st)\<rparr>
        | Some q \<Rightarrow> if q = [] then st\<lparr>processed_files := Suc (processed_files st)\<rparr>
            else (let h = md5 (normalize_query q);
                      st3 = st\<lparr>processed_files := Suc (processed_files st),
                               files_with_queries := Suc (files_with_queries st),
                               database_tracking := track h (extract_database_from_filename n) (database_tracking st)\<rparr>
                  in if dict_get (unique_queries st) h = None then
                       st3\<lparr>unique_queries := dict_set (unique_queries st) h
                             \<lparr>qi_hash = h, main_table = identify_main_table q, all_tables = extract_all_tables q,
                              embedding_ready_query = q, databases = []\<rparr>\<rparr>
                     else st3\<lparr>duplicate_count := Suc (duplicate_count st)\<rparr>)))"
  by (auto simp: scan_file_def hash_query_def Let_def split: option.splits)

text \<open>C38: the single pass over the files with the unique_queries dict refines the declarative catalog: its entries are, in first-occurrence order, one per digest of the normalised query, each holding the first query with that digest; files_with_queries counts the embedded queries and splits into unique entries plus duplicate_count, and processed_files counts the files that could be read.\<close>

theorem scan_refines_catalog_spec:
  "abs_unique (scan_files md5 files) = catalog_spec md5 files \<and>
   map fst (unique_queries (scan_files md5 files)) = first_occ (map (\<lambda>(n, q). md5 (normalize_query q)) (embedded_queries files)) \<and>
   files_with_queries (scan_files md5 files) = length (embedded_queries files) \<and>
   files_with_queries (scan_files md5 files) = length (unique_queries (scan_files md5 files)) + duplicate_count (scan_files md5 files) \<and>
   processed_files (scan_files md5 files) = length (filter (\<lambda>f. snd f \<noteq> None) files)"
proof (induction files rule: rev_induct)
  case Nil
  then show ?case by (simp add: scan_files_def scan_init_def abs_unique_def catalog_spec_def Let_def embedded_queries_def)
next
  case (snoc x xs)
  obtain n c where x: "x = (n, c)" by fastforce
  let ?st = "scan_files md5 xs"
  let ?qs = "embedded_queries xs"
  let ?hs = "map (\<lambda>(n, q). md5 (normalize_query q)) ?qs"
  have st': "scan_files md5 (xs @ [x]) = scan_file md5 ?st x" by (simp add: scan_files_def)
  have keys: "map fst (unique_queries ?st) = first_occ ?hs" using snoc.IH by blast
  have ab: "abs_unique ?st = map (\<lambda>h. (h, first_query_with md5 ?qs h)) (first_occ ?hs)"
    using snoc.IH by (simp add: catalog_spec_def Let_def)
  show ?case
  proof (cases "\<exists>q. c \<noteq> None \<and> extract_embedding_query (the c) = Some q \<and> q \<noteq> []")
    case False
    then have e: "embedded_queries [x] = []"
      by (cases c) (auto simp: x embedded_queries_def split: option.splits)
    have "unique_queries (scan_file md5 ?st x) = unique_queries ?st \<and>
          files_with_queries (scan_file md5 ?st x) = files_with_queries ?st \<and>
          duplicate_count (scan_file md5 ?st x) = duplicate_count ?st \<and>
          processed_files (scan_file md5 ?st x) = processed_files ?st + (if c = None then 0 else 1)"
      using False by (cases c) (auto simp: x scan_file_cases split: option.splits)
    with snoc.IH st' e x show ?thesis
      by (simp add: embedded_queries_snoc abs_unique_def catalog_spec_def Let_def)
  next
    case True
    then obtain q t where c: "c = Some t" and q: "extract_embedding_query t = Some q" "q \<noteq> []" by auto
    let ?h = "md5 (normalize_query q)"
    have e: "embedded_queries [x] = [(n, q)]" by (simp add: x c q embedded_queries_def)
    show ?thesis
    proof (cases "?h \<in> set ?hs")
      case True
      then have old: "dict_get (unique_queries ?st) ?h \<noteq> None" using keys by (simp add: dict_get_None_iff)
      have "unique_queries (scan_file md5 ?st x) = unique_queries ?st"
        "files_with_queries (scan_file md5 ?st x) = Suc (files_with_queries ?st)"
        "duplicate_count (scan_file md5 ?st x) = Suc (duplicate_count ?st)"
        "processed_files (scan_file md5 ?st x) = Suc (processed_files ?st)"
        using old by (auto simp: x c q scan_file_cases Let_def)
      moreover have "map (\<lambda>h. (h, first_query_with md5 (?qs @ [(n, q)]) h)) (first_occ ?hs) =
                     map (\<lambda>h. (h, first_query_with md5 ?qs h)) (first_occ ?hs)"
        by (auto simp: first_query_with_snoc)
      ultimately show ?thesis using snoc.IH st' e x True c ab keys
        by (simp add: embedded_queries_snoc abs_unique_def catalog_spec_def Let_def first_occ_snoc)
    next
      case False
      then have new: "dict_get (unique_queries ?st) ?h = None" using keys by (simp add: dict_get_None_iff)
      have nk: "?h \<notin> set (map fst (unique_queries ?st))" using False keys by simp
      have "unique_queries (scan_file md5 ?st x) = unique_queries ?st @
              [(?h, \<lparr>qi_hash = ?h, main_table = identify_main_table q, all_tables = extract_all_tables q,
                     embedding_ready_query = q, databases = []\<rparr>)]"
        "files_with_queries (scan_file md5 ?st x) = Suc (files_with_queries ?st)"
        "duplicate_count (scan_file md5 ?st x) = duplicate_count ?st"
        "processed_files (scan_file md5 ?st x) = Suc (processed_files ?st)"
        using new nk by (simp_all add: x c q scan_file_cases Let_def dict_set_absent)
      moreover have "map (\<lambda>h. (h, first_query_with md5 (?qs @ [(n, q)]) h)) (first_occ ?hs) =
                     map (\<lambda>h. (h, first_query_with md5 ?qs h)) (first_occ ?hs)"
        by (auto simp: first_query_with_snoc)
      moreover have "first_query_with md5 (?qs @ [(n, q)]) ?h = q"
        using False by (rule first_query_with_new) simp
      ultimately show ?thesis using snoc.IH st' e x False c ab keys
        by (simp add: embedded_queries_snoc abs_unique_def catalog_spec_def Let_def first_occ_snoc)
    qed
  qed
qed

end
