(* ===== verification/Chat.thy ===== *)
theory Chat
  imports Prelude
begin

text \<open>
  Chat persistence in src/app.py: \<open>ensure_user_and_company\<close>, the endpoints
  \<open>/chat/session\<close> (\<open>create_or_get_chat_session\<close>) and \<open>/chat/message\<close>
  (\<open>save_chat_message\<close>), and the credential lookup \<open>get_db_credentials\<close> with its
  module-level cache. The chat database is a record of its tables (lists of rows in
  storage order) and auto-increment counters. The environment says whether a connection
  can be opened, gives the clock and the values of \<open>uuid.uuid4()\<close> (the n-th call of the
  process), and the SSM parameters and variables the credential lookup reads. An
  exception the endpoints catch is the \<open>Inl\<close> of an internal step.
\<close>

subsection \<open>Tables, requests and environment\<close>

record application_row =
  app_id :: nat
  app_name :: string
  app_active :: bool

record company_row =
  company_id :: nat
  company_code :: string
  company_name :: string
  industry :: string
  database_host :: string
  database_schema :: string
  company_app :: nat

record user_row =
  user_id :: nat
  login_id :: string
  email :: string
  first_name :: string
  last_name :: string
  user_company :: nat
  last_active :: "int option"

record session_row =
  session_id :: nat
  session_uuid :: string
  session_user :: nat
  session_company :: nat
  session_active :: bool
  session_created :: int
  session_updated :: "int option"

record message_row =
  message_id :: nat
  message_session :: nat
  message_user :: nat
  message_company :: nat
  message_type :: string
  message_content :: string
  message_metadata :: string
  query_type :: "string option"
  endpoint_used :: "string option"
  response_time :: "string option"
  message_created :: int

record chat_db =
  applications :: "application_row list"
  companies :: "company_row list"
  users :: "user_row list"
  chat_sessions :: "session_row list"
  chat_messages :: "message_row list"
  next_company :: nat
  next_user :: nat
  next_session :: nat
  next_message :: nat

text \<open>\<open>UserContext\<close> (and \<open>ChatSessionRequest\<close>, which has the same fields). It has no
  field \<open>DatabaseKnowledgeBaseId\<close>.\<close>

record user_context =
  uc_loginId :: string
  uc_email :: string
  uc_firstName :: string
  uc_lastName :: string
  uc_company :: string
  uc_companyName :: string
  uc_industry :: string
  uc_databaseHost :: string
  uc_databaseSchema :: string
  uc_application :: string

text \<open>\<open>ChatMessageRequest\<close>; the metadata dict, \<open>None\<close> when the client sends null, has
  its values rendered as strings.\<close>

record message_request =
  mr_sessionId :: string
  mr_messageType :: string
  mr_content :: string
  mr_metadata :: "(string \<times> string) list option"
  mr_userContext :: user_context

text \<open>\<open>db_conn\<close> is the outcome of \<open>get_chat_db_connection()\<close> during one request:
  \<open>Inl\<close> the exception it lets through, \<open>Inr True\<close> a connection, \<open>Inr False\<close>
  \<open>None\<close>.\<close>

record chat_env =
  db_conn :: "string + bool"
  chat_clock :: int
  uuid4 :: "nat \<Rightarrow> string"

record chat_state =
  cdb :: chat_db
  uuid_seq :: nat

definition fresh_uuid :: "chat_env \<Rightarrow> chat_state \<Rightarrow> string \<times> chat_state" where
  "fresh_uuid CE s = (uuid4 CE (uuid_seq s), s\<lparr>uuid_seq := Suc (uuid_seq s)\<rparr>)"

subsection \<open>Users and companies\<close>

definition find_first :: "('a \<Rightarrow> bool) \<Rightarrow> 'a list \<Rightarrow> 'a option" where
  "find_first P xs = (case filter P xs of [] \<Rightarrow> None | x # _ \<Rightarrow> Some x)"

text \<open>\<open>ensure_user_and_company\<close>: the application must exist and be active; the company
  is found by code or inserted; the user is found by login and company or inserted, and
  an existing user's \<open>LastActiveAt\<close> is set. \<open>Inr None\<close> stands for
  \<open>(None, None)\<close>; an exception of the connection call is raised (\<open>Inl\<close>).\<close>

definition ensure_user_and_company ::
  "chat_env \<Rightarrow> user_context \<Rightarrow> chat_db \<Rightarrow> (string + (nat \<times> nat) option) \<times> chat_db" where
  "ensure_user_and_company CE uc db =
     (case db_conn CE of
      Inl e \<Rightarrow> (Inl e, db)
    | Inr False \<Rightarrow> (Inr None, db)
    | Inr True \<Rightarrow>
      (case find_first (\<lambda>a. app_name a = uc_application uc \<and> app_active a) (applications db) of
        None \<Rightarrow> (Inr None, db)
      | Some a \<Rightarrow>
          (let (cid, db1) =
             (case find_first (\<lambda>c. company_code c = uc_company uc) (companies db) of
                Some c \<Rightarrow> (company_id c, db)
              | None \<Rightarrow>
                  (next_company db,
                   db\<lparr>companies := companies db @
                        [\<lparr>company_id = next_company db, company_code = uc_company uc,
                          company_name = uc_companyName uc, industry = uc_industry uc,
                          database_host = uc_databaseHost uc, database_schema = uc_databaseSchema uc,
                          company_app = app_id a\<rparr>],
                      next_company := Suc (next_company db)\<rparr>));
               (uid, db2) =
             (case find_first (\<lambda>u. login_id u = uc_loginId uc \<and> user_company u = cid) (users db1) of
                Some u \<Rightarrow>
                  (user_id u,
                   db1\<lparr>users := map (\<lambda>v. if user_id v = user_id u then v\<lparr>last_active := Some (chat_clock CE)\<rparr> else v)
                                   (users db1)\<rparr>)
              | None \<Rightarrow>
                  (next_user db1,
                   db1\<lparr>users := users db1 @
                        [\<lparr>user_id = next_user db1, login_id = uc_loginId uc, email = uc_email uc,
                          first_name = uc_firstName uc, last_name = uc_lastName uc, user_company = cid,
                          last_active = None\<rparr>],
                       next_user := Suc (next_user db1)\<rparr>))
           in (Inr (Some (uid, cid)), db2))))"

subsection \<open>Sessions\<close>

text \<open>\<open>ORDER BY CreatedAt DESC LIMIT 1\<close> over the active sessions of a user and company.\<close>

definition latest_active_session :: "nat \<Rightarrow> nat \<Rightarrow> chat_db \<Rightarrow> session_row option" where
  "latest_active_session uid cid db =
     find_first (\<lambda>_. True)
       (rev (sort_key session_created
          (rev (filter (\<lambda>r. session_user r = uid \<and> session_company r = cid \<and> session_active r)
                  (chat_sessions db)))))"

text \<open>\<open>ORDER BY CreatedAt DESC LIMIT 50\<close>, then \<open>reversed\<close>: the 50 latest messages of a
  session, oldest first.\<close>

definition recent_messages :: "nat \<Rightarrow> chat_db \<Rightarrow> message_row list" where
  "recent_messages sid db =
     rev (take 50 (rev (sort_key message_created (filter (\<lambda>m. message_session m = sid) (chat_messages db)))))"

definition session_fallback :: "chat_env \<Rightarrow> chat_state \<Rightarrow> (string \<times> message_row list) \<times> chat_state" where
  "session_fallback CE s = (let (u, s') = fresh_uuid CE s in ((u, []), s'))"

text \<open>\<open>create_or_get_chat_session\<close>. Creating a session draws a UUID and then reads
  \<open>user_context.DatabaseKnowledgeBaseId\<close> for the \<open>INSERT\<close>; the attribute does not
  exist, the \<open>AttributeError\<close> reaches the \<open>except\<close>, and the fallback draws a second UUID.
  The user and company rows committed by \<open>ensure_user_and_company\<close> stay.\<close>

definition create_or_get_chat_session ::
  "chat_env \<Rightarrow> user_context \<Rightarrow> chat_state \<Rightarrow> (string \<times> message_row list) \<times> chat_state" where
  "create_or_get_chat_session CE uc s =
     (let (ids, db1) = ensure_user_and_company CE uc (cdb s);
          s1 = s\<lparr>cdb := db1\<rparr>
      in case ids of
           Inl e \<Rightarrow> session_fallback CE s1
         | Inr None \<Rightarrow> session_fallback CE s1
         | Inr (Some (uid, cid)) \<Rightarrow>
             if uid = 0 \<or> cid = 0 \<or> db_conn CE \<noteq> Inr True then session_fallback CE s1
             else (case latest_active_session uid cid db1 of
                     Some r \<Rightarrow> ((session_uuid r, recent_messages (session_id r) db1), s1)
                   | None \<Rightarrow> (let (u, s2) = fresh_uuid CE s1 in session_fallback CE s2)))"

subsection \<open>Messages\<close>

datatype save_status = Saved | SessionNotFound | NotPersisted string

text \<open>\<open>save_chat_message\<close>; with a null metadata the \<open>.get\<close> calls raise and the
  \<open>except\<close> answers that the message was not persisted.\<close>

definition save_chat_message :: "chat_env \<Rightarrow> message_request \<Rightarrow> chat_state \<Rightarrow> save_status \<times> chat_state" where
  "save_chat_message CE req s =
     (let (ids, db1) = ensure_user_and_company CE (mr_userContext req) (cdb s);
          s1 = s\<lparr>cdb := db1\<rparr>
      in case ids of
           Inl e \<Rightarrow> (NotPersisted ''message not persisted - error occurred'', s1)
         | Inr None \<Rightarrow> (NotPersisted ''message not persisted - database unavailable'', s1)
         | Inr (Some (uid, cid)) \<Rightarrow>
             if uid = 0 \<or> cid = 0 \<or> db_conn CE \<noteq> Inr True
             then (case db_conn CE of
                     Inl e \<Rightarrow> (NotPersisted ''message not persisted - error occurred'', s1)
                   | Inr _ \<Rightarrow> (NotPersisted ''message not persisted - database unavailable'', s1))
             else (case find_first (\<lambda>r. session_uuid r = mr_sessionId req) (chat_sessions db1) of
                     None \<Rightarrow> (SessionNotFound, s1)
                   | Some r \<Rightarrow>
                       (case mr_metadata req of
                          None \<Rightarrow> (NotPersisted ''message not persisted - error occurred'', s1)
                        | Some md \<Rightarrow>
                            (let m = \<lparr>message_id = next_message db1, message_session = session_id r,
                                      message_user = uid, message_company = cid,
                                      message_type = mr_messageType req, message_content = mr_content req,
                                      message_metadata = (if md = [] then ''{}''
                                                          else case map_of md ''metadata'' of
                                                                 None \<Rightarrow> ''{}'' | Some v \<Rightarrow> v),
                                      query_type = map_of md ''queryType'',
                                      endpoint_used = map_of md ''endpointUsed'',
                                      response_time = map_of md ''responseTime'',
                                      message_created = chat_clock CE\<rparr>;
                                 db2 = db1\<lparr>chat_messages := chat_messages db1 @ [m],
                                           next_message := Suc (next_message db1),
                                           chat_sessions := map (\<lambda>x. if session_id x = session_id r
                                                                      then x\<lparr>session_updated := Some (chat_clock CE)\<rparr> else x)
                                                              (chat_sessions db1)\<rparr>
                             in (Saved, s\<lparr>cdb := db2\<rparr>)))))"

subsection \<open>Credentials\<close>

record ssm_env =
  ssm_client_ok :: bool
  ssm_call_ok :: bool
  ssm_params :: "(string \<times> string) list"
  env_user :: "string option"
  env_password :: "string option"

record credentials =
  cred_user :: string
  cred_password :: string

definition env_credentials :: "ssm_env \<Rightarrow> credentials" where
  "env_credentials S =
     \<lparr>cred_user = (case env_user S of None \<Rightarrow> ''chat_user'' | Some u \<Rightarrow> u),
      cred_password = (case env_password S of None \<Rightarrow> [] | Some p \<Rightarrow> p)\<rparr>"

text \<open>\<open>get_db_credentials\<close>: the cached value when there is one (a dict is truthy when
  non-empty, and it always has two keys); otherwise the SSM parameters, each falling back
  to its environment variable, or the variables alone when SSM is unavailable or fails.
  The result is cached in every branch.\<close>

definition get_db_credentials ::
  "ssm_env \<Rightarrow> credentials option \<Rightarrow> credentials \<times> credentials option" where
  "get_db_credentials S cached =
     (case cached of
        Some c \<Rightarrow> (c, cached)
      | None \<Rightarrow>
          (let c = (if \<not> ssm_client_ok S \<or> \<not> ssm_call_ok S then env_credentials S
                    else \<lparr>cred_user = (case map_of (rev (ssm_params S)) ''/dbkb/chat/db/username'' of
                                         None \<Rightarrow> cred_user (env_credentials S) | Some u \<Rightarrow> u),
                          cred_password = (case map_of (rev (ssm_params S)) ''/dbkb/chat/db/password'' of
                                             None \<Rightarrow> cred_password (env_credentials S) | Some p \<Rightarrow> p)\<rparr>)
           in (c, Some c)))"

record db_config =
  cfg_host :: string
  cfg_database :: string
  cfg_user :: string
  cfg_password :: string
  cfg_port :: int

text \<open>\<open>get_chat_db_config\<close>: the credentials are fetched (and cached) before
  \<open>int(os.getenv('CHAT_DB_PORT', 3306))\<close> is evaluated, which raises \<open>ValueError\<close> on a
  malformed variable.\<close>

definition get_chat_db_config ::
  "ssm_env \<Rightarrow> string option \<Rightarrow> credentials option \<Rightarrow> (string + db_config) \<times> credentials option" where
  "get_chat_db_config S port_env cached =
     (let (c, cached') = get_db_credentials S cached;
          port = (case port_env of None \<Rightarrow> Some 3306 | Some p \<Rightarrow> py_int p)
      in case port of
           None \<Rightarrow> (Inl ''ValueError'', cached')
         | Some n \<Rightarrow>
             (Inr \<lparr>cfg_host = ''dev.writer.pic.picbusiness.aws'', cfg_database = ''chat'',
                   cfg_user = cred_user c, cfg_password = cred_password c, cfg_port = n\<rparr>, cached'))"

text \<open>\<open>get_chat_db_connection\<close>: \<open>None\<close> without the connector or when
  \<open>mysql.connector.connect\<close> raises its \<open>Error\<close> (the predicate \<open>connects\<close> says
  which configurations the server accepts); the \<open>ValueError\<close> of the configuration is
  not an \<open>Error\<close> and propagates. The result is the \<open>db_conn\<close> of a request.\<close>

definition get_chat_db_connection ::
  "bool \<Rightarrow> (db_config \<Rightarrow> bool) \<Rightarrow> ssm_env \<Rightarrow> string option \<Rightarrow> credentials option
   \<Rightarrow> (string + bool) \<times> credentials option" where
  "get_chat_db_connection connector connects S port_env cached =
     (if \<not> connector then (Inr False, cached)
      else (let (r, cached') = get_chat_db_config S port_env cached
            in case r of
                 Inl e \<Rightarrow> (Inl e, cached')
               | Inr cfg \<Rightarrow> (Inr (connects cfg), cached')))"

subsection \<open>Sequences of requests\<close>

text \<open>The server handles one request at a time; a run is a sequence of requests, each
  with the environment it meets.\<close>

datatype chat_request = SessionRequest user_context | MessageRequest message_request
datatype chat_reply = SessionReply "string \<times> message_row list" | MessageReply save_status

fun chat_step :: "chat_env \<Rightarrow> chat_request \<Rightarrow> chat_state \<Rightarrow> chat_reply \<times> chat_state" where
  "chat_step CE (SessionRequest uc) s = (let (r, s') = create_or_get_chat_session CE uc s in (SessionReply r, s'))"
| "chat_step CE (MessageRequest req) s = (let (r, s') = save_chat_message CE req s in (MessageReply r, s'))"

fun chat_run :: "(chat_env \<times> chat_request) list \<Rightarrow> chat_state \<Rightarrow> chat_reply list \<times> chat_state" where
  "chat_run [] s = ([], s)"
| "chat_run ((CE, r) # rs) s =
     (let (a, s1) = chat_step CE r s; (out, s2) = chat_run rs s1 in (a # out, s2))"

subsection \<open>Examples\<close>

definition uc_ex :: user_context where "uc_ex = \<lparr>uc_loginId = ''u1'', uc_email = ''e'', uc_firstName = ''f'', uc_lastName = ''l'',
  uc_company = ''C1'', uc_companyName = ''Co'', uc_industry = ''i'', uc_databaseHost = ''h'', uc_databaseSchema = ''s'', uc_application = ''epic''\<rparr>"
definition chat_db_ex :: chat_db where "chat_db_ex = \<lparr>applications = [\<lparr>app_id = 1, app_name = ''epic'', app_active = True\<rparr>],
  companies = [], users = [], chat_sessions = [\<lparr>session_id = 1, session_uuid = ''old'', session_user = 1, session_company = 1,
   session_active = False, session_created = 0, session_updated = None\<rparr>], chat_messages = [], next_company = 1, next_user = 1, next_session = 2, next_message = 1\<rparr>"
definition chat_env_ex :: chat_env where "chat_env_ex = \<lparr>db_conn = Inr True, chat_clock = 5, uuid4 = (\<lambda>n. ''uuid-'' @ string_of_nat n)\<rparr>"
definition message_ex :: message_request where "message_ex = \<lparr>mr_sessionId = [], mr_messageType = ''user'', mr_content = ''hi'', mr_metadata = Some [], mr_userContext = uc_ex\<rparr>"

subsection \<open>Lemmas\<close>

lemma find_first_Some:
  assumes "find_first P xs = Some x"
  shows "x \<in> set xs \<and> P x"
proof -
  from assms obtain ys where "filter P xs = x # ys"
    by (auto simp: find_first_def split: list.splits)
  then have "x \<in> set (filter P xs)" by simp
  then show ?thesis by simp
qed

lemma find_first_None: "find_first P xs = None \<longleftrightarrow> (\<forall>x\<in>set xs. \<not> P x)"
  proof -
  have "find_first P xs = None \<longleftrightarrow> filter P xs = []"
    by (simp add: find_first_def split: list.split)
  then show ?thesis by (simp add: filter_empty_conv)
qed

lemma ensure_keeps_chat:
  "chat_sessions (snd (ensure_user_and_company CE uc db)) = chat_sessions db \<and>
   chat_messages (snd (ensure_user_and_company CE uc db)) = chat_messages db"
  unfolding ensure_user_and_company_def by (simp add: Let_def split: option.split prod.split sum.split bool.split)

lemma fresh_uuid_cdb: "cdb (snd (fresh_uuid CE s)) = cdb s"
  by (simp add: fresh_uuid_def)

lemma session_fallback_cdb: "cdb (snd (session_fallback CE s)) = cdb s"
  by (simp add: session_fallback_def fresh_uuid_def)

lemma create_keeps_chat:
  "chat_sessions (cdb (snd (create_or_get_chat_session CE uc s))) = chat_sessions (cdb s) \<and>
   chat_messages (cdb (snd (create_or_get_chat_session CE uc s))) = chat_messages (cdb s)"
  using ensure_keeps_chat [of CE uc "cdb s"]
  unfolding create_or_get_chat_session_def
  by (auto simp: Let_def session_fallback_def fresh_uuid_def split: option.split prod.split sum.split bool.split)

lemma save_keeps_session_uuids:
  "map session_uuid (chat_sessions (cdb (snd (save_chat_message CE req s)))) = map session_uuid (chat_sessions (cdb s))"
  using ensure_keeps_chat [of CE "mr_userContext req" "cdb s"]
  unfolding save_chat_message_def
  by (auto simp: Let_def split: option.split prod.split sum.split bool.split)

lemma save_saved_session:
  "fst (save_chat_message CE req s) = Saved \<Longrightarrow> mr_sessionId req \<in> session_uuid ` set (chat_sessions (cdb s))"
  using ensure_keeps_chat [of CE "mr_userContext req" "cdb s"]
  unfolding save_chat_message_def
  by (auto simp: Let_def split: option.splits prod.splits sum.splits bool.splits if_splits dest!: find_first_Some) (metis image_eqI)+

lemma chat_step_unfold:
  "chat_step CE (SessionRequest uc) s =
     (SessionReply (fst (create_or_get_chat_session CE uc s)), snd (create_or_get_chat_session CE uc s))"
  "chat_step CE (MessageRequest req) s =
     (MessageReply (fst (save_chat_message CE req s)), snd (save_chat_message CE req s))"
  by (simp_all add: case_prod_unfold Let_def)

lemma chat_run_Cons:
  "chat_run ((CE, r) # rs) s =
     (fst (chat_step CE r s) # fst (chat_run rs (snd (chat_step CE r s))), snd (chat_run rs (snd (chat_step CE r s))))"
  by (simp add: case_prod_unfold Let_def)

declare chat_step.simps [simp del] chat_run.simps(2) [simp del]

lemma chat_step_keeps_uuids:
  "map session_uuid (chat_sessions (cdb (snd (chat_step CE r s)))) = map session_uuid (chat_sessions (cdb s))"
  using create_keeps_chat save_keeps_session_uuids
  by (cases r) (simp_all add: chat_step_unfold)

lemma chat_step_saved:
  "fst (chat_step CE r s) = MessageReply Saved \<Longrightarrow> chat_sessions (cdb s) \<noteq> []"
  using save_saved_session [of CE _ s]
  by (cases r) (auto simp: chat_step_unfold)

lemma chat_run_keeps_uuids:
  "map session_uuid (chat_sessions (cdb (snd (chat_run rs s)))) = map session_uuid (chat_sessions (cdb s))"
proof (induction rs arbitrary: s)
  case Nil then show ?case by simp
next
  case (Cons x rs)
  obtain CE r where "x = (CE, r)" by fastforce
  with Cons.IH [of "snd (chat_step CE r s)"] chat_step_keeps_uuids [of CE r s]
  show ?case by (simp add: chat_run_Cons)
qed

lemma find_first_snoc_None:
  "find_first P xs = None \<Longrightarrow> find_first P (xs @ [x]) = (if P x then Some x else None)"
  by (simp add: find_first_def split: list.splits)

lemma find_first_map_same:
  assumes "\<And>v. P (f v) = P v"
  shows "find_first P (map f xs) = map_option f (find_first P xs)"
proof -
  have "filter P (map f xs) = map f (filter P xs)"
    using assms by (induction xs) simp_all
  then show ?thesis by (simp add: find_first_def split: list.split)
qed

lemma get_db_credentials_cached:
  "snd (get_db_credentials S c) = Some (fst (get_db_credentials S c))"
  "get_db_credentials S' (snd (get_db_credentials S c)) = get_db_credentials S c"
  by (simp_all add: get_db_credentials_def Let_def split: option.split)

lemma get_chat_db_connection_value_error:
  assumes "connector" "py_int p = None"
  shows "get_chat_db_connection connector connects S (Some p) c =
           (Inl ''ValueError'', Some (fst (get_db_credentials S c)))"
  using assms get_db_credentials_cached(1) [of S c]
  by (simp add: get_chat_db_connection_def get_chat_db_config_def case_prod_unfold Let_def)

lemma ensure_user_and_company_idem:
  assumes "ensure_user_and_company CE uc db = (Inr (Some ids), db')"
  shows "fst (ensure_user_and_company CE uc db') = Inr (Some ids) \<and>
         companies (snd (ensure_user_and_company CE uc db')) = companies db' \<and>
         map user_id (users (snd (ensure_user_and_company CE uc db'))) = map user_id (users db')"
  using assms
  by (auto simp: ensure_user_and_company_def Let_def find_first_snoc_None find_first_map_same
           split: sum.splits bool.splits option.splits prod.splits)

text \<open>C18: The chat endpoints never create a session: over any sequence of session and
  message requests the stored sessions keep their UUIDs, so from a database without
  sessions no message is ever saved.\<close>

theorem chat_run_creates_no_session:
  "map session_uuid (chat_sessions (cdb (snd (chat_run rs s)))) = map session_uuid (chat_sessions (cdb s)) \<and>
   (chat_sessions (cdb s) = [] \<longrightarrow> MessageReply Saved \<notin> set (fst (chat_run rs s)))"
proof (intro conjI impI)
  show "map session_uuid (chat_sessions (cdb (snd (chat_run rs s)))) = map session_uuid (chat_sessions (cdb s))"
    by (rule chat_run_keeps_uuids)
  show "MessageReply Saved \<notin> set (fst (chat_run rs s))" if "chat_sessions (cdb s) = []"
    using that
  proof (induction rs arbitrary: s)
    case Nil then show ?case by simp
  next
    case (Cons x rs)
    obtain CE r where x: "x = (CE, r)" by fastforce
    have "chat_sessions (cdb (snd (chat_step CE r s))) = []"
      using chat_step_keeps_uuids [of CE r s] Cons.prems by simp
    with Cons.IH [of "snd (chat_step CE r s)"] chat_step_saved [of CE r s] Cons.prems x
    show ?case by (auto simp: chat_run_Cons)
  qed
qed

theorem chat_run_creates_no_session_witness:
  "chat_sessions (cdb \<lparr>cdb = chat_db_ex\<lparr>chat_sessions := []\<rparr>, uuid_seq = 0\<rparr>) = [] \<and>
   MessageReply Saved \<notin> set (fst (chat_run [(chat_env_ex, SessionRequest uc_ex), (chat_env_ex, MessageRequest message_ex)]
                                      \<lparr>cdb = chat_db_ex\<lparr>chat_sessions := []\<rparr>, uuid_seq = 0\<rparr>))"
  using chat_run_creates_no_session [of "[(chat_env_ex, SessionRequest uc_ex), (chat_env_ex, MessageRequest message_ex)]"
                                        "\<lparr>cdb = chat_db_ex\<lparr>chat_sessions := []\<rparr>, uuid_seq = 0\<rparr>"]
  by simp

lemma latest_active_none:
  assumes "\<forall>r\<in>set (chat_sessions db). \<not> session_active r"
  shows "latest_active_session uid cid db = None"
proof -
  have "filter (\<lambda>r. session_user r = uid \<and> session_company r = cid \<and> session_active r) (chat_sessions db) = []"
    using assms by (auto simp: filter_empty_conv)
  then show ?thesis by (simp add: latest_active_session_def find_first_def)
qed

lemma create_new_session_uuid:
  assumes "\<forall>r\<in>set (chat_sessions (cdb s)). \<not> session_active r"
  shows "\<exists>k. fst (fst (create_or_get_chat_session CE uc s)) = uuid4 CE k"
proof -
  obtain ids db1 where e: "ensure_user_and_company CE uc (cdb s) = (ids, db1)" by fastforce
  with ensure_keeps_chat [of CE uc "cdb s"] have "chat_sessions db1 = chat_sessions (cdb s)" by simp
  with assms have none: "latest_active_session uid cid db1 = None" for uid cid
    by (simp add: latest_active_none)
  show ?thesis
    by (auto simp: create_or_get_chat_session_def e none Let_def session_fallback_def fresh_uuid_def
             split: option.split sum.split)
qed

text \<open>C37: A user without an active session gets a fresh UUID from /chat/session that
  was never stored, so (UUIDs being fresh) the message sent next under that session id is
  not saved, whatever the request and the environment of the second call.\<close>

theorem fresh_session_message_not_saved:
  assumes "\<forall>r\<in>set (chat_sessions (cdb s)). \<not> session_active r"
    and "\<forall>n. uuid4 CE n \<notin> session_uuid ` set (chat_sessions (cdb s))"
  shows "fst (save_chat_message CE' (req\<lparr>mr_sessionId := fst (fst (create_or_get_chat_session CE uc s))\<rparr>)
                (snd (create_or_get_chat_session CE uc s))) \<noteq> Saved"
proof
  let ?c = "create_or_get_chat_session CE uc s"
  assume "fst (save_chat_message CE' (req\<lparr>mr_sessionId := fst (fst ?c)\<rparr>) (snd ?c)) = Saved"
  then have "fst (fst ?c) \<in> session_uuid ` set (chat_sessions (cdb (snd ?c)))"
    using save_saved_session by fastforce
  then have "fst (fst ?c) \<in> session_uuid ` set (chat_sessions (cdb s))"
    using create_keeps_chat [of CE uc s] by simp
  moreover obtain k where "fst (fst ?c) = uuid4 CE k"
    using create_new_session_uuid [OF assms(1), of CE uc] by blast
  ultimately show False using assms(2) by simp
qed

theorem fresh_session_message_not_saved_witness:
  "fst (save_chat_message chat_env_ex (message_ex\<lparr>mr_sessionId :=
          fst (fst (create_or_get_chat_session chat_env_ex uc_ex \<lparr>cdb = chat_db_ex, uuid_seq = 0\<rparr>))\<rparr>)
        (snd (create_or_get_chat_session chat_env_ex uc_ex \<lparr>cdb = chat_db_ex, uuid_seq = 0\<rparr>))) \<noteq> Saved"
  using fresh_session_message_not_saved [where s = "\<lparr>cdb = chat_db_ex, uuid_seq = 0\<rparr>" and CE = chat_env_ex
          and CE' = chat_env_ex and req = message_ex and uc = uc_ex]
  by (simp add: chat_db_ex_def chat_env_ex_def)

end
