(* ===== verification/SchemaDocs.thy ===== *)
theory SchemaDocs
  imports Prelude "HOL-Library.Char_ord" "HOL-Library.List_Lexorder" "HOL-Library.Product_Lexorder"
begin

text \<open>
  The schema documentation generator of src/src/documentation/schema_to_markdown.py
  (\<open>SchemaMarkdownGenerator\<close>). The schema JSON is a record per table with the
  \<open>.get\<close> defaults of the code applied where a missing key and its default are
  indistinguishable (an absent list is the empty list, an absent flag its default); the
  table description and the primary key keep their JSON shape because the code treats
  them differently in different pages. Each page is the string its \<open>f.write\<close> calls
  produce, and a run is the list of (path, content) files written in order; an
  exception the generator does not catch is an \<open>Inl\<close> and ends the run after the
  partial page written so far.
\<close>

subsection \<open>The schema JSON\<close>

text \<open>A primary key as JSON: absent or null, a list of column names, a string, or another
  scalar given by its \<open>str()\<close> and its truthiness (\<open>', '.join\<close> of it raises
  \<open>TypeError\<close>).\<close>

datatype pk_json = PkNull | PkList "string list" | PkStr string | PkScalar string bool

record column_info =
  data_type :: string
  is_nullable :: bool
  col_default :: "string option"
  col_description :: string
  is_primary_key :: bool
  foreign_key :: bool
  has_index :: bool

record fk_info =
  fk_column :: string
  fk_ref_table :: string
  fk_ref_column :: string

record ref_info =
  ref_table :: string
  ref_column :: string
  via_foreign_key :: string

record index_info =
  idx_name :: string
  idx_columns :: "string list"
  idx_unique :: bool
  idx_primary :: bool

record table_info =
  tbl_description :: "string option"
  tbl_columns :: "(string \<times> column_info) list"
  primary_key :: pk_json
  foreign_keys :: "fk_info list"
  referenced_by :: "ref_info list"
  indexes :: "index_info list"

type_synonym schema_tables = "(string \<times> table_info) list"

subsection \<open>Rendering helpers\<close>

definition line :: "string \<Rightarrow> string" where
  "line s = s @ nl"

definition escape_pipe :: "string \<Rightarrow> string" where
  "escape_pipe s = py_replace ''|'' [CHR 0x5C, CHR ''|''] s"

text \<open>The check mark U+2713 as the UTF-8 bytes the file receives.\<close>

definition check_mark :: string where
  "check_mark = [CHR 0xE2, CHR 0x9C, CHR 0x93]"

definition mark :: "bool \<Rightarrow> string" where
  "mark b = (if b then check_mark else [])"

text \<open>\<open>os.path.join(a, b)\<close>: an absolute \<open>b\<close> replaces \<open>a\<close>.\<close>

definition path_join :: "string \<Rightarrow> string \<Rightarrow> string" where
  "path_join a b =
     (if b \<noteq> [] \<and> hd b = CHR ''/'' then b
      else if a = [] \<or> last a = CHR ''/'' then a @ b else a @ ''/'' @ b)"

definition pk_truthy :: "pk_json \<Rightarrow> bool" where
  "pk_truthy pk = (case pk of PkNull \<Rightarrow> False | PkList xs \<Rightarrow> xs \<noteq> [] | PkStr s \<Rightarrow> s \<noteq> [] | PkScalar _ b \<Rightarrow> b)"

text \<open>Iterating the primary key: a string iterates its characters.\<close>

definition pk_items :: "pk_json \<Rightarrow> string list" where
  "pk_items pk = (case pk of PkList xs \<Rightarrow> xs | PkStr s \<Rightarrow> map (\<lambda>c. [c]) s | _ \<Rightarrow> [])"

subsection \<open>Index and tables summary\<close>

definition index_header :: "string \<Rightarrow> string" where
  "index_header date =
     line ''# Database Schema Documentation'' @ nl @
     ''This documentation describes the database schema extracted on '' @ date @ nl @ nl @
     line ''## Contents'' @ nl @
     line ''- [Tables Summary](tables/tables_summary.md)'' @
     line ''- [Relationships Summary](relationships/relationships_summary.md)'' @
     nl @ line ''## Tables'' @ nl"

definition generate_index_file :: "string \<Rightarrow> schema_tables \<Rightarrow> string" where
  "generate_index_file date ts =
     index_header date @
     concat (map (\<lambda>n. line (''- ['' @ n @ ''](tables/'' @ n @ ''.md)'')) (sort (map fst ts)))"

text \<open>The summary's primary-key cell: a list joined (\<open>None\<close> when empty), null as
  \<open>None\<close>, anything else by \<open>str()\<close>.\<close>

definition summary_pk :: "pk_json \<Rightarrow> string" where
  "summary_pk pk =
     (case pk of PkList xs \<Rightarrow> (if xs = [] then ''None'' else py_join '', '' xs)
      | PkNull \<Rightarrow> ''None'' | PkStr s \<Rightarrow> s | PkScalar s _ \<Rightarrow> s)"

definition summary_row :: "string \<times> table_info \<Rightarrow> string" where
  "summary_row nt =
     (let (n, t) = nt in
      line (''| ['' @ n @ ''](./tables/'' @ n @ ''.md) | '' @
            escape_pipe (case tbl_description t of None \<Rightarrow> [] | Some d \<Rightarrow> d) @ '' | '' @
            string_of_nat (length (tbl_columns t)) @ '' | '' @ summary_pk (primary_key t) @ '' | '' @
            string_of_nat (length (foreign_keys t)) @ '' |''))"

definition generate_tables_summary :: "schema_tables \<Rightarrow> string" where
  "generate_tables_summary ts =
     line ''# Tables Summary'' @ nl @
     line ''| Table Name | Description | # Columns | Primary Key | Foreign Keys |'' @
     line ''|------------|-------------|-----------|-------------|--------------|'' @
     concat (map summary_row (sort_key fst ts))"

subsection \<open>The page of one table\<close>

definition column_row :: "string \<times> column_info \<Rightarrow> string" where
  "column_row nc =
     (let (n, c) = nc in
      line (''| '' @ n @ '' | '' @ escape_pipe (data_type c) @ '' | '' @
            (if is_nullable c then ''YES'' else ''NO'') @ '' | '' @
            (case col_default c of None \<Rightarrow> ''NULL'' | Some d \<Rightarrow> escape_pipe d) @ '' | '' @
            escape_pipe (col_description c) @ '' | '' @ mark (is_primary_key c) @ '' | '' @
            mark (foreign_key c) @ '' | '' @ mark (has_index c) @ '' |''))"

definition fk_row :: "fk_info \<Rightarrow> string" where
  "fk_row fk = line (''| '' @ fk_column fk @ '' | ['' @ fk_ref_table fk @ ''](./'' @ fk_ref_table fk @ ''.md) | '' @
                     fk_ref_column fk @ '' |'')"

definition ref_row :: "ref_info \<Rightarrow> string" where
  "ref_row r = line (''| ['' @ ref_table r @ ''](./'' @ ref_table r @ ''.md) | '' @ ref_column r @ '' | '' @
                     via_foreign_key r @ '' |'')"

definition index_row :: "index_info \<Rightarrow> string" where
  "index_row i = line (''| '' @ idx_name i @ '' | '' @ py_join '', '' (idx_columns i) @ '' | '' @
                       mark (idx_unique i) @ '' | '' @ mark (idx_primary i) @ '' |'')"

definition join_example :: "string \<Rightarrow> string \<Rightarrow> string \<Rightarrow> string \<Rightarrow> string \<Rightarrow> string" where
  "join_example heading n other left right =
     line (''### Join with '' @ heading) @ nl @ line ''```sql'' @ line ''SELECT t1.*, t2.*'' @
     line (''FROM '' @ n @ '' t1'') @
     line (''JOIN '' @ other @ '' t2 ON t1.'' @ left @ '' = t2.'' @ right) @ line ''```'' @ nl"

definition table_doc_head :: "string \<Rightarrow> table_info \<Rightarrow> string" where
  "table_doc_head n t =
     line (''# Table: '' @ n) @ nl @
     line (case tbl_description t of None \<Rightarrow> ''Table '' @ n | Some d \<Rightarrow> d) @ nl @
     line ''## Quick Statistics'' @ nl @
     line (''- **Columns**: '' @ string_of_nat (length (tbl_columns t)))"

text \<open>The rest of the page, once the primary key has been joined.\<close>

definition table_doc_body :: "string \<Rightarrow> table_info \<Rightarrow> string" where
  "table_doc_body n t =
     line (''- **Primary Key**: '' @ (if pk_truthy (primary_key t) then py_join '', '' (pk_items (primary_key t)) else ''None'')) @
     line (''- **Foreign Keys**: '' @ string_of_nat (length (foreign_keys t))) @
     line (''- **Referenced By**: '' @ string_of_nat (length (referenced_by t)) @ '' tables'') @
     line (''- **Indexes**: '' @ string_of_nat (length (indexes t))) @ nl @
     line ''## Columns'' @ nl @
     line ''| Column Name | Data Type | Nullable | Default | Description | PK | FK | Indexed |'' @
     line ''|-------------|-----------|----------|---------|-------------|----|----|---------|'' @
     concat (map column_row (sort_key fst (tbl_columns t))) @
     (if pk_truthy (primary_key t)
      then nl @ line ''## Primary Key'' @ nl @ line ''| Column |'' @ line ''|--------|'' @
           concat (map (\<lambda>c. line (''| '' @ c @ '' |'')) (pk_items (primary_key t)))
      else []) @
     (if foreign_keys t \<noteq> []
      then nl @ line ''## Foreign Keys'' @ nl @ line ''| Column | Referenced Table | Referenced Column |'' @
           line ''|--------|------------------|-------------------|'' @ concat (map fk_row (foreign_keys t))
      else []) @
     (if referenced_by t \<noteq> []
      then nl @ line ''## Referenced By'' @ nl @ line ''| Table | Column | Foreign Key |'' @
           line ''|-------|--------|-------------|'' @ concat (map ref_row (referenced_by t))
      else []) @
     (if indexes t \<noteq> []
      then nl @ line ''## Indexes'' @ nl @ line ''| Name | Columns | Unique | Primary |'' @
           line ''|------|---------|--------|--------|'' @ concat (map index_row (indexes t))
      else []) @
     nl @ line ''## Common Join Patterns'' @ nl @
     concat (map (\<lambda>fk. join_example (fk_ref_table fk) n (fk_ref_table fk) (fk_column fk) (fk_ref_column fk))
                 (foreign_keys t)) @
     (if pk_truthy (primary_key t)
      then concat (map (\<lambda>r. join_example (ref_table r @ '' (referencing)'') n (ref_table r)
                                         (hd (pk_items (primary_key t))) (ref_column r))
                       (referenced_by t))
      else [])"

text \<open>\<open>generate_table_doc\<close>: the page and, when joining a non-list scalar key raises
  \<open>TypeError\<close>, the exception after the partial page.\<close>

definition generate_table_doc :: "string \<Rightarrow> table_info \<Rightarrow> string \<times> string option" where
  "generate_table_doc n t =
     (case primary_key t of
        PkScalar _ True \<Rightarrow> (table_doc_head n t, Some ''TypeError'')
      | _ \<Rightarrow> (table_doc_head n t @ table_doc_body n t, None))"

subsection \<open>Relationships summary\<close>

record relationship =
  source_table :: string
  source_column :: string
  target_table :: string
  target_column :: string

definition relationships_of :: "schema_tables \<Rightarrow> relationship list" where
  "relationships_of ts =
     concat (map (\<lambda>(n, t). map (\<lambda>fk. \<lparr>source_table = n, source_column = fk_column fk,
                                        target_table = fk_ref_table fk, target_column = fk_ref_column fk\<rparr>)
                                (foreign_keys t)) ts)"

definition table_link :: "string \<Rightarrow> string" where
  "table_link n = ''['' @ n @ ''](../tables/'' @ n @ ''.md)''"

definition generate_relationships_summary :: "schema_tables \<Rightarrow> string" where
  "generate_relationships_summary ts =
     (let rels = relationships_of ts in
      line ''# Database Relationships Summary'' @ nl @
      line ''## Relationships by Source Table'' @ nl @
      line ''| Source Table | Source Column | Target Table | Target Column |'' @
      line ''|--------------|--------------|-------------|---------------|'' @
      concat (map (\<lambda>r. line (''| '' @ table_link (source_table r) @ '' | '' @ source_column r @ '' | '' @
                                table_link (target_table r) @ '' | '' @ target_column r @ '' |''))
                  (sort_key (\<lambda>r. (source_table r, target_table r)) rels)) @
      nl @ line ''## Relationships by Target Table'' @ nl @
      line ''| Target Table | Target Column | Source Table | Source Column |'' @
      line ''|--------------|--------------|--------------|---------------|'' @
      concat (map (\<lambda>r. line (''| '' @ table_link (target_table r) @ '' | '' @ target_column r @ '' | '' @
                                table_link (source_table r) @ '' | '' @ source_column r @ '' |''))
                  (sort_key (\<lambda>r. (target_table r, source_table r)) rels)))"

subsection \<open>A run of the generator\<close>

type_synonym writes = "(string \<times> string) list"

text \<open>The table pages in dict order, stopping at the first exception.\<close>

fun table_docs :: "string \<Rightarrow> schema_tables \<Rightarrow> writes \<times> string option" where
  "table_docs tdir [] = ([], None)"
| "table_docs tdir ((n, t) # ts) =
     (case generate_table_doc n t of
        (page, Some e) \<Rightarrow> ([(path_join tdir (n @ ''.md''), page)], Some e)
      | (page, None) \<Rightarrow> (let (w, r) = table_docs tdir ts in ((path_join tdir (n @ ''.md''), page) # w, r)))"

text \<open>\<open>generate_all_docs\<close> on a schema whose \<open>'tables'\<close> key may be missing
  (\<open>KeyError\<close> while the index is written). The subdirectories are those of
  \<open>__init__\<close>.\<close>

definition generate_all_docs :: "string \<Rightarrow> string \<Rightarrow> schema_tables option \<Rightarrow> writes \<times> string option" where
  "generate_all_docs out date tables =
     (let tdir = path_join out ''tables''; rdir = path_join out ''relationships''
      in case tables of
           None \<Rightarrow> ([(path_join out ''index.md'', index_header date)], Some ''KeyError'')
         | Some ts \<Rightarrow>
             (let w0 = [(path_join out ''index.md'', generate_index_file date ts),
                        (path_join tdir ''tables_summary.md'', generate_tables_summary ts)];
                  (w1, r) = table_docs tdir ts
              in case r of
                   Some e \<Rightarrow> (w0 @ w1, Some e)
                 | None \<Rightarrow> (w0 @ w1 @ [(path_join rdir ''relationships_summary.md'', generate_relationships_summary ts)], None)))"

text \<open>\<open>generate_markdown_from_json\<close>: an unreadable or malformed JSON file
  (\<open>None\<close>) gives \<open>False\<close>; the exceptions of the generator other than
  \<open>OSError\<close> and \<open>JSONDecodeError\<close> propagate (\<open>Inl\<close>).\<close>

definition generate_markdown_from_json ::
  "string \<Rightarrow> string \<Rightarrow> schema_tables option option \<Rightarrow> writes \<times> (string + bool)" where
  "generate_markdown_from_json out date input =
     (case input of
        None \<Rightarrow> ([], Inr False)
      | Some tables \<Rightarrow>
          (let (w, r) = generate_all_docs out date tables
           in (w, case r of None \<Rightarrow> Inr True | Some e \<Rightarrow> Inl e)))"

text \<open>\<open>generate_schema_documentation\<close>, the wrapper \<open>main.py\<close> imports.\<close>

definition generate_schema_documentation ::
  "string \<Rightarrow> string \<Rightarrow> schema_tables option option \<Rightarrow> writes \<times> (string + bool)" where
  "generate_schema_documentation out date input = generate_markdown_from_json out date input"

text \<open>The files on disk after a run: the last content written to each path.\<close>

definition files_of :: "writes \<Rightarrow> string \<Rightarrow> string option" where
  "files_of w = map_of (rev w)"

text \<open>Joining the primary key raises exactly for a truthy non-list, non-string scalar.\<close>

definition pk_join_fails :: "table_info \<Rightarrow> bool" where
  "pk_join_fails t = (case primary_key t of PkScalar _ b \<Rightarrow> b | _ \<Rightarrow> False)"

subsection \<open>Lemmas\<close>

lemma generate_table_doc_cases:
  "generate_table_doc n t =
     (if pk_join_fails t then (table_doc_head n t, Some ''TypeError'') else (table_doc_head n t @ table_doc_body n t, None))"
  by (simp add: generate_table_doc_def pk_join_fails_def split: pk_json.split bool.split)

lemma table_docs_ok:
  "\<not> list_ex (pk_join_fails \<circ> snd) ts \<Longrightarrow>
   table_docs tdir ts = (map (\<lambda>(n, t). (path_join tdir (n @ ''.md''), table_doc_head n t @ table_doc_body n t)) ts, None)"
  by (induction ts) (auto simp: generate_table_doc_cases)

lemma table_docs_error:
  "snd (table_docs tdir ts) = Some e \<Longrightarrow> e = ''TypeError'' \<and> list_ex (pk_join_fails \<circ> snd) ts"
  by (induction tdir ts rule: table_docs.induct)
     (auto simp: generate_table_doc_cases case_prod_unfold Let_def split: if_splits)

lemma suffix_path_join: "b \<noteq> [] \<Longrightarrow> suffix b (path_join a b)"
  by (auto simp: path_join_def suffix_append intro: suffix_ConsI)

lemma path_join_neq:
  assumes "b \<noteq> []" "b' \<noteq> []" "\<not> suffix b b'" "\<not> suffix b' b"
  shows "path_join a b \<noteq> path_join a' b'"
  using suffix_path_join [OF assms(1), of a] suffix_path_join [OF assms(2), of a'] assms(3,4)
  by (metis suffix_same_cases)

lemma generate_all_docs_ok:
  assumes "\<not> list_ex (pk_join_fails \<circ> snd) ts"
  shows "generate_all_docs out date (Some ts) =
           ([(path_join out ''index.md'', generate_index_file date ts),
             (path_join (path_join out ''tables'') ''tables_summary.md'', generate_tables_summary ts)] @
            map (\<lambda>(n, t). (path_join (path_join out ''tables'') (n @ ''.md''), table_doc_head n t @ table_doc_body n t)) ts @
            [(path_join (path_join out ''relationships'') ''relationships_summary.md'', generate_relationships_summary ts)], None)"
  using table_docs_ok [OF assms] by (simp add: generate_all_docs_def Let_def)

lemma table_page_not_summary: "table_doc_head n t @ rest \<noteq> generate_tables_summary ts"
  by (simp add: table_doc_head_def generate_tables_summary_def line_def nl_def)

lemma summary_overwritten:
  assumes "\<not> list_ex (pk_join_fails \<circ> snd) ts" "(''tables_summary'', t) \<in> set ts"
  shows "\<exists>n t'. (n, t') \<in> set ts \<and>
           files_of (fst (generate_all_docs out date (Some ts))) (path_join (path_join out ''tables'') ''tables_summary.md'') =
             Some (table_doc_head n t' @ table_doc_body n t') \<and>
           files_of (fst (generate_all_docs out date (Some ts))) (path_join (path_join out ''tables'') ''tables_summary.md'') \<noteq>
             Some (generate_tables_summary ts)"
proof -
  let ?p = "path_join (path_join out ''tables'') ''tables_summary.md''"
  let ?pages = "map (\<lambda>(n, t). (path_join (path_join out ''tables'') (n @ ''.md''), table_doc_head n t @ table_doc_body n t)) ts"
  have rel: "path_join (path_join out ''relationships'') ''relationships_summary.md'' \<noteq> ?p"
    by (rule path_join_neq) (simp_all add: suffix_def)
  have "?p \<in> fst ` set ?pages" using assms(2) by force
  then obtain c where c: "map_of (rev ?pages) ?p = Some c"
    by (metis (no_types, lifting) map_of_eq_None_iff not_Some_eq set_rev)
  then obtain n t' where nt: "(n, t') \<in> set ts" "c = table_doc_head n t' @ table_doc_body n t'"
    by (auto dest!: map_of_SomeD)
  have "files_of (fst (generate_all_docs out date (Some ts))) ?p = Some c"
    using rel c by (simp add: generate_all_docs_ok [OF assms(1)] files_of_def map_of_append)
  with nt table_page_not_summary show ?thesis by auto
qed

lemma table_docs_fails:
  "list_ex (pk_join_fails \<circ> snd) ts \<Longrightarrow> snd (table_docs tdir ts) = Some ''TypeError''"
  by (induction tdir ts rule: table_docs.induct)
     (auto simp: generate_table_doc_cases case_prod_unfold Let_def)

lemma table_docs_pages:
  "(p, c) \<in> set (fst (table_docs tdir ts)) \<Longrightarrow> \<exists>n t. prefix (table_doc_head n t) c"
proof (induction tdir ts rule: table_docs.induct)
  case (1 tdir) then show ?case by simp
next
  case (2 tdir n t ts)
  show ?case
  proof (cases "pk_join_fails t")
    case True
    with "2.prems" show ?thesis by (auto simp: generate_table_doc_cases)
  next
    case False
    then have g: "generate_table_doc n t = (table_doc_head n t @ table_doc_body n t, None)"
      by (simp add: generate_table_doc_cases)
    with "2.prems" have "c = table_doc_head n t @ table_doc_body n t \<or> (p, c) \<in> set (fst (table_docs tdir ts))"
      by (auto simp: case_prod_unfold Let_def)
    then show ?thesis
      using "2.IH" [OF g [symmetric] refl] by (auto intro: prefixI)
  qed
qed

lemma table_page_not_relationships: "table_doc_head n t @ r \<noteq> generate_relationships_summary ts"
  by (simp add: table_doc_head_def generate_relationships_summary_def line_def nl_def Let_def)

lemma summaries_differ:
  "generate_relationships_summary ts \<noteq> generate_index_file date ts"
  "generate_relationships_summary ts \<noteq> generate_tables_summary ts"
  by (simp_all add: generate_index_file_def index_header_def generate_tables_summary_def
                    generate_relationships_summary_def line_def nl_def Let_def)

lemma generate_markdown_type_error:
  assumes "list_ex (pk_join_fails \<circ> snd) ts"
  shows "snd (generate_markdown_from_json out date (Some (Some ts))) = Inl ''TypeError'' \<and>
         (p, generate_relationships_summary ts) \<notin> set (fst (generate_markdown_from_json out date (Some (Some ts))))"
proof -
  obtain w where w: "table_docs (path_join out ''tables'') ts = (w, Some ''TypeError'')"
    using table_docs_fails [OF assms, of "path_join out ''tables''"] by (metis prod.collapse)
  have "(p, generate_relationships_summary ts) \<notin> set w"
  proof
    assume "(p, generate_relationships_summary ts) \<in> set w"
    then have "\<exists>n t. prefix (table_doc_head n t) (generate_relationships_summary ts)"
      using table_docs_pages [of p "generate_relationships_summary ts" "path_join out ''tables''" ts] w by simp
    then show False using table_page_not_relationships prefix_def by metis
  qed
  then show ?thesis
    using summaries_differ
    by (auto simp: generate_markdown_from_json_def generate_all_docs_def w Let_def)
qed

lemma length_relationships_of:
  "length (relationships_of ts) = sum_list (map (length \<circ> foreign_keys \<circ> snd) ts)"
  by (induction ts) (auto simp: relationships_of_def)

text \<open>A primary key stored as a string is shown whole in the summary and split into
  characters on the table page, where its first character serves as join column.\<close>

lemma string_pk_pages:
  assumes "primary_key t = PkStr ''id''"
  shows "summary_pk (primary_key t) = ''id'' \<and>
         prefix (line ''- **Primary Key**: i, d'') (table_doc_body n t)"
  using assms by (simp add: summary_pk_def table_doc_body_def pk_truthy_def pk_items_def line_def)

end
