(* ===== verification/SchemaExtract.thy ===== *)
theory SchemaExtract
  imports SchemaDocs "HOL-Library.Multiset"
begin

text \<open>
  The schema extractor of src/src/schema_extraction/extract_schema.py
  (\<open>PostgreSQLSchemaExtractor\<close>, \<open>MySQLSchemaExtractor\<close>, \<open>extract_schema_to_json\<close>).
  The five catalogue queries of each extractor are oracles returning their rows (or
  raising); what the extractor does with the rows, the nested dicts it builds and
  mutates, is modelled as written. \<open>schema_data['tables']\<close> is an insertion-ordered
  dict of table dicts, each with an insertion-ordered dict of column dicts. The two
  classes process rows with the same loops; they differ in the database name the
  MySQL queries are given and in the index columns, which PostgreSQL returns as an
  array and MySQL as a \<open>GROUP_CONCAT\<close> string the code splits at commas.
\<close>

subsection \<open>Rows and the schema dict\<close>

text \<open>A row of the column query: table, column, data type, character maximum length,
  numeric precision and scale (\<open>None\<close> for SQL \<open>NULL\<close>), \<open>is_nullable\<close>, default and
  comment.\<close>

record catalog_column_row =
  cr_table :: string
  cr_column :: string
  cr_type :: string
  cr_char_len :: "nat option"
  cr_precision :: "nat option"
  cr_scale :: "nat option"
  cr_nullable :: string
  cr_default :: "string option"
  cr_comment :: "string option"

record catalog_fk_row =
  fr_table :: string
  fr_column :: string
  fr_ref_table :: string
  fr_ref_column :: string
  fr_constraint :: string

text \<open>A row of the index query; its columns are a list (PostgreSQL's \<open>array_agg\<close>)
  or a string (MySQL's \<open>GROUP_CONCAT\<close>).\<close>

record 'c catalog_index_row =
  ir_table :: string
  ir_name :: string
  ir_columns :: 'c
  ir_unique :: bool
  ir_primary :: bool

record 'c query_results =
  q_tables :: "string + (string \<times> string option) list"
  q_columns :: "string + catalog_column_row list"
  q_primary_keys :: "string + (string \<times> string) list"
  q_foreign_keys :: "string + catalog_fk_row list"
  q_indexes :: "string + 'c catalog_index_row list"

text \<open>The column dict (its \<open>foreign_key\<close> is \<open>None\<close> or the referenced table,
  column and constraint), the dicts of the \<open>foreign_keys\<close>, \<open>referenced_by\<close> and
  \<open>indexes\<close> lists, and the table dict.\<close>

record ex_column =
  ec_name :: string
  ec_data_type :: string
  ec_nullable :: bool
  ec_default :: "string option"
  ec_description :: string
  ec_pk :: bool
  ec_fk :: "(string \<times> string \<times> string) option"
  ec_has_index :: bool

record ex_fk =
  xf_column :: string
  xf_ref_table :: string
  xf_ref_column :: string
  xf_constraint :: string

record ex_ref =
  xr_table :: string
  xr_column :: string
  xr_via :: string

record ex_index =
  xi_name :: string
  xi_columns :: "string list"
  xi_unique :: bool
  xi_primary :: bool

record ex_table =
  et_name :: string
  et_description :: string
  et_columns :: "(string \<times> ex_column) list"
  et_pk :: "string list option"
  et_fks :: "ex_fk list"
  et_indexes :: "ex_index list"
  et_refs :: "ex_ref list"

type_synonym ex_schema = "(string \<times> ex_table) list"

text \<open>\<open>d[k]\<close> mutated in place by \<open>f\<close>; nothing happens for an absent key (the code
  only mutates keys it has checked).\<close>

definition dict_upd :: "('k \<times> 'v) list \<Rightarrow> 'k \<Rightarrow> ('v \<Rightarrow> 'v) \<Rightarrow> ('k \<times> 'v) list" where
  "dict_upd d k f = map (\<lambda>(k', v). if k' = k then (k', f v) else (k', v)) d"

definition truthy_nat :: "nat option \<Rightarrow> bool" where
  "truthy_nat x = (case x of None \<Rightarrow> False | Some n \<Rightarrow> n \<noteq> 0)"

definition or_default :: "string option \<Rightarrow> string \<Rightarrow> string" where
  "or_default x d = (case x of Some s \<Rightarrow> if s = [] then d else s | None \<Rightarrow> d)"

subsection \<open>The row loops\<close>

text \<open>\<open>extract_tables\<close>: one fresh table dict per row.\<close>

definition new_table :: "string \<Rightarrow> string option \<Rightarrow> ex_table" where
  "new_table n d =
     \<lparr>et_name = n, et_description = or_default d (''Table '' @ n), et_columns = [], et_pk = None,
      et_fks = [], et_indexes = [], et_refs = []\<rparr>"

definition table_step :: "ex_schema \<Rightarrow> string \<times> string option \<Rightarrow> ex_schema" where
  "table_step s r = dict_set s (fst r) (new_table (fst r) (snd r))"

text \<open>\<open>extract_columns\<close>: the full data type with its length, precision and scale
  where these are truthy.\<close>

definition full_data_type :: "catalog_column_row \<Rightarrow> string" where
  "full_data_type r =
     (if truthy_nat (cr_char_len r) then cr_type r @ ''('' @ string_of_nat (the (cr_char_len r)) @ '')''
      else if truthy_nat (cr_precision r) \<and> truthy_nat (cr_scale r)
      then cr_type r @ ''('' @ string_of_nat (the (cr_precision r)) @ '','' @ string_of_nat (the (cr_scale r)) @ '')''
      else if truthy_nat (cr_precision r) then cr_type r @ ''('' @ string_of_nat (the (cr_precision r)) @ '')''
      else cr_type r)"

definition new_column :: "catalog_column_row \<Rightarrow> ex_column" where
  "new_column r =
     \<lparr>ec_name = cr_column r, ec_data_type = full_data_type r, ec_nullable = (cr_nullable r = ''YES''),
      ec_default = cr_default r,
      ec_description = or_default (cr_comment r) (''Column '' @ cr_column r @ '' in '' @ cr_table r),
      ec_pk = False, ec_fk = None, ec_has_index = False\<rparr>"

definition column_step :: "ex_schema \<Rightarrow> catalog_column_row \<Rightarrow> ex_schema" where
  "column_step s r =
     (if cr_table r \<notin> set (map fst s) then s
      else dict_upd s (cr_table r) (\<lambda>t. t\<lparr>et_columns := dict_set (et_columns t) (cr_column r) (new_column r)\<rparr>))"

text \<open>\<open>extract_primary_keys\<close>: the columns grouped by table in \<open>pk_columns\<close> while
  each is marked, then the groups stored.\<close>

definition pk_step ::
  "ex_schema \<times> (string \<times> string list) list \<Rightarrow> string \<times> string \<Rightarrow> ex_schema \<times> (string \<times> string list) list" where
  "pk_step sp r =
     (let (s, pk) = sp; (t, c) = r
      in if t \<notin> set (map fst s) then (s, pk)
         else (dict_upd s t (\<lambda>tb. tb\<lparr>et_columns := dict_upd (et_columns tb) c (\<lambda>col. col\<lparr>ec_pk := True\<rparr>)\<rparr>),
               dict_set pk t ((case dict_get pk t of None \<Rightarrow> [] | Some cs \<Rightarrow> cs) @ [c])))"

definition extract_primary_keys :: "(string \<times> string) list \<Rightarrow> ex_schema \<Rightarrow> ex_schema" where
  "extract_primary_keys rows s =
     (let (s1, pk) = foldl pk_step (s, []) rows
      in foldl (\<lambda>s (t, cs). dict_upd s t (\<lambda>tb. tb\<lparr>et_pk := Some cs\<rparr>)) s1 pk)"

text \<open>\<open>extract_foreign_keys\<close>: a row whose table or referenced table was not extracted
  is skipped; otherwise the column is marked, the key appended to the table's list and
  the reference to the referenced table's \<open>referenced_by\<close>.\<close>

definition fk_step :: "ex_schema \<Rightarrow> catalog_fk_row \<Rightarrow> ex_schema" where
  "fk_step s r =
     (if fr_table r \<notin> set (map fst s) \<or> fr_ref_table r \<notin> set (map fst s) then s
      else
        (let s1 = dict_upd s (fr_table r)
                    (\<lambda>tb. tb\<lparr>et_columns := dict_upd (et_columns tb) (fr_column r)
                                (\<lambda>col. col\<lparr>ec_fk := Some (fr_ref_table r, fr_ref_column r, fr_constraint r)\<rparr>),
                           et_fks := et_fks tb @ [\<lparr>xf_column = fr_column r, xf_ref_table = fr_ref_table r,
                                                   xf_ref_column = fr_ref_column r, xf_constraint = fr_constraint r\<rparr>]\<rparr>)
         in dict_upd s1 (fr_ref_table r)
              (\<lambda>tb. tb\<lparr>et_refs := et_refs tb @ [\<lparr>xr_table = fr_table r, xr_column = fr_column r,
                                                  xr_via = fr_constraint r\<rparr>]\<rparr>)))"

text \<open>\<open>extract_indexes\<close>: the index appended to its table, then each of its columns
  that exists marked as indexed. The columns are given already split.\<close>

definition index_step :: "ex_schema \<Rightarrow> string \<times> ex_index \<Rightarrow> ex_schema" where
  "index_step s ti =
     (let (t, ix) = ti
      in if t \<notin> set (map fst s) then s
         else dict_upd s t
                (\<lambda>tb. foldl (\<lambda>tb c. tb\<lparr>et_columns := dict_upd (et_columns tb) c (\<lambda>col. col\<lparr>ec_has_index := True\<rparr>)\<rparr>)
                        (tb\<lparr>et_indexes := et_indexes tb @ [ix]\<rparr>) (xi_columns ix)))"

text \<open>The index dict of a row: PostgreSQL's \<open>array_agg\<close> is the list itself, MySQL's
  \<open>column_names_str.split(',')\<close> splits the concatenated string.\<close>

definition pg_index_of :: "string list catalog_index_row \<Rightarrow> string \<times> ex_index" where
  "pg_index_of r =
     (ir_table r, \<lparr>xi_name = ir_name r, xi_columns = ir_columns r, xi_unique = ir_unique r, xi_primary = ir_primary r\<rparr>)"

definition mysql_index_of :: "string catalog_index_row \<Rightarrow> string \<times> ex_index" where
  "mysql_index_of r =
     (ir_table r, \<lparr>xi_name = ir_name r, xi_columns = split_on CHR '','' (ir_columns r),
                   xi_unique = ir_unique r, xi_primary = ir_primary r\<rparr>)"


subsection \<open>The extractor methods\<close>

definition extract_tables :: "(string \<times> string option) list \<Rightarrow> ex_schema \<Rightarrow> ex_schema" where
  "extract_tables rows s = foldl table_step s rows"

definition extract_columns :: "catalog_column_row list \<Rightarrow> ex_schema \<Rightarrow> ex_schema" where
  "extract_columns rows s = foldl column_step s rows"

definition extract_foreign_keys :: "catalog_fk_row list \<Rightarrow> ex_schema \<Rightarrow> ex_schema" where
  "extract_foreign_keys rows s = foldl fk_step s rows"

definition pg_extract_indexes :: "string list catalog_index_row list \<Rightarrow> ex_schema \<Rightarrow> ex_schema" where
  "pg_extract_indexes rows s = foldl index_step s (map pg_index_of rows)"

text \<open>The MySQL methods repeat the PostgreSQL loops on the rows of their own queries.\<close>

definition mysql_extract_tables :: "(string \<times> string option) list \<Rightarrow> ex_schema \<Rightarrow> ex_schema" where
  "mysql_extract_tables rows s = foldl table_step s rows"

definition mysql_extract_columns :: "catalog_column_row list \<Rightarrow> ex_schema \<Rightarrow> ex_schema" where
  "mysql_extract_columns rows s = foldl column_step s rows"

definition mysql_extract_primary_keys :: "(string \<times> string) list \<Rightarrow> ex_schema \<Rightarrow> ex_schema" where
  "mysql_extract_primary_keys rows s =
     (let (s1, pk) = foldl pk_step (s, []) rows
      in foldl (\<lambda>s (t, cs). dict_upd s t (\<lambda>tb. tb\<lparr>et_pk := Some cs\<rparr>)) s1 pk)"

definition mysql_extract_foreign_keys :: "catalog_fk_row list \<Rightarrow> ex_schema \<Rightarrow> ex_schema" where
  "mysql_extract_foreign_keys rows s = foldl fk_step s rows"

definition mysql_extract_indexes :: "string catalog_index_row list \<Rightarrow> ex_schema \<Rightarrow> ex_schema" where
  "mysql_extract_indexes rows s = foldl index_step s (map mysql_index_of rows)"

text \<open>One stage of \<open>extract_all\<close>: its query raises, or its rows are processed; an
  earlier exception propagates.\<close>

definition run_stage :: "string + 'r \<Rightarrow> ('r \<Rightarrow> ex_schema \<Rightarrow> ex_schema) \<Rightarrow> string + ex_schema \<Rightarrow> string + ex_schema" where
  "run_stage q f acc = (case acc of Inl e \<Rightarrow> Inl e | Inr s \<Rightarrow> (case q of Inl e \<Rightarrow> Inl e | Inr rows \<Rightarrow> Inr (f rows s)))"

text \<open>\<open>save_schema_data\<close> writes next to the package, whatever output the caller asked for.\<close>

definition extractor_output :: string where
  "extractor_output = ''src/docs/schema/schema_data.json''"

definition save_result :: "string + ex_schema \<Rightarrow> (string + ex_schema) \<times> (string \<times> ex_schema) list" where
  "save_result r = (case r of Inl e \<Rightarrow> (Inl e, []) | Inr s \<Rightarrow> (Inr s, [(extractor_output, s)]))"

definition pg_extract_all :: "string list query_results \<Rightarrow> (string + ex_schema) \<times> (string \<times> ex_schema) list" where
  "pg_extract_all Q =
     save_result
       (run_stage (q_indexes Q) pg_extract_indexes
         (run_stage (q_foreign_keys Q) extract_foreign_keys
           (run_stage (q_primary_keys Q) extract_primary_keys
             (run_stage (q_columns Q) extract_columns
               (run_stage (q_tables Q) extract_tables (Inr []))))))"

definition mysql_extract_all :: "string query_results \<Rightarrow> (string + ex_schema) \<times> (string \<times> ex_schema) list" where
  "mysql_extract_all Q =
     save_result
       (run_stage (q_indexes Q) mysql_extract_indexes
         (run_stage (q_foreign_keys Q) mysql_extract_foreign_keys
           (run_stage (q_primary_keys Q) mysql_extract_primary_keys
             (run_stage (q_columns Q) mysql_extract_columns
               (run_stage (q_tables Q) mysql_extract_tables (Inr []))))))"

subsection \<open>Connections\<close>

text \<open>The database as the extractor sees it: the driver's \<open>connect\<close> by dialect, the
  statements a session executes, the rows of the catalogue queries, and MySQL's
  \<open>SELECT DATABASE()\<close>, whose result parametrises its queries.\<close>

record db_env =
  driver_connect :: "string \<Rightarrow> string list \<Rightarrow> string + unit"
  execute_stmt :: "string \<Rightarrow> string + unit"
  pg_queries :: "string list query_results"
  mysql_database :: "string + string"
  mysql_queries :: "string \<Rightarrow> string query_results"

datatype conn_state = NoConnection | ConnOpen | ConnClosed

text \<open>The statements of a session run in order up to the first that raises; the
  result lists the statements sent.\<close>

fun run_statements :: "db_env \<Rightarrow> string list \<Rightarrow> (string + unit) \<times> string list" where
  "run_statements D [] = (Inr (), [])"
| "run_statements D (q # qs) =
     (case execute_stmt D q of
        Inl e \<Rightarrow> (Inl e, [q])
      | Inr _ \<Rightarrow> (let (r, sent) = run_statements D qs in (r, q # sent)))"

definition open_session :: "db_env \<Rightarrow> string list \<Rightarrow> (string + unit) \<times> conn_state \<times> string list" where
  "open_session D stmts =
     (let (r, sent) = run_statements D stmts
      in case r of Inl e \<Rightarrow> (Inl e, ConnClosed, sent) | Inr _ \<Rightarrow> (Inr (), ConnOpen, sent))"

text \<open>\<open>connect_by_params\<close> (db_connection.py): the schema is interpolated into the
  \<open>SET search_path\<close> or \<open>USE\<close> statement; a failure after the driver connected closes
  the connection before re-raising.\<close>

definition connect_by_params ::
  "db_env \<Rightarrow> string \<Rightarrow> string \<Rightarrow> string \<Rightarrow> string \<Rightarrow> string \<Rightarrow> string option \<Rightarrow> string \<Rightarrow>
   (string + unit) \<times> conn_state \<times> string list" where
  "connect_by_params D host port dbname user password schema db_type =
     (let use_schema = (\<lambda>pre. case schema of None \<Rightarrow> [] | Some sc \<Rightarrow> if sc = [] then [] else [pre @ sc])
      in if db_type = ''postgresql'' then
           (case driver_connect D db_type [''host='' @ host @ '' port='' @ port @ '' dbname='' @ dbname @
                                           '' user='' @ user @ '' password='' @ password] of
              Inl e \<Rightarrow> (Inl e, NoConnection, [])
            | Inr _ \<Rightarrow> open_session D (use_schema ''SET search_path TO '' @ [''SELECT version()'']))
         else if db_type = ''mysql'' then
           (case driver_connect D db_type [host, port, dbname, user, password] of
              Inl e \<Rightarrow> (Inl e, NoConnection, [])
            | Inr _ \<Rightarrow> open_session D (use_schema ''USE '' @ [''SELECT VERSION()'']))
         else (Inl ''ValueError'', NoConnection, []))"

text \<open>\<open>config\<close> (db_connection.py): the ini file as an oracle from a section name to
  its items, \<open>None\<close> when \<open>has_section\<close> fails (a bare \<open>Exception\<close> is raised);
  the items are copied into a fresh dict.\<close>

record ini_env =
  ini_items :: "string \<Rightarrow> (string \<times> string) list option"

definition config :: "ini_env \<Rightarrow> string \<Rightarrow> string + (string \<times> string) list" where
  "config I section =
     (case ini_items I section of
        None \<Rightarrow> Inl ''Exception''
      | Some params \<Rightarrow> Inr (foldl (\<lambda>db (k, v). dict_set db k v) [] params))"

text \<open>\<open>connect_to_db\<close>: the parameters are read before the section is dispatched on, and
  the parameters are passed to the driver as keyword arguments \<open>k=v\<close>. The label of the
  error log line is \<open>PostgreSQL\<close> for that section and \<open>MySQL\<close> for every other.\<close>

definition connect_to_db :: "db_env \<Rightarrow> ini_env \<Rightarrow> string \<Rightarrow> (string + unit) \<times> conn_state \<times> string list" where
  "connect_to_db D I section =
     (case config I section of
        Inl e \<Rightarrow> (Inl e, NoConnection, [])
      | Inr params \<Rightarrow>
          (let kwargs = map (\<lambda>(k, v). k @ ''='' @ v) params
           in if section = ''postgresql'' then
                (case driver_connect D section kwargs of
                   Inl e \<Rightarrow> (Inl e, NoConnection, [])
                 | Inr _ \<Rightarrow> open_session D [''SELECT version()''])
              else if section = ''mysql'' then
                (case driver_connect D section kwargs of
                   Inl e \<Rightarrow> (Inl e, NoConnection, [])
                 | Inr _ \<Rightarrow> open_session D [''SELECT VERSION()''])
              else (Inl ''ValueError'', NoConnection, [])))"

definition connect_error_type :: "string \<Rightarrow> string" where
  "connect_error_type section = (if section = ''postgresql'' then ''PostgreSQL'' else ''MySQL'')"

text \<open>\<open>extract_schema_to_json\<close>: the connection is closed only after a successful
  extraction; an exception of the extractor leaves it open.\<close>

definition finish_extraction ::
  "(string + ex_schema) \<times> (string \<times> ex_schema) list \<Rightarrow> (string + ex_schema) \<times> conn_state \<times> (string \<times> ex_schema) list" where
  "finish_extraction rw =
     (case fst rw of Inl e \<Rightarrow> (Inl e, ConnOpen, snd rw) | Inr s \<Rightarrow> (Inr s, ConnClosed, snd rw))"

definition extract_schema_to_json ::
  "db_env \<Rightarrow> string \<Rightarrow> string \<Rightarrow> string \<Rightarrow> string \<Rightarrow> string \<Rightarrow> string option \<Rightarrow> string \<Rightarrow>
   (string + ex_schema) \<times> conn_state \<times> (string \<times> ex_schema) list" where
  "extract_schema_to_json D host port dbname user password schema db_type =
     (case connect_by_params D host port dbname user password schema db_type of
        (Inl e, st, _) \<Rightarrow> (Inl e, st, [])
      | (Inr _, _, _) \<Rightarrow>
          (if db_type = ''postgresql'' then finish_extraction (pg_extract_all (pg_queries D))
           else if db_type = ''mysql'' then
             (case mysql_database D of
                Inl e \<Rightarrow> (Inl e, ConnOpen, [])
              | Inr db \<Rightarrow> finish_extraction (mysql_extract_all (mysql_queries D db)))
           else (Inl ''ValueError'', ConnOpen, [])))"

subsection \<open>The schema JSON as the documentation generator reads it\<close>

text \<open>\<open>json.dump\<close> followed by the \<open>json.load\<close> of schema_to_markdown.py: a column's
  \<open>foreign_key\<close> is read for its truthiness, the key's constraint name is not read.\<close>

definition doc_column :: "ex_column \<Rightarrow> column_info" where
  "doc_column c =
     \<lparr>data_type = ec_data_type c, is_nullable = ec_nullable c, col_default = ec_default c,
      col_description = ec_description c, is_primary_key = ec_pk c, foreign_key = (ec_fk c \<noteq> None),
      has_index = ec_has_index c\<rparr>"

definition doc_table :: "ex_table \<Rightarrow> table_info" where
  "doc_table t =
     \<lparr>tbl_description = Some (et_description t), tbl_columns = map (\<lambda>(n, c). (n, doc_column c)) (et_columns t),
      primary_key = (case et_pk t of None \<Rightarrow> PkNull | Some cs \<Rightarrow> PkList cs),
      foreign_keys = map (\<lambda>f. \<lparr>fk_column = xf_column f, fk_ref_table = xf_ref_table f, fk_ref_column = xf_ref_column f\<rparr>) (et_fks t),
      referenced_by = map (\<lambda>r. \<lparr>ref_table = xr_table r, ref_column = xr_column r, via_foreign_key = xr_via r\<rparr>) (et_refs t),
      indexes = map (\<lambda>i. \<lparr>idx_name = xi_name i, idx_columns = xi_columns i, idx_unique = xi_unique i,
                             idx_primary = xi_primary i\<rparr>) (et_indexes t)\<rparr>"

definition doc_schema :: "ex_schema \<Rightarrow> schema_tables" where
  "doc_schema s = map (\<lambda>(n, t). (n, doc_table t)) s"


subsection \<open>The link invariant\<close>

text \<open>The foreign keys and references of every table, and the multisets of the
  (table, column, referenced table, constraint) quadruples they record.\<close>

definition links :: "ex_schema \<Rightarrow> (string \<times> ex_fk list \<times> ex_ref list) list" where
  "links s = map (\<lambda>(n, t). (n, et_fks t, et_refs t)) s"

definition fk_mset :: "ex_schema \<Rightarrow> (string \<times> string \<times> string \<times> string) multiset" where
  "fk_mset s = sum_list (map (\<lambda>(n, fs, rs). mset (map (\<lambda>f. (n, xf_column f, xf_ref_table f, xf_constraint f)) fs)) (links s))"

definition ref_mset :: "ex_schema \<Rightarrow> (string \<times> string \<times> string \<times> string) multiset" where
  "ref_mset s = sum_list (map (\<lambda>(n, fs, rs). mset (map (\<lambda>r. (xr_table r, xr_column r, n, xr_via r)) rs)) (links s))"

definition refs_symmetric :: "ex_schema \<Rightarrow> bool" where
  "refs_symmetric s \<longleftrightarrow> distinct (map fst s) \<and> fk_mset s = ref_mset s"

text \<open>The primary-key flags: \<open>pk_pending\<close> holds during the loop of
  \<open>extract_primary_keys\<close>, when the groups are not yet stored, \<open>pk_flags_ok\<close> after it;
  \<open>pkview\<close> is what the later stages must keep.\<close>

definition pk_of :: "(string \<times> string list) list \<Rightarrow> string \<Rightarrow> string list" where
  "pk_of pk n = (case map_of pk n of None \<Rightarrow> [] | Some cs \<Rightarrow> cs)"

definition pk_cols :: "ex_table \<Rightarrow> string list" where
  "pk_cols t = (case et_pk t of None \<Rightarrow> [] | Some cs \<Rightarrow> cs)"

definition pk_flags_ok :: "ex_schema \<Rightarrow> bool" where
  "pk_flags_ok s \<longleftrightarrow> list_all (\<lambda>(n, t). list_all (\<lambda>(c, col). ec_pk col = (c \<in> set (pk_cols t))) (et_columns t)) s"

definition pk_pending :: "(string \<times> string list) list \<Rightarrow> ex_schema \<Rightarrow> bool" where
  "pk_pending pk s \<longleftrightarrow>
     list_all (\<lambda>(n, t). et_pk t = None \<and> list_all (\<lambda>(c, col). ec_pk col = (c \<in> set (pk_of pk n))) (et_columns t)) s"

definition pkview :: "ex_schema \<Rightarrow> (string \<times> string list option \<times> (string \<times> bool) list) list" where
  "pkview s = map (\<lambda>(n, t). (n, et_pk t, map (\<lambda>(c, col). (c, ec_pk col)) (et_columns t))) s"

text \<open>An example database: two tables, a foreign key from \<open>a.b_id\<close> to \<open>b.id\<close>, and a
  MySQL side whose index query fails.\<close>

definition pg_rows_ex :: "string list query_results" where
  "pg_rows_ex =
     \<lparr>q_tables = Inr [(''a'', None), (''b'', Some ''Customers'')],
      q_columns = Inr [\<lparr>cr_table = ''a'', cr_column = ''id'', cr_type = ''integer'', cr_char_len = None,
                        cr_precision = Some 32, cr_scale = Some 0, cr_nullable = ''NO'', cr_default = None, cr_comment = None\<rparr>,
                       \<lparr>cr_table = ''a'', cr_column = ''b_id'', cr_type = ''integer'', cr_char_len = None,
                        cr_precision = Some 32, cr_scale = Some 0, cr_nullable = ''YES'', cr_default = None, cr_comment = None\<rparr>],
      q_primary_keys = Inr [(''a'', ''id''), (''b'', ''id'')],
      q_foreign_keys = Inr [\<lparr>fr_table = ''a'', fr_column = ''b_id'', fr_ref_table = ''b'', fr_ref_column = ''id'',
                            fr_constraint = ''fk''\<rparr>],
      q_indexes = Inr [\<lparr>ir_table = ''a'', ir_name = ''a_pkey'', ir_columns = [''id''], ir_unique = True, ir_primary = True\<rparr>]\<rparr>"

definition mysql_rows_ex :: "string query_results" where
  "mysql_rows_ex =
     \<lparr>q_tables = q_tables pg_rows_ex, q_columns = q_columns pg_rows_ex, q_primary_keys = q_primary_keys pg_rows_ex,
      q_foreign_keys = q_foreign_keys pg_rows_ex, q_indexes = Inl ''OperationalError''\<rparr>"

definition db_env_ex :: db_env where
  "db_env_ex =
     \<lparr>driver_connect = (\<lambda>_ _. Inr ()), execute_stmt = (\<lambda>_. Inr ()), pg_queries = pg_rows_ex,
      mysql_database = Inr ''shop'', mysql_queries = (\<lambda>_. mysql_rows_ex)\<rparr>"

subsection \<open>Lemmas on the schema dict\<close>

lemma fk_mset_entries:
  "fk_mset s = sum_list (map (\<lambda>(n, t). mset (map (\<lambda>f. (n, xf_column f, xf_ref_table f, xf_constraint f)) (et_fks t))) s)"
  by (simp add: fk_mset_def links_def case_prod_unfold comp_def)

lemma ref_mset_entries:
  "ref_mset s = sum_list (map (\<lambda>(n, t). mset (map (\<lambda>r. (xr_table r, xr_column r, n, xr_via r)) (et_refs t))) s)"
  by (simp add: ref_mset_def links_def case_prod_unfold comp_def)

lemma keys_dict_upd [simp]: "map fst (dict_upd s k f) = map fst s"
  by (induction s) (auto simp: dict_upd_def)

lemma map_of_dict_upd: "map_of (dict_upd s k f) x = (if x = k then map_option f (map_of s k) else map_of s x)"
  by (induction s) (auto simp: dict_upd_def)

lemma dict_upd_absent: "k \<notin> set (map fst s) \<Longrightarrow> dict_upd s k f = s"
  by (induction s) (auto simp: dict_upd_def)

lemma links_dict_upd:
  assumes "\<And>v. et_fks (f v) = et_fks v" "\<And>v. et_refs (f v) = et_refs v"
  shows "links (dict_upd s k f) = links s"
  using assms by (induction s) (auto simp: dict_upd_def links_def)

text \<open>A mutation of the one entry of key k adds to a sum over the entries what it adds
  to that entry's term.\<close>

lemma sum_dict_upd:
  fixes g :: "'k \<Rightarrow> 'v \<Rightarrow> 'a multiset"
  assumes "distinct (map fst s)" "map_of s k = Some v" "g k (f v) = g k v + h"
  shows "sum_list (map (\<lambda>(n, t). g n t) (dict_upd s k f)) = sum_list (map (\<lambda>(n, t). g n t) s) + h"
  using assms
proof (induction s)
  case (Cons a s)
  obtain n t where a: "a = (n, t)" by fastforce
  show ?case
  proof (cases "n = k")
    case True
    with Cons.prems a have "dict_upd s k f = s" by (simp add: dict_upd_absent)
    with True Cons.prems a show ?thesis by (simp add: dict_upd_def add_ac)
  next
    case False
    with Cons a show ?thesis by (simp add: dict_upd_def add_ac)
  qed
qed simp

lemma fk_term_upd:
  assumes "distinct (map fst s)" "k \<in> set (map fst s)" "\<And>v. et_fks (f v) = et_fks v @ xs"
  shows "fk_mset (dict_upd s k f) = fk_mset s + mset (map (\<lambda>x. (k, xf_column x, xf_ref_table x, xf_constraint x)) xs)"
proof -
  obtain v where v: "map_of s k = Some v" using assms(2) by (auto dest: weak_map_of_SomeI simp: image_iff)
  show ?thesis
    unfolding fk_mset_entries
    by (rule sum_dict_upd [OF assms(1) v, where g = "\<lambda>n t. mset (map (\<lambda>x. (n, xf_column x, xf_ref_table x, xf_constraint x)) (et_fks t))"])
       (simp add: assms(3))
qed

lemma ref_term_upd:
  assumes "distinct (map fst s)" "k \<in> set (map fst s)" "\<And>v. et_refs (f v) = et_refs v @ xs"
  shows "ref_mset (dict_upd s k f) = ref_mset s + mset (map (\<lambda>x. (xr_table x, xr_column x, k, xr_via x)) xs)"
proof -
  obtain v where v: "map_of s k = Some v" using assms(2) by (auto dest: weak_map_of_SomeI simp: image_iff)
  show ?thesis
    unfolding ref_mset_entries
    by (rule sum_dict_upd [OF assms(1) v, where g = "\<lambda>n t. mset (map (\<lambda>x. (xr_table x, xr_column x, n, xr_via x)) (et_refs t))"])
       (simp add: assms(3))
qed

lemma fk_step_symmetric:
  assumes "distinct (map fst s)" "fk_mset s = ref_mset s"
  shows "fk_mset (fk_step s r) = ref_mset (fk_step s r)"
proof (cases "fr_table r \<in> set (map fst s) \<and> fr_ref_table r \<in> set (map fst s)")
  case True
  let ?x = "(fr_table r, fr_column r, fr_ref_table r, fr_constraint r)"
  let ?F1 = "\<lambda>tb. tb\<lparr>et_columns := dict_upd (et_columns tb) (fr_column r)
                        (\<lambda>col. col\<lparr>ec_fk := Some (fr_ref_table r, fr_ref_column r, fr_constraint r)\<rparr>),
                   et_fks := et_fks tb @ [\<lparr>xf_column = fr_column r, xf_ref_table = fr_ref_table r,
                                           xf_ref_column = fr_ref_column r, xf_constraint = fr_constraint r\<rparr>]\<rparr>"
  let ?F2 = "\<lambda>tb. tb\<lparr>et_refs := et_refs tb @ [\<lparr>xr_table = fr_table r, xr_column = fr_column r, xr_via = fr_constraint r\<rparr>]\<rparr>"
  let ?s1 = "dict_upd s (fr_table r) ?F1"
  have s: "fk_step s r = dict_upd ?s1 (fr_ref_table r) ?F2"
    using True by (simp add: fk_step_def)
  have d1: "distinct (map fst ?s1)" using assms(1) by simp
  have k1: "fr_ref_table r \<in> set (map fst ?s1)" using True by simp
  have "fk_mset ?s1 = fk_mset s + {#?x#}"
    using fk_term_upd [OF assms(1), of "fr_table r" ?F1 "[_]"] True by simp
  moreover have "ref_mset ?s1 = ref_mset s"
    using ref_term_upd [OF assms(1), of "fr_table r" ?F1 "[]"] True by simp
  moreover have "fk_mset (fk_step s r) = fk_mset ?s1"
    using fk_term_upd [OF d1 k1, of ?F2 "[]"] s by simp
  moreover have "ref_mset (fk_step s r) = ref_mset ?s1 + {#?x#}"
    using ref_term_upd [OF d1 k1, of ?F2 "[_]"] s by simp
  ultimately show ?thesis using assms(2) by simp
next
  case False
  then show ?thesis using assms(2) by (auto simp: fk_step_def)
qed

lemma keys_links: "map fst (links s) = map fst s"
  by (simp add: links_def case_prod_unfold)

lemma keys_fk_step [simp]: "map fst (fk_step s r) = map fst s"
  by (simp add: fk_step_def Let_def)

lemma links_foldl: "(\<And>s r. links (f s r) = links s) \<Longrightarrow> links (foldl f s rs) = links s"
  by (induction rs arbitrary: s) auto

lemma mark_index_links:
  "et_fks (foldl (\<lambda>tb c. tb\<lparr>et_columns := dict_upd (et_columns tb) c (\<lambda>col. col\<lparr>ec_has_index := True\<rparr>)\<rparr>) tb cs) = et_fks tb \<and>
   et_refs (foldl (\<lambda>tb c. tb\<lparr>et_columns := dict_upd (et_columns tb) c (\<lambda>col. col\<lparr>ec_has_index := True\<rparr>)\<rparr>) tb cs) = et_refs tb"
  by (induction cs arbitrary: tb) auto

lemma links_column_step [simp]: "links (column_step s r) = links s"
  by (simp add: column_step_def links_dict_upd)

lemma links_pk_stage [simp]:
  "links (extract_primary_keys rows s) = links s"
  "links (mysql_extract_primary_keys rows s) = links s"
proof -
  have step: "links (fst (pk_step sp r)) = links (fst sp)" for sp r
    by (simp add: pk_step_def case_prod_unfold links_dict_upd)
  have fold1: "links (fst (foldl pk_step sp rows)) = links (fst sp)" for sp
    by (induction rows arbitrary: sp) (simp_all add: step)
  have fold2: "links (foldl (\<lambda>s p. dict_upd s (fst p) (\<lambda>tb. tb\<lparr>et_pk := Some (snd p)\<rparr>)) s0 pk) = links s0" for s0 pk
    by (rule links_foldl) (simp add: links_dict_upd)
  show "links (extract_primary_keys rows s) = links s"
    using fold1 [of "(s, [])"] by (simp add: extract_primary_keys_def case_prod_unfold Let_def fold2)
  show "links (mysql_extract_primary_keys rows s) = links s"
    using fold1 [of "(s, [])"] by (simp add: mysql_extract_primary_keys_def case_prod_unfold Let_def fold2)
qed

lemma links_index_step [simp]: "links (index_step s ti) = links s"
  by (auto simp: index_step_def case_prod_unfold mark_index_links intro!: links_dict_upd)

lemma links_stages [simp]:
  "links (extract_columns rows s) = links s"
  "links (mysql_extract_columns rows s) = links s"
  "links (pg_extract_indexes irows s) = links s"
  "links (mysql_extract_indexes mrows s) = links s"
  by (simp_all add: extract_columns_def mysql_extract_columns_def pg_extract_indexes_def mysql_extract_indexes_def links_foldl)

lemma set_dict_set_subset: "set (dict_set d k v) \<subseteq> insert (k, v) (set d)"
  by (induction d) (auto split: if_splits)

lemma no_links_msets:
  "list_all (\<lambda>(n, t). et_fks t = [] \<and> et_refs t = []) s \<Longrightarrow> fk_mset s = 0 \<and> ref_mset s = 0"
  by (induction s) (auto simp: fk_mset_entries ref_mset_entries)

lemma tables_stage_symmetric:
  "refs_symmetric (extract_tables rows [])" "refs_symmetric (mysql_extract_tables rows [])"
proof -
  have "distinct (map fst (foldl table_step s rows)) \<and> list_all (\<lambda>(n, t). et_fks t = [] \<and> et_refs t = []) (foldl table_step s rows)"
    if "distinct (map fst s) \<and> list_all (\<lambda>(n, t). et_fks t = [] \<and> et_refs t = []) s" for s
    using that
  proof (induction rows arbitrary: s)
    case (Cons r rows)
    have "list_all (\<lambda>(n, t). et_fks t = [] \<and> et_refs t = []) (table_step s r)"
      using Cons.prems set_dict_set_subset [of s "fst r" "new_table (fst r) (snd r)"]
      by (fastforce simp: table_step_def list_all_iff new_table_def)
    moreover have "distinct (map fst (table_step s r))"
      using Cons.prems by (auto simp: table_step_def)
    ultimately show ?case using Cons.IH by simp
  qed simp
  from this [of "[]"] no_links_msets
  show "refs_symmetric (extract_tables rows [])" "refs_symmetric (mysql_extract_tables rows [])"
    by (simp_all add: refs_symmetric_def extract_tables_def mysql_extract_tables_def)
qed

lemma fk_stage_symmetric:
  "refs_symmetric s \<Longrightarrow> refs_symmetric (extract_foreign_keys rows s)"
  "refs_symmetric s \<Longrightarrow> refs_symmetric (mysql_extract_foreign_keys rows s)"
proof -
  have "refs_symmetric (foldl fk_step s rows)" if "refs_symmetric s" for s
    using that by (induction rows arbitrary: s) (simp_all add: refs_symmetric_def fk_step_symmetric)
  then show "refs_symmetric s \<Longrightarrow> refs_symmetric (extract_foreign_keys rows s)"
            "refs_symmetric s \<Longrightarrow> refs_symmetric (mysql_extract_foreign_keys rows s)"
    by (simp_all add: extract_foreign_keys_def mysql_extract_foreign_keys_def)
qed

lemma refs_symmetric_links: "links s' = links s \<Longrightarrow> refs_symmetric s \<Longrightarrow> refs_symmetric s'"
  using keys_links [of s'] keys_links [of s] by (simp add: refs_symmetric_def fk_mset_def ref_mset_def)

lemma run_stage_Inr:
  "run_stage q f acc = Inr s \<Longrightarrow> \<exists>s0 rows. acc = Inr s0 \<and> q = Inr rows \<and> s = f rows s0"
  by (auto simp: run_stage_def split: sum.splits)

lemma extract_all_symmetric:
  "fst (pg_extract_all Q) = Inr s \<Longrightarrow> refs_symmetric s"
  "fst (mysql_extract_all Q') = Inr s \<Longrightarrow> refs_symmetric s"
  by (auto simp: pg_extract_all_def mysql_extract_all_def save_result_def tables_stage_symmetric
           split: sum.splits dest!: run_stage_Inr
           intro!: refs_symmetric_links [OF links_stages(3)] refs_symmetric_links [OF links_stages(4)]
                   fk_stage_symmetric refs_symmetric_links [OF links_pk_stage(1)]
                   refs_symmetric_links [OF links_pk_stage(2)] refs_symmetric_links [OF links_stages(1)]
                   refs_symmetric_links [OF links_stages(2)])

lemma extract_schema_to_json_Inr:
  "fst (extract_schema_to_json D h p d u pw sc ty) = Inr s \<Longrightarrow>
     fst (pg_extract_all (pg_queries D)) = Inr s \<or> (\<exists>db. fst (mysql_extract_all (mysql_queries D db)) = Inr s)"
  by (auto simp: extract_schema_to_json_def finish_extraction_def split: prod.splits sum.splits if_splits)

text \<open>C10: Whatever rows the catalogue queries return, a successful extraction records
  every foreign key twice and nothing else: the multiset of (table, column,
  referenced table, constraint) over the tables' \<open>foreign_keys\<close> equals the one over
  the \<open>referenced_by\<close> lists of the referenced tables.\<close>

theorem extraction_refs_symmetric:
  assumes "fst (extract_schema_to_json D h p d u pw sc ty) = Inr s"
  shows "fk_mset s = ref_mset s"
  using extract_schema_to_json_Inr [OF assms] extract_all_symmetric by (auto simp: refs_symmetric_def)

subsection \<open>The primary-key flags\<close>



lemma pk_step_pending:
  assumes "pk_pending pk s" "distinct (map fst pk)"
  shows "pk_pending (snd (pk_step (s, pk) r)) (fst (pk_step (s, pk) r)) \<and> distinct (map fst (snd (pk_step (s, pk) r)))"
  using assms
  using assms
  by (auto simp: pk_step_def pk_pending_def list_all_iff dict_upd_def pk_of_def map_of_dict_set dict_get_def
           split: prod.splits option.splits if_splits)

lemma pk_fold_pending:
  "pk_pending pk s \<Longrightarrow> distinct (map fst pk) \<Longrightarrow>
     pk_pending (snd (foldl pk_step (s, pk) rows)) (fst (foldl pk_step (s, pk) rows)) \<and> distinct (map fst (snd (foldl pk_step (s, pk) rows)))"
proof (induction rows arbitrary: s pk)
  case (Cons r rows)
  from pk_step_pending [OF Cons.prems, of r] Cons.IH [of "snd (pk_step (s, pk) r)" "fst (pk_step (s, pk) r)"]
  show ?case by simp
qed simp

lemma store_pk:
  "distinct (map fst pk) \<Longrightarrow>
     foldl (\<lambda>s p. dict_upd s (fst p) (\<lambda>tb. tb\<lparr>et_pk := Some (snd p)\<rparr>)) s pk =
     map (\<lambda>(n, t). (n, case map_of pk n of None \<Rightarrow> t | Some cs \<Rightarrow> t\<lparr>et_pk := Some cs\<rparr>)) s"
proof (induction pk arbitrary: s)
  case (Cons p pk)
  obtain k cs where p: "p = (k, cs)" by fastforce
  have k: "map_of pk k = None" using Cons.prems p by (simp add: map_of_eq_None_iff)
  have "map (\<lambda>(n, t). (n, case map_of pk n of None \<Rightarrow> t | Some cs \<Rightarrow> t\<lparr>et_pk := Some cs\<rparr>))
          (dict_upd s k (\<lambda>tb. tb\<lparr>et_pk := Some cs\<rparr>)) =
        map (\<lambda>(n, t). (n, case map_of ((k, cs) # pk) n of None \<Rightarrow> t | Some cs \<Rightarrow> t\<lparr>et_pk := Some cs\<rparr>)) s"
    using k by (induction s) (auto simp: dict_upd_def split: option.split)
  with Cons p show ?case by simp
qed (simp add: case_prod_unfold)

lemma pending_store:
  "pk_pending pk s \<Longrightarrow> pk_flags_ok (map (\<lambda>p. (fst p, case map_of pk (fst p) of None \<Rightarrow> snd p | Some cs \<Rightarrow> snd p\<lparr>et_pk := Some cs\<rparr>)) s)"
  by (induction s) (auto simp: pk_pending_def pk_flags_ok_def pk_cols_def pk_of_def split: option.splits)

lemma pk_stage_flags:
  "pk_pending [] s \<Longrightarrow> pk_flags_ok (extract_primary_keys rows s)"
  "pk_pending [] s \<Longrightarrow> pk_flags_ok (mysql_extract_primary_keys rows s)"
  using pk_fold_pending [of "[]" s rows]
  by (simp_all add: extract_primary_keys_def mysql_extract_primary_keys_def case_prod_unfold Let_def store_pk pending_store)

lemma table_step_pending: "pk_pending [] s \<Longrightarrow> pk_pending [] (table_step s r)"
  using set_dict_set_subset [of s "fst r" "new_table (fst r) (snd r)"]
  by (fastforce simp: pk_pending_def list_all_iff table_step_def new_table_def pk_of_def)

lemma list_all_dict_upd:
  "list_all P s \<Longrightarrow> (\<And>v. P (k, v) \<Longrightarrow> P (k, f v)) \<Longrightarrow> list_all P (dict_upd s k f)"
  by (induction s) (auto simp: dict_upd_def)

lemma new_columns_unmarked:
  "list_all (\<lambda>(c, col). \<not> ec_pk col) cs \<Longrightarrow> list_all (\<lambda>(c, col). \<not> ec_pk col) (dict_set cs k (new_column r))"
  by (induction cs) (auto simp: new_column_def)

lemma column_step_pending: "pk_pending [] s \<Longrightarrow> pk_pending [] (column_step s r)"
  unfolding pk_pending_def pk_of_def column_step_def
  by (auto intro!: list_all_dict_upd new_columns_unmarked)

lemma columns_stage_pending:
  "pk_pending [] (extract_columns crows (extract_tables trows []))"
  "pk_pending [] (mysql_extract_columns crows (mysql_extract_tables trows []))"
proof -
  have t: "pk_pending [] (foldl table_step s trows)" if "pk_pending [] s" for s
    using that by (induction trows arbitrary: s) (simp_all add: table_step_pending)
  have c: "pk_pending [] (foldl column_step s crows)" if "pk_pending [] s" for s
    using that by (induction crows arbitrary: s) (simp_all add: column_step_pending)
  have "pk_pending [] []" by (simp add: pk_pending_def)
  with t c show "pk_pending [] (extract_columns crows (extract_tables trows []))"
     "pk_pending [] (mysql_extract_columns crows (mysql_extract_tables trows []))"
    by (simp_all add: extract_columns_def extract_tables_def mysql_extract_columns_def mysql_extract_tables_def)
qed

lemma pk_flags_view:
  "pk_flags_ok s = list_all (\<lambda>(n, p, cs). list_all (\<lambda>(c, b). b = (c \<in> set (case p of None \<Rightarrow> [] | Some x \<Rightarrow> x))) cs) (pkview s)"
  by (simp add: pk_flags_ok_def pkview_def pk_cols_def list_all_iff case_prod_unfold)

lemma pkview_dict_upd:
  assumes "\<And>v. et_pk (f v) = et_pk v" "\<And>v. map (\<lambda>(c, col). (c, ec_pk col)) (et_columns (f v)) = map (\<lambda>(c, col). (c, ec_pk col)) (et_columns v)"
  shows "pkview (dict_upd s k f) = pkview s"
  using assms by (induction s) (auto simp: dict_upd_def pkview_def)

lemma colview_dict_upd:
  "(\<And>col. ec_pk (g col) = ec_pk col) \<Longrightarrow>
     map (\<lambda>(c, col). (c, ec_pk col)) (dict_upd cs k g) = map (\<lambda>(c, col). (c, ec_pk col)) cs"
  by (induction cs) (auto simp: dict_upd_def)

lemma pkview_fk_step [simp]: "pkview (fk_step s r) = pkview s"
  by (simp add: fk_step_def Let_def pkview_dict_upd colview_dict_upd)

lemma mark_index_pkview:
  "et_pk (foldl (\<lambda>tb c. tb\<lparr>et_columns := dict_upd (et_columns tb) c (\<lambda>col. col\<lparr>ec_has_index := True\<rparr>)\<rparr>) tb cs) = et_pk tb"
  "map (\<lambda>(c, col). (c, ec_pk col)) (et_columns (foldl (\<lambda>tb c. tb\<lparr>et_columns := dict_upd (et_columns tb) c (\<lambda>col. col\<lparr>ec_has_index := True\<rparr>)\<rparr>) tb cs)) =
   map (\<lambda>(c, col). (c, ec_pk col)) (et_columns tb)"
  by (induction cs arbitrary: tb) (simp_all add: colview_dict_upd)

lemma pkview_index_step [simp]: "pkview (index_step s ti) = pkview s"
proof -
  have "pkview (dict_upd s t (\<lambda>tb. foldl (\<lambda>tb c. tb\<lparr>et_columns := dict_upd (et_columns tb) c (\<lambda>col. col\<lparr>ec_has_index := True\<rparr>)\<rparr>)
                                    (tb\<lparr>et_indexes := et_indexes tb @ [ix]\<rparr>) cs)) = pkview s" for t ix cs
    by (rule pkview_dict_upd) (simp_all add: mark_index_pkview)
  then show ?thesis by (simp add: index_step_def case_prod_unfold)
qed

lemma pkview_foldl: "(\<And>s r. pkview (f s r) = pkview s) \<Longrightarrow> pkview (foldl f s rs) = pkview s"
  by (induction rs arbitrary: s) auto

lemma pkview_stages [simp]:
  "pkview (extract_foreign_keys rows s) = pkview s"
  "pkview (mysql_extract_foreign_keys rows s) = pkview s"
  "pkview (pg_extract_indexes irows s) = pkview s"
  "pkview (mysql_extract_indexes mrows s) = pkview s"
  by (simp_all add: extract_foreign_keys_def mysql_extract_foreign_keys_def pg_extract_indexes_def
                    mysql_extract_indexes_def pkview_foldl)

lemma pk_flags_pkview: "pkview s' = pkview s \<Longrightarrow> pk_flags_ok s \<Longrightarrow> pk_flags_ok s'"
  by (simp add: pk_flags_view)

lemma extract_all_pk_flags:
  "fst (pg_extract_all Q) = Inr s \<Longrightarrow> pk_flags_ok s"
  "fst (mysql_extract_all Q') = Inr s \<Longrightarrow> pk_flags_ok s"
  by (auto simp: pg_extract_all_def mysql_extract_all_def save_result_def
           split: sum.splits dest!: run_stage_Inr
           intro!: pk_flags_pkview [OF pkview_stages(3)] pk_flags_pkview [OF pkview_stages(4)]
                   pk_flags_pkview [OF pkview_stages(1)] pk_flags_pkview [OF pkview_stages(2)]
                   pk_stage_flags columns_stage_pending)

text \<open>C19: After a successful extraction, a column is flagged \<open>is_primary_key\<close> exactly
  when its table's \<open>primary_key\<close> lists it.\<close>

theorem extraction_pk_flags:
  assumes "fst (extract_schema_to_json D h p d u pw sc ty) = Inr s"
  shows "pk_flags_ok s"
  using extract_schema_to_json_Inr [OF assms] extract_all_pk_flags by blast

subsection \<open>Connections, files and index columns\<close>



lemma run_statements_sends_first: "snd (run_statements D (q # qs)) \<noteq> [] \<and> hd (snd (run_statements D (q # qs))) = q"
  by (auto simp: case_prod_unfold Let_def split: sum.split)

lemma search_path_interpolated:
  assumes "\<And>xs. driver_connect D ''postgresql'' xs = Inr ()" and "sc \<noteq> []"
  shows "hd (snd (snd (connect_by_params D h p d u pw (Some sc) ''postgresql''))) = ''SET search_path TO '' @ sc"
  using assms run_statements_sends_first [of D "''SET search_path TO '' @ sc" "[''SELECT version()'']"]
  by (simp add: connect_by_params_def open_session_def case_prod_unfold split: sum.split)

lemma map_of_foldl_dict_set:
  "map_of (foldl (\<lambda>db (k, v). dict_set db k v) d ps) = map_of d ++ map_of (rev ps)"
  by (induction ps arbitrary: d) (auto simp: map_of_dict_set map_add_def split: option.split)

lemma distinct_foldl_dict_set:
  "distinct (map fst d) \<Longrightarrow> distinct (map fst (foldl (\<lambda>db (k, v). dict_set db k v) d ps))"
  by (induction ps arbitrary: d) auto

text \<open>\<open>config\<close> returns a dict with one entry per option of the section, the last value
  given for a key winning.\<close>

lemma config_items:
  assumes "ini_items I section = Some ps"
  shows "\<exists>db. config I section = Inr db \<and> dict_get db = map_of (rev ps) \<and> distinct (map fst db)"
  using assms map_of_foldl_dict_set [of "[]" ps] distinct_foldl_dict_set [of "[]" ps]
  by (simp add: config_def dict_get_def)

text \<open>The parameters are read before the section is dispatched on: an unsupported section
  raises the missing-section \<open>Exception\<close> when the ini file lacks it and \<open>ValueError\<close>
  otherwise, in both cases without connecting.\<close>

lemma connect_to_db_unsupported:
  assumes "section \<notin> {''postgresql'', ''mysql''}"
  shows "connect_to_db D I section =
           (Inl (if ini_items I section = None then ''Exception'' else ''ValueError''), NoConnection, [])"
  using assms by (simp add: connect_to_db_def config_def Let_def split: option.split)

lemma connect_to_db_ok:
  assumes "fst (connect_to_db D I section) = Inr ()"
  shows "section \<in> {''postgresql'', ''mysql''} \<and> fst (snd (connect_to_db D I section)) = ConnOpen \<and>
         snd (snd (connect_to_db D I section)) =
           [if section = ''postgresql'' then ''SELECT version()'' else ''SELECT VERSION()'']"
  using assms
  by (auto simp: connect_to_db_def open_session_def Let_def split: sum.splits if_splits)

lemma connect_to_db_error_closes:
  assumes "fst (connect_to_db D I section) = Inl e"
  shows "fst (snd (connect_to_db D I section)) \<noteq> ConnOpen"
  using assms
  by (auto simp: connect_to_db_def open_session_def Let_def split: sum.splits if_splits prod.splits)

lemma extract_all_writes:
  "snd (pg_extract_all Q) = (case fst (pg_extract_all Q) of Inl _ \<Rightarrow> [] | Inr s \<Rightarrow> [(extractor_output, s)])"
  "snd (mysql_extract_all Q') = (case fst (mysql_extract_all Q') of Inl _ \<Rightarrow> [] | Inr s \<Rightarrow> [(extractor_output, s)])"
  by (simp_all add: pg_extract_all_def mysql_extract_all_def save_result_def split: sum.split)

lemma finish_extraction_ok:
  "snd rw = (case fst rw of Inl _ \<Rightarrow> [] | Inr s \<Rightarrow> [(extractor_output, s)]) \<Longrightarrow>
   (case fst (finish_extraction rw) of
      Inl _ \<Rightarrow> snd (snd (finish_extraction rw)) = [] \<and> fst (snd (finish_extraction rw)) = ConnOpen
    | Inr s \<Rightarrow> snd (snd (finish_extraction rw)) = [(extractor_output, s)] \<and> fst (snd (finish_extraction rw)) = ConnClosed)"
  by (cases rw) (auto simp: finish_extraction_def split: sum.splits)

text \<open>C24: Once connected, \<open>extract_schema_to_json\<close> either succeeds, having saved the
  schema once to the package's docs/schema/schema_data.json and closed the connection,
  or raises with nothing saved and the connection left open.\<close>

theorem extraction_saves_only_on_success:
  assumes "fst (connect_by_params D h p d u pw sc ty) = Inr ()"
  shows "(case fst (extract_schema_to_json D h p d u pw sc ty) of
            Inl _ \<Rightarrow> snd (snd (extract_schema_to_json D h p d u pw sc ty)) = [] \<and>
                     fst (snd (extract_schema_to_json D h p d u pw sc ty)) = ConnOpen
          | Inr s \<Rightarrow> snd (snd (extract_schema_to_json D h p d u pw sc ty)) = [(extractor_output, s)] \<and>
                     fst (snd (extract_schema_to_json D h p d u pw sc ty)) = ConnClosed)"
proof -
  obtain st sent where c: "connect_by_params D h p d u pw sc ty = (Inr (), st, sent)"
    using assms by (cases "connect_by_params D h p d u pw sc ty") auto
  consider (pg) "ty = ''postgresql''" | (my) db where "ty \<noteq> ''postgresql''" "ty = ''mysql''" "mysql_database D = Inr db"
    | (other) "ty \<noteq> ''postgresql''" "ty \<noteq> ''mysql'' \<or> (\<exists>e. mysql_database D = Inl e)"
    by (cases "mysql_database D") auto
  then show ?thesis
  proof cases
    case pg
    then have "extract_schema_to_json D h p d u pw sc ty = finish_extraction (pg_extract_all (pg_queries D))"
      using c by (simp add: extract_schema_to_json_def)
    then show ?thesis using finish_extraction_ok [OF extract_all_writes(1) [of "pg_queries D"]] by (simp only:)
  next
    case my
    then have "extract_schema_to_json D h p d u pw sc ty = finish_extraction (mysql_extract_all (mysql_queries D db))"
      using c by (simp add: extract_schema_to_json_def)
    then show ?thesis using finish_extraction_ok [OF extract_all_writes(2) [of "mysql_queries D db"]] by (simp only:)
  next
    case other
    then have "\<exists>e. extract_schema_to_json D h p d u pw sc ty = (Inl e, ConnOpen, [])"
      using c by (auto simp: extract_schema_to_json_def split: sum.split)
    then show ?thesis by auto
  qed
qed

lemma integer_precision_in_type: "ec_data_type (new_column (hd (projr (q_columns pg_rows_ex)))) = ''integer(32)''"
  by (simp add: new_column_def full_data_type_def pg_rows_ex_def truthy_nat_def string_of_nat.simps digit_char_def char_of_def bit_0)

lemma comma_column_split:
  "xi_columns (snd (mysql_index_of \<lparr>ir_table = ''t'', ir_name = ''i'', ir_columns = ''a,b'', ir_unique = False, ir_primary = False\<rparr>)) = [''a'', ''b'']"
  by (simp add: mysql_index_of_def)

subsection \<open>Examples\<close>

lemma pg_ex_extracts: "\<exists>s. fst (extract_schema_to_json db_env_ex ''h'' ''5432'' ''db'' ''u'' ''pw'' None ''postgresql'') = Inr s"
  by (simp add: extract_schema_to_json_def connect_by_params_def open_session_def db_env_ex_def pg_extract_all_def
                save_result_def run_stage_def pg_rows_ex_def finish_extraction_def)

theorem extraction_refs_symmetric_witness:
  "\<exists>s. fst (extract_schema_to_json db_env_ex ''h'' ''5432'' ''db'' ''u'' ''pw'' None ''postgresql'') = Inr s \<and>
       fk_mset s = ref_mset s"
  using pg_ex_extracts extraction_refs_symmetric by blast

theorem extraction_pk_flags_witness:
  "\<exists>s. fst (extract_schema_to_json db_env_ex ''h'' ''5432'' ''db'' ''u'' ''pw'' None ''postgresql'') = Inr s \<and>
       pk_flags_ok s"
  using pg_ex_extracts extraction_pk_flags by blast

theorem extraction_saves_only_on_success_witness:
  "fst (connect_by_params db_env_ex ''h'' ''3306'' ''db'' ''u'' ''pw'' None ''mysql'') = Inr () \<and>
   fst (extract_schema_to_json db_env_ex ''h'' ''3306'' ''db'' ''u'' ''pw'' None ''mysql'') = Inl ''OperationalError'' \<and>
   snd (snd (extract_schema_to_json db_env_ex ''h'' ''3306'' ''db'' ''u'' ''pw'' None ''mysql'')) = [] \<and>
   fst (snd (extract_schema_to_json db_env_ex ''h'' ''3306'' ''db'' ''u'' ''pw'' None ''mysql'')) = ConnOpen"
proof -
  have c: "fst (connect_by_params db_env_ex ''h'' ''3306'' ''db'' ''u'' ''pw'' None ''mysql'') = Inr ()"
    by (simp add: connect_by_params_def open_session_def db_env_ex_def)
  have e: "fst (extract_schema_to_json db_env_ex ''h'' ''3306'' ''db'' ''u'' ''pw'' None ''mysql'') = Inl ''OperationalError''"
    by (simp add: extract_schema_to_json_def connect_by_params_def open_session_def db_env_ex_def mysql_extract_all_def
                  save_result_def run_stage_def mysql_rows_ex_def pg_rows_ex_def finish_extraction_def)
  show ?thesis using extraction_saves_only_on_success [OF c] c e by simp
qed

end
