(* ===== verification/QueryDocs.thy ===== *)
theory QueryDocs
  imports Catalog SchemaDocs
begin

text \<open>
  The query documentation generator of src/src/documentation/queries_to_markdown.py
  (\<open>QueryMarkdownGenerator\<close>). Each analysed query is a record with the \<open>.get\<close>
  defaults of the code applied; the \<open>defaultdict\<close> counters and groupings are
  insertion-ordered association lists (\<open>count_keys\<close> and \<open>by_count_desc\<close> of the
  catalog theory model the counting and the stable \<open>reverse=True\<close> sort). The
  percentages are Python floats: \<open>count / total\<close> and the product with 100 are each
  rounded to the nearest double (ties to even), and \<open>:.1f\<close> rounds the exact binary
  value half to even, so the printed digits are those of CPython. Pages are strings and a
  run is the ordered list of files written; the \<open>IndexError\<close> of the join-pattern
  loop ends the run after the partial page.
\<close>

subsection \<open>Python floats\<close>

fun bitlen :: "nat \<Rightarrow> nat" where
  "bitlen n = (if n = 0 then 0 else Suc (bitlen (n div 2)))"

definition pow2 :: "int \<Rightarrow> rat" where
  "pow2 k = (if 0 \<le> k then 2 ^ nat k else 1 / 2 ^ nat (- k))"

definition round_half_even :: "rat \<Rightarrow> int" where
  "round_half_even r =
     (let f = \<lfloor>r\<rfloor>; d = r - of_int f
      in if d < 1/2 then f else if 1/2 < d then f + 1 else if even f then f else f + 1)"

text \<open>The double nearest to a positive rational in the normal range: with
  \<open>2^k \<le> q < 2^(k+1)\<close>, the 53-bit significand \<open>q / 2^(k-52)\<close> rounded half to
  even.\<close>

definition float_round :: "rat \<Rightarrow> rat" where
  "float_round q =
     (if q \<le> 0 then q
      else (let (a, b) = quotient_of q;
                k0 = int (bitlen (nat a)) - int (bitlen (nat b));
                k = (if pow2 k0 \<le> q then k0 else k0 - 1);
                e = k - 52
            in of_int (round_half_even (q / pow2 e)) * pow2 e))"

text \<open>\<open>(count / total) * 100 if total > 0 else 0\<close>.\<close>

definition percent :: "nat \<Rightarrow> nat \<Rightarrow> rat" where
  "percent count tot =
     (if 0 < tot then float_round (float_round (of_nat count / of_nat tot) * 100) else 0)"

text \<open>\<open>f"{v:.1f}"\<close> for a non-negative value.\<close>

definition format_1f :: "rat \<Rightarrow> string" where
  "format_1f v =
     (let n = nat (round_half_even (v * 10)) in string_of_nat (n div 10) @ ''.'' @ [digit_char (n mod 10)])"

definition pct_cell :: "nat \<Rightarrow> nat \<Rightarrow> string" where
  "pct_cell count tot = format_1f (percent count tot) @ ''%''"

subsection \<open>Analysed queries\<close>

record query_data =
  qd_category :: string
  qd_tables :: "string list"
  qd_complexity :: string
  qd_sql :: string
  qd_description :: string
  qd_joins :: "string list"
  qd_where :: "(string option \<times> string) list"

type_synonym queries = "(string \<times> query_data) list"

text \<open>\<open>s.split(sep)\<close> for a non-empty separator.\<close>

function split_ne :: "string \<Rightarrow> string \<Rightarrow> string list" where
  "split_ne sep [] = [[]]"
| "split_ne sep (c # s) =
     (if sep \<noteq> [] \<and> prefix sep (c # s) then [] # split_ne sep (drop (length sep) (c # s))
      else (let r = split_ne sep s in (c # hd r) # tl r))"
  by pat_completeness auto
termination
  by (relation "measure (\<lambda>(sep, s). length s)") auto

text \<open>\<open>name.lower().replace(' ', '_')\<close>, the file name of a category or table page.\<close>

definition safe_name :: "string \<Rightarrow> string" where
  "safe_name s = py_replace '' '' ''_'' (py_lower s)"

text \<open>A \<open>defaultdict(list)\<close> filled in order, an item appended once per key it has.\<close>

definition group_by :: "('a \<Rightarrow> string list) \<Rightarrow> 'a list \<Rightarrow> (string \<times> 'a list) list" where
  "group_by keys xs =
     foldl (\<lambda>d x. foldl (\<lambda>d k. dict_set d k ((case dict_get d k of None \<Rightarrow> [] | Some l \<Rightarrow> l) @ [x])) d (keys x))
           [] xs"

definition complexity_levels :: "string list" where
  "complexity_levels = [''Low'', ''Medium'', ''High'', ''Very High'']"

subsection \<open>Index\<close>

definition generate_index_file_q :: "queries \<Rightarrow> string" where
  "generate_index_file_q qs =
     line ''# SQL Query Documentation'' @ nl @
     ''This documentation catalogs and analyzes common SQL query patterns '' @
     line (''from a repository of '' @ string_of_nat (length qs) @ '' queries.'') @ nl @
     line ''## Query Categories'' @ nl @
     concat (map (\<lambda>(c, n). line (''- ['' @ c @ ''](query_patterns/'' @ safe_name c @ ''.md) ('' @
                                  string_of_nat n @ '' queries)''))
                 (by_count_desc (count_keys (map (qd_category \<circ> snd) qs)))) @
     nl @ line ''## Most Used Tables'' @ nl @
     line ''| Table Name | Query Count |'' @ line ''|------------|------------|'' @
     concat (map (\<lambda>(t, n). line (''| ['' @ t @ ''](tables_usage/'' @ safe_name t @ ''.md) | '' @ string_of_nat n @ '' |''))
                 (take 20 (by_count_desc (count_keys (concat (map (qd_tables \<circ> snd) qs))))))"

subsection \<open>Category pages\<close>

definition sample_query :: "string \<times> query_data \<Rightarrow> string" where
  "sample_query iq =
     (let (i, q) = iq in
      line (''### Query '' @ i) @ nl @
      line (''**Complexity**: '' @ qd_complexity q @ ''  '') @
      line (''**Tables**: '' @ py_join '', '' (qd_tables q) @ ''  '') @
      line (''**Description**: '' @ qd_description q @ ''  '') @ nl @
      line ''```sql'' @ qd_sql q @ nl @ line ''```'' @ nl)"

definition category_page :: "string \<Rightarrow> (string \<times> query_data) list \<Rightarrow> string" where
  "category_page c qs =
     (let tot = length qs; tu = count_keys (concat (map (qd_tables \<circ> snd) qs))
      in line (''# '' @ c @ '' Queries'') @ nl @
         line (''This document contains '' @ string_of_nat tot @ '' queries categorized as '' @
               [CHR 0x27] @ c @ [CHR 0x27] @ ''.'') @ nl @
         line ''## Complexity Distribution'' @ nl @
         line ''| Complexity | Count | Percentage |'' @ line ''|-----------|-------|------------|'' @
         concat (map (\<lambda>cx. let n = length (filter (\<lambda>q. qd_complexity (snd q) = cx) qs)
                            in line (''| '' @ cx @ '' | '' @ string_of_nat n @ '' | '' @ pct_cell n tot @ '' |''))
                     complexity_levels) @
         (if tu \<noteq> []
          then nl @ line ''## Tables Used in this Category'' @ nl @
               line ''| Table Name | Query Count | Percentage |'' @ line ''|------------|------------|------------|'' @
               concat (map (\<lambda>(t, n). line (''| ['' @ t @ ''](../tables_usage/'' @ safe_name t @ ''.md) | '' @
                                            string_of_nat n @ '' | '' @ pct_cell n tot @ '' |''))
                           (take 15 (by_count_desc tu)))
          else []) @
         nl @ line ''## Sample Queries'' @ nl @
         concat (map sample_query (take 20 (sort_key (qd_complexity \<circ> snd) qs))))"

definition generate_query_patterns :: "string \<Rightarrow> queries \<Rightarrow> writes" where
  "generate_query_patterns pdir qs =
     map (\<lambda>(c, g). (path_join pdir (safe_name c @ ''.md''), category_page c g))
         (group_by (\<lambda>iq. [qd_category (snd iq)]) qs)"

subsection \<open>Table usage pages\<close>

text \<open>The other table of a join key \<open>A_JOIN_B\<close> that mentions the table (as a
  substring): \<open>None\<close> is the \<open>IndexError\<close> of \<open>tables[1]\<close> on a key without
  separator that equals the table.\<close>

definition join_other :: "string \<Rightarrow> string \<Rightarrow> string option" where
  "join_other t j =
     (let parts = split_ne ''_JOIN_'' j
      in if hd parts = t then (if 2 \<le> length parts then Some (parts ! 1) else None) else Some (hd parts))"

definition join_others :: "string \<Rightarrow> query_data list \<Rightarrow> string list option" where
  "join_others t qs = those (map (join_other t) (filter (\<lambda>j. py_in t j) (concat (map qd_joins qs))))"

definition where_columns :: "string \<Rightarrow> query_data list \<Rightarrow> string list" where
  "where_columns t qs = map snd (filter (\<lambda>c. fst c = Some t) (concat (map qd_where qs)))"

definition usage_head :: "(string \<times> string option) list \<Rightarrow> string \<Rightarrow> query_data list \<Rightarrow> string" where
  "usage_head schema t qs =
     (let tot = length qs in
      line (''# '' @ t @ '' Usage Documentation'') @ nl @
      (case map_of schema t of
         None \<Rightarrow> []
       | Some d \<Rightarrow> line (case d of None \<Rightarrow> ''Table '' @ t | Some s \<Rightarrow> s) @ nl @
                   line (''See [full schema documentation](../../schema/tables/'' @ t @ ''.md) for this table.'') @ nl) @
      line (''This document describes how the `'' @ t @ ''` table is used across '' @ string_of_nat tot @ '' queries.'') @ nl @
      line ''## Usage by Category'' @ nl @
      line ''| Category | Query Count | Percentage |'' @ line ''|----------|------------|------------|'' @
      concat (map (\<lambda>(c, n). line (''| ['' @ c @ ''](../query_patterns/'' @ safe_name c @ ''.md) | '' @
                                   string_of_nat n @ '' | '' @ pct_cell n tot @ '' |''))
                  (by_count_desc (count_keys (map qd_category qs)))))"

definition usage_rest :: "string \<Rightarrow> query_data list \<Rightarrow> string list \<Rightarrow> string" where
  "usage_rest t qs others =
     (let tot = length qs; jp = count_keys others; wc = count_keys (where_columns t qs)
      in (if jp \<noteq> []
          then nl @ line ''## Common Join Patterns'' @ nl @
               line ''| Joined With | Query Count | Percentage |'' @ line ''|------------|------------|------------|'' @
               concat (map (\<lambda>(o', n). line (''| ['' @ o' @ ''](./'' @ safe_name o' @ ''.md) | '' @
                                             string_of_nat n @ '' | '' @ pct_cell n tot @ '' |''))
                           (by_count_desc jp))
          else []) @
         (if wc \<noteq> []
          then nl @ line ''## Common WHERE Conditions'' @ nl @
               line ''| Column | Query Count | Percentage |'' @ line ''|--------|------------|------------|'' @
               concat (map (\<lambda>(col, n). line (''| '' @ col @ '' | '' @ string_of_nat n @ '' | '' @ pct_cell n tot @ '' |''))
                           (take 10 (by_count_desc wc)))
          else []) @
         nl @ line ''## Sample Queries Using This Table'' @ nl @
         concat (map (\<lambda>q. line (''### '' @ qd_category q @ '' Query (Complexity: '' @ qd_complexity q @ '')'') @ nl @
                           line ''```sql'' @ qd_sql q @ nl @ line ''```'' @ nl)
                     (take 10 (sort_key qd_complexity qs))))"

definition usage_page :: "(string \<times> string option) list \<Rightarrow> string \<Rightarrow> query_data list \<Rightarrow> string \<times> string option" where
  "usage_page schema t qs =
     (case join_others t qs of
        None \<Rightarrow> (usage_head schema t qs, Some ''IndexError'')
      | Some others \<Rightarrow> (usage_head schema t qs @ usage_rest t qs others, None))"

fun usage_docs :: "(string \<times> string option) list \<Rightarrow> string \<Rightarrow> (string \<times> query_data list) list \<Rightarrow> writes \<times> string option" where
  "usage_docs schema tdir [] = ([], None)"
| "usage_docs schema tdir ((t, qs) # rest) =
     (if length qs < 2 then usage_docs schema tdir rest
      else case usage_page schema t qs of
             (page, Some e) \<Rightarrow> ([(path_join tdir (safe_name t @ ''.md''), page)], Some e)
           | (page, None) \<Rightarrow> (let (w, r) = usage_docs schema tdir rest
                              in ((path_join tdir (safe_name t @ ''.md''), page) # w, r)))"

definition generate_tables_usage_docs ::
  "(string \<times> string option) list \<Rightarrow> string \<Rightarrow> queries \<Rightarrow> writes \<times> string option" where
  "generate_tables_usage_docs schema tdir qs = usage_docs schema tdir (group_by qd_tables (map snd qs))"

subsection \<open>A run of the generator\<close>

text \<open>\<open>generate_all_docs\<close>; the schema is the table descriptions of the optional schema
  JSON (empty when it is absent, unreadable, empty or has no \<open>'tables'\<close>).\<close>

definition generate_all_docs_q ::
  "string \<Rightarrow> (string \<times> string option) list \<Rightarrow> queries \<Rightarrow> writes \<times> string option" where
  "generate_all_docs_q out schema qs =
     (let (w, r) = generate_tables_usage_docs schema (path_join out ''tables_usage'') qs
      in ((path_join out ''index.md'', generate_index_file_q qs) #
          generate_query_patterns (path_join out ''query_patterns'') qs @ w, r))"

definition generate_markdown_from_json_q ::
  "string \<Rightarrow> queries option \<Rightarrow> (string \<times> string option) list \<Rightarrow> writes \<times> (string + bool)" where
  "generate_markdown_from_json_q out input schema =
     (case input of
        None \<Rightarrow> ([], Inr False)
      | Some qs \<Rightarrow> (let (w, r) = generate_all_docs_q out schema qs
                   in (w, case r of None \<Rightarrow> Inr True | Some e \<Rightarrow> Inl e)))"

subsection \<open>Lemmas\<close>

lemma split_ne_nonempty [simp]: "split_ne sep s \<noteq> []"
  by (induction sep s rule: split_ne.induct) (auto simp: Let_def)

lemma py_join_Cons_Cons: "py_join sep ((c # a) # rest) = c # py_join sep (a # rest)"
  by (cases rest) simp_all

lemma split_ne_join:
  "sep \<noteq> [] \<Longrightarrow> py_join sep (split_ne sep s) = s"
proof (induction sep s rule: split_ne.induct)
  case (1 sep) then show ?case by simp
next
  case (2 sep c s)
  show ?case
  proof (cases "prefix sep (c # s)")
    case True
    obtain r where r: "split_ne sep (drop (length sep) (c # s)) = r" "r \<noteq> []" by simp
    then have "py_join sep ([] # r) = sep @ py_join sep r" by (cases r) simp_all
    moreover have "split_ne sep (c # s) = [] # r" using True "2.prems" r by simp
    moreover from True have "sep @ drop (length sep) (c # s) = c # s" by (auto simp: prefix_def)
    ultimately show ?thesis using 2 r True by simp
  next
    case False
    let ?r = "split_ne sep s"
    have "py_join sep ((c # hd ?r) # tl ?r) = c # py_join sep ?r"
      using py_join_Cons_Cons [of sep c "hd ?r" "tl ?r"] by simp
    with False 2 show ?thesis by (simp add: Let_def)
  qed
qed

lemma keys_group_step:
  "map fst d = first_occ A \<Longrightarrow>
   map fst (foldl (\<lambda>d k. dict_set d k ((case dict_get d k of None \<Rightarrow> [] | Some l \<Rightarrow> l) @ [x])) d ks) = first_occ (A @ ks)"
proof (induction ks arbitrary: d A)
  case Nil then show ?case by simp
next
  case (Cons k ks)
  have "map fst (dict_set d k ((case dict_get d k of None \<Rightarrow> [] | Some l \<Rightarrow> l) @ [x])) = first_occ (A @ [k])"
    using Cons.prems by (simp add: keys_dict_set first_occ_snoc)
  from Cons.IH [OF this] show ?case by simp
qed

lemma keys_group_by: "map fst (group_by keys xs) = first_occ (concat (map keys xs))"
proof (induction xs rule: rev_induct)
  case Nil then show ?case by (simp add: group_by_def)
next
  case (snoc x xs)
  from keys_group_step [OF snoc.IH, of x "keys x"] show ?case by (simp add: group_by_def)
qed

lemma map_of_group_step:
  "map_of (foldl (\<lambda>d k. dict_set d k ((case dict_get d k of None \<Rightarrow> [] | Some l \<Rightarrow> l) @ [x])) d ks) k' =
     (if k' \<in> set ks then Some ((case map_of d k' of None \<Rightarrow> [] | Some l \<Rightarrow> l) @ replicate (count_list ks k') x)
      else map_of d k')"
  by (induction ks arbitrary: d) (auto simp: map_of_dict_set dict_get_def split: option.split)

lemma map_of_group_by:
  "map_of (group_by keys xs) k =
     (if k \<in> set (concat (map keys xs)) then Some (concat (map (\<lambda>x. replicate (count_list (keys x) k) x) xs)) else None)"
proof (induction xs rule: rev_induct)
  case Nil then show ?case by (simp add: group_by_def)
next
  case (snoc x xs)
  then show ?case
    by (auto simp: group_by_def map_of_group_step count_list_0_iff split: option.split)
qed

lemma percent_all: "0 < t \<Longrightarrow> format_1f (percent t t) = ''100.0''"
proof -
  assume "0 < t"
  then have "percent t t = float_round (float_round 1 * 100)" by (simp add: percent_def)
  moreover have "format_1f (float_round (float_round 1 * 100)) = ''100.0''" by code_simp
  ultimately show ?thesis by simp
qed

lemma paths_query_patterns:
  "map fst (generate_query_patterns pdir qs) =
     map (\<lambda>c. path_join pdir (safe_name c @ ''.md'')) (first_occ (map (qd_category \<circ> snd) qs))"
proof -
  have "concat (map (\<lambda>iq. [qd_category (snd iq)]) qs) = map (qd_category \<circ> snd) qs"
    by (induction qs) simp_all
  then have k: "map fst (group_by (\<lambda>iq. [qd_category (snd iq)]) qs) = first_occ (map (qd_category \<circ> snd) qs)"
    using keys_group_by [of "\<lambda>iq. [qd_category (snd iq)]" qs] by (simp add: comp_def)
  have "map fst (generate_query_patterns pdir qs) =
          map (\<lambda>c. path_join pdir (safe_name c @ ''.md'')) (map fst (group_by (\<lambda>iq. [qd_category (snd iq)]) qs))"
    by (simp add: generate_query_patterns_def case_prod_unfold)
  with k show ?thesis by simp
qed

lemma category_pages_collide:
  assumes "c1 \<noteq> c2" "safe_name c1 = safe_name c2"
    and "c1 \<in> qd_category ` snd ` set qs" "c2 \<in> qd_category ` snd ` set qs"
  shows "\<not> distinct (map fst (generate_query_patterns pdir qs))"
proof
  assume "distinct (map fst (generate_query_patterns pdir qs))"
  then have inj: "inj_on (\<lambda>c. path_join pdir (safe_name c @ ''.md'')) (set (map (qd_category \<circ> snd) qs))"
    by (simp add: paths_query_patterns distinct_map)
  have "(\<lambda>c. path_join pdir (safe_name c @ ''.md'')) c1 = (\<lambda>c. path_join pdir (safe_name c @ ''.md'')) c2"
    using assms(2) by simp
  moreover have "c1 \<in> set (map (qd_category \<circ> snd) qs)" "c2 \<in> set (map (qd_category \<circ> snd) qs)"
    using assms(3,4) by auto
  ultimately have "c1 = c2" using inj by (auto dest: inj_onD)
  with assms(1) show False ..
qed

lemma split_ne_no_sep: "\<not> sublist sep s \<Longrightarrow> split_ne sep s = [s]"
proof (induction sep s rule: split_ne.induct)
  case (1 sep) then show ?case by simp
next
  case (2 sep c s)
  have "\<not> prefix sep (c # s)" "\<not> sublist sep s" using "2.prems" by (simp_all add: sublist_Cons_right)
  then show ?case using 2 by (simp add: Let_def)
qed

lemma those_None: "None \<in> set xs \<Longrightarrow> those xs = None"
  by (induction xs) (auto split: option.split)

lemma join_key_equal_to_table_fails:
  assumes "\<not> sublist ''_JOIN_'' t" "t \<in> set (concat (map qd_joins qs))"
  shows "snd (usage_page schema t qs) = Some ''IndexError''"
proof -
  have "join_other t t = None" using split_ne_no_sep [OF assms(1)] by (simp add: join_other_def)
  then have "None \<in> set (map (join_other t) (filter (\<lambda>j. sublist t j) (concat (map qd_joins qs))))"
    using assms(2) by force
  then show ?thesis by (simp add: usage_page_def join_others_def those_None)
qed

end
