(* ===== verification/QueryAnalysis.thy ===== *)
theory QueryAnalysis
  imports Prelude
begin

text \<open>
  The SQL query analyser of src/src/query_analysis/query_parser.py
  (\<open>QueryAnalyzer\<close>, \<open>analyze_query_batch\<close>, \<open>process_query_file\<close>). The three
  parsing libraries are oracles of a \<open>parse_env\<close>: \<open>sqlparse\<close> gives the statement
  type and the formatted text, \<open>sqlglot\<close> the statements with the tables, joins,
  columns and conditions its \<open>find_all\<close> visits in order, \<open>sql_metadata\<close> the tables
  and the columns by table; each may raise (\<open>Inl\<close>). The analyser's own code, the
  de-duplicating accumulation, the merge of the three results, the exception handling
  and the complexity score, is modelled as written. The score adds multiples of 0.5,
  which doubles represent exactly, so it is computed on rationals.
\<close>

subsection \<open>Parser results\<close>

text \<open>A join of sqlglot: its \<open>kind\<close> and the name of its table, \<open>None\<close> where the
  attribute is absent; a condition: the name of its left operand and its operator.\<close>

record sql_statement =
  st_tables :: "string list"
  st_joins :: "(string option \<times> string option) list"
  st_columns :: "string list"
  st_conditions :: "(string option \<times> string option) list"

record parse_env =
  sqlparse_parse :: "string \<Rightarrow> string + string option"
  sqlparse_format :: "string \<Rightarrow> string + string"
  sqlglot_parse :: "string \<Rightarrow> string + sql_statement option list"
  md_tables :: "string \<Rightarrow> string + string list"
  md_columns_dict :: "string \<Rightarrow> string + (string \<times> string list) list"

text \<open>The dict \<open>join_info\<close> (\<open>type\<close> is always \<open>JOIN\<close>) and \<open>condition_info\<close>.\<close>

type_synonym join_info = "string option \<times> string option"
type_synonym condition_info = "string \<times> string"

record glot_result =
  g_tables :: "string list"
  g_columns :: "string list"
  g_joins :: "join_info list"
  g_where :: "condition_info list"

record analysis_result =
  ar_name :: string
  ar_query_text :: string
  ar_query_type :: "string option"
  ar_tables :: "string list"
  ar_columns :: "string list"
  ar_joins :: "join_info list"
  ar_where :: "condition_info list"
  ar_complexity :: "string option"
  ar_formatted :: "string option"
  ar_error :: "string option"

subsection \<open>The analyser\<close>

text \<open>\<open>if x not in xs: xs.append(x)\<close>.\<close>

definition append_new :: "'a list \<Rightarrow> 'a \<Rightarrow> 'a list" where
  "append_new xs x = (if x \<in> set xs then xs else xs @ [x])"

definition condition_of :: "string option \<times> string option \<Rightarrow> condition_info option" where
  "condition_of c =
     (case fst c of None \<Rightarrow> None | Some l \<Rightarrow> Some (l, case snd c of None \<Rightarrow> ''?'' | Some op \<Rightarrow> op))"

definition empty_glot :: glot_result where
  "empty_glot = \<lparr>g_tables = [], g_columns = [], g_joins = [], g_where = []\<rparr>"

text \<open>The loop over the statements of \<open>_analyze_with_sqlglot\<close>.\<close>

definition glot_statement :: "glot_result \<Rightarrow> sql_statement \<Rightarrow> glot_result" where
  "glot_statement r st =
     \<lparr>g_tables = foldl append_new (g_tables r) (st_tables st),
      g_columns = foldl append_new (g_columns r) (st_columns st),
      g_joins = foldl append_new (g_joins r) (st_joins st),
      g_where = foldl append_new (g_where r) (List.map_filter condition_of (st_conditions st))\<rparr>"

text \<open>A statement that is \<open>None\<close> (sqlglot's result for an empty statement) raises
  \<open>AttributeError\<close> at \<open>find_all\<close>, which the handler catches, returning what the
  earlier statements gave.\<close>

fun glot_statements :: "glot_result \<Rightarrow> sql_statement option list \<Rightarrow> glot_result" where
  "glot_statements r [] = r"
| "glot_statements r (None # _) = r"
| "glot_statements r (Some st # sts) = glot_statements (glot_statement r st) sts"

definition analyze_with_sqlglot :: "parse_env \<Rightarrow> string \<Rightarrow> glot_result" where
  "analyze_with_sqlglot PE q =
     (case sqlglot_parse PE q of Inl _ \<Rightarrow> empty_glot | Inr stmts \<Rightarrow> glot_statements empty_glot stmts)"

text \<open>\<open>_analyze_with_sql_metadata\<close>: the tables and the columns of all tables; an
  exception keeps what was set before it.\<close>

definition analyze_with_sql_metadata :: "parse_env \<Rightarrow> string \<Rightarrow> string list \<times> string list" where
  "analyze_with_sql_metadata PE q =
     (case md_tables PE q of
        Inl _ \<Rightarrow> ([], [])
      | Inr ts \<Rightarrow> (case md_columns_dict PE q of Inl _ \<Rightarrow> (ts, []) | Inr cd \<Rightarrow> (ts, concat (map snd cd))))"

text \<open>\<open>_compute_complexity\<close>.\<close>

definition complexity_score :: "analysis_result \<Rightarrow> rat" where
  "complexity_score r =
     (if ar_query_type r = Some ''SELECT'' then 1
      else if ar_query_type r \<in> Some ` {''INSERT'', ''UPDATE'', ''DELETE''} then 2 else 0) +
     of_nat (length (ar_tables r)) * (1/2) + of_nat (length (ar_joins r)) * (3/2) +
     of_nat (length (ar_where r)) * (1/2) +
     (if 1000 < length (ar_query_text r) then 2 else if 500 < length (ar_query_text r) then 1 else 0)"

definition compute_complexity :: "analysis_result \<Rightarrow> string" where
  "compute_complexity r =
     (let c = complexity_score r in if 8 < c then ''High'' else if 4 < c then ''Medium'' else ''Low'')"

text \<open>The part of \<open>analyze_query\<close> after sqlparse: the sqlglot lists replace the
  initial ones (\<open>result.update\<close>), sql_metadata's tables are taken only where sqlglot
  found none, and its columns not already found are appended, the filter being
  computed before the extension; then the complexity.\<close>

definition analysis_tail :: "parse_env \<Rightarrow> string \<Rightarrow> analysis_result \<Rightarrow> analysis_result" where
  "analysis_tail PE t r1 =
     (let g = analyze_with_sqlglot PE t;
          r2 = r1\<lparr>ar_tables := g_tables g, ar_columns := g_columns g, ar_joins := g_joins g,
                  ar_where := g_where g\<rparr>;
          (mt, mc) = analyze_with_sql_metadata PE t;
          r3 = r2\<lparr>ar_tables := (if ar_tables r2 = [] \<and> mt \<noteq> [] then mt else ar_tables r2),
                  ar_columns := ar_columns r2 @ filter (\<lambda>c. c \<notin> set (ar_columns r2)) mc\<rparr>
      in r3\<lparr>ar_complexity := Some (compute_complexity r3)\<rparr>)"

text \<open>\<open>analyze_query\<close>: \<open>None\<close> for an empty text; an exception of sqlparse is caught by
  the outer handler, which returns the result as far as it was filled, with the
  message under \<open>error\<close>.\<close>

definition analyze_query :: "parse_env \<Rightarrow> string \<Rightarrow> string option \<Rightarrow> analysis_result option" where
  "analyze_query PE text name =
     (if text = [] then None
      else
        (let t = py_strip text;
             r0 = \<lparr>ar_name = (case name of None \<Rightarrow> ''Unnamed Query'' | Some n \<Rightarrow> if n = [] then ''Unnamed Query'' else n),
                   ar_query_text = t, ar_query_type = None, ar_tables = [], ar_columns = [], ar_joins = [],
                   ar_where = [], ar_complexity = None, ar_formatted = None, ar_error = None\<rparr>
         in case sqlparse_parse PE t of
              Inl e \<Rightarrow> Some (r0\<lparr>ar_error := Some e\<rparr>)
            | Inr None \<Rightarrow> Some (analysis_tail PE t r0)
            | Inr (Some ty) \<Rightarrow>
                (case sqlparse_format PE t of
                   Inl e \<Rightarrow> Some (r0\<lparr>ar_query_type := Some ty, ar_error := Some e\<rparr>)
                 | Inr fmt \<Rightarrow> Some (analysis_tail PE t (r0\<lparr>ar_query_type := Some ty, ar_formatted := Some fmt\<rparr>)))))"

subsection \<open>Batches and files\<close>

text \<open>An item of the batch: a \<open>(name, query)\<close> pair, or a bare string, which the loop
  \<open>for i, (query_name, query_text) in enumerate(queries)\<close> unpacks into its two
  characters when it has exactly two and otherwise rejects with \<open>ValueError\<close>.\<close>

datatype batch_item = NamedQuery string string | RawItem string

definition unpack_item :: "batch_item \<Rightarrow> string + string \<times> string" where
  "unpack_item it =
     (case it of NamedQuery n q \<Rightarrow> Inr (n, q)
      | RawItem s \<Rightarrow> if length s = 2 then Inr ([s ! 0], [s ! 1]) else Inl ''ValueError'')"

fun analyze_query_batch :: "parse_env \<Rightarrow> batch_item list \<Rightarrow> string + analysis_result option list" where
  "analyze_query_batch PE [] = Inr []"
| "analyze_query_batch PE (it # its) =
     (case unpack_item it of
        Inl e \<Rightarrow> Inl e
      | Inr (n, q) \<Rightarrow>
          (let r = analyze_query PE q (Some n)
           in case analyze_query_batch PE its of Inl e \<Rightarrow> Inl e | Inr rs \<Rightarrow> Inr (r # rs)))"

text \<open>\<open>os.path.splitext\<close>: the extension starts at the last dot of the base name,
  unless only dots precede it there.\<close>

definition base_name :: "string \<Rightarrow> string" where
  "base_name p = rev (takeWhile (\<lambda>c. c \<noteq> CHR ''/'') (rev p))"

definition dir_name :: "string \<Rightarrow> string" where
  "dir_name p = (let d = rev (dropWhile (\<lambda>c. c \<noteq> CHR ''/'') (rev p))
                 in if d \<noteq> [] \<and> set d \<noteq> {CHR ''/''} then rev (dropWhile (\<lambda>c. c = CHR ''/'') (rev d)) else d)"

definition split_ext :: "string \<Rightarrow> string \<times> string" where
  "split_ext b =
     (let stem = rev (drop 1 (dropWhile (\<lambda>c. c \<noteq> CHR ''.'') (rev b)))
      in if CHR ''.'' \<in> set b \<and> (\<exists>c\<in>set stem. c \<noteq> CHR ''.'')
         then (stem, drop (length stem) b) else (b, []))"

text \<open>The input of \<open>process_query_file\<close> by its extension: a JSON file (its items,
  \<open>None\<close> for an item without both keys, or not a list), a CSV or Excel table (whether
  it has both columns, and its rows), or text. Reading may raise.\<close>

datatype query_json = JList "(string \<times> string) option list" | JNotList

record file_env =
  load_json :: "string \<Rightarrow> string + query_json"
  load_table :: "string \<Rightarrow> string + bool \<times> (string \<times> string) list"
  read_text :: "string \<Rightarrow> string + string"
  write_ok :: "string \<Rightarrow> bool"

definition read_queries :: "file_env \<Rightarrow> string \<Rightarrow> string + batch_item list" where
  "read_queries F p =
     (let ext = py_lower (snd (split_ext (base_name p)))
      in if ext = ''.json''
         then (case load_json F p of
                 Inl e \<Rightarrow> Inl e
               | Inr (JList items) \<Rightarrow> Inr (map (\<lambda>(n, q). NamedQuery n q) (List.map_filter id items))
               | Inr JNotList \<Rightarrow> Inr [])
         else if ext = ''.csv'' \<or> ext = ''.xlsx''
         then (case load_table F p of
                 Inl e \<Rightarrow> Inl e
               | Inr (has_cols, rows) \<Rightarrow> Inr (if has_cols then map (\<lambda>(n, q). NamedQuery n q) rows else []))
         else (case read_text F p of Inl e \<Rightarrow> Inl e | Inr t \<Rightarrow> Inr [NamedQuery (base_name p) t]))"

text \<open>\<open>process_query_file\<close>: the results file (by default next to the input, named
  \<open><stem>_analysis.json\<close>) and the results written to it, or \<open>False\<close> when reading,
  the batch or the write raises. The schema file is loaded but the analyser never reads it, so it is not an
  input of the model.\<close>

definition process_query_file ::
  "parse_env \<Rightarrow> file_env \<Rightarrow> string \<Rightarrow> string option \<Rightarrow> bool \<times> (string \<times> analysis_result option list) option" where
  "process_query_file PE F input output =
     (let out = (case output of
                   Some o' \<Rightarrow> if o' = [] then None else Some o'
                 | None \<Rightarrow> None);
          out_path = (case out of
                        Some o' \<Rightarrow> o'
                      | None \<Rightarrow> (let d = dir_name input; stem = fst (split_ext (base_name input)) @ ''_analysis.json''
                                 in if d = [] then stem else if last d = CHR ''/'' then d @ stem else d @ ''/'' @ stem))
      in case read_queries F input of
           Inl _ \<Rightarrow> (False, None)
         | Inr items \<Rightarrow>
             (case analyze_query_batch PE items of
                Inl _ \<Rightarrow> (False, None)
              | Inr rs \<Rightarrow> if write_ok F out_path then (True, Some (out_path, rs)) else (False, None)))"

text \<open>Two parser environments used by the examples: in the first sqlglot raises and
  sql_metadata reports the column \<open>id\<close> under both the \<open>select\<close> and the \<open>where\<close>
  section, as its \<open>columns_dict\<close> does for \<open>SELECT id FROM t WHERE id = 1\<close>; in the
  second sqlglot reports two statements, the second of them empty.\<close>

definition parse_env_ex :: parse_env where
  "parse_env_ex =
     \<lparr>sqlparse_parse = (\<lambda>_. Inr (Some ''SELECT'')), sqlparse_format = (\<lambda>q. Inr q),
      sqlglot_parse = (\<lambda>_. Inl ''ParseError''), md_tables = (\<lambda>_. Inr [''t'']),
      md_columns_dict = (\<lambda>_. Inr [(''select'', [''id'']), (''where'', [''id''])])\<rparr>"

definition statement_ex :: sql_statement where
  "statement_ex =
     \<lparr>st_tables = [''t'', ''u'', ''t''], st_joins = [(Some ''INNER'', Some ''u'')], st_columns = [''id'', ''a'', ''id''],
      st_conditions = [(Some ''id'', Some ''EQ''), (None, Some ''EQ''), (Some ''a'', None)]\<rparr>"

definition parse_env_glot :: parse_env where
  "parse_env_glot = parse_env_ex\<lparr>sqlglot_parse := (\<lambda>_. Inr [Some statement_ex, None, Some statement_ex])\<rparr>"

definition file_env_ex :: file_env where
  "file_env_ex =
     \<lparr>load_json = (\<lambda>_. Inr (JList [Some (''q1'', ''SELECT 1''), None, Some (''q2'', '''')])),
      load_table = (\<lambda>_. Inl ''FileNotFoundError''), read_text = (\<lambda>_. Inr ''SELECT 1''),
      write_ok = (\<lambda>_. True)\<rparr>"

text \<open>The invariant of \<open>_analyze_with_sqlglot\<close>'s result: no list holds an entry twice.\<close>

definition glot_wf :: "glot_result \<Rightarrow> bool" where
  "glot_wf r = (distinct (g_tables r) \<and> distinct (g_columns r) \<and> distinct (g_joins r) \<and> distinct (g_where r))"

subsection \<open>Accumulation without duplicates\<close>

lemma set_append_new [simp]: "set (append_new xs x) = insert x (set xs)"
  by (auto simp: append_new_def)

lemma distinct_append_new [simp]: "distinct (append_new xs x) = distinct xs"
  by (auto simp: append_new_def)

lemma set_foldl_append_new [simp]: "set (foldl append_new xs ys) = set xs \<union> set ys"
  by (induction ys arbitrary: xs) auto

lemma distinct_foldl_append_new [simp]: "distinct (foldl append_new xs ys) = distinct xs"
  by (induction ys arbitrary: xs) auto

lemma foldl_append_new_prefix: "\<exists>zs. foldl append_new xs ys = xs @ zs"
proof (induction ys arbitrary: xs)
  case (Cons y ys)
  obtain zs where "foldl append_new (append_new xs y) ys = append_new xs y @ zs"
    using Cons.IH by blast
  moreover have "append_new xs y = xs @ (if y \<in> set xs then [] else [y])"
    by (simp add: append_new_def)
  ultimately show ?case by (metis append.assoc foldl_Cons)
qed simp

lemma glot_statement_wf: "glot_wf r \<Longrightarrow> glot_wf (glot_statement r st)"
  by (simp add: glot_wf_def glot_statement_def)

lemma glot_statements_wf: "glot_wf r \<Longrightarrow> glot_wf (glot_statements r sts)"
  by (induction r sts rule: glot_statements.induct) (simp_all add: glot_statement_wf)

lemma empty_glot_wf [simp]: "glot_wf empty_glot"
  by (simp add: glot_wf_def empty_glot_def)

subsection \<open>The merge of the three parsers\<close>

lemma compute_complexity_label: "compute_complexity r \<in> {''Low'', ''Medium'', ''High''}"
  by (simp add: compute_complexity_def Let_def)

lemma complexity_score_ignores_label [simp]:
  "complexity_score (r\<lparr>ar_complexity := c\<rparr>) = complexity_score r"
  by (simp add: complexity_score_def)

lemma compute_complexity_ignores_label [simp]:
  "compute_complexity (r\<lparr>ar_complexity := c\<rparr>) = compute_complexity r"
  by (simp add: compute_complexity_def)

lemma complexity_score_ge_joins: "of_nat (length (ar_joins r)) * (3/2) \<le> complexity_score r"
  unfolding complexity_score_def by (auto simp: add_nonneg_nonneg)

lemma analysis_tail_fields [simp]:
  "ar_name (analysis_tail PE t r) = ar_name r"
  "ar_query_text (analysis_tail PE t r) = ar_query_text r"
  "ar_query_type (analysis_tail PE t r) = ar_query_type r"
  "ar_formatted (analysis_tail PE t r) = ar_formatted r"
  "ar_error (analysis_tail PE t r) = ar_error r"
  "ar_joins (analysis_tail PE t r) = g_joins (analyze_with_sqlglot PE t)"
  "ar_where (analysis_tail PE t r) = g_where (analyze_with_sqlglot PE t)"
  "ar_tables (analysis_tail PE t r) =
     (if g_tables (analyze_with_sqlglot PE t) = [] then fst (analyze_with_sql_metadata PE t)
      else g_tables (analyze_with_sqlglot PE t))"
  "ar_columns (analysis_tail PE t r) =
     g_columns (analyze_with_sqlglot PE t) @
     filter (\<lambda>c. c \<notin> set (g_columns (analyze_with_sqlglot PE t))) (snd (analyze_with_sql_metadata PE t))"
  "ar_complexity (analysis_tail PE t r) = Some (compute_complexity (analysis_tail PE t r))"
  by (simp_all add: analysis_tail_def Let_def case_prod_unfold)

lemma analyze_query_Nil: "analyze_query PE [] n = None"
  by (simp add: analyze_query_def)

lemma analyze_query_None_iff: "analyze_query PE q n = None \<longleftrightarrow> q = []"
  by (simp add: analyze_query_def Let_def split: sum.split option.split)

text \<open>Every result of \<open>analyze_query\<close> is one of three shapes: an error raised by
  sqlparse, with nothing else filled; an error raised by \<open>sqlparse.format\<close>, with the
  statement type; or the completed analysis.\<close>

lemma analyze_query_cases:
  assumes "analyze_query PE q n = Some r"
  obtains (parse_error) e where "sqlparse_parse PE (py_strip q) = Inl e" "ar_error r = Some e" "ar_complexity r = None"
  | (format_error) e where "sqlparse_format PE (py_strip q) = Inl e" "ar_error r = Some e" "ar_complexity r = None"
  | (analysed) r1 where "r = analysis_tail PE (py_strip q) r1" "ar_error r1 = None" "ar_query_text r1 = py_strip q"
  using assms by (fastforce simp: analyze_query_def Let_def split: if_splits sum.splits option.splits)

subsection \<open>Batches and files\<close>

lemma analyze_query_batch_named:
  "analyze_query_batch PE (map (\<lambda>(n, q). NamedQuery n q) qs) = Inr (map (\<lambda>(n, q). analyze_query PE q (Some n)) qs)"
  by (induction qs) (auto simp: unpack_item_def)

lemma analyze_query_batch_raw:
  "analyze_query_batch PE (map RawItem ls) =
     (if list_all (\<lambda>l. length l = 2) ls then Inr (map (\<lambda>l. analyze_query PE [l ! 1] (Some [l ! 0])) ls)
      else Inl ''ValueError'')"
  by (induction ls) (auto simp: unpack_item_def split: sum.split)

lemma split_ext_roundtrip: "fst (split_ext b) @ snd (split_ext b) = b"
proof -
  let ?d = "dropWhile (\<lambda>c. c \<noteq> CHR ''.'') (rev b)"
  have "b = rev ?d @ rev (takeWhile (\<lambda>c. c \<noteq> CHR ''.'') (rev b))"
    by (metis rev_append rev_rev_ident takeWhile_dropWhile_id)
  moreover have "rev ?d = rev (drop 1 ?d) @ rev (take 1 ?d)"
    by (metis append_take_drop_id rev_append)
  ultimately have "\<exists>zs. b = rev (drop 1 ?d) @ zs" by (metis append.assoc)
  then have "rev (drop 1 ?d) @ drop (length (drop 1 ?d)) b = b"
    by (metis append_eq_conv_conj length_rev)
  then show ?thesis by (simp add: split_ext_def Let_def)
qed

lemma read_error_fails: "read_queries F p = Inl e \<Longrightarrow> process_query_file PE F p out = (False, None)"
  by (simp add: process_query_file_def)

text \<open>For a JSON query file, the results written are the analyses of the items
  that have both a name and a query, in file order; items without them are skipped.\<close>

theorem process_json_queries:
  assumes "py_lower (snd (split_ext (base_name p))) = ''.json''" and "load_json F p = Inr (JList items)"
    and "write_ok F out" and "out \<noteq> []"
  shows "process_query_file PE F p (Some out) =
           (True, Some (out, map (\<lambda>(n, q). analyze_query PE q (Some n)) (List.map_filter id items)))"
  using assms by (simp add: process_query_file_def read_queries_def analyze_query_batch_named)

lemma lower_json_ext: "py_lower (snd (split_ext (base_name ''a.json''))) = ''.json''"
  by (simp add: split_ext_def base_name_def py_lower_def lower_char_def)

theorem process_json_queries_witness:
  "process_query_file parse_env_ex file_env_ex ''a.json'' (Some ''out.json'') =
     (True, Some (''out.json'', [analyze_query parse_env_ex ''SELECT 1'' (Some ''q1''), None]))"
  using process_json_queries [OF lower_json_ext, of file_env_ex "[Some (''q1'', ''SELECT 1''), None, Some (''q2'', '''')]"
                               "''out.json''" parse_env_ex]
  by (simp add: file_env_ex_def map_filter_def analyze_query_Nil)

lemma default_output_path:
  "process_query_file PE file_env_ex ''data/q.sql'' None =
     (True, Some (''data/q_analysis.json'', [analyze_query PE ''SELECT 1'' (Some ''q.sql'')]))"
  by (simp add: process_query_file_def read_queries_def file_env_ex_def split_ext_def base_name_def dir_name_def
                py_lower_def lower_char_def unpack_item_def)

subsection \<open>Properties of the analyser\<close>

text \<open>C17: Every analysis \<open>analyze_query\<close> returns carries a complexity label that is
  one of Low, Medium and High (never the Very High the documentation tables provide
  for), and carries none exactly when the analysis recorded an error.\<close>

theorem analyze_query_complexity_label:
  "pred_option (\<lambda>r. set_option (ar_complexity r) \<subseteq> {''Low'', ''Medium'', ''High''} \<and>
                    (ar_complexity r = None) = (ar_error r \<noteq> None)) (analyze_query PE q n)"
proof (cases "analyze_query PE q n")
  case (Some r)
  have "set_option (ar_complexity r) \<subseteq> {''Low'', ''Medium'', ''High''} \<and> (ar_complexity r = None) = (ar_error r \<noteq> None)"
    using Some by (cases rule: analyze_query_cases) (use compute_complexity_label in auto)
  with Some show ?thesis by simp
qed simp

text \<open>C20: The sqlglot pass never records a table, a column, a join or a condition
  twice, over all the statements of the query.\<close>

theorem analyze_with_sqlglot_distinct: "glot_wf (analyze_with_sqlglot PE q)"
  by (simp add: analyze_with_sqlglot_def glot_statements_wf split: sum.split)

text \<open>C36: When the analysis completes without error, its joins and conditions are
  sqlglot's, its tables are sqlglot's or, when sqlglot found none, sql_metadata's,
  and its columns are sqlglot's followed by those of sql_metadata that sqlglot did
  not find, in sql_metadata's order.\<close>

theorem analyze_query_merge:
  assumes "analyze_query PE q n = Some r" and "ar_error r = None"
  shows "ar_joins r = g_joins (analyze_with_sqlglot PE (py_strip q)) \<and>
         ar_where r = g_where (analyze_with_sqlglot PE (py_strip q)) \<and>
         ar_tables r = (if g_tables (analyze_with_sqlglot PE (py_strip q)) = []
                        then fst (analyze_with_sql_metadata PE (py_strip q))
                        else g_tables (analyze_with_sqlglot PE (py_strip q))) \<and>
         ar_columns r = g_columns (analyze_with_sqlglot PE (py_strip q)) @
                        filter (\<lambda>c. c \<notin> set (g_columns (analyze_with_sqlglot PE (py_strip q))))
                               (snd (analyze_with_sql_metadata PE (py_strip q)))"
  using assms(1)
proof (cases rule: analyze_query_cases)
  case (analysed r1)
  then show ?thesis by simp
qed (use assms(2) in simp_all)

lemma sqlglot_ex:
  "analyze_with_sqlglot parse_env_glot ''q'' =
     \<lparr>g_tables = [''t'', ''u''], g_columns = [''id'', ''a''], g_joins = [(Some ''INNER'', Some ''u'')],
      g_where = [(''id'', ''EQ''), (''a'', ''?'')]\<rparr>"
  by (simp add: analyze_with_sqlglot_def parse_env_glot_def statement_ex_def glot_statement_def empty_glot_def
                append_new_def condition_of_def map_filter_def)

lemma sql_metadata_ex: "analyze_with_sql_metadata parse_env_glot q = ([''t''], [''id'', ''id''])"
  by (simp add: analyze_with_sql_metadata_def parse_env_glot_def parse_env_ex_def)

lemma strip_q: "py_strip ''q'' = ''q''"
  by (simp add: py_strip_def py_isspace_def)

theorem analyze_query_merge_witness:
  "\<exists>r. analyze_query parse_env_glot ''q'' None = Some r \<and> ar_error r = None \<and>
       ar_tables r = [''t'', ''u''] \<and> ar_columns r = [''id'', ''a''] \<and> ar_where r = [(''id'', ''EQ''), (''a'', ''?'')]"
proof -
  obtain r where a: "analyze_query parse_env_glot ''q'' None = Some r"
    by (simp add: analyze_query_def Let_def parse_env_glot_def parse_env_ex_def)
  have e: "ar_error r = None"
    using a by (auto simp: analyze_query_def Let_def parse_env_glot_def parse_env_ex_def)
  show ?thesis
    using a e analyze_query_merge [OF a e] by (simp add: strip_q sqlglot_ex sql_metadata_ex)
qed

text \<open>The columns of sql_metadata are concatenated over the sections of its
  \<open>columns_dict\<close>, which are clauses rather than tables, and only the columns already
  found by sqlglot are filtered out: a column used in two clauses is listed twice when
  sqlglot fails.\<close>

lemma columns_may_repeat:
  "ar_columns (the (analyze_query parse_env_ex ''SELECT id FROM t WHERE id = 1'' None)) = [''id'', ''id'']"
  by (simp add: analyze_query_def Let_def parse_env_ex_def analysis_tail_def case_prod_unfold
                analyze_with_sqlglot_def analyze_with_sql_metadata_def empty_glot_def)

text \<open>Six joins make any query High: each join weighs 1.5 and the other terms
  of the score are never negative.\<close>

lemma six_joins_high:
  assumes "6 \<le> length (ar_joins r)"
  shows "compute_complexity r = ''High''"
proof -
  have "(6::rat) \<le> of_nat (length (ar_joins r))"
    using assms by (metis of_nat_le_iff of_nat_numeral)
  then have "8 < complexity_score r"
    using complexity_score_ge_joins [of r] by linarith
  then show ?thesis by (simp add: compute_complexity_def)
qed

end
