(* ===== verification/S3Upload.thy ===== *)
theory S3Upload
  imports SchemaDocs QueryAnalysis
begin

text \<open>
  The documentation uploader of src/src/bedrock_setup/upload_to_s3.py. The S3 client
  and the local file system are an environment: \<open>upload_file\<close>, \<open>head_bucket\<close> and
  \<open>create_bucket\<close> answer with an \<open>aws_result\<close>, \<open>os.path.isdir\<close> is a predicate and
  \<open>os.walk\<close> gives, for a directory, its \<open>(root, files)\<close> pairs in walk order. Every
  function returns its value, or \<open>Inl\<close> an exception that is not a \<open>ClientError\<close> and
  so propagates, together with the list of \<open>upload_file\<close> calls it made.
\<close>

subsection \<open>Environment and calls\<close>

record s3_env =
  s3_upload :: "string \<Rightarrow> string \<Rightarrow> string \<Rightarrow> (string \<times> string) list \<Rightarrow> unit aws_result"
  s3_head_bucket :: "string \<Rightarrow> unit aws_result"
  s3_create_bucket :: "string \<Rightarrow> string option \<Rightarrow> unit aws_result"
  is_dir :: "string \<Rightarrow> bool"
  walk :: "string \<Rightarrow> (string \<times> string list) list"

text \<open>One \<open>s3_client.upload_file(file_path, bucket, object_name, ExtraArgs=extra_args)\<close>.\<close>

record put_call =
  pc_path :: string
  pc_bucket :: string
  pc_key :: string
  pc_extra :: "(string \<times> string) list"

definition put_outcome :: "s3_env \<Rightarrow> put_call \<Rightarrow> unit aws_result" where
  "put_outcome S c = s3_upload S (pc_path c) (pc_bucket c) (pc_key c) (pc_extra c)"

subsection \<open>Single files\<close>

text \<open>\<open>upload_file_to_s3\<close>: the object name defaults to the base name of the file; a
  truthy content type becomes the \<open>ContentType\<close> extra argument. A \<open>ClientError\<close> gives
  \<open>False\<close>; any other exception propagates.\<close>

definition extra_args :: "string option \<Rightarrow> (string \<times> string) list" where
  "extra_args content_type = (case content_type of None \<Rightarrow> [] | Some t \<Rightarrow> if t = [] then [] else [(''ContentType'', t)])"

definition upload_file_to_s3 ::
  "s3_env \<Rightarrow> string \<Rightarrow> string \<Rightarrow> string option \<Rightarrow> string option \<Rightarrow> (string + bool) \<times> put_call list" where
  "upload_file_to_s3 S file_path bucket object_name content_type =
     (let key = (case object_name of None \<Rightarrow> base_name file_path | Some k \<Rightarrow> k);
          c = \<lparr>pc_path = file_path, pc_bucket = bucket, pc_key = key, pc_extra = extra_args content_type\<rparr>
      in case put_outcome S c of
           AwsOk _ \<Rightarrow> (Inr True, [c])
         | ClientError _ \<Rightarrow> (Inr False, [c])
         | AwsRaise e \<Rightarrow> (Inl e, [c]))"

subsection \<open>Directories\<close>

definition default_content_types :: "(string \<times> string) list" where
  "default_content_types =
     [(''.md'', ''text/markdown''), (''.txt'', ''text/plain''), (''.json'', ''application/json''),
      (''.html'', ''text/html''), (''.pdf'', ''application/pdf''), (''.png'', ''image/png''),
      (''.jpg'', ''image/jpeg''), (''.jpeg'', ''image/jpeg''), (''.svg'', ''image/svg+xml'')]"

text \<open>\<open>os.path.relpath(path, start)\<close> for a path below \<open>start\<close>, the only paths the
  loop gives it (\<open>os.walk(start)\<close> yields \<open>start\<close> and its subdirectories as roots):
  the part after \<open>start\<close> and its separator. Trailing separators of \<open>start\<close> are
  ignored, as \<open>relpath\<close> normalises them away.\<close>

definition rel_path :: "string \<Rightarrow> string \<Rightarrow> string" where
  "rel_path p start =
     (let s = rev (dropWhile (\<lambda>c. c = CHR ''/'') (rev start))
      in if prefix (s @ ''/'') p then drop (length s + 1) p else p)"

definition backslash :: string where
  "backslash = [CHR 0x5C]"

text \<open>The S3 key of a local file: \<open>os.path.join(prefix, relative_path).replace('\\', '/')\<close>.\<close>

definition s3_key :: "string \<Rightarrow> string \<Rightarrow> string \<Rightarrow> string" where
  "s3_key directory obj_prefix local_path = py_replace backslash ''/'' (path_join obj_prefix (rel_path local_path directory))"

definition content_type_of :: "(string \<times> string) list \<Rightarrow> string \<Rightarrow> string option" where
  "content_type_of ctm file = map_of ctm (py_lower (snd (split_ext file)))"

definition walk_files :: "s3_env \<Rightarrow> string \<Rightarrow> (string \<times> string) list" where
  "walk_files S directory = concat (map (\<lambda>(walk_root, files). map (\<lambda>f. (walk_root, f)) files) (walk S directory))"

text \<open>The call one iteration of the loop makes for a walked \<open>(root, file)\<close>.\<close>

definition file_call :: "string \<Rightarrow> string \<Rightarrow> string \<Rightarrow> (string \<times> string) list \<Rightarrow> string \<times> string \<Rightarrow> put_call" where
  "file_call directory bucket obj_prefix ctm ent =
     (let local_path = path_join (fst ent) (snd ent)
      in \<lparr>pc_path = local_path, pc_bucket = bucket, pc_key = s3_key directory obj_prefix local_path,
          pc_extra = extra_args (content_type_of ctm (snd ent))\<rparr>)"

text \<open>The body of the two nested \<open>for\<close> loops: every file is tried, a failed upload
  only clears \<open>success\<close>, an exception leaves the loop.\<close>

fun upload_files ::
  "s3_env \<Rightarrow> string \<Rightarrow> string \<Rightarrow> string \<Rightarrow> (string \<times> string) list \<Rightarrow> (string \<times> string) list
   \<Rightarrow> (string + bool) \<times> put_call list" where
  "upload_files S directory bucket obj_prefix ctm [] = (Inr True, [])"
| "upload_files S directory bucket obj_prefix ctm ((walk_root, file) # fs) =
     (let local_path = path_join walk_root file;
          (r, c) = upload_file_to_s3 S local_path bucket (Some (s3_key directory obj_prefix local_path))
                     (content_type_of ctm file)
      in case r of
           Inl e \<Rightarrow> (Inl e, c)
         | Inr ok \<Rightarrow>
             (let (r', cs) = upload_files S directory bucket obj_prefix ctm fs
              in (case r' of Inl e \<Rightarrow> Inl e | Inr s \<Rightarrow> Inr (ok \<and> s), c @ cs)))"

definition upload_directory_to_s3 ::
  "s3_env \<Rightarrow> string \<Rightarrow> string \<Rightarrow> string \<Rightarrow> (string \<times> string) list option \<Rightarrow> (string + bool) \<times> put_call list" where
  "upload_directory_to_s3 S directory bucket obj_prefix content_type_mapping =
     (if \<not> is_dir S directory then (Inr False, [])
      else upload_files S directory bucket obj_prefix
             (case content_type_mapping of None \<Rightarrow> default_content_types | Some m \<Rightarrow> m)
             (walk_files S directory))"

subsection \<open>Buckets\<close>

text \<open>\<open>check_bucket_exists\<close>: any \<open>ClientError\<close> of \<open>head_bucket\<close> (404, 403 or another
  code, which only the log distinguishes) gives \<open>False\<close>.\<close>

definition check_bucket_exists :: "s3_env \<Rightarrow> string \<Rightarrow> string + bool" where
  "check_bucket_exists S bucket =
     (case s3_head_bucket S bucket of AwsOk _ \<Rightarrow> Inr True | ClientError _ \<Rightarrow> Inr False | AwsRaise e \<Rightarrow> Inl e)"

text \<open>\<open>create_bucket_if_not_exists\<close>: \<open>us-east-1\<close> and no region create the bucket
  without a location constraint.\<close>

definition create_bucket_if_not_exists :: "s3_env \<Rightarrow> string \<Rightarrow> string option \<Rightarrow> string + bool" where
  "create_bucket_if_not_exists S bucket region =
     (case check_bucket_exists S bucket of
        Inl e \<Rightarrow> Inl e
      | Inr True \<Rightarrow> Inr True
      | Inr False \<Rightarrow>
          (case s3_create_bucket S bucket (if region = None \<or> region = Some ''us-east-1'' then None else region) of
             AwsOk _ \<Rightarrow> Inr True | ClientError _ \<Rightarrow> Inr False | AwsRaise e \<Rightarrow> Inl e))"

subsection \<open>The documentation upload\<close>

text \<open>\<open>upload_documentation\<close>: the bucket must exist; each of \<open>docs/schema\<close> and
  \<open>docs/queries\<close> under the base directory is uploaded under
  \<open>{key_prefix}/schema/\<close> or \<open>{key_prefix}/queries/\<close> when it is a directory, and a
  missing one counts as success.\<close>

definition doc_dir :: "string \<Rightarrow> string \<Rightarrow> string" where
  "doc_dir base_dir kind = path_join (path_join base_dir ''docs'') kind"

definition upload_doc_dir ::
  "s3_env \<Rightarrow> string \<Rightarrow> string \<Rightarrow> string \<Rightarrow> string \<Rightarrow> (string + bool) \<times> put_call list" where
  "upload_doc_dir S base_dir bucket key_prefix kind =
     (if is_dir S (doc_dir base_dir kind)
      then upload_directory_to_s3 S (doc_dir base_dir kind) bucket (key_prefix @ ''/'' @ kind @ ''/'') None
      else (Inr True, []))"

definition upload_documentation :: "s3_env \<Rightarrow> string \<Rightarrow> string \<Rightarrow> string \<Rightarrow> (string + bool) \<times> put_call list" where
  "upload_documentation S base_dir bucket key_prefix =
     (case check_bucket_exists S bucket of
        Inl e \<Rightarrow> (Inl e, [])
      | Inr False \<Rightarrow> (Inr False, [])
      | Inr True \<Rightarrow>
          (let (r1, c1) = upload_doc_dir S base_dir bucket key_prefix ''schema''
           in case r1 of
                Inl e \<Rightarrow> (Inl e, c1)
              | Inr schema_success \<Rightarrow>
                  (let (r2, c2) = upload_doc_dir S base_dir bucket key_prefix ''queries''
                   in (case r2 of Inl e \<Rightarrow> Inl e | Inr queries_success \<Rightarrow> Inr (schema_success \<and> queries_success),
                       c1 @ c2))))"

subsection \<open>Examples\<close>

definition s3_env_ex :: s3_env where
  "s3_env_ex =
     \<lparr>s3_upload = (\<lambda>p b k x. if k = ''dbkb/schema/bad.md'' then ClientError ''500'' else AwsOk ()),
      s3_head_bucket = (\<lambda>b. if b = ''docs-bucket'' then AwsOk () else ClientError ''404''),
      s3_create_bucket = (\<lambda>b r. AwsOk ()),
      is_dir = (\<lambda>d. d = ''/app/docs/schema''),
      walk = (\<lambda>d. if d = ''/app/docs/schema'' then [(''/app/docs/schema'', [''bad.md'', ''t.JSON''])] else [])\<rparr>"

subsection \<open>The upload loop\<close>

lemma replace_ne_absent: "\<not> sublist old s \<Longrightarrow> replace_ne old new s = s"
  by (induction old new s rule: replace_ne.induct) (auto simp: sublist_Cons_right)

lemma py_replace_absent: "old \<noteq> [] \<Longrightarrow> \<not> py_in old s \<Longrightarrow> py_replace old new s = s"
  by (simp add: py_replace_def replace_ne_absent)

lemma upload_file_to_s3_call:
  "upload_file_to_s3 S p b (Some k) ct =
     (let c = \<lparr>pc_path = p, pc_bucket = b, pc_key = k, pc_extra = extra_args ct\<rparr>
      in (case put_outcome S c of AwsOk _ \<Rightarrow> Inr True | ClientError _ \<Rightarrow> Inr False | AwsRaise e \<Rightarrow> Inl e, [c]))"
  by (simp add: upload_file_to_s3_def Let_def split: aws_result.split)

lemma upload_files_step:
  "upload_files S d b pf ctm (ent # fs) =
     (case put_outcome S (file_call d b pf ctm ent) of
        AwsRaise e \<Rightarrow> (Inl e, [file_call d b pf ctm ent])
      | r \<Rightarrow> (let (r', cs) = upload_files S d b pf ctm fs
              in (case r' of Inl e \<Rightarrow> Inl e | Inr s \<Rightarrow> Inr ((r = AwsOk ()) \<and> s), file_call d b pf ctm ent # cs)))"
  by (cases ent) (auto simp: upload_file_to_s3_call file_call_def Let_def split: aws_result.split prod.split sum.split)

lemma upload_files_no_raise:
  assumes "\<forall>ent\<in>set fs. \<forall>e. put_outcome S (file_call d b pf ctm ent) \<noteq> AwsRaise e"
  shows "upload_files S d b pf ctm fs =
           (Inr (list_all (\<lambda>c. put_outcome S c = AwsOk ()) (map (file_call d b pf ctm) fs)),
            map (file_call d b pf ctm) fs)"
  using assms
proof (induction fs)
  case (Cons ent fs)
  then show ?case
    by (simp add: upload_files_step split: aws_result.split)
qed simp

lemma upload_files_raise:
  assumes "\<forall>ent\<in>set xs. \<forall>e. put_outcome S (file_call d b pf ctm ent) \<noteq> AwsRaise e"
    and "put_outcome S (file_call d b pf ctm ent) = AwsRaise e"
  shows "upload_files S d b pf ctm (xs @ ent # ys) = (Inl e, map (file_call d b pf ctm) (xs @ [ent]))"
  using assms
proof (induction xs)
  case (Cons x xs)
  then show ?case
    by (simp add: upload_files_step split: aws_result.split)
qed (simp add: upload_files_step)

subsection \<open>Keys\<close>

lemma rel_path_below:
  assumes "d \<noteq> []" "last d \<noteq> CHR ''/''" "rel \<noteq> []" "hd rel \<noteq> CHR ''/''"
  shows "rel_path (path_join d rel) d = rel"
proof -
  have "dropWhile (\<lambda>c. c = CHR ''/'') (rev d) = rev d"
    using assms(1,2) by (simp add: dropWhile_eq_self_iff hd_rev)
  moreover have "path_join d rel = d @ ''/'' @ rel"
    using assms by (simp add: path_join_def)
  ultimately show ?thesis
    by (simp add: rel_path_def)
qed

lemma s3_key_below:
  assumes "d \<noteq> []" "last d \<noteq> CHR ''/''" "rel \<noteq> []" "hd rel \<noteq> CHR ''/''"
    and "pf \<noteq> []" "last pf = CHR ''/''" "\<not> py_in backslash (pf @ rel)"
  shows "s3_key d pf (path_join d rel) = pf @ rel"
proof -
  have j: "path_join pf rel = pf @ rel"
    using assms(4,5,6) by (simp add: path_join_def)
  have "backslash \<noteq> []" by (simp add: backslash_def)
  note r = py_replace_absent [OF this assms(7), of "''/''"]
  show ?thesis
    unfolding s3_key_def rel_path_below [OF assms(1-4)] j r ..
qed



lemma last_path_join: "b \<noteq> [] \<Longrightarrow> last (path_join a b) = last b"
  by (simp add: path_join_def)

lemma doc_dir_shape: "kind \<noteq> [] \<Longrightarrow> doc_dir base kind \<noteq> [] \<and> last (doc_dir base kind) = last kind"
  by (simp add: doc_dir_def last_path_join) (simp add: path_join_def)

lemma upload_doc_dir_absent: "\<not> is_dir S (doc_dir base kind) \<Longrightarrow> upload_doc_dir S base b pf kind = (Inr True, [])"
  by (simp add: upload_doc_dir_def)

subsection \<open>Properties\<close>

text \<open>C15: Once the directory exists and no upload raises, upload_directory_to_s3 tries
  every file os.walk yields, in walk order, each under its computed key and content type,
  and returns True exactly when every upload succeeded: a failed upload does not stop the
  loop.\<close>

theorem upload_directory_tries_every_file:
  assumes "is_dir S d"
    and "\<forall>ent\<in>set (walk_files S d). \<forall>e. put_outcome S (file_call d b pf default_content_types ent) \<noteq> AwsRaise e"
  shows "upload_directory_to_s3 S d b pf None =
           (Inr (list_all (\<lambda>c. put_outcome S c = AwsOk ()) (map (file_call d b pf default_content_types) (walk_files S d))),
            map (file_call d b pf default_content_types) (walk_files S d))"
  using assms upload_files_no_raise [OF assms(2)] by (simp add: upload_directory_to_s3_def)

text \<open>C25: The S3 key of a documentation file is the key prefix, the kind directory and
  the file's path relative to docs/schema or docs/queries, so the relative path is
  recovered from the key and distinct files get distinct keys, as long as no path
  contains a backslash.\<close>

theorem doc_key_roundtrip:
  assumes "kind \<in> {''schema'', ''queries''}" "rel \<noteq> []" "hd rel \<noteq> CHR ''/''"
    and "\<not> py_in backslash (key_prefix @ ''/'' @ kind @ ''/'' @ rel)"
  shows "drop (length key_prefix + length kind + 2)
           (s3_key (doc_dir base kind) (key_prefix @ ''/'' @ kind @ ''/'') (path_join (doc_dir base kind) rel)) = rel"
proof -
  have k: "kind \<noteq> []" "last kind \<noteq> CHR ''/''" using assms(1) by auto
  have "s3_key (doc_dir base kind) (key_prefix @ ''/'' @ kind @ ''/'') (path_join (doc_dir base kind) rel) =
          (key_prefix @ ''/'' @ kind @ ''/'') @ rel"
    using doc_dir_shape [OF k(1), of base] k(2) assms(2-4) by (intro s3_key_below) auto
  then show ?thesis by simp
qed

text \<open>C31: When neither docs/schema nor docs/queries exists under the base directory,
  upload_documentation reports success for an existing bucket without uploading
  anything.\<close>

theorem upload_documentation_nothing_succeeds:
  assumes "s3_head_bucket S bucket = AwsOk ()"
    and "\<not> is_dir S (doc_dir base ''schema'')" "\<not> is_dir S (doc_dir base ''queries'')"
  shows "upload_documentation S base bucket key_prefix = (Inr True, [])"
  using assms by (simp add: upload_documentation_def check_bucket_exists_def upload_doc_dir_absent)

text \<open>A file whose name contains a backslash and a file of the same name in a
  subdirectory are uploaded under the same key.\<close>

lemma backslash_key_collision:
  "s3_key ''/app/docs/schema'' ''dbkb/schema/'' (path_join ''/app/docs/schema'' (''a'' @ backslash @ ''b.md'')) =
   s3_key ''/app/docs/schema'' ''dbkb/schema/'' (path_join (path_join ''/app/docs/schema'' ''a'') ''b.md'')"
  by (simp add: s3_key_def rel_path_def path_join_def backslash_def py_replace_def)

text \<open>With an empty key prefix the keys start with a slash.\<close>

lemma empty_prefix_leading_slash:
  "s3_key (doc_dir ''/app'' ''schema'') ([] @ ''/'' @ ''schema'' @ ''/'') (path_join (doc_dir ''/app'' ''schema'') ''t.md'') = ''/schema/t.md''"
  by (simp add: s3_key_def rel_path_def doc_dir_def path_join_def backslash_def py_replace_def)

theorem upload_directory_tries_every_file_witness:
  "upload_directory_to_s3 s3_env_ex ''/app/docs/schema'' ''docs-bucket'' ''dbkb/schema/'' None =
     (Inr False,
      [\<lparr>pc_path = ''/app/docs/schema/bad.md'', pc_bucket = ''docs-bucket'', pc_key = ''dbkb/schema/bad.md'',
         pc_extra = [(''ContentType'', ''text/markdown'')]\<rparr>,
       \<lparr>pc_path = ''/app/docs/schema/t.JSON'', pc_bucket = ''docs-bucket'', pc_key = ''dbkb/schema/t.JSON'',
         pc_extra = [(''ContentType'', ''application/json'')]\<rparr>])"
proof -
  have w: "walk_files s3_env_ex ''/app/docs/schema'' = [(''/app/docs/schema'', ''bad.md''), (''/app/docs/schema'', ''t.JSON'')]"
    by (simp add: walk_files_def s3_env_ex_def)
  have c1: "file_call ''/app/docs/schema'' ''docs-bucket'' ''dbkb/schema/'' default_content_types (''/app/docs/schema'', ''bad.md'') =
              \<lparr>pc_path = ''/app/docs/schema/bad.md'', pc_bucket = ''docs-bucket'', pc_key = ''dbkb/schema/bad.md'',
               pc_extra = [(''ContentType'', ''text/markdown'')]\<rparr>"
    by (simp add: file_call_def s3_key_def rel_path_def path_join_def backslash_def py_replace_def extra_args_def
                  content_type_of_def split_ext_def default_content_types_def py_lower_def lower_char_def)
  have c2: "file_call ''/app/docs/schema'' ''docs-bucket'' ''dbkb/schema/'' default_content_types (''/app/docs/schema'', ''t.JSON'') =
              \<lparr>pc_path = ''/app/docs/schema/t.JSON'', pc_bucket = ''docs-bucket'', pc_key = ''dbkb/schema/t.JSON'',
               pc_extra = [(''ContentType'', ''application/json'')]\<rparr>"
    by (simp add: file_call_def s3_key_def rel_path_def path_join_def backslash_def py_replace_def extra_args_def
                  content_type_of_def split_ext_def default_content_types_def py_lower_def lower_char_def
                  Let_def char_of_def bit_0)
  show ?thesis
    using upload_directory_tries_every_file [of s3_env_ex "''/app/docs/schema''" "''docs-bucket''" "''dbkb/schema/''"]
    by (simp add: w c1 c2 put_outcome_def) (simp add: s3_env_ex_def)
qed

theorem doc_key_roundtrip_witness:
  "drop (length ''dbkb'' + length ''schema'' + 2)
     (s3_key (doc_dir ''/app'' ''schema'') (''dbkb'' @ ''/'' @ ''schema'' @ ''/'') (path_join (doc_dir ''/app'' ''schema'') ''tables/t.md'')) =
   ''tables/t.md''"
  by (rule doc_key_roundtrip) (simp_all add: backslash_def sublist_Cons_right)

theorem upload_documentation_nothing_succeeds_witness:
  "upload_documentation (s3_env_ex\<lparr>is_dir := (\<lambda>_. False)\<rparr>) ''/app'' ''docs-bucket'' ''dbkb'' = (Inr True, [])"
  by (rule upload_documentation_nothing_succeeds) (simp_all add: s3_env_ex_def)

end
