(* ===== verification/BedrockSetup.thy ===== *)
theory BedrockSetup
  imports Prelude
begin

text \<open>
  The knowledge-base set-up of src/src/bedrock_setup/setup_knowledge_base.py
  (\<open>BedrockKnowledgeBaseSetup\<close> and \<open>create_and_configure_knowledge_base\<close>). The
  \<open>bedrock-agent\<close> and \<open>bedrock-agent-runtime\<close> clients are an environment whose calls
  answer with an \<open>aws_result\<close>; the status a \<open>get_*\<close> call reports depends on the
  resource and on the number of the attempt, so a status that changes over time is an
  environment like any other. Every function returns its value, or \<open>Inl\<close> an exception
  that is not a \<open>ClientError\<close>, together with the trace of the calls it made, the
  \<open>time.sleep\<close> calls included. Logging is not modelled.
\<close>

subsection \<open>Requests, calls and the environment\<close>

record kb_request =
  kbr_name :: string
  kbr_description :: string
  kbr_role_arn :: string
  kbr_embedding_model_arn :: string
  kbr_collection_arn :: string
  kbr_vector_index_name :: string

record ds_request =
  dsr_kb_id :: string
  dsr_name :: string
  dsr_description :: string
  dsr_bucket :: string
  dsr_inclusion_prefixes :: "string list"
  dsr_level_max_tokens :: "nat list"
  dsr_overlap_tokens :: nat

datatype bedrock_call =
    CreateKb kb_request
  | GetKb string
  | CreateDs ds_request
  | GetDs string string
  | StartJob string string
  | GetJob string string string
  | UpdateKb string string rat rat
  | Retrieve string string nat
  | Sleep nat

record bedrock_env =
  bk_create_kb :: "kb_request \<Rightarrow> string aws_result"
  bk_kb_status :: "string \<Rightarrow> nat \<Rightarrow> string option aws_result"
  bk_create_ds :: "ds_request \<Rightarrow> string aws_result"
  bk_ds_status :: "string \<Rightarrow> string \<Rightarrow> nat \<Rightarrow> string option aws_result"
  bk_start_job :: "string \<Rightarrow> string \<Rightarrow> string aws_result"
  bk_job_status :: "string \<Rightarrow> string \<Rightarrow> string \<Rightarrow> nat \<Rightarrow> string option aws_result"
  bk_update_kb :: "string \<Rightarrow> string \<Rightarrow> rat \<Rightarrow> rat \<Rightarrow> unit aws_result"
  bk_retrieve :: "string \<Rightarrow> string \<Rightarrow> nat \<Rightarrow> string list aws_result"

definition parent_chunk_max_tokens :: nat where "parent_chunk_max_tokens = 4000"
definition child_chunk_max_tokens :: nat where "child_chunk_max_tokens = 800"
definition chunk_overlap_tokens :: nat where "chunk_overlap_tokens = 150"

subsection \<open>Waiting for a status\<close>

text \<open>The three waiting loops \<open>for attempt in range(max_attempts)\<close>: a status that
  ends the wait successfully breaks the loop, a waiting status sleeps and tries again,
  and any other status returns \<open>None\<close> from the method. A \<open>ClientError\<close> of the
  \<open>get_*\<close> call reaches the method's \<open>except ClientError\<close>; other exceptions propagate.
  Running out of attempts falls out of the loop.\<close>

datatype poll_step = PollDone | PollWait | PollStop

datatype poll_end = PollReady | PollTimeout | PollStopped | PollClientError string

fun poll ::
  "(nat \<Rightarrow> string option aws_result) \<Rightarrow> (string option \<Rightarrow> poll_step) \<Rightarrow> bedrock_call \<Rightarrow> nat \<Rightarrow> nat \<Rightarrow> nat
   \<Rightarrow> (string + poll_end) \<times> bedrock_call list" where
  "poll get classify call delay attempt 0 = (Inr PollTimeout, [])"
| "poll get classify call delay attempt (Suc n) =
     (case get attempt of
        AwsRaise e \<Rightarrow> (Inl e, [call])
      | ClientError e \<Rightarrow> (Inr (PollClientError e), [call])
      | AwsOk status \<Rightarrow>
          (case classify status of
             PollDone \<Rightarrow> (Inr PollReady, [call])
           | PollStop \<Rightarrow> (Inr PollStopped, [call])
           | PollWait \<Rightarrow> (let (r, cs) = poll get classify call delay (Suc attempt) n
                         in (r, call # Sleep delay # cs))))"

text \<open>Knowledge bases and data sources are ready at \<open>READY\<close> and still being prepared at
  \<open>CREATING\<close> or \<open>UPDATING\<close>.\<close>

definition resource_step :: "string option \<Rightarrow> poll_step" where
  "resource_step status =
     (if status = Some ''READY'' then PollDone
      else if status \<in> set [Some ''CREATING'', Some ''UPDATING''] then PollWait else PollStop)"

text \<open>An ingestion job ends at \<open>COMPLETE\<close>, fails at \<open>FAILED\<close> and runs at
  \<open>STARTING\<close> or \<open>IN_PROGRESS\<close>.\<close>

definition job_step :: "string option \<Rightarrow> poll_step" where
  "job_step status =
     (if status = Some ''COMPLETE'' then PollDone
      else if status = Some ''FAILED'' then PollStop
      else if status \<in> set [Some ''STARTING'', Some ''IN_PROGRESS''] then PollWait else PollStop)"

text \<open>The outcome of a method whose waiting loop ended: the identifier unless the
  loop returned \<open>None\<close> or the \<open>except ClientError\<close> caught an error.\<close>

definition after_wait :: "string \<Rightarrow> (string + poll_end) \<Rightarrow> string + string option" where
  "after_wait i r =
     (case r of
        Inl e \<Rightarrow> Inl e
      | Inr PollStopped \<Rightarrow> Inr None
      | Inr (PollClientError _) \<Rightarrow> Inr None
      | Inr _ \<Rightarrow> Inr (Some i))"

subsection \<open>The methods\<close>

definition default_embedding_model :: "string \<Rightarrow> string" where
  "default_embedding_model region = ''arn:aws:bedrock:'' @ region @ ''::foundation-model/cohere.embed-english-v3''"

definition embedding_model :: "string \<Rightarrow> string option \<Rightarrow> string" where
  "embedding_model region arn =
     (case arn of None \<Rightarrow> default_embedding_model region | Some a \<Rightarrow> if a = [] then default_embedding_model region else a)"

definition kb_role_arn :: string where
  "kb_role_arn = ''arn:aws:iam::836255806547:role/service-role/AmazonBedrockExecutionRoleForKnowledgeBase''"

definition collection_name :: "string \<Rightarrow> string" where
  "collection_name kb_name = take 32 (py_replace ''-'' [] (py_lower kb_name))"

definition kb_request_of :: "string \<Rightarrow> string \<Rightarrow> string \<Rightarrow> string option \<Rightarrow> kb_request" where
  "kb_request_of region kb_name kb_description arn =
     \<lparr>kbr_name = kb_name, kbr_description = kb_description, kbr_role_arn = kb_role_arn,
      kbr_embedding_model_arn = embedding_model region arn,
      kbr_collection_arn = ''arn:aws:aoss:'' @ region @ '':836255806547:collection/'' @ collection_name kb_name,
      kbr_vector_index_name = py_replace ''-'' ''_'' (py_lower kb_name) @ ''_index''\<rparr>"

definition create_knowledge_base ::
  "bedrock_env \<Rightarrow> string \<Rightarrow> string \<Rightarrow> string \<Rightarrow> string option \<Rightarrow> (string + string option) \<times> bedrock_call list" where
  "create_knowledge_base B region kb_name kb_description arn =
     (let req = kb_request_of region kb_name kb_description arn
      in case bk_create_kb B req of
           AwsRaise e \<Rightarrow> (Inl e, [CreateKb req])
         | ClientError _ \<Rightarrow> (Inr None, [CreateKb req])
         | AwsOk kb_id \<Rightarrow>
             (let (r, cs) = poll (bk_kb_status B kb_id) resource_step (GetKb kb_id) 5 0 60
              in (after_wait kb_id r, CreateKb req # cs)))"

definition ds_request_of :: "string \<Rightarrow> string \<Rightarrow> string \<Rightarrow> string \<Rightarrow> string \<Rightarrow> ds_request" where
  "ds_request_of kb_id ds_name ds_description s3_bucket s3_prefix =
     \<lparr>dsr_kb_id = kb_id, dsr_name = ds_name, dsr_description = ds_description, dsr_bucket = s3_bucket,
      dsr_inclusion_prefixes = (if s3_prefix = [] then [] else [s3_prefix]),
      dsr_level_max_tokens = [parent_chunk_max_tokens, child_chunk_max_tokens],
      dsr_overlap_tokens = chunk_overlap_tokens\<rparr>"

definition create_data_source ::
  "bedrock_env \<Rightarrow> string \<Rightarrow> string \<Rightarrow> string \<Rightarrow> string \<Rightarrow> string \<Rightarrow> (string + string option) \<times> bedrock_call list" where
  "create_data_source B kb_id ds_name ds_description s3_bucket s3_prefix =
     (let req = ds_request_of kb_id ds_name ds_description s3_bucket s3_prefix
      in case bk_create_ds B req of
           AwsRaise e \<Rightarrow> (Inl e, [CreateDs req])
         | ClientError _ \<Rightarrow> (Inr None, [CreateDs req])
         | AwsOk ds_id \<Rightarrow>
             (let (r, cs) = poll (bk_ds_status B kb_id ds_id) resource_step (GetDs kb_id ds_id) 5 0 60
              in (after_wait ds_id r, CreateDs req # cs)))"

text \<open>\<open>start_ingestion_job\<close>: after 180 attempts the \<open>for ... else\<close> only warns, and the
  job id is returned as for a completed job.\<close>

definition start_ingestion_job ::
  "bedrock_env \<Rightarrow> string \<Rightarrow> string \<Rightarrow> (string + string option) \<times> bedrock_call list" where
  "start_ingestion_job B kb_id ds_id =
     (case bk_start_job B kb_id ds_id of
        AwsRaise e \<Rightarrow> (Inl e, [StartJob kb_id ds_id])
      | ClientError _ \<Rightarrow> (Inr None, [StartJob kb_id ds_id])
      | AwsOk job_id \<Rightarrow>
          (let (r, cs) = poll (bk_job_status B kb_id ds_id job_id) job_step (GetJob kb_id ds_id job_id) 10 0 180
           in (after_wait job_id r, StartJob kb_id ds_id # cs)))"

definition configure_hybrid_search ::
  "bedrock_env \<Rightarrow> string \<Rightarrow> string \<Rightarrow> (string + bool) \<times> bedrock_call list" where
  "configure_hybrid_search B region kb_id =
     (let arn = embedding_model region None; call = UpdateKb kb_id arn (7 / 10) (3 / 10)
      in case bk_update_kb B kb_id arn (7 / 10) (3 / 10) of
           AwsOk _ \<Rightarrow> (Inr True, [call])
         | ClientError _ \<Rightarrow> (Inr False, [call])
         | AwsRaise e \<Rightarrow> (Inl e, [call]))"

definition test_retrieval ::
  "bedrock_env \<Rightarrow> string \<Rightarrow> string \<Rightarrow> (string + string list option) \<times> bedrock_call list" where
  "test_retrieval B kb_id query_text =
     (case bk_retrieve B kb_id query_text 5 of
        AwsOk results \<Rightarrow> (Inr (Some results), [Retrieve kb_id query_text 5])
      | ClientError _ \<Rightarrow> (Inr None, [Retrieve kb_id query_text 5])
      | AwsRaise e \<Rightarrow> (Inl e, [Retrieve kb_id query_text 5]))"

subsection \<open>The end-to-end set-up\<close>

text \<open>A truthy identifier: \<open>None\<close> and the empty string are falsy.\<close>

definition truthy_id :: "string option \<Rightarrow> bool" where
  "truthy_id x = (case x of None \<Rightarrow> False | Some s \<Rightarrow> s \<noteq> [])"

text \<open>\<open>create_and_configure_knowledge_base\<close>: each step runs only when the previous one
  produced a truthy identifier; a failed knowledge base gives \<open>(None, None)\<close>, a failed
  data source \<open>(kb_id, None)\<close>, and a failed ingestion job returns \<open>(kb_id, ds_id)\<close>
  like a successful run. The hybrid-search and retrieval results are only logged.\<close>

definition create_and_configure_knowledge_base ::
  "bedrock_env \<Rightarrow> string \<Rightarrow> string \<Rightarrow> string \<Rightarrow> string \<Rightarrow> string \<Rightarrow> string option
   \<Rightarrow> (string + string option \<times> string option) \<times> bedrock_call list" where
  "create_and_configure_knowledge_base B kb_name kb_description s3_bucket s3_prefix region test_query =
     (let (r1, c1) = create_knowledge_base B region kb_name kb_description None
      in case r1 of
           Inl e \<Rightarrow> (Inl e, c1)
         | Inr kb \<Rightarrow>
             (if \<not> truthy_id kb then (Inr (None, None), c1)
              else
                (let kb_id = (case kb of Some k \<Rightarrow> k | None \<Rightarrow> []);
                     (r2, c2) = create_data_source B kb_id (kb_name @ ''-data-source'')
                                  (''Documentation data source for '' @ kb_name) s3_bucket s3_prefix
                 in case r2 of
                      Inl e \<Rightarrow> (Inl e, c1 @ c2)
                    | Inr ds \<Rightarrow>
                        (if \<not> truthy_id ds then (Inr (kb, None), c1 @ c2)
                         else
                           (let ds_id = (case ds of Some d \<Rightarrow> d | None \<Rightarrow> []);
                                (r3, c3) = start_ingestion_job B kb_id ds_id
                            in case r3 of
                                 Inl e \<Rightarrow> (Inl e, c1 @ c2 @ c3)
                               | Inr job \<Rightarrow>
                                   (if \<not> truthy_id job then (Inr (kb, ds), c1 @ c2 @ c3)
                                    else
                                      (let (r4, c4) = configure_hybrid_search B region kb_id
                                       in case r4 of
                                            Inl e \<Rightarrow> (Inl e, c1 @ c2 @ c3 @ c4)
                                          | Inr _ \<Rightarrow>
                                              (case test_query of
                                                 Some q \<Rightarrow>
                                                   (if q = [] then (Inr (kb, ds), c1 @ c2 @ c3 @ c4)
                                                    else
                                                      (let (r5, c5) = test_retrieval B kb_id q
                                                       in (case r5 of Inl e \<Rightarrow> Inl e | Inr _ \<Rightarrow> Inr (kb, ds),
                                                           c1 @ c2 @ c3 @ c4 @ c5)))
                                               | None \<Rightarrow> (Inr (kb, ds), c1 @ c2 @ c3 @ c4)))))))))"

subsection \<open>Observations of a trace\<close>

text \<open>The seconds a trace sleeps, and the phase of a call: the knowledge base, the data
  source, the ingestion job, hybrid search, the retrieval test.\<close>

fun slept :: "bedrock_call list \<Rightarrow> nat" where
  "slept [] = 0"
| "slept (Sleep d # cs) = d + slept cs"
| "slept (_ # cs) = slept cs"

fun phase :: "bedrock_call \<Rightarrow> nat" where
  "phase (CreateKb _) = 0"
| "phase (GetKb _) = 0"
| "phase (CreateDs _) = 1"
| "phase (GetDs _ _) = 1"
| "phase (StartJob _ _) = 2"
| "phase (GetJob _ _ _) = 2"
| "phase (UpdateKb _ _ _ _) = 3"
| "phase (Retrieve _ _ _) = 4"
| "phase (Sleep _) = 0"

definition is_sleep :: "bedrock_call \<Rightarrow> bool" where
  "is_sleep c = (case c of Sleep _ \<Rightarrow> True | _ \<Rightarrow> False)"

definition call_phases :: "bedrock_call list \<Rightarrow> nat list" where
  "call_phases cs = map phase (filter (Not \<circ> is_sleep) cs)"

subsection \<open>Examples\<close>

text \<open>A service that creates everything, reports the knowledge base and the data source
  as \<open>CREATING\<close> on the first poll and \<open>READY\<close> after, and fails the ingestion job.\<close>

definition bedrock_env_ex :: bedrock_env where
  "bedrock_env_ex =
     \<lparr>bk_create_kb = (\<lambda>_. AwsOk ''KB1''),
      bk_kb_status = (\<lambda>_ n. AwsOk (Some (if n = 0 then ''CREATING'' else ''READY''))),
      bk_create_ds = (\<lambda>_. AwsOk ''DS1''),
      bk_ds_status = (\<lambda>_ _ n. AwsOk (Some ''READY'')),
      bk_start_job = (\<lambda>_ _. AwsOk ''JOB1''),
      bk_job_status = (\<lambda>_ _ _ n. AwsOk (Some ''FAILED'')),
      bk_update_kb = (\<lambda>_ _ _ _. AwsOk ()),
      bk_retrieve = (\<lambda>_ _ _. AwsOk [])\<rparr>"


subsection \<open>The waiting loop\<close>

lemma slept_append [simp]: "slept (xs @ ys) = slept xs + slept ys"
  by (induction xs rule: slept.induct) auto

lemma call_phases_append [simp]: "call_phases (xs @ ys) = call_phases xs @ call_phases ys"
  by (simp add: call_phases_def)

lemma call_phases_Nil [simp]: "call_phases [] = []"
  by (simp add: call_phases_def)

lemma call_phases_Cons:
  "call_phases (c # cs) = (if is_sleep c then call_phases cs else phase c # call_phases cs)"
  by (simp add: call_phases_def)

text \<open>A loop of \<open>n\<close> attempts sleeps at most \<open>n\<close> times and makes only its own
  \<open>get_*\<close> call.\<close>

lemma poll_trace_Suc:
  "snd (poll get cl call d i (Suc n)) =
     call # (if \<exists>s. get i = AwsOk s \<and> cl s = PollWait then Sleep d # snd (poll get cl call d (Suc i) n) else [])"
  by (cases "get i") (auto simp: case_prod_unfold Let_def split: poll_step.split)

lemma slept_Cons_call: "\<not> is_sleep c \<Longrightarrow> slept (c # cs) = slept cs"
  by (cases c) (simp_all add: is_sleep_def)

lemma poll_slept: "\<not> is_sleep call \<Longrightarrow> slept (snd (poll get cl call d i n)) \<le> d * n"
proof (induction n arbitrary: i)
  case (Suc n)
  then show ?case
    using Suc.IH [of "Suc i"] by (simp del: poll.simps add: poll_trace_Suc slept_Cons_call)
qed simp

lemma poll_calls: "set (snd (poll get cl call d i n)) \<subseteq> {call, Sleep d}"
proof (induction n arbitrary: i)
  case (Suc n)
  then show ?case by (auto simp del: poll.simps simp add: poll_trace_Suc)
qed simp

lemma poll_all_wait:
  assumes "\<forall>j<n. \<exists>s. get (i + j) = AwsOk s \<and> cl s = PollWait"
  shows "poll get cl call d i n = (Inr PollTimeout, concat (replicate n [call, Sleep d]))"
  using assms
proof (induction n arbitrary: i)
  case (Suc n)
  from Suc.prems obtain s where s: "get i = AwsOk s" "cl s = PollWait" by fastforce
  have "\<forall>j<n. \<exists>s. get (Suc i + j) = AwsOk s \<and> cl s = PollWait"
    using Suc.prems by (metis add_Suc_shift add_Suc_right Suc_mono)
  with Suc.IH s show ?case by simp
qed simp

lemma phases_of_poll:
  "phase call = p \<Longrightarrow> \<not> is_sleep call \<Longrightarrow> set (call_phases (snd (poll get cl call d i n))) \<subseteq> {p}"
  using poll_calls [of get cl call d i n] by (auto simp: call_phases_def is_sleep_def)

subsection \<open>Bounds and phases of the methods\<close>

lemma create_knowledge_base_slept: "slept (snd (create_knowledge_base B r n d a)) \<le> 300"
  using poll_slept [of _ _ resource_step 5 0 60]
  by (simp add: create_knowledge_base_def Let_def case_prod_unfold is_sleep_def split: aws_result.split)

lemma create_data_source_slept: "slept (snd (create_data_source B k n d b p)) \<le> 300"
  using poll_slept [of _ _ resource_step 5 0 60]
  by (simp add: create_data_source_def Let_def case_prod_unfold is_sleep_def split: aws_result.split)

lemma start_ingestion_job_slept: "slept (snd (start_ingestion_job B k ds)) \<le> 1800"
  using poll_slept [of _ _ job_step 10 0 180]
  by (simp add: start_ingestion_job_def Let_def case_prod_unfold is_sleep_def split: aws_result.split)

lemma configure_hybrid_search_slept: "slept (snd (configure_hybrid_search B r k)) = 0"
  by (simp add: configure_hybrid_search_def Let_def split: aws_result.split)

lemma test_retrieval_slept: "slept (snd (test_retrieval B k q)) = 0"
  by (simp add: test_retrieval_def split: aws_result.split)

lemma create_knowledge_base_phases: "set (call_phases (snd (create_knowledge_base B r n d a))) \<subseteq> {0}"
  using phases_of_poll [of "GetKb _" 0 _ resource_step 5 0 60]
  by (auto simp: create_knowledge_base_def Let_def case_prod_unfold call_phases_Cons is_sleep_def
           split: aws_result.split)

lemma create_data_source_phases: "set (call_phases (snd (create_data_source B k n d b p))) \<subseteq> {1}"
  using phases_of_poll [of "GetDs _ _" 1 _ resource_step 5 0 60]
  by (auto simp: create_data_source_def Let_def case_prod_unfold call_phases_Cons is_sleep_def
           split: aws_result.split)

lemma start_ingestion_job_phases: "set (call_phases (snd (start_ingestion_job B k ds))) \<subseteq> {2}"
  using phases_of_poll [of "GetJob _ _ _" 2 _ job_step 10 0 180]
  by (auto simp: start_ingestion_job_def Let_def case_prod_unfold call_phases_Cons is_sleep_def
           split: aws_result.split)

lemma configure_hybrid_search_phases: "call_phases (snd (configure_hybrid_search B r k)) = [3]"
  by (simp add: configure_hybrid_search_def Let_def call_phases_Cons is_sleep_def split: aws_result.split)

lemma test_retrieval_phases: "call_phases (snd (test_retrieval B k q)) = [4]"
  by (simp add: test_retrieval_def call_phases_Cons is_sleep_def split: aws_result.split)

lemma create_knowledge_base_first: "\<exists>cs. snd (create_knowledge_base B r n d a) = CreateKb (kb_request_of r n d a) # cs"
  by (simp add: create_knowledge_base_def Let_def case_prod_unfold split: aws_result.split)



subsection \<open>A run as a sequence of steps\<close>

text \<open>The trace of a run is the trace of a prefix of its steps, each step called with the
  identifiers the earlier ones returned.\<close>

lemma setup_trace_cases:
  obtains (kb) "snd (create_and_configure_knowledge_base B n d b p r tq) = snd (create_knowledge_base B r n d None)"
  | (ds) k where "snd (create_and_configure_knowledge_base B n d b p r tq) =
      snd (create_knowledge_base B r n d None) @ snd (create_data_source B k (n @ ''-data-source'') (''Documentation data source for '' @ n) b p)"
  | (job) k x where "snd (create_and_configure_knowledge_base B n d b p r tq) =
      snd (create_knowledge_base B r n d None) @ snd (create_data_source B k (n @ ''-data-source'') (''Documentation data source for '' @ n) b p) @ snd (start_ingestion_job B k x)"
  | (hybrid) k x where "snd (create_and_configure_knowledge_base B n d b p r tq) =
      snd (create_knowledge_base B r n d None) @ snd (create_data_source B k (n @ ''-data-source'') (''Documentation data source for '' @ n) b p) @ snd (start_ingestion_job B k x) @
      snd (configure_hybrid_search B r k)"
  | (test) k x q where "snd (create_and_configure_knowledge_base B n d b p r tq) =
      snd (create_knowledge_base B r n d None) @ snd (create_data_source B k (n @ ''-data-source'') (''Documentation data source for '' @ n) b p) @ snd (start_ingestion_job B k x) @
      snd (configure_hybrid_search B r k) @ snd (test_retrieval B k q)"
proof -
  note defs = create_and_configure_knowledge_base_def Let_def truthy_id_def
  obtain r1 c1 where 1: "create_knowledge_base B r n d None = (r1, c1)" by fastforce
  show thesis
  proof (cases "\<exists>k. r1 = Inr (Some k) \<and> k \<noteq> []")
    case False
    then have "snd (create_and_configure_knowledge_base B n d b p r tq) = c1"
      using 1 by (cases r1) (auto simp: defs split: option.split)
    with 1 show thesis by (intro kb) simp
  next
    case True
    then obtain k where k: "r1 = Inr (Some k)" "k \<noteq> []" by blast
    obtain r2 c2 where 2: "create_data_source B k (n @ ''-data-source'') (''Documentation data source for '' @ n) b p = (r2, c2)" by fastforce
    show thesis
    proof (cases "\<exists>x. r2 = Inr (Some x) \<and> x \<noteq> []")
      case False
      then have "snd (create_and_configure_knowledge_base B n d b p r tq) = c1 @ c2"
        using 1 2 k by (cases r2) (auto simp: defs split: option.split)
      with 1 2 show thesis by (intro ds [of k]) simp
    next
      case True
      then obtain x where x: "r2 = Inr (Some x)" "x \<noteq> []" by blast
      obtain r3 c3 where 3: "start_ingestion_job B k x = (r3, c3)" by fastforce
      show thesis
      proof (cases "\<exists>j. r3 = Inr (Some j) \<and> j \<noteq> []")
        case False
        then have "snd (create_and_configure_knowledge_base B n d b p r tq) = c1 @ c2 @ c3"
          using 1 2 3 k x by (cases r3) (auto simp: defs split: option.split)
        with 1 2 3 show thesis by (intro job [of k x]) simp
      next
        case True
        then obtain j where j: "r3 = Inr (Some j)" "j \<noteq> []" by blast
        obtain r4 c4 where 4: "configure_hybrid_search B r k = (r4, c4)" by fastforce
        show thesis
        proof (cases "(\<exists>e. r4 = Inl e) \<or> tq = None \<or> tq = Some []")
          case True
          then have "snd (create_and_configure_knowledge_base B n d b p r tq) = c1 @ c2 @ c3 @ c4"
            using 1 2 3 4 k x j by (cases r4) (auto simp: defs)
          with 1 2 3 4 show thesis by (intro hybrid [of k x]) simp
        next
          case False
          then obtain q s where q: "tq = Some q" "q \<noteq> []" "r4 = Inr s" by (cases r4) auto
          obtain r5 c5 where 5: "test_retrieval B k q = (r5, c5)" by fastforce
          have "snd (create_and_configure_knowledge_base B n d b p r tq) = c1 @ c2 @ c3 @ c4 @ c5"
            using 1 2 3 4 5 k x j q by (simp add: defs)
          with 1 2 3 4 5 show thesis by (intro test [of k x q]) simp
        qed
      qed
    qed
  qed
qed


lemma sorted_phase_const: "set xs \<subseteq> {p} \<Longrightarrow> sorted xs"
  by (induction xs) auto

lemma start_ingestion_job_failed:
  assumes "bk_start_job B k x = AwsOk j" "bk_job_status B k x j 0 = AwsOk (Some ''FAILED'')"
  shows "fst (start_ingestion_job B k x) = Inr None"
  using assms by (simp add: start_ingestion_job_def numeral_eq_Suc job_step_def after_wait_def)

subsection \<open>Properties\<close>

text \<open>C16: Whatever the service answers, one run of create_and_configure_knowledge_base
  sleeps at most 2400 seconds: at most 60 waits of 5 seconds for the knowledge base, 60
  of 5 seconds for the data source and 180 of 10 seconds for the ingestion job.\<close>

theorem setup_wait_bounded: "slept (snd (create_and_configure_knowledge_base B n d b p r tq)) \<le> 2400"
proof -
  note b1 = create_knowledge_base_slept [of B r n d None]
  show ?thesis
  proof (cases rule: setup_trace_cases [where B=B and n=n and d=d and b=b and p=p and r=r and tq=tq])
    case kb
    then show ?thesis using b1 by simp
  next
    case (ds k)
    then show ?thesis using b1 create_data_source_slept [of B k "n @ ''-data-source''" "''Documentation data source for '' @ n" b p] by simp
  next
    case (job k x)
    then show ?thesis using b1 create_data_source_slept [of B k "n @ ''-data-source''" "''Documentation data source for '' @ n" b p] start_ingestion_job_slept [of B k x] by simp
  next
    case (hybrid k x)
    then show ?thesis
      using b1 create_data_source_slept [of B k "n @ ''-data-source''" "''Documentation data source for '' @ n" b p] start_ingestion_job_slept [of B k x] configure_hybrid_search_slept [of B r k] by simp
  next
    case (test k x q)
    then show ?thesis
      using b1 create_data_source_slept [of B k "n @ ''-data-source''" "''Documentation data source for '' @ n" b p] start_ingestion_job_slept [of B k x] configure_hybrid_search_slept [of B r k]
            test_retrieval_slept [of B k q] by simp
  qed
qed

text \<open>C22: The set-up calls the service in the order of the code: it starts by creating
  the knowledge base, and no call about the knowledge base follows one about the data
  source, none about the data source follows the ingestion job, and hybrid search and
  the retrieval test come last.\<close>

theorem setup_call_order:
  "hd (snd (create_and_configure_knowledge_base B n d b p r tq)) = CreateKb (kb_request_of r n d None) \<and>
   sorted (call_phases (snd (create_and_configure_knowledge_base B n d b p r tq)))"
proof
  obtain cs where first: "snd (create_knowledge_base B r n d None) = CreateKb (kb_request_of r n d None) # cs"
    using create_knowledge_base_first by blast
  then show "hd (snd (create_and_configure_knowledge_base B n d b p r tq)) = CreateKb (kb_request_of r n d None)"
    by (cases rule: setup_trace_cases [where B=B and n=n and d=d and b=b and p=p and r=r and tq=tq]) simp_all
next
  note ph = create_knowledge_base_phases [of B r n d None]
  show "sorted (call_phases (snd (create_and_configure_knowledge_base B n d b p r tq)))"
  proof (cases rule: setup_trace_cases [where B=B and n=n and d=d and b=b and p=p and r=r and tq=tq])
    case kb
    then show ?thesis using ph by (auto intro: sorted_phase_const)
  next
    case (ds k)
    then show ?thesis
      using ph create_data_source_phases [of B k "n @ ''-data-source''" "''Documentation data source for '' @ n" b p]
      by (fastforce simp: sorted_append intro: sorted_phase_const)
  next
    case (job k x)
    then show ?thesis
      using ph create_data_source_phases [of B k "n @ ''-data-source''" "''Documentation data source for '' @ n" b p] start_ingestion_job_phases [of B k x]
      by (fastforce simp: sorted_append intro: sorted_phase_const)
  next
    case (hybrid k x)
    then show ?thesis
      using ph create_data_source_phases [of B k "n @ ''-data-source''" "''Documentation data source for '' @ n" b p] start_ingestion_job_phases [of B k x]
            configure_hybrid_search_phases [of B r k]
      by (fastforce simp: sorted_append intro: sorted_phase_const)
  next
    case (test k x q)
    then show ?thesis
      using ph create_data_source_phases [of B k "n @ ''-data-source''" "''Documentation data source for '' @ n" b p] start_ingestion_job_phases [of B k x]
            configure_hybrid_search_phases [of B r k] test_retrieval_phases [of B k q]
      by (fastforce simp: sorted_append intro: sorted_phase_const)
  qed
qed

text \<open>Once the knowledge base and the data source are created and ready, the set-up
  returns both identifiers whatever becomes of the ingestion job.\<close>

lemma setup_returns_created_ids:
  assumes "fst (create_knowledge_base B r n d None) = Inr (Some k)" "k \<noteq> []"
    and "fst (create_data_source B k (n @ ''-data-source'') (''Documentation data source for '' @ n) b p) = Inr (Some x)"
    and "x \<noteq> []"
    and "\<forall>e. fst (start_ingestion_job B k x) \<noteq> Inl e"
    and "\<forall>e. fst (configure_hybrid_search B r k) \<noteq> Inl e" "\<forall>e q. fst (test_retrieval B k q) \<noteq> Inl e"
  shows "fst (create_and_configure_knowledge_base B n d b p r tq) = Inr (Some k, Some x)"
proof -
  obtain c1 where 1: "create_knowledge_base B r n d None = (Inr (Some k), c1)"
    using assms(1) by (metis prod.collapse)
  obtain c2 where 2: "create_data_source B k (n @ ''-data-source'') (''Documentation data source for '' @ n) b p = (Inr (Some x), c2)"
    using assms(3) by (metis prod.collapse)
  obtain j c3 where 3: "start_ingestion_job B k x = (Inr j, c3)"
    using assms(5) by (metis prod.collapse sum.exhaust)
  obtain h c4 where 4: "configure_hybrid_search B r k = (Inr h, c4)"
    using assms(6) by (metis prod.collapse sum.exhaust)
  have 5: "\<exists>v c5. test_retrieval B k q = (Inr v, c5)" for q
    using assms(7) by (metis prod.collapse sum.exhaust)
  show ?thesis
  proof (cases tq)
    case None
    then show ?thesis
      using 1 2 3 4 assms(2,4) by (simp add: create_and_configure_knowledge_base_def Let_def truthy_id_def)
  next
    case (Some q)
    obtain v c5 where "test_retrieval B k q = (Inr v, c5)" using 5 by blast
    then show ?thesis
      using 1 2 3 4 Some assms(2,4) by (simp add: create_and_configure_knowledge_base_def Let_def truthy_id_def)
  qed
qed

text \<open>C28: A knowledge base that stays CREATING through all 60 polls is returned as
  created, after five minutes of waiting, exactly as one that became READY.\<close>

theorem create_knowledge_base_returns_unready:
  assumes "bk_create_kb B (kb_request_of r n d a) = AwsOk k"
    and "\<forall>i<60. bk_kb_status B k i = AwsOk (Some ''CREATING'')"
  shows "create_knowledge_base B r n d a =
           (Inr (Some k), CreateKb (kb_request_of r n d a) # concat (replicate 60 [GetKb k, Sleep 5]))"
proof -
  have "poll (bk_kb_status B k) resource_step (GetKb k) 5 0 60 = (Inr PollTimeout, concat (replicate 60 [GetKb k, Sleep 5]))"
    using assms(2) by (intro poll_all_wait) (simp add: resource_step_def)
  then show ?thesis
    using assms(1) by (simp add: create_knowledge_base_def after_wait_def)
qed

theorem create_knowledge_base_returns_unready_witness:
  "create_knowledge_base (bedrock_env_ex\<lparr>bk_kb_status := (\<lambda>_ _. AwsOk (Some ''CREATING''))\<rparr>) ''us-east-1'' ''my-kb'' ''d'' None =
     (Inr (Some ''KB1''), CreateKb (kb_request_of ''us-east-1'' ''my-kb'' ''d'' None) # concat (replicate 60 [GetKb ''KB1'', Sleep 5]))"
  by (rule create_knowledge_base_returns_unready) (simp_all add: bedrock_env_ex_def)


end
