(* ===== verification/Pipeline.thy ===== *)
theory Pipeline
  imports SchemaExtract QueryDocs QueryAnalysis S3Upload BedrockSetup
begin

text \<open>
  The pipeline command line of src/main.py. The parsed arguments are one record per
  sub-command, with the defaults of \<open>parse_args\<close>; each \<open>run_*\<close> function is a state
  transformer on the file system, a map from paths to contents, and returns
  \<open>Inr success\<close> or \<open>Inl\<close> the exception that reaches \<open>main\<close>. The two documentation
  generators are the models of the SchemaDocs and QueryDocs theories and the query
  analyser and the schema extractor those of the QueryAnalysis and SchemaExtract
  theories, applied to the files the pipeline reads, and the upload and the
  knowledge-base set-up are the S3Upload and BedrockSetup models; the database's
  catalogue rows and the SQL parsing libraries are oracles of the environment.
\<close>

subsection \<open>Files and environment\<close>

text \<open>File contents by kind: text lines, the schema JSON (its \<open>'tables'\<close> when present),
  a query-analysis dict as the documentation generator expects it, the list
  \<open>analyze_query_batch\<close> returns, the knowledge-base info, and
  markdown. A documentation generator given a file of another kind treats it as not
  loadable.\<close>

datatype file_content =
  TextFile "string list"
| SchemaJson "schema_tables option"
| QueryDict queries
| AnalysisList "analysis_result option list"
| KbInfoJson "(string \<times> string) list"
| MarkdownFile string

type_synonym files = "string \<Rightarrow> file_content option"

text \<open>A parsed \<open>database.ini\<close>: its sections with their (lower-cased) keys.\<close>

type_synonym ini = "(string \<times> (string \<times> string) list) list"

record pipeline_env =
  read_ini :: "string \<Rightarrow> ini"
  database :: db_env
  parsers :: parse_env
  today :: string
  s3 :: s3_env
  bedrock :: bedrock_env
  script_dir :: string

definition write_file :: "string \<Rightarrow> file_content \<Rightarrow> files \<Rightarrow> files" where
  "write_file p c fs = fs(p \<mapsto> c)"

definition write_markdown :: "writes \<Rightarrow> files \<Rightarrow> files" where
  "write_markdown w fs = foldl (\<lambda>fs (p, c). write_file p (MarkdownFile c) fs) fs w"

subsection \<open>Arguments\<close>

record extract_args =
  ea_config :: string
  ea_section :: string
  ea_output :: string
  ea_generate_markdown :: bool

record analyze_args =
  aa_input :: string
  aa_output :: string
  aa_schema :: string
  aa_generate_markdown :: bool

record docs_args =
  da_schema :: string
  da_queries :: string
  da_output_dir :: string

record upload_args =
  ua_bucket :: string
  ua_prefix :: string
  ua_region :: string
  ua_create_bucket :: bool

record kb_args =
  ka_bucket :: string
  ka_prefix :: string
  ka_region :: string
  ka_name :: string
  ka_description :: string
  ka_test_query :: "string option"

record all_args =
  al_config :: string
  al_section :: string
  al_queries :: string
  al_bucket :: string
  al_prefix :: string
  al_region :: string
  al_kb_name :: string
  al_create_bucket :: bool

datatype command =
  ExtractSchema extract_args | AnalyzeQueries analyze_args | GenerateDocs docs_args
| Upload upload_args | SetupKb kb_args | RunAll all_args

text \<open>The defaults of \<open>parse_args\<close> for the options not given; \<open>config\<close> is the global
  \<open>--config\<close> and the required options are parameters.\<close>

definition extract_defaults :: "string \<Rightarrow> extract_args" where
  "extract_defaults cfg =
     \<lparr>ea_config = cfg, ea_section = ''postgresql'', ea_output = ''schema_data.json'', ea_generate_markdown = False\<rparr>"

definition analyze_defaults :: "string \<Rightarrow> analyze_args" where
  "analyze_defaults input =
     \<lparr>aa_input = input, aa_output = ''query_analysis.json'', aa_schema = ''schema_data.json'', aa_generate_markdown = False\<rparr>"

definition docs_defaults :: docs_args where
  "docs_defaults = \<lparr>da_schema = ''schema_data.json'', da_queries = ''query_analysis.json'', da_output_dir = ''docs''\<rparr>"

definition upload_defaults :: "string \<Rightarrow> upload_args" where
  "upload_defaults bucket = \<lparr>ua_bucket = bucket, ua_prefix = ''dbkb'', ua_region = ''us-east-1'', ua_create_bucket = False\<rparr>"

definition kb_defaults :: "string \<Rightarrow> kb_args" where
  "kb_defaults bucket =
     \<lparr>ka_bucket = bucket, ka_prefix = ''dbkb'', ka_region = ''us-east-1'', ka_name = ''db-knowledge-base'',
      ka_description = ''Database Schema Knowledge Base'', ka_test_query = None\<rparr>"

definition all_defaults :: "string \<Rightarrow> string \<Rightarrow> string \<Rightarrow> all_args" where
  "all_defaults cfg qpath bucket =
     \<lparr>al_config = cfg, al_section = ''postgresql'', al_queries = qpath, al_bucket = bucket, al_prefix = ''dbkb'',
      al_region = ''us-east-1'', al_kb_name = ''db-knowledge-base'', al_create_bucket = False\<rparr>"

subsection \<open>Reading files\<close>

text \<open>\<open>section.get(key, default)\<close>: the section's value, else the \<open>DEFAULT\<close> section's.\<close>

definition ini_get :: "ini \<Rightarrow> string \<Rightarrow> string \<Rightarrow> string option" where
  "ini_get cfg sec key =
     (case Option.bind (map_of cfg sec) (\<lambda>kv. map_of kv key) of
        Some v \<Rightarrow> Some v
      | None \<Rightarrow> Option.bind (map_of cfg ''DEFAULT'') (\<lambda>kv. map_of kv key))"

definition ini_has_section :: "ini \<Rightarrow> string \<Rightarrow> bool" where
  "ini_has_section cfg sec \<longleftrightarrow> sec = ''DEFAULT'' \<or> map_of cfg sec \<noteq> None"

definition get_or :: "string option \<Rightarrow> string \<Rightarrow> string" where
  "get_or v d = (case v of Some x \<Rightarrow> x | None \<Rightarrow> d)"

text \<open>The schema JSON as \<open>generate_schema_documentation\<close> loads it (\<open>None\<close>: not
  loadable, which it reports as \<open>False\<close>).\<close>

definition load_schema_json :: "files \<Rightarrow> string \<Rightarrow> schema_tables option option" where
  "load_schema_json fs p = (case fs p of Some (SchemaJson t) \<Rightarrow> Some t | _ \<Rightarrow> None)"

text \<open>The analysis JSON as the query documentation generator uses it: a dict of queries,
  or a list, on which \<open>queries_data.values()\<close> raises \<open>AttributeError\<close> before any
  file is written.\<close>

definition load_query_json :: "files \<Rightarrow> string \<Rightarrow> string + queries option" where
  "load_query_json fs p =
     (case fs p of Some (QueryDict qs) \<Rightarrow> Inr (Some qs) | Some (AnalysisList _) \<Rightarrow> Inl ''AttributeError''
      | _ \<Rightarrow> Inr None)"

text \<open>The table descriptions the query documentation takes from the optional schema file.\<close>

definition schema_descriptions :: "files \<Rightarrow> string \<Rightarrow> (string \<times> string option) list" where
  "schema_descriptions fs p =
     (case fs p of Some (SchemaJson (Some ts)) \<Rightarrow> map (\<lambda>(n, t). (n, tbl_description t)) ts | _ \<Rightarrow> [])"

definition generate_query_documentation :: "pipeline_env \<Rightarrow> files \<Rightarrow> string \<Rightarrow> string \<Rightarrow> string \<Rightarrow> (string + bool) \<times> files" where
  "generate_query_documentation E fs input out schema =
     (case load_query_json fs input of
        Inl e \<Rightarrow> (Inl e, fs)
      | Inr q \<Rightarrow> (let (w, r) = generate_markdown_from_json_q out q (schema_descriptions fs schema)
                 in (r, write_markdown w fs)))"

definition generate_schema_docs :: "pipeline_env \<Rightarrow> files \<Rightarrow> string \<Rightarrow> string \<Rightarrow> (string + bool) \<times> files" where
  "generate_schema_docs E fs input out =
     (let (w, r) = generate_schema_documentation out (today E) (load_schema_json fs input)
      in (r, write_markdown w fs))"

subsection \<open>The commands\<close>

text \<open>\<open>run_extract_schema\<close>: locate the configuration (as given, else under
  \<open>src/schema_extraction\<close>), read the section's connection parameters, extract, save the
  JSON and optionally document it under \<open>docs/schema\<close>. The extractor has already
  saved its own copy under src/docs/schema.\<close>

definition run_extract_schema :: "pipeline_env \<Rightarrow> extract_args \<Rightarrow> files \<Rightarrow> (string + bool) \<times> files" where
  "run_extract_schema E a fs =
     (let alt = path_join (path_join ''src'' ''schema_extraction'') (ea_config a);
          cfg_path = (if fs (ea_config a) \<noteq> None then Some (ea_config a) else if fs alt \<noteq> None then Some alt else None)
      in case cfg_path of
           None \<Rightarrow> (Inr False, fs)
         | Some p \<Rightarrow>
             (let cfg = read_ini E p; sec = ea_section a
              in if \<not> ini_has_section cfg sec then (Inr False, fs)
                 else
                   (let host = get_or (ini_get cfg sec ''host'') ''localhost'';
                        port = get_or (ini_get cfg sec ''port'') ''5432'';
                        dbname = get_or (ini_get cfg sec ''database'') [];
                        user = get_or (ini_get cfg sec ''user'') [];
                        password = get_or (ini_get cfg sec ''password'') [];
                        db_type = get_or (ini_get cfg sec ''db_type'') sec;
                        schema = (if py_lower db_type = ''mysql'' \<and> get_or (ini_get cfg sec ''schema'') [] = [] then dbname
                                  else get_or (ini_get cfg sec ''schema'') ''public'')
                    in case extract_schema_to_json (database E) host port dbname user password (Some schema) db_type of
                         (Inl e, _, _) \<Rightarrow> (Inl e, fs)
                       | (Inr s, _, w) \<Rightarrow>
                           (let fs0 = foldl (\<lambda>fs (p, s). write_file p (SchemaJson (Some (doc_schema s))) fs) fs w;
                                fs1 = write_file (ea_output a) (SchemaJson (Some (doc_schema s))) fs0
                            in if \<not> ea_generate_markdown a then (Inr True, fs1)
                               else generate_schema_docs E fs1 (ea_output a) (path_join ''docs'' ''schema'')))))"

text \<open>The stripped non-empty lines of the input file (a file that is not text is
  taken to have no lines).\<close>

definition query_lines :: "files \<Rightarrow> string \<Rightarrow> string list" where
  "query_lines fs p =
     (case fs p of Some (TextFile ls) \<Rightarrow> filter (\<lambda>l. l \<noteq> []) (map py_strip ls) | _ \<Rightarrow> [])"

text \<open>\<open>run_analyze_queries\<close>; the schema file, when present, must be JSON
  (\<open>json.load\<close> is not guarded) and is otherwise unused, as the analyser never reads it.
  \<open>analyze_query_batch\<close> unpacks each item as \<open>(query_name, query_text)\<close>, and the
  pipeline passes the lines themselves (\<open>RawItem\<close>).\<close>

definition run_analyze_queries :: "pipeline_env \<Rightarrow> analyze_args \<Rightarrow> files \<Rightarrow> (string + bool) \<times> files" where
  "run_analyze_queries E a fs =
     (if fs (aa_input a) = None then (Inr False, fs)
      else if aa_schema a \<noteq> [] \<and> (case fs (aa_schema a) of Some (TextFile _) \<Rightarrow> True | Some (MarkdownFile _) \<Rightarrow> True | _ \<Rightarrow> False)
      then (Inl ''JSONDecodeError'', fs)
      else case analyze_query_batch (parsers E) (map RawItem (query_lines fs (aa_input a))) of
             Inl e \<Rightarrow> (Inl e, fs)
           | Inr rs \<Rightarrow>
               (let fs1 = write_file (aa_output a) (AnalysisList rs) fs
                in if \<not> aa_generate_markdown a then (Inr True, fs1)
                   else generate_query_documentation E fs1 (aa_output a) (path_join ''docs'' ''queries'') (aa_schema a)))"

text \<open>\<open>run_generate_docs\<close>: each generator runs when its input exists; a failed first
  generator does not stop the second, an exception does.\<close>

definition run_generate_docs :: "pipeline_env \<Rightarrow> docs_args \<Rightarrow> files \<Rightarrow> (string + bool) \<times> files" where
  "run_generate_docs E a fs =
     (let (r1, fs1) = (if fs (da_schema a) \<noteq> None
                       then generate_schema_docs E fs (da_schema a) (path_join (da_output_dir a) ''schema'')
                       else (Inr True, fs))
      in case r1 of
           Inl e \<Rightarrow> (Inl e, fs1)
         | Inr ok1 \<Rightarrow>
             (let (r2, fs2) = (if fs1 (da_queries a) \<noteq> None
                               then generate_query_documentation E fs1 (da_queries a) (path_join (da_output_dir a) ''queries'') (da_schema a)
                               else (Inr True, fs1))
              in case r2 of Inl e \<Rightarrow> (Inl e, fs2) | Inr ok2 \<Rightarrow> (Inr (ok1 \<and> ok2), fs2)))"

text \<open>\<open>run_upload\<close>: the bucket is created first when asked, and the documentation
  under the directory of main.py is uploaded with the S3Upload model; an exception of
  either reaches \<open>main\<close>.\<close>

definition run_upload :: "pipeline_env \<Rightarrow> upload_args \<Rightarrow> files \<Rightarrow> (string + bool) \<times> files" where
  "run_upload E a fs =
     (case (if ua_create_bucket a then create_bucket_if_not_exists (s3 E) (ua_bucket a) (Some (ua_region a)) else Inr True) of
        Inl e \<Rightarrow> (Inl e, fs)
      | Inr False \<Rightarrow> (Inr False, fs)
      | Inr True \<Rightarrow> (fst (upload_documentation (s3 E) (script_dir E) (ua_bucket a) (ua_prefix a)), fs))"

text \<open>\<open>run_setup_kb\<close>: the BedrockSetup model; both identifiers must be truthy, and the
  info file is then written.\<close>

definition run_setup_kb :: "pipeline_env \<Rightarrow> kb_args \<Rightarrow> files \<Rightarrow> (string + bool) \<times> files" where
  "run_setup_kb E a fs =
     (case fst (create_and_configure_knowledge_base (bedrock E) (ka_name a) (ka_description a) (ka_bucket a)
                  (ka_prefix a) (ka_region a) (ka_test_query a)) of
        Inl e \<Rightarrow> (Inl e, fs)
      | Inr (Some kb_id, Some ds_id) \<Rightarrow>
          (if kb_id = [] \<or> ds_id = [] then (Inr False, fs)
           else (Inr True, write_file ''kb_info.json''
                              (KbInfoJson [(''kb_id'', kb_id), (''data_source_id'', ds_id), (''name'', ka_name a),
                                           (''description'', ka_description a), (''region'', ka_region a),
                                           (''s3_bucket'', ka_bucket a), (''s3_prefix'', ka_prefix a)]) fs))
      | Inr _ \<Rightarrow> (Inr False, fs))"

text \<open>Sequencing of steps that stop at the first failure or exception.\<close>

definition then_run ::
  "(string + bool) \<times> files \<Rightarrow> (files \<Rightarrow> (string + bool) \<times> files) \<Rightarrow> (string + bool) \<times> files" where
  "then_run r f = (case r of (Inr True, fs) \<Rightarrow> f fs | _ \<Rightarrow> r)"

text \<open>\<open>run_all\<close> builds the extraction arguments with \<open>config=args.section\<close>: the
  section name is used as the path of the configuration file, and the global
  \<open>--config\<close> is never read.\<close>

definition run_all :: "pipeline_env \<Rightarrow> all_args \<Rightarrow> files \<Rightarrow> (string + bool) \<times> files" where
  "run_all E a fs =
     then_run (run_extract_schema E \<lparr>ea_config = al_section a, ea_section = al_section a,
                                     ea_output = ''schema_data.json'', ea_generate_markdown = True\<rparr> fs)
       (\<lambda>fs. then_run (run_analyze_queries E \<lparr>aa_input = al_queries a, aa_output = ''query_analysis.json'',
                                             aa_schema = ''schema_data.json'', aa_generate_markdown = True\<rparr> fs)
         (\<lambda>fs. then_run (run_upload E \<lparr>ua_bucket = al_bucket a, ua_prefix = al_prefix a, ua_region = al_region a,
                                        ua_create_bucket = al_create_bucket a\<rparr> fs)
           (\<lambda>fs. run_setup_kb E \<lparr>ka_bucket = al_bucket a, ka_prefix = al_prefix a, ka_region = al_region a,
                                  ka_name = al_kb_name a, ka_description = ''Database Schema Knowledge Base'',
                                  ka_test_query = Some ''What tables does the database have?''\<rparr> fs)))"

text \<open>\<open>main\<close>: the exit status; an exception is logged and gives 1.\<close>

definition main :: "pipeline_env \<Rightarrow> command \<Rightarrow> files \<Rightarrow> nat \<times> files" where
  "main E c fs =
     (let (r, fs') = (case c of
                        ExtractSchema a \<Rightarrow> run_extract_schema E a fs
                      | AnalyzeQueries a \<Rightarrow> run_analyze_queries E a fs
                      | GenerateDocs a \<Rightarrow> run_generate_docs E a fs
                      | Upload a \<Rightarrow> run_upload E a fs
                      | SetupKb a \<Rightarrow> run_setup_kb E a fs
                      | RunAll a \<Rightarrow> run_all E a fs)
      in (if r = Inr True then 0 else 1, fs'))"

definition pipeline_env_ex :: pipeline_env where
  "pipeline_env_ex =
     \<lparr>read_ini = (\<lambda>_. []), database = db_env_ex, parsers = parse_env_ex, today = ''2025-01-01'',
      s3 = s3_env_ex, bedrock = bedrock_env_ex, script_dir = ''/app''\<rparr>"

subsection \<open>Lemmas\<close>

lemma write_file_same [simp]: "write_file p c fs p = Some c"
  by (simp add: write_file_def)

lemma then_run_not_ok:
  "fst r \<noteq> Inr True \<Longrightarrow> then_run r f = r"
  by (cases r) (auto simp: then_run_def split: sum.split bool.split)

lemma then_run_ok:
  "fst r = Inr True \<Longrightarrow> then_run r f = f (snd r)"
  by (cases r) (simp add: then_run_def)

lemma query_docs_of_analysis:
  "fs p = Some (AnalysisList rs) \<Longrightarrow> generate_query_documentation E fs p out schema = (Inl ''AttributeError'', fs)"
  by (simp add: generate_query_documentation_def load_query_json_def)

lemma analyze_docs_never_succeed:
  assumes "aa_generate_markdown a"
  shows "fst (run_analyze_queries E a fs) \<noteq> Inr True"
  using assms query_docs_of_analysis [of "write_file (aa_output a) (AnalysisList _) fs" "aa_output a"]
  by (auto simp: run_analyze_queries_def Let_def split: sum.split)

lemma run_all_fails:
  "fst (run_all E a fs) \<noteq> Inr True"
proof -
  let ?x = "run_extract_schema E \<lparr>ea_config = al_section a, ea_section = al_section a,
                                  ea_output = ''schema_data.json'', ea_generate_markdown = True\<rparr> fs"
  let ?q = "\<lambda>fs. run_analyze_queries E \<lparr>aa_input = al_queries a, aa_output = ''query_analysis.json'',
                                         aa_schema = ''schema_data.json'', aa_generate_markdown = True\<rparr> fs"
  have q: "fst (?q fs') \<noteq> Inr True" for fs' by (rule analyze_docs_never_succeed) simp
  show ?thesis
  proof (cases "fst ?x = Inr True")
    case True
    with q show ?thesis by (simp add: run_all_def then_run_ok then_run_not_ok)
  next
    case False
    then show ?thesis by (simp add: run_all_def then_run_not_ok)
  qed
qed

text \<open>C5: The run-all command of the pipeline never succeeds: whatever the environment
  and the files, main exits with status 1, because its query-analysis step always asks
  for markdown from the analysis list it has just written.\<close>

theorem run_all_exit_1: "fst (main E (RunAll a) fs) = 1"
  using run_all_fails [of E a fs] by (auto simp: main_def split: prod.split)

lemma run_all_ignores_config: "run_all E (a\<lparr>al_config := c\<rparr>) fs = run_all E a fs"
  by (simp add: run_all_def)

lemma run_all_section_as_config:
  assumes "fs (al_section a) = None" "fs (path_join (path_join ''src'' ''schema_extraction'') (al_section a)) = None"
  shows "run_all E a fs = (Inr False, fs)"
  using assms by (simp add: run_all_def then_run_def run_extract_schema_def Let_def)

lemma analyze_rejects_lines:
  assumes "fs (aa_input a) \<noteq> None"
    and "case fs (aa_schema a) of Some (TextFile _) \<Rightarrow> False | Some (MarkdownFile _) \<Rightarrow> False | _ \<Rightarrow> True"
    and "l \<in> set (query_lines fs (aa_input a))" "length l \<noteq> 2"
  shows "run_analyze_queries E a fs = (Inl ''ValueError'', fs)"
proof -
  have "analyze_query_batch (parsers E) (map RawItem (query_lines fs (aa_input a))) = Inl ''ValueError''"
    using assms(3,4) by (auto simp: analyze_query_batch_raw list_all_iff)
  with assms(1,2) show ?thesis
    by (auto simp: run_analyze_queries_def split: option.splits file_content.splits)
qed

text \<open>C8: The setup-kb command exits with status 0 and writes kb_info.json with both
  identifiers as soon as the knowledge base and the data source were created, whatever
  becomes of the ingestion job: a failed, stuck or unstartable ingestion is reported as a
  successful set-up.\<close>

theorem setup_kb_ignores_ingestion:
  assumes "fst (create_knowledge_base (bedrock E) (ka_region a) (ka_name a) (ka_description a) None) = Inr (Some k)"
    and "k \<noteq> []"
    and "fst (create_data_source (bedrock E) k (ka_name a @ ''-data-source'')
               (''Documentation data source for '' @ ka_name a) (ka_bucket a) (ka_prefix a)) = Inr (Some x)"
    and "x \<noteq> []"
    and "\<forall>e. fst (start_ingestion_job (bedrock E) k x) \<noteq> Inl e"
    and "\<forall>e. fst (configure_hybrid_search (bedrock E) (ka_region a) k) \<noteq> Inl e"
    and "\<forall>e q. fst (test_retrieval (bedrock E) k q) \<noteq> Inl e"
  shows "main E (SetupKb a) fs =
           (0, write_file ''kb_info.json''
                 (KbInfoJson [(''kb_id'', k), (''data_source_id'', x), (''name'', ka_name a),
                              (''description'', ka_description a), (''region'', ka_region a),
                              (''s3_bucket'', ka_bucket a), (''s3_prefix'', ka_prefix a)]) fs)"
proof -
  have "fst (create_and_configure_knowledge_base (bedrock E) (ka_name a) (ka_description a) (ka_bucket a)
              (ka_prefix a) (ka_region a) (ka_test_query a)) = Inr (Some k, Some x)"
    using assms by (rule setup_returns_created_ids)
  with assms(2,4) show ?thesis
    by (simp add: main_def run_setup_kb_def)
qed

theorem setup_kb_ignores_ingestion_witness:
  "fst (start_ingestion_job bedrock_env_ex ''KB1'' ''DS1'') = Inr None \<and>
   main pipeline_env_ex (SetupKb (kb_defaults ''bkt'')) Map.empty =
     (0, write_file ''kb_info.json''
           (KbInfoJson [(''kb_id'', ''KB1''), (''data_source_id'', ''DS1''), (''name'', ''db-knowledge-base''),
                        (''description'', ''Database Schema Knowledge Base''), (''region'', ''us-east-1''),
                        (''s3_bucket'', ''bkt''), (''s3_prefix'', ''dbkb'')]) Map.empty)"
proof -
  have job: "fst (start_ingestion_job bedrock_env_ex ''KB1'' ''DS1'') = Inr None"
    by (rule start_ingestion_job_failed) (simp_all add: bedrock_env_ex_def)
  have kb: "fst (create_knowledge_base bedrock_env_ex ''us-east-1'' ''db-knowledge-base'' ''Database Schema Knowledge Base'' None) =
              Inr (Some ''KB1'')"
    by (simp add: create_knowledge_base_def bedrock_env_ex_def numeral_eq_Suc resource_step_def after_wait_def
                  case_prod_unfold)
  have ds: "fst (create_data_source bedrock_env_ex ''KB1'' (''db-knowledge-base'' @ ''-data-source'')
                  (''Documentation data source for '' @ ''db-knowledge-base'') ''bkt'' ''dbkb'') = Inr (Some ''DS1'')"
    by (simp add: create_data_source_def bedrock_env_ex_def numeral_eq_Suc resource_step_def after_wait_def)
  have nj: "\<forall>e. fst (start_ingestion_job bedrock_env_ex ''KB1'' ''DS1'') \<noteq> Inl e"
    using job by simp
  have "main pipeline_env_ex (SetupKb (kb_defaults ''bkt'')) Map.empty =
          (0, write_file ''kb_info.json''
                (KbInfoJson [(''kb_id'', ''KB1''), (''data_source_id'', ''DS1''), (''name'', ''db-knowledge-base''),
                             (''description'', ''Database Schema Knowledge Base''), (''region'', ''us-east-1''),
                             (''s3_bucket'', ''bkt''), (''s3_prefix'', ''dbkb'')]) Map.empty)"
    using setup_kb_ignores_ingestion [of pipeline_env_ex "kb_defaults ''bkt''" "''KB1''" "''DS1''" Map.empty]
          kb ds nj
    by (simp add: pipeline_env_ex_def kb_defaults_def configure_hybrid_search_def test_retrieval_def
                  bedrock_env_ex_def)
  with job show ?thesis by simp
qed

end
