(* ===== verification/FeedbackCli.thy ===== *)
theory FeedbackCli
  imports Feedback Chat
begin

text \<open>
  The command line of src/train_from_feedback.py: it connects with
  \<open>get_chat_db_connection\<close> of app.py (the Chat model, in a fresh process whose
  credential cache is empty) and either counts the pending corrections (\<open>--dry-run\<close>)
  or runs \<open>FeedbackProcessor.process_pending_feedback\<close> (the Feedback model) on the
  store. The result is the exit status, the printed lines and the store.
\<close>

record train_args =
  ta_kb_id :: string
  ta_company_id :: int
  ta_dry_run :: bool

text \<open>The connection environment of \<open>get_chat_db_connection\<close> and the processor's.\<close>

record train_env =
  te_connector :: bool
  te_connects :: "db_config \<Rightarrow> bool"
  te_ssm :: ssm_env
  te_port :: "string option"
  te_fenv :: fenv

text \<open>\<open>SELECT COUNT(*) as count FROM query_feedback WHERE KnowledgeBaseId = %s AND
  CompanyId = %s AND ProcessingStatus = 'pending' AND FeedbackType = 'correction'\<close>.\<close>

definition pending_count :: "string \<Rightarrow> int \<Rightarrow> store \<Rightarrow> nat" where
  "pending_count kb c db = length (filter (is_pending kb c) (query_feedback db))"

text \<open>\<open>result.get('processed', 0)\<close> and \<open>result.get('status')\<close> of the returned dict.\<close>

definition result_processed :: "feedback_result \<Rightarrow> nat" where
  "result_processed r = (case r of NoPendingFeedback \<Rightarrow> 0 | Success n _ \<Rightarrow> n)"

definition result_status :: "feedback_result \<Rightarrow> string" where
  "result_status r = (case r of NoPendingFeedback \<Rightarrow> ''no_pending_feedback'' | Success _ _ \<Rightarrow> ''success'')"

text \<open>\<open>main\<close>: a falsy connection and any exception (the \<open>ValueError\<close> of a malformed
  port) give exit status 1 before anything is printed.\<close>

definition train_main :: "train_env \<Rightarrow> train_args \<Rightarrow> store \<Rightarrow> nat \<times> string list \<times> store" where
  "train_main T a db =
     (case fst (get_chat_db_connection (te_connector T) (te_connects T) (te_ssm T) (te_port T) None) of
        Inl e \<Rightarrow> (1, [], db)
      | Inr False \<Rightarrow> (1, [], db)
      | Inr True \<Rightarrow>
          (if ta_dry_run a
           then (0, [''Would process '' @ string_of_nat (pending_count (ta_kb_id a) (ta_company_id a) db) @
                     '' pending feedback items for KB '' @ ta_kb_id a], db)
           else (let (r, db') = process_pending_feedback (te_fenv T) (ta_kb_id a) (ta_company_id a) db
                 in (0, [''Processed '' @ string_of_nat (result_processed r) @ '' feedback items'',
                         ''Status: '' @ result_status r], db'))))"

definition train_env_ex :: train_env where
  "train_env_ex =
     \<lparr>te_connector = True, te_connects = (\<lambda>_. True),
      te_ssm = \<lparr>ssm_client_ok = False, ssm_call_ok = False, ssm_params = [], env_user = None, env_password = None\<rparr>,
      te_port = None, te_fenv = fenv_ex\<rparr>"

subsection \<open>Lemmas\<close>

lemma pending_count_select: "pending_count kb c db = length (select_pending kb c db)"
  by (simp add: pending_count_def select_pending_def)

text \<open>With no failing insert, a run processes every selected correction.\<close>

lemma run_processes_all_selected:
  assumes "0 < next_training_id db" and "\<forall>f\<in>set (query_feedback db). \<not> insert_fails E f"
  shows "result_processed (fst (process_pending_feedback E kb c db)) = length (select_pending kb c db)"
proof (cases "select_pending kb c db = []")
  case True
  then show ?thesis
    by (simp add: process_pending_feedback_def process_selected_def result_processed_def)
next
  case False
  let ?p = "select_pending kb c db"
  have nf: "filter (\<lambda>f. \<not> insert_fails E f) ?p = ?p"
    using assms(2) by (simp add: select_pending_def)
  obtain ids db1 where f: "foldl (process_one E) ([], db) ?p = (ids, db1)" by fastforce
  with foldl_process_one_ids [OF assms(1), of E "[]" ?p] nf have len: "length ids = length ?p" by simp
  with False have "ids \<noteq> []" by auto
  with f False len show ?thesis
    using process_selected_fst [OF f False] by (simp add: process_pending_feedback_def result_processed_def)
qed

lemma get_chat_db_connection_ex:
  "fst (get_chat_db_connection (te_connector train_env_ex) (te_connects train_env_ex) (te_ssm train_env_ex)
          (te_port train_env_ex) None) = Inr True"
  by (simp add: get_chat_db_connection_def get_chat_db_config_def get_db_credentials_def train_env_ex_def Let_def)

subsection \<open>Properties\<close>

text \<open>C26: Once connected, the dry run of train_from_feedback changes nothing and
  announces the number of pending corrections a real run selects; when no insert fails,
  the real run then reports having processed exactly that number.\<close>

theorem dry_run_predicts_run:
  assumes "fst (get_chat_db_connection (te_connector T) (te_connects T) (te_ssm T) (te_port T) None) = Inr True"
    and "0 < next_training_id db" and "\<forall>f\<in>set (query_feedback db). \<not> insert_fails (te_fenv T) f"
  shows "train_main T (a\<lparr>ta_dry_run := True\<rparr>) db =
           (0, [''Would process '' @ string_of_nat (length (select_pending (ta_kb_id a) (ta_company_id a) db)) @
                '' pending feedback items for KB '' @ ta_kb_id a], db) \<and>
         hd (fst (snd (train_main T (a\<lparr>ta_dry_run := False\<rparr>) db))) =
           ''Processed '' @ string_of_nat (length (select_pending (ta_kb_id a) (ta_company_id a) db)) @ '' feedback items''"
  using assms run_processes_all_selected [OF assms(2,3), of "ta_kb_id a" "ta_company_id a"]
  by (simp add: train_main_def pending_count_select case_prod_unfold Let_def)

theorem dry_run_predicts_run_witness:
  "train_main train_env_ex \<lparr>ta_kb_id = ''KB1'', ta_company_id = 1, ta_dry_run = True\<rparr> (store_ex [fb_ex 1 ''list orders'']) =
     (0, [''Would process '' @ string_of_nat (length (select_pending ''KB1'' 1 (store_ex [fb_ex 1 ''list orders'']))) @
          '' pending feedback items for KB '' @ ''KB1''], store_ex [fb_ex 1 ''list orders'']) \<and>
   hd (fst (snd (train_main train_env_ex \<lparr>ta_kb_id = ''KB1'', ta_company_id = 1, ta_dry_run = False\<rparr>
                   (store_ex [fb_ex 1 ''list orders''])))) =
     ''Processed '' @ string_of_nat (length (select_pending ''KB1'' 1 (store_ex [fb_ex 1 ''list orders'']))) @ '' feedback items''"
  using dry_run_predicts_run [OF get_chat_db_connection_ex, of "store_ex [fb_ex 1 ''list orders'']"
                               "\<lparr>ta_kb_id = ''KB1'', ta_company_id = 1, ta_dry_run = False\<rparr>"]
  by (simp add: store_ex_def train_env_ex_def fenv_ex_def)

end
