(* ===== verification/KbMaintenance.thy ===== *)
theory KbMaintenance
  imports BedrockSetup
begin

text \<open>
  The two knowledge-base maintenance scripts src/update_kb_data_source.py (switch the
  data source of knowledge base KRD3MW7QFS to hierarchical chunking and re-ingest) and
  src/create_new_data_source.py (create a second data source with hierarchical chunking
  and ingest it). Both start an ingestion job, watch it with the same loop bounded by
  the wall clock, and then send test questions to \<open>retrieve_and_generate\<close>. The
  Bedrock calls and the readings of \<open>time.time()\<close> are an environment; every function
  of the scripts catches \<open>Exception\<close>, so a \<open>ClientError\<close> and any other exception
  of a call lead to the same fallback value. Printing is not modelled, except for the
  SQL summary that the test functions compute for each answer.

  The watching loop runs while the clock has not passed the deadline. The clock is the
  start time advanced by each status request and by the 30 seconds slept after it, so
  the loop returns as long as no request takes negative time; since that is a property
  of the environment and not of the definition, the loop is a
  \<open>partial_function (option)\<close>, \<open>None\<close> being a run that never returns.
\<close>

subsection \<open>Data sources, calls and the environment\<close>

record chunking =
  ch_strategy :: string
  ch_max_tokens :: "nat list"
  ch_overlap :: nat

text \<open>The parts of a data source the scripts read or write; the
  \<open>dataSourceConfiguration\<close> is copied unchanged, so it is an opaque string.\<close>

record ds_config =
  dc_name :: string
  dc_description :: "string option"
  dc_source :: string
  dc_chunking :: "chunking option"

datatype maint_call =
    MGetDs string string
  | MUpdateDs string string ds_config
  | MCreateDs string ds_config
  | MStartJob string string string
  | MGetJob string string string nat
  | MSleep nat
  | MRetrieveGenerate string string
  | MDeleteDs string string

text \<open>\<open>mt_start\<close> is \<open>time.time()\<close> when the watching loop starts and \<open>mt_elapsed n\<close>
  the seconds the \<open>n\<close>-th \<open>get_ingestion_job\<close> call and its printing take;
  \<open>mt_job_status kb ds job n\<close> is the status that call reports. A data source read
  without a chunking configuration is \<open>dc_chunking = None\<close>, and the answer of
  \<open>update_data_source\<close> carries the status of the data source, if it has one.\<close>

record maint_env =
  mt_start :: rat
  mt_elapsed :: "nat \<Rightarrow> rat"
  mt_get_ds :: "string \<Rightarrow> string \<Rightarrow> ds_config aws_result"
  mt_update_ds :: "string \<Rightarrow> string \<Rightarrow> ds_config \<Rightarrow> string option aws_result"
  mt_create_ds :: "string \<Rightarrow> ds_config \<Rightarrow> string aws_result"
  mt_start_job :: "string \<Rightarrow> string \<Rightarrow> string \<Rightarrow> string aws_result"
  mt_job_status :: "string \<Rightarrow> string \<Rightarrow> string \<Rightarrow> nat \<Rightarrow> string aws_result"
  mt_retrieve_generate :: "string \<Rightarrow> string \<Rightarrow> string aws_result"
  mt_delete_ds :: "string \<Rightarrow> string \<Rightarrow> unit aws_result"

definition aws_ok :: "'a aws_result \<Rightarrow> bool" where
  "aws_ok r = (case r of AwsOk _ \<Rightarrow> True | _ \<Rightarrow> False)"

subsection \<open>Updating and creating the data source\<close>

text \<open>Parent chunks of 512 tokens (the comment: the most \<open>cohere.embed-english-v3\<close>
  allows), child chunks of 300, overlap 50.\<close>

definition hierarchical_chunking :: chunking where
  "hierarchical_chunking = \<lparr>ch_strategy = ''HIERARCHICAL'', ch_max_tokens = [512, 300], ch_overlap = 50\<rparr>"

text \<open>\<open>updated_config\<close> of update_data_source_chunking: name and source are kept, the
  description is kept when present (\<open>ds_config.get('description', ...)\<close>), and the
  chunking is replaced.\<close>

definition updated_config :: "ds_config \<Rightarrow> ds_config" where
  "updated_config c =
     \<lparr>dc_name = dc_name c,
      dc_description = Some (case dc_description c of
                               Some d \<Rightarrow> d
                             | None \<Rightarrow> ''Updated with hierarchical chunking (512/300/50 tokens)''),
      dc_source = dc_source c, dc_chunking = Some hierarchical_chunking\<rparr>"

text \<open>The current chunking strategy is printed before the update is built, so a data
  source without a chunking configuration raises \<open>KeyError\<close> there; so does an answer
  of \<open>update_data_source\<close> without a status. Every exception gives \<open>False\<close>.\<close>

definition update_data_source_chunking :: "maint_env \<Rightarrow> string \<Rightarrow> string \<Rightarrow> bool \<times> maint_call list" where
  "update_data_source_chunking M kb_id data_source_id =
     (case mt_get_ds M kb_id data_source_id of
        AwsOk c \<Rightarrow>
          (if dc_chunking c = None then (False, [MGetDs kb_id data_source_id])
           else
             (let u = updated_config c
              in ((case mt_update_ds M kb_id data_source_id u of AwsOk (Some _) \<Rightarrow> True | _ \<Rightarrow> False),
                  [MGetDs kb_id data_source_id, MUpdateDs kb_id data_source_id u])))
      | _ \<Rightarrow> (False, [MGetDs kb_id data_source_id]))"

definition new_ds_config :: ds_config where
  "new_ds_config =
     \<lparr>dc_name = ''pic-database-kb-hierarchical'',
      dc_description = Some ''Database knowledge base with hierarchical chunking (512/300/50 tokens)'',
      dc_source = ''S3 arn:aws:s3:::pic-dbkb dbkb/'', dc_chunking = Some hierarchical_chunking\<rparr>"

definition create_hierarchical_data_source :: "maint_env \<Rightarrow> string \<Rightarrow> string option \<times> maint_call list" where
  "create_hierarchical_data_source M kb_id =
     (case mt_create_ds M kb_id new_ds_config of
        AwsOk ds \<Rightarrow> (Some ds, [MCreateDs kb_id new_ds_config])
      | _ \<Rightarrow> (None, [MCreateDs kb_id new_ds_config]))"

definition delete_old_data_source :: "maint_env \<Rightarrow> string \<Rightarrow> string \<Rightarrow> bool \<times> maint_call list" where
  "delete_old_data_source M kb_id old_id =
     (aws_ok (mt_delete_ds M kb_id old_id), [MDeleteDs kb_id old_id])"

text \<open>\<open>start_ingestion_job\<close> of either script; they differ only in the description.\<close>

definition start_job :: "maint_env \<Rightarrow> string \<Rightarrow> string \<Rightarrow> string \<Rightarrow> string option \<times> maint_call list" where
  "start_job M kb_id data_source_id description =
     (case mt_start_job M kb_id data_source_id description of
        AwsOk job \<Rightarrow> (Some job, [MStartJob kb_id data_source_id description])
      | _ \<Rightarrow> (None, [MStartJob kb_id data_source_id description]))"

definition refresh_description :: string where
  "refresh_description = ''Refresh with hierarchical chunking (512/300/50 tokens) and semantic markers''"

definition initial_description :: string where
  "initial_description = ''Initial ingestion with hierarchical chunking (512/300/50 tokens) and semantic markers''"

subsection \<open>Watching the ingestion job\<close>

text \<open>The \<open>while\<close> loop of \<open>monitor_ingestion_job\<close>, at its attempt \<open>i\<close> with the clock
  reading \<open>now\<close>: \<open>COMPLETE\<close> and \<open>FAILED\<close> return, a running status and an
  unexpected one both sleep 30 seconds and go round again, so the next reading is
  \<open>now\<close> plus the time of the call plus 30; an exception of the call is caught by the
  function's handler.\<close>

partial_function (option) monitor_loop ::
  "maint_env \<Rightarrow> string \<Rightarrow> string \<Rightarrow> string \<Rightarrow> rat \<Rightarrow> rat \<Rightarrow> rat \<Rightarrow> nat \<Rightarrow> (bool \<times> maint_call list) option" where
  "monitor_loop M kb_id data_source_id job_id start_time max_wait_seconds now i =
     (if now - start_time < max_wait_seconds then
        (let call = MGetJob kb_id data_source_id job_id i;
             after_sleep = now + mt_elapsed M i + 30
         in case mt_job_status M kb_id data_source_id job_id i of
              AwsOk status \<Rightarrow>
                (if status = ''COMPLETE'' then Some (True, [call])
                 else if status = ''FAILED'' then Some (False, [call])
                 else if status \<in> set [''STARTING'', ''IN_PROGRESS''] then
                   Option.bind (monitor_loop M kb_id data_source_id job_id start_time max_wait_seconds after_sleep (Suc i))
                     (\<lambda>(r, cs). Some (r, call # MSleep 30 # cs))
                 else
                   Option.bind (monitor_loop M kb_id data_source_id job_id start_time max_wait_seconds after_sleep (Suc i))
                     (\<lambda>(r, cs). Some (r, call # MSleep 30 # cs)))
            | _ \<Rightarrow> Some (False, [call]))
      else Some (False, []))"

definition monitor_ingestion_job ::
  "maint_env \<Rightarrow> string \<Rightarrow> string \<Rightarrow> string \<Rightarrow> nat \<Rightarrow> (bool \<times> maint_call list) option" where
  "monitor_ingestion_job M kb_id data_source_id job_id max_wait_minutes =
     monitor_loop M kb_id data_source_id job_id (mt_start M) (of_nat (max_wait_minutes * 60)) (mt_start M) 0"

subsection \<open>Testing the knowledge base\<close>

text \<open>The SQL summary printed for an answer: whether a keyword occurs in the lower-cased
  text, and the share of its lines (after \<open>strip\<close>, split at newlines) that contain
  one.\<close>

definition sql_summary :: "string list \<Rightarrow> string \<Rightarrow> bool \<times> rat" where
  "sql_summary keywords response_text =
     (let has_sql = list_ex (\<lambda>kw. py_in kw (py_lower response_text)) keywords;
          lines = split_on (hd nl) (py_strip response_text);
          sql_lines = filter (\<lambda>l. list_ex (\<lambda>kw. py_in kw (py_lower l)) keywords) lines
      in (has_sql, if lines \<noteq> [] then of_nat (length sql_lines) / of_nat (length lines) else 0))"

text \<open>The test loop: each question's answer is summarised, a failing question is
  skipped; the function itself always returns \<open>True\<close>.\<close>

definition kb_smoke_test ::
  "maint_env \<Rightarrow> string \<Rightarrow> string list \<Rightarrow> string list \<Rightarrow> (bool \<times> rat) option list \<times> maint_call list" where
  "kb_smoke_test M kb_id test_queries keywords =
     (map (\<lambda>q. case mt_retrieve_generate M kb_id q of AwsOk t \<Rightarrow> Some (sql_summary keywords t) | _ \<Rightarrow> None) test_queries,
      map (MRetrieveGenerate kb_id) test_queries)"

definition update_test_queries :: "string list" where
  "update_test_queries =
     [''Show me the customers table structure'', ''How do I join customers with orders?'',
      ''Get all active customers from the database'']"

definition update_sql_keywords :: "string list" where
  "update_sql_keywords = [''select'', ''from'', ''where'', ''join'', ''create'', ''table'']"

definition create_test_queries :: "string list" where
  "create_test_queries = update_test_queries @ [''Create a query to find customers with recent orders'']"

definition create_sql_keywords :: "string list" where
  "create_sql_keywords = update_sql_keywords @ [''insert'', ''update'', ''delete'']"

subsection \<open>The two scripts\<close>

datatype maint_outcome =
    DataSourceFailed
  | StartFailed
  | NotCompleted
  | Completed "(bool \<times> rat) option list"

text \<open>\<open>main\<close> of update_kb_data_source.py: update, start, watch for ten minutes, test.\<close>

definition update_main :: "maint_env \<Rightarrow> (maint_outcome \<times> maint_call list) option" where
  "update_main M =
     (let kb_id = ''KRD3MW7QFS''; data_source_id = ''PFF80JIRZB'';
          (ok, c1) = update_data_source_chunking M kb_id data_source_id
      in if \<not> ok then Some (DataSourceFailed, c1)
         else
           (let (job, c2) = start_job M kb_id data_source_id refresh_description
            in case job of
                 None \<Rightarrow> Some (StartFailed, c1 @ c2)
               | Some job_id \<Rightarrow>
                   (if job_id = [] then Some (StartFailed, c1 @ c2)
                    else Option.bind (monitor_ingestion_job M kb_id data_source_id job_id 10)
                           (\<lambda>(completed, c3).
                              if \<not> completed then Some (NotCompleted, c1 @ c2 @ c3)
                              else (let (res, c4) = kb_smoke_test M kb_id update_test_queries update_sql_keywords
                                    in Some (Completed res, c1 @ c2 @ c3 @ c4))))))"

text \<open>\<open>main\<close> of create_new_data_source.py: create, start, watch for fifteen minutes,
  test; the old data source is only mentioned, never deleted.\<close>

definition create_main :: "maint_env \<Rightarrow> (maint_outcome \<times> maint_call list) option" where
  "create_main M =
     (let kb_id = ''KRD3MW7QFS'';
          (ds, c1) = create_hierarchical_data_source M kb_id
      in case ds of
           None \<Rightarrow> Some (DataSourceFailed, c1)
         | Some new_id \<Rightarrow>
             (if new_id = [] then Some (DataSourceFailed, c1)
              else
                (let (job, c2) = start_job M kb_id new_id initial_description
                 in case job of
                      None \<Rightarrow> Some (StartFailed, c1 @ c2)
                    | Some job_id \<Rightarrow>
                        (if job_id = [] then Some (StartFailed, c1 @ c2)
                         else Option.bind (monitor_ingestion_job M kb_id new_id job_id 15)
                                (\<lambda>(completed, c3).
                                   if \<not> completed then Some (NotCompleted, c1 @ c2 @ c3)
                                   else (let (res, c4) = kb_smoke_test M kb_id create_test_queries create_sql_keywords
                                         in Some (Completed res, c1 @ c2 @ c3 @ c4)))))))"

subsection \<open>Observations\<close>

definition is_get_job :: "maint_call \<Rightarrow> bool" where
  "is_get_job c = (case c of MGetJob _ _ _ _ \<Rightarrow> True | _ \<Rightarrow> False)"

definition is_delete :: "maint_call \<Rightarrow> bool" where
  "is_delete c = (case c of MDeleteDs _ _ \<Rightarrow> True | _ \<Rightarrow> False)"

subsection \<open>Examples\<close>

definition maint_env_ex :: maint_env where
  "maint_env_ex =
     \<lparr>mt_start = 0, mt_elapsed = (\<lambda>_. 1),
      mt_get_ds = (\<lambda>_ _. AwsOk \<lparr>dc_name = ''ds'', dc_description = None, dc_source = ''S3'',
                                dc_chunking = Some \<lparr>ch_strategy = ''SEMANTIC'', ch_max_tokens = [300], ch_overlap = 0\<rparr>\<rparr>),
      mt_update_ds = (\<lambda>_ _ _. AwsOk (Some ''UPDATING'')),
      mt_create_ds = (\<lambda>_ _. AwsOk ''NEWDS''),
      mt_start_job = (\<lambda>_ _ _. AwsOk ''JOB1''),
      mt_job_status = (\<lambda>_ _ _ _. AwsOk ''IN_PROGRESS''),
      mt_retrieve_generate = (\<lambda>_ _. AwsOk ''SELECT *''),
      mt_delete_ds = (\<lambda>_ _. AwsOk ())\<rparr>"

text \<open>The same services with an ingestion job that is complete when first asked.\<close>

definition maint_env_done :: maint_env where
  "maint_env_done = maint_env_ex\<lparr>mt_job_status := (\<lambda>_ _ _ _. AwsOk ''COMPLETE'')\<rparr>"

subsection \<open>The watching loop\<close>

text \<open>One round of the loop, for a running status and for a complete one.\<close>

lemma monitor_loop_running:
  assumes "now - st < mw" and "mt_job_status M kb ds job i = AwsOk s" and "s \<noteq> ''COMPLETE''" and "s \<noteq> ''FAILED''"
  shows "monitor_loop M kb ds job st mw now i =
           Option.bind (monitor_loop M kb ds job st mw (now + mt_elapsed M i + 30) (Suc i))
             (\<lambda>(r, cs). Some (r, MGetJob kb ds job i # MSleep 30 # cs))"
  using assms by (subst monitor_loop.simps) (simp add: Let_def)

lemma monitor_loop_complete:
  assumes "now - st < mw" and "mt_job_status M kb ds job i = AwsOk ''COMPLETE''"
  shows "monitor_loop M kb ds job st mw now i = Some (True, [MGetJob kb ds job i])"
  using assms by (subst monitor_loop.simps) (simp add: Let_def)

text \<open>Since every round sleeps 30 seconds and no call takes negative time, the loop
  returns after at most \<open>n\<close> status requests once \<open>30 n\<close> seconds cover what is left of the
  deadline.\<close>

lemma monitor_loop_bounded:
  assumes "\<forall>j. 0 \<le> mt_elapsed M j"
    and "max_wait \<le> now - start + 30 * of_nat n"
  shows "\<exists>r. monitor_loop M kb ds job start max_wait now i = Some r \<and> length (filter is_get_job (snd r)) \<le> n"
  using assms(2)
proof (induction n arbitrary: now i)
  case 0
  then show ?case by (simp add: monitor_loop.simps)
next
  case (Suc n)
  show ?case
  proof (cases "now - start < max_wait")
    case False
    then show ?thesis by (simp add: monitor_loop.simps)
  next
    case True
    have "max_wait \<le> (now + mt_elapsed M i + 30) - start + 30 * of_nat n"
      using Suc.prems assms(1) [rule_format, of i] by (simp add: algebra_simps)
    then obtain r where r: "monitor_loop M kb ds job start max_wait (now + mt_elapsed M i + 30) (Suc i) = Some r"
      and len: "length (filter is_get_job (snd r)) \<le> n"
      using Suc.IH by blast
    show ?thesis
      using True r len
      by (subst monitor_loop.simps)
         (auto simp: Let_def is_get_job_def case_prod_unfold split: aws_result.split)
  qed
qed

lemma monitor_ingestion_job_returns:
  assumes "\<forall>j. 0 \<le> mt_elapsed M j"
  shows "\<exists>r. monitor_ingestion_job M kb ds job m = Some r \<and> length (filter is_get_job (snd r)) \<le> 2 * m"
  using monitor_loop_bounded [OF assms, of "of_nat (m * 60)" "mt_start M" "mt_start M" "2 * m" kb ds job 0]
  by (simp add: monitor_ingestion_job_def)

text \<open>The loop relies on the clock: if each round sets the clock back by the 30 seconds
  it sleeps (the system clock being corrected), a job that stays in progress is watched
  forever.\<close>

lemma monitor_clock_set_back:
  assumes "\<forall>n. mt_elapsed M n = -30" "\<forall>n. mt_job_status M kb ds job n = AwsOk ''IN_PROGRESS''" "0 < mw"
  shows "monitor_loop M kb ds job st mw st i = None"
proof -
  have "\<forall>i. monitor_loop M kb ds job st mw st i = None"
  proof (induction rule: monitor_loop.fixp_induct)
    case 1 show ?case by (auto simp: ccpo.admissible_def fun_lub_def flat_lub_def)
  next
    case 2 show ?case by simp
  next
    case (3 f) then show ?case using assms by simp
  qed
  then show ?thesis by blast
qed

text \<open>The watching loop only asks for the status of its job and sleeps, and it reports
  completion only after a request answered \<open>COMPLETE\<close>.\<close>

lemma monitor_loop_calls:
  assumes "monitor_loop M kb ds job st mw now i = Some r"
  shows "set (snd r) \<subseteq> range (MGetJob kb ds job) \<union> {MSleep 30}"
  by (rule monitor_loop.raw_induct
        [where P = "\<lambda>M kb ds job st mw now i r. set (snd r) \<subseteq> range (MGetJob kb ds job) \<union> {MSleep 30}", OF _ assms])
     (fastforce simp: Let_def bind_eq_Some_conv split: if_splits aws_result.splits)

lemma monitor_loop_completed:
  assumes "monitor_loop M kb ds job st mw now i = Some r"
  shows "fst r \<longrightarrow> (\<exists>j. MGetJob kb ds job j \<in> set (snd r) \<and> mt_job_status M kb ds job j = AwsOk ''COMPLETE'')"
  by (rule monitor_loop.raw_induct
        [where P = "\<lambda>M kb ds job st mw now i r. fst r \<longrightarrow>
                      (\<exists>j. MGetJob kb ds job j \<in> set (snd r) \<and> mt_job_status M kb ds job j = AwsOk ''COMPLETE'')",
         OF _ assms])
     (fastforce simp: Let_def bind_eq_Some_conv split: if_splits aws_result.splits)

lemma monitor_ingestion_job_no_delete:
  "monitor_ingestion_job M kb ds job m = Some r \<Longrightarrow> \<not> list_ex is_delete (snd r)"
  using monitor_loop_calls [of M kb ds job] by (fastforce simp: monitor_ingestion_job_def list_ex_iff is_delete_def)

lemma monitor_bind_pred:
  "(\<And>r. monitor_ingestion_job M kb ds job m = Some r \<Longrightarrow> pred_option P (g r)) \<Longrightarrow>
   pred_option P (Option.bind (monitor_ingestion_job M kb ds job m) g)"
  by (cases "monitor_ingestion_job M kb ds job m") auto

lemma monitor_bind_returns:
  assumes "\<forall>j. 0 \<le> mt_elapsed M j"
    and "\<And>r. length (filter is_get_job (snd r)) \<le> 2 * m \<Longrightarrow> \<exists>y. g r = Some y \<and> P y"
  shows "\<exists>y. Option.bind (monitor_ingestion_job M kb ds job m) g = Some y \<and> P y"
  using monitor_ingestion_job_returns [OF assms(1), of kb ds job m] assms(2) by auto

subsection \<open>The scripts\<close>

lemma update_data_source_chunking_calls:
  "filter is_get_job (snd (update_data_source_chunking M kb ds)) = []"
  by (simp add: update_data_source_chunking_def is_get_job_def Let_def split: aws_result.split)

lemma update_data_source_chunking_ok:
  assumes "fst (update_data_source_chunking M kb ds)"
  shows "\<exists>c st. mt_get_ds M kb ds = AwsOk c \<and> dc_chunking c \<noteq> None \<and>
             mt_update_ds M kb ds (updated_config c) = AwsOk (Some st) \<and>
             snd (update_data_source_chunking M kb ds) = [MGetDs kb ds, MUpdateDs kb ds (updated_config c)]"
  using assms
  by (auto simp: update_data_source_chunking_def Let_def split: aws_result.splits option.splits if_splits)

lemma kb_smoke_test_calls: "filter is_get_job (snd (kb_smoke_test M kb qs kws)) = []"
  by (simp add: kb_smoke_test_def is_get_job_def filter_empty_conv)

lemma kb_smoke_test_no_delete: "\<not> list_ex is_delete (snd (kb_smoke_test M kb qs kws))"
  by (simp add: kb_smoke_test_def list_ex_iff is_delete_def)

lemma start_job_calls: "filter is_get_job (snd (start_job M kb ds d)) = []"
  by (simp add: start_job_def is_get_job_def split: aws_result.split)

lemma start_job_no_delete: "\<not> list_ex is_delete (snd (start_job M kb ds d))"
  by (simp add: start_job_def is_delete_def split: aws_result.split)

lemma create_hierarchical_data_source_calls:
  "filter is_get_job (snd (create_hierarchical_data_source M kb)) = [] \<and>
   \<not> list_ex is_delete (snd (create_hierarchical_data_source M kb))"
  by (simp add: create_hierarchical_data_source_def is_get_job_def is_delete_def split: aws_result.split)

text \<open>The SQL share of an answer lies between 0 and 1; a stripped answer always has a
  line, so the \<open>else 0\<close> of the code is never taken.\<close>

lemma sql_summary_ratio:
  "0 \<le> snd (sql_summary kws t) \<and> snd (sql_summary kws t) \<le> 1 \<and> split_on (hd nl) (py_strip t) \<noteq> []"
  by (simp add: sql_summary_def Let_def divide_le_eq_1 length_filter_le)

text \<open>The parent chunks of setup_knowledge_base.py are larger than the 512 tokens the
  maintenance scripts give as the most the default embedding model allows.\<close>

lemma setup_parent_chunks_exceed_model_limit:
  "hd (dsr_level_max_tokens (ds_request_of k n d b p)) = 4000 \<and> hd (ch_max_tokens hierarchical_chunking) = 512"
  by (simp add: ds_request_of_def parent_chunk_max_tokens_def hierarchical_chunking_def)

subsection \<open>Properties\<close>

text \<open>C27: When update_kb_data_source.py gets to its test questions, it has read data
  source PFF80JIRZB (which had a chunking configuration) and written it back, first of
  all its calls, with hierarchical chunking and the same name and source, the update
  being answered with a status; it has started an ingestion job with a non-empty id that
  a status request reported \<open>COMPLETE\<close>, and it has one answer per test question.\<close>

theorem update_main_completed:
  assumes "update_main M = Some (Completed res, cs)"
  shows "\<exists>c st job j.
           mt_get_ds M ''KRD3MW7QFS'' ''PFF80JIRZB'' = AwsOk c \<and> dc_chunking c \<noteq> None \<and>
           mt_update_ds M ''KRD3MW7QFS'' ''PFF80JIRZB'' (updated_config c) = AwsOk (Some st) \<and>
           take 2 cs = [MGetDs ''KRD3MW7QFS'' ''PFF80JIRZB'', MUpdateDs ''KRD3MW7QFS'' ''PFF80JIRZB'' (updated_config c)] \<and>
           dc_name (updated_config c) = dc_name c \<and> dc_source (updated_config c) = dc_source c \<and>
           dc_chunking (updated_config c) = Some hierarchical_chunking \<and>
           mt_start_job M ''KRD3MW7QFS'' ''PFF80JIRZB'' refresh_description = AwsOk job \<and> job \<noteq> [] \<and>
           MGetJob ''KRD3MW7QFS'' ''PFF80JIRZB'' job j \<in> set cs \<and>
           mt_job_status M ''KRD3MW7QFS'' ''PFF80JIRZB'' job j = AwsOk ''COMPLETE'' \<and>
           length res = length update_test_queries"
proof -
  let ?kb = "''KRD3MW7QFS''" and ?ds = "''PFF80JIRZB''"
  obtain ok c1 where u: "update_data_source_chunking M ?kb ?ds = (ok, c1)" by fastforce
  obtain jo c2 where sj: "start_job M ?kb ?ds refresh_description = (jo, c2)" by fastforce
  obtain res4 c4 where t: "kb_smoke_test M ?kb update_test_queries update_sql_keywords = (res4, c4)" by fastforce
  have ok: ok using assms u by (cases ok) (simp_all add: update_main_def Let_def)
  obtain job where jo: "jo = Some job" and job: "job \<noteq> []"
    using assms u sj ok by (cases jo) (auto simp: update_main_def Let_def split: if_splits)
  obtain r3 where m: "monitor_ingestion_job M ?kb ?ds job 10 = Some r3" and fin: "fst r3"
    and cs: "cs = c1 @ c2 @ snd r3 @ c4" and res: "res = res4"
    using assms u sj ok jo job t
    by (auto simp: update_main_def Let_def bind_eq_Some_conv split: if_splits prod.splits)
  obtain c st where get: "mt_get_ds M ?kb ?ds = AwsOk c" and ch: "dc_chunking c \<noteq> None"
    and upd: "mt_update_ds M ?kb ?ds (updated_config c) = AwsOk (Some st)"
    and c1: "c1 = [MGetDs ?kb ?ds, MUpdateDs ?kb ?ds (updated_config c)]"
    using update_data_source_chunking_ok [of M ?kb ?ds] u ok by auto
  have start: "mt_start_job M ?kb ?ds refresh_description = AwsOk job"
    using sj jo by (simp add: start_job_def split: aws_result.splits)
  obtain j where j: "MGetJob ?kb ?ds job j \<in> set (snd r3)"
    and complete: "mt_job_status M ?kb ?ds job j = AwsOk ''COMPLETE''"
    using monitor_loop_completed [OF m [unfolded monitor_ingestion_job_def]] fin by blast
  have "length res = length update_test_queries"
    using t res by (auto simp: kb_smoke_test_def)
  then show ?thesis
    using get ch upd c1 cs start job j complete by (auto simp: updated_config_def)
qed

theorem update_main_completed_witness:
  "\<exists>res cs. update_main maint_env_done = Some (Completed res, cs) \<and>
     (\<exists>c st job j.
           mt_get_ds maint_env_done ''KRD3MW7QFS'' ''PFF80JIRZB'' = AwsOk c \<and> dc_chunking c \<noteq> None \<and>
           mt_update_ds maint_env_done ''KRD3MW7QFS'' ''PFF80JIRZB'' (updated_config c) = AwsOk (Some st) \<and>
           take 2 cs = [MGetDs ''KRD3MW7QFS'' ''PFF80JIRZB'', MUpdateDs ''KRD3MW7QFS'' ''PFF80JIRZB'' (updated_config c)] \<and>
           dc_name (updated_config c) = dc_name c \<and> dc_source (updated_config c) = dc_source c \<and>
           dc_chunking (updated_config c) = Some hierarchical_chunking \<and>
           mt_start_job maint_env_done ''KRD3MW7QFS'' ''PFF80JIRZB'' refresh_description = AwsOk job \<and> job \<noteq> [] \<and>
           MGetJob ''KRD3MW7QFS'' ''PFF80JIRZB'' job j \<in> set cs \<and>
           mt_job_status maint_env_done ''KRD3MW7QFS'' ''PFF80JIRZB'' job j = AwsOk ''COMPLETE'' \<and>
           length res = length update_test_queries)"
proof -
  have m: "monitor_ingestion_job maint_env_done ''KRD3MW7QFS'' ''PFF80JIRZB'' ''JOB1'' 10 =
             Some (True, [MGetJob ''KRD3MW7QFS'' ''PFF80JIRZB'' ''JOB1'' 0])"
    unfolding monitor_ingestion_job_def
    by (rule monitor_loop_complete) (simp_all add: maint_env_done_def maint_env_ex_def)
  have "\<exists>res cs. update_main maint_env_done = Some (Completed res, cs)"
    using m by (simp add: update_main_def update_data_source_chunking_def start_job_def Let_def
                          maint_env_done_def maint_env_ex_def case_prod_unfold)
  then obtain res cs where h: "update_main maint_env_done = Some (Completed res, cs)" by blast
  show ?thesis using h update_main_completed [OF h] by blast
qed

text \<open>C29: Every round of the watching loop sleeps 30 seconds, so, as long as no call
  takes negative time, both maintenance scripts return, the update script after at most
  20 status requests (ten minutes) and the create script after at most 30 (fifteen
  minutes).\<close>

theorem maintenance_scripts_return:
  assumes "\<forall>i. 0 \<le> mt_elapsed M i"
  shows "(\<exists>r. update_main M = Some r \<and> length (filter is_get_job (snd r)) \<le> 20) \<and>
         (\<exists>r. create_main M = Some r \<and> length (filter is_get_job (snd r)) \<le> 30)"
proof
  show "\<exists>r. update_main M = Some r \<and> length (filter is_get_job (snd r)) \<le> 20"
    unfolding update_main_def Let_def case_prod_unfold
    by (auto simp: update_data_source_chunking_calls start_job_calls kb_smoke_test_calls
             simp del: split_paired_Ex split: option.split intro!: monitor_bind_returns [OF assms])
  show "\<exists>r. create_main M = Some r \<and> length (filter is_get_job (snd r)) \<le> 30"
    unfolding create_main_def Let_def case_prod_unfold
    by (auto simp: create_hierarchical_data_source_calls start_job_calls kb_smoke_test_calls
             simp del: split_paired_Ex split: option.split intro!: monitor_bind_returns [OF assms])
qed

theorem maintenance_scripts_return_witness:
  "(\<forall>i. 0 \<le> mt_elapsed maint_env_ex i) \<and>
   (\<exists>r. update_main maint_env_ex = Some r \<and> length (filter is_get_job (snd r)) \<le> 20) \<and>
   (\<exists>r. create_main maint_env_ex = Some r \<and> length (filter is_get_job (snd r)) \<le> 30)"
proof -
  have c: "\<forall>i. 0 \<le> mt_elapsed maint_env_ex i" by (simp add: maint_env_ex_def)
  show ?thesis using c maintenance_scripts_return [OF c] by simp
qed

text \<open>C34: create_new_data_source.py never deletes a data source: whatever the
  calls return, its trace holds no \<open>delete_data_source\<close>, although the script ends by
  offering to delete the old one.\<close>

theorem create_main_never_deletes: "pred_option (\<lambda>r. \<not> list_ex is_delete (snd r)) (create_main M)"
  using create_hierarchical_data_source_calls [of M "''KRD3MW7QFS''"]
  unfolding create_main_def Let_def case_prod_unfold
  by (auto simp: start_job_no_delete kb_smoke_test_no_delete split: option.split
           intro!: monitor_bind_pred dest!: monitor_ingestion_job_no_delete)

end
