(* ===== verification/Spec2Isabelle.thy ===== *)
theory Spec2Isabelle
  imports Aggregator Router Cache Strategies Merger Feedback Catalog Chat SchemaDocs SchemaExtract QueryDocs QueryAnalysis S3Upload BedrockSetup Pipeline FeedbackCli KbMaintenance
begin

text \<open>
  \<^bold>\<open>A verification development for dbkb.\<close>

  \<^bold>\<open>The program.\<close> dbkb answers natural-language questions about a database
  from Amazon Bedrock knowledge bases and builds the documentation those knowledge bases
  hold. The parts modelled here:
  \<^item> the retrieval client \<open>AdvancedRetrieval\<close>
    (src/src/advanced_retrieval/retrieval_techniques.py): a per-instance cache keyed
    by an MD5 digest of the query parameters, the retrieval strategies (standard,
    query expansion, HyDE, multi-strategy, relationship, SQL optimisation), the
    aggregation that deduplicates contexts by content digest, ranks them by score and
    truncates them, and the answer generation of \<open>advanced_rag_query\<close>;
  \<^item> the router \<open>classify_query_and_get_targets\<close> (src/app.py), which picks the
    knowledge bases to query from a forced mode or keyword counts;
  \<^item> the endpoints of src/app.py: \<open>multi_kb_query\<close>, which queries each target
    through a fresh client of \<open>create_retrieval_client\<close> (src/utils/retrieval.py) and
    appends excerpts of secondary answers to the primary one, the legacy
    \<open>/query\<close>, \<open>/relationship\<close> and \<open>/optimize\<close> endpoints over a module-global client,
    and the chat persistence (\<open>ensure_user_and_company\<close>, \<open>/chat/session\<close>,
    \<open>/chat/message\<close>, \<open>get_db_credentials\<close> and the connection configuration);
  \<^item> the correction loop \<open>FeedbackProcessor.process_pending_feedback\<close>
    (src/src/training/feedback_processor.py), which turns pending user corrections
    into training data and an improvement-log entry;
  \<^item> the offline tools: the query catalog extractor src/extract_deduplicated.py, the
    schema extractor src/src/schema_extraction/extract_schema.py with the connection
    helpers of db_connection.py, the SQL analyser
    src/src/query_analysis/query_parser.py, the documentation generators
    src/src/documentation/schema_to_markdown.py and queries_to_markdown.py, and the
    documentation uploader src/src/bedrock_setup/upload_to_s3.py, the knowledge-base
    set-up src/src/bedrock_setup/setup_knowledge_base.py, the pipeline command line
    src/main.py that chains schema extraction, query analysis, documentation, upload
    and knowledge-base set-up, and the correction command line
    src/train_from_feedback.py.
  The router feeds the merger, the merger calls the retrieval client once per target,
  and the client calls the provider (Bedrock \<open>retrieve\<close>) and the generator (Bedrock
  \<open>invoke_model\<close>). The chat endpoints and the correction loop work on their own
  relational stores. The pipeline calls the extractor and the analyser, then the
  two documentation generators on the files it writes, then the uploader and the
  set-up; the correction command line connects like the chat endpoints and runs the
  correction loop.

  \<^bold>\<open>Theories.\<close>
  \<^item> \<open>Prelude\<close>: the types of Python values, the insertion-ordered \<open>dict\<close> as an
    association list (\<open>dict_get\<close>, \<open>dict_set\<close>), the Python string primitives
    (\<open>py_lower\<close>, \<open>py_strip\<close>, \<open>split_on\<close>, \<open>py_replace\<close>, \<open>py_join\<close>,
    \<open>py_title\<close>, \<open>string_of_nat\<close>, \<open>py_int\<close>, \<open>py_in\<close>), the outcome of a
    boto3 call (\<open>aws_result\<close>: a response, a \<open>ClientError\<close> or another exception),
    and the lemmas that \<open>str.replace\<close> removes its term and creates no new occurrence
    of an absent one.
  \<^item> \<open>Aggregator\<close>: provider items and context dicts, one turn of the
    \<open>unique_contexts\<close> loop (\<open>dedup_step\<close>), the loop (\<open>dedup\<close>), the stable
    descending sort with truncation (\<open>top_by_score\<close>) and their composition
    (\<open>aggregate\<close>). The single pass equals the declarative \<open>dedup_spec\<close> (C1), whence
    one survivor per digest (C3) of maximal score (C2), ranked and bounded (C4).
  \<^item> \<open>Router\<close>: the request models, the keyword lists and counts, \<open>smart_targets\<close>
    and \<open>classify_query_and_get_targets\<close> (C6, C7, C9); lemmas cover the forced
    modes.
  \<^item> \<open>Cache\<close>: \<open>self.cache\<close> as a map from keys to timestamped entries, the key
    string of \<open>generate_cache_key\<close> (injective over the strategies' arguments, C11),
    the freshness test, and the lookup-then-store wrapper \<open>with_cache\<close>.
  \<^item> \<open>Strategies\<close>: the environment of the two Bedrock capabilities, the retriever
    state, and one state-passing definition per method of \<open>AdvancedRetrieval\<close>; the
    FROM/JOIN scanner \<open>find_tables\<close> is a \<open>function\<close> with a length measure. C12 to
    C14: the mock fallback outranks real contexts and is cached, cache hits, and
    expansion aborting on one failure after a miss; lemmas cover TTL expiry and the
    ranking bounds of a miss, the scanner's output and the answer never empty.
  \<^item> \<open>Merger\<close>: the client factory and \<open>MockRetrievalClient\<close>, target resolution,
    the per-target fan-out, \<open>merge_results\<close>, the endpoints and the module-global
    client as \<open>app_state\<close> (C21, C23); lemmas cover the explicit and smart
    targets, the legacy client's cache and the /relationship endpoint.
  \<^item> \<open>Feedback\<close>: the tables of the correction loop as a \<open>store\<close> record,
    \<open>generalize_query_pattern\<close>, one run split into its \<open>SELECT\<close> and the work after
    it, and interleaved runs as the inductive \<open>run_step\<close>. C30, C32, C33 and C35:
    the reviewed rows, monotone statuses under every interleaving (rule induction),
    double processing for want of a lease, and the improvement log marked in_progress
    without ingestion; lemmas cover the counts of processed rows, the no-pending and
    second-run no-ops and the generalised patterns.
    Runs that do not overlap process every pending correction exactly once (C39), the
    serial counterpart of C33.
  \<^item> \<open>Catalog\<close>: the regular-expression helpers of extract_deduplicated.py as
    executable matchers, the deduplicating scan over the query files and the catalog.
    The scan refines the declarative \<open>catalog_spec\<close> (C38, by induction over the
    files); \<open>normalize_query\<close> is idempotent.
  \<^item> \<open>Chat\<close>: the chat tables as a record of row lists with auto-increment counters,
    \<open>ensure_user_and_company\<close>, the two chat endpoints and sequences of requests
    (\<open>chat_run\<close>), the credential lookup with its module cache and the connection
    configuration. No request ever creates a session, because the session \<open>INSERT\<close>
    reads an attribute \<open>UserContext\<close> lacks (C18), so a message sent under a freshly
    issued session id is never saved (C37); \<open>ensure_user_and_company\<close> is idempotent
    and the credentials are cached after the first call.
  \<^item> \<open>SchemaDocs\<close>: the schema JSON as records, every page of
    \<open>SchemaMarkdownGenerator\<close> as the string it writes, and a run as the ordered list
    of files written, with its uncaught \<open>KeyError\<close> and \<open>TypeError\<close> paths: a table
    named tables_summary overwrites the summary, a string primary key is split into
    characters on the table page, and a numeric one aborts the run.
  \<^item> \<open>SchemaExtract\<close>: the rows of the catalogue queries as records (the index
    columns a list for PostgreSQL, a \<open>GROUP_CONCAT\<close> string for MySQL), the schema
    dict as nested insertion-ordered association lists mutated in place
    (\<open>dict_upd\<close>), one step per row loop of each \<open>extract_*\<close> method, the stages of
    \<open>extract_all\<close> with their exceptions (\<open>run_stage\<close>), \<open>connect_by_params\<close>
    with its session statements and the connection state, \<open>config\<close> and
    \<open>connect_to_db\<close> over the parsed ini file, and \<open>extract_schema_to_json\<close>. Whatever the rows, foreign keys and back-references
    agree as multisets (C10, through the projection \<open>links\<close> the other stages
    keep), the primary-key flags agree with the primary keys (C19, through
    \<open>pkview\<close>), the schema is saved only on success and the connection then closed
    and otherwise left open (C24), and a column name with a comma becomes two columns
    of a MySQL index (\<open>comma_column_split\<close>). \<open>doc_schema\<close> is the JSON the
    documentation generator reads back. Lemmas show that \<open>config\<close> keeps the last
    value of each key and that \<open>connect_to_db\<close> reads the configuration before it
    rejects an unsupported section.
  \<^item> \<open>QueryAnalysis\<close>: the analyser with sqlparse, sqlglot and sql_metadata as
    oracles of a \<open>parse_env\<close>: the de-duplicating sqlglot pass (C20), the merge of
    the three results (C36), the complexity label (C17, never Very High), the batch,
    whose unpacking of bare strings raises \<open>ValueError\<close>, and
    \<open>process_query_file\<close> with \<open>os.path\<close>'s splitting of paths.
  \<^item> \<open>QueryDocs\<close>: \<open>QueryMarkdownGenerator\<close> likewise, with Python's float percentages
    as IEEE doubles; \<open>str.split\<close> inverts \<open>str.join\<close>, the grouping is correct,
    categories with the same file name overwrite each other, and a join key equal to
    the table raises \<open>IndexError\<close>.
  \<^item> \<open>S3Upload\<close>: upload_to_s3.py over an environment of S3 calls, \<open>os.path.isdir\<close>
    and \<open>os.walk\<close>; every function returns its result with the list of
    \<open>upload_file\<close> calls it made. The directory loop tries every walked file in
    order whatever fails (C15), a key is the prefix and the relative path, so keys
    round-trip (C25) except that a backslash in a name collides with a subdirectory,
    and missing documentation directories count as a successful upload (C31).
  \<^item> \<open>BedrockSetup\<close>: setup_knowledge_base.py over an environment of Bedrock calls
    whose status answers depend on the attempt number. The three waiting loops are one
    structural recursion \<open>poll\<close> over the remaining attempts (60, 60 and 180, as in
    the code), so every run terminates and sleeps at most 2400 seconds (C16); the
    calls follow the code's phases (C22, by a case split of the run into its prefix of
    steps, \<open>setup_trace_cases\<close>); a knowledge base still CREATING after its last
    poll is returned as created (C28), and the end-to-end result does not depend on
    the ingestion job (\<open>setup_returns_created_ids\<close>).
  \<^item> \<open>Pipeline\<close>: the sub-commands of main.py as state transformers on a file map,
    composed with the extractor, the analyser, the two generators, the uploader and
    the set-up. \<open>run-all\<close> reads the section name as the configuration path and
    never succeeds (C5): its analysis step writes a list that the query generator
    cannot read, and analysis raises on every line that is not exactly two characters
    long. \<open>setup-kb\<close> exits 0 and writes kb_info.json whatever becomes of the
    ingestion job (C8).
  \<^item> \<open>FeedbackCli\<close>: train_from_feedback.py composed from the Chat connection and
    the Feedback run: the dry run changes nothing and announces the number of
    corrections a real run processes when no insert fails (C26).
  \<^item> \<open>KbMaintenance\<close>: update_kb_data_source.py and create_new_data_source.py over
    an environment of Bedrock calls, of the start time of the watching loop and of the
    time each status request takes. The loop \<open>monitor_ingestion_job\<close> is bounded by
    the clock only, and the clock advances by the request's time and the 30 seconds
    slept, so it is a \<open>partial_function (option)\<close>: as long as no request takes
    negative time, both scripts return after at most 2 status requests per minute of
    their limit (C29, by induction on the remaining 30-second slots), while a clock
    set back by 30 seconds every round keeps a running job watched forever
    (\<open>monitor_clock_set_back\<close>, by fixed-point induction). A completed update has
    rewritten the data source with hierarchical chunking and seen its job complete
    (C27), and the create script never deletes the old data source it offers to
    delete (C34); both by induction over the loop's fixed point for its trace.

  \<^bold>\<open>Modelling choices.\<close> Scores are rationals; the percentages of the query
  documentation are rounded exactly as CPython rounds doubles (validated against the
  Python code on random inputs). \<open>time.time()\<close> readings and the clock of the chat
  endpoints are integers; \<open>uuid.uuid4()\<close> is a function of the call's index. MD5 is
  a parameter: lemmas that need collision freedom assume it injective. Characters are
  bytes, so case folding, whitespace and word classes are their ASCII parts. An
  exception is the \<open>Inl\<close> of a sum; strategies and endpoints that catch exceptions turn
  them into their fallback values. Apart from the watching loop of the maintenance
  scripts, no loop can diverge: every one is a structural recursion or a \<open>foldl\<close>, and \<open>find_tables\<close>, \<open>replace_ne\<close>, \<open>split_ne\<close> and
  \<open>collapse_ws\<close> carry termination proofs, so no fuel is needed; the Bedrock
  waiting loops are bounded by their attempt counts in the code itself. Database rows are
  lists in storage order and \<open>ORDER BY\<close> is a stable sort. The Bedrock services, S3,
  the file system walk, the database drivers and catalogue queries and the SQL
  parsing libraries are environment oracles; a service call answers with an
  \<open>aws_result\<close>. \<open>os.path.relpath\<close> is modelled for the paths below its start,
  the only ones \<open>os.walk\<close> gives it. The complexity score of the analyser is a sum of multiples of
  0.5, exact in doubles, so it is a rational.

  \<^bold>\<open>Not modelled.\<close> The HTTP transport and request validation, the static UI
  endpoints, the AWS infrastructure and diagnostic scripts (src/infrastructure,
  create_opensearch_policies.py, diagnose_infrastructure.py,
  check_bedrock_service_principals.py, update_application_kbs.py), the SQL that the catalogue queries run and the
  libraries the analyser calls (their results are inputs), the argparse parsing of
  command lines and the \<open>__main__\<close> blocks of the tools (the parsed namespaces are
  the inputs), the smoke tests and logging: they are I/O against external services or
  calls of libraries the sources only use.
\<close>

end
